(* ===== verification/NG_Prelude.thy ===== *)
theory NG_Prelude
  imports Main "HOL-Library.Word" "HOL-Library.State_Monad"
begin

text \<open>
  Shared ground of the development: the C integer types as words, the state monad in which
  every routine that touches the hardware is written, the named collections of lemmas, and
  the \<open>step_order\<close> interface, through which facts of the form "every run of this routine
  relates its start state to its end state by \<open>R\<close>" are composed along the program text.
\<close>

unbundle bit_operations_syntax

section \<open>Integer types\<close>

type_synonym u8 = "8 word"
type_synonym u16 = "16 word"
type_synonym u32 = "32 word"
type_synonym u64 = "64 word"

section \<open>Named collections\<close>

text \<open>
  \<open>run_simps\<close>: equations that execute a monadic routine on a state.
  \<open>reg_defs\<close>: the definitions of register offsets and bit masks.
  \<open>io_intros\<close>: introduction rules that push \<open>state_io_rel\<close> through a routine.
\<close>

named_theorems run_simps
named_theorems reg_defs
named_theorems io_intros

section \<open>Monad combinators\<close>

abbreviation ret :: "'a \<Rightarrow> ('s, 'a) state" where
  "ret \<equiv> State_Monad.return"

definition gets :: "('s \<Rightarrow> 'a) \<Rightarrow> ('s, 'a) state" where
  "gets f = State (\<lambda>s. (f s, s))"

definition modify :: "('s \<Rightarrow> 's) \<Rightarrow> ('s, unit) state" where
  "modify f = State (\<lambda>s. ((), f s))"

definition whenM :: "bool \<Rightarrow> ('s, unit) state \<Rightarrow> ('s, unit) state" where
  "whenM b m = (if b then m else ret ())"

primrec forM :: "'a list \<Rightarrow> ('a \<Rightarrow> ('s, unit) state) \<Rightarrow> ('s, unit) state" where
  "forM [] f = ret ()"
| "forM (x # xs) f = do { f x; forM xs f }"

text \<open>Composition of routines that may have run out of fuel.\<close>

definition bindO :: "('s, 'x option) state \<Rightarrow> ('x \<Rightarrow> ('s, 'y option) state) \<Rightarrow> ('s, 'y option) state" where
  "bindO m f = do { r \<leftarrow> m; case r of None \<Rightarrow> ret None | Some x \<Rightarrow> f x }"

primrec forO :: "'x list \<Rightarrow> ('x \<Rightarrow> ('s, unit option) state) \<Rightarrow> ('s, unit option) state" where
  "forO [] f = ret (Some ())"
| "forO (x # xs) f = bindO (f x) (\<lambda>_. forO xs f)"

definition exec :: "('s, 'a) state \<Rightarrow> 's \<Rightarrow> 's" where
  "exec m s = snd (run_state m s)"

definition result :: "('s, 'a) state \<Rightarrow> 's \<Rightarrow> 'a" where
  "result m s = fst (run_state m s)"

lemma run_gets [simp, run_simps]: "run_state (gets f) s = (f s, s)"
  by (simp add: gets_def)

lemma run_modify [simp, run_simps]: "run_state (modify f) s = ((), f s)"
  by (simp add: modify_def)

lemma run_whenM [simp, run_simps]:
  "run_state (whenM b m) s = (if b then run_state m s else ((), s))"
  by (simp add: whenM_def)

lemma exec_bind [simp, run_simps]: "exec (m \<bind> f) s = exec (f (result m s)) (exec m s)"
  by (simp add: exec_def result_def split: prod.splits)

lemma result_bind [simp, run_simps]: "result (m \<bind> f) s = result (f (result m s)) (exec m s)"
  by (simp add: exec_def result_def split: prod.splits)

lemma exec_ret [simp, run_simps]: "exec (ret x) s = s"
  and result_ret [simp, run_simps]: "result (ret x) s = x"
  by (simp_all add: exec_def result_def)

lemma exec_gets [simp, run_simps]: "exec (gets f) s = s"
  and result_gets [simp, run_simps]: "result (gets f) s = f s"
  by (simp_all add: exec_def result_def)

lemma exec_get [simp, run_simps]: "exec State_Monad.get s = s"
  and result_get [simp, run_simps]: "result State_Monad.get s = s"
  by (simp_all add: exec_def result_def)

lemma exec_modify [simp, run_simps]: "exec (modify f) s = f s"
  by (simp add: exec_def)

lemma exec_whenM [simp, run_simps]: "exec (whenM b m) s = (if b then exec m s else s)"
  by (simp add: whenM_def)

lemma run_pair: "run_state m s = (result m s, exec m s)"
  by (simp add: result_def exec_def)

lemma exec_if [simp, run_simps]: "exec (if b then m else n) s = (if b then exec m s else exec n s)"
  and result_if [simp, run_simps]: "result (if b then m else n) s = (if b then result m s else result n s)"
  by simp_all

lemma state_io_rel_exec: "state_io_rel R m \<longleftrightarrow> (\<forall>s. R s (exec m s))"
  by (simp add: state_io_rel_def exec_def)

section \<open>The interface of a step order\<close>

text \<open>
  A relation between start and end state that is reflexive and transitive is kept by every
  routine as soon as it is kept by the primitive accesses the routine is made of. The laws
  below are proved once here; each component interprets the locale on the relation its
  properties are about (which registers may have been stored to, which fields may have
  changed, which invariant is preserved).
\<close>

locale step_order =
  fixes R :: "'s \<Rightarrow> 's \<Rightarrow> bool"
  assumes step_refl: "R s s"
    and step_trans: "R s t \<Longrightarrow> R t u \<Longrightarrow> R s u"
begin

lemma io_ret: "state_io_rel R (ret x)"
  by (simp add: state_io_rel_exec step_refl)

lemma io_gets: "state_io_rel R (gets f)"
  by (simp add: state_io_rel_exec step_refl)

lemma io_get: "state_io_rel R State_Monad.get"
  by (simp add: state_io_rel_def step_refl)

lemma io_bind:
  assumes "state_io_rel R m" and "\<And>x. state_io_rel R (f x)"
  shows "state_io_rel R (m \<bind> f)"
  using assms by (auto simp: state_io_rel_exec intro: step_trans)

lemma io_whenM: "(b \<Longrightarrow> state_io_rel R m) \<Longrightarrow> state_io_rel R (whenM b m)"
  by (simp add: whenM_def io_ret)

lemma io_if:
  "(b \<Longrightarrow> state_io_rel R m) \<Longrightarrow> (\<not> b \<Longrightarrow> state_io_rel R n) \<Longrightarrow> state_io_rel R (if b then m else n)"
  by simp

lemma io_forM:
  assumes "\<And>x. x \<in> set xs \<Longrightarrow> state_io_rel R (f x)"
  shows "state_io_rel R (forM xs f)"
  using assms by (induction xs) (auto intro: io_ret io_bind)

lemma io_modify: "(\<And>s. R s (f s)) \<Longrightarrow> state_io_rel R (modify f)"
  by (simp add: state_io_rel_exec)

lemma io_case_option:
  "(x = None \<Longrightarrow> state_io_rel R m) \<Longrightarrow> (\<And>y. x = Some y \<Longrightarrow> state_io_rel R (n y)) \<Longrightarrow>
   state_io_rel R (case x of None \<Rightarrow> m | Some y \<Rightarrow> n y)"
  by (cases x) auto

lemma io_bindO:
  assumes "state_io_rel R m" and "\<And>x. state_io_rel R (f x)"
  shows "state_io_rel R (bindO m f)"
  unfolding bindO_def using assms by (intro io_bind io_case_option io_ret)

lemma io_forO:
  assumes "\<And>x. x \<in> set xs \<Longrightarrow> state_io_rel R (f x)"
  shows "state_io_rel R (forO xs f)"
  using assms by (induction xs) (auto intro: io_ret io_bindO)

lemmas io_rules = io_ret io_gets io_get io_bind io_whenM io_if io_forM io_case_option

end

text \<open>Preservation of an invariant is a step order.\<close>

definition keeps :: "('s \<Rightarrow> bool) \<Rightarrow> 's \<Rightarrow> 's \<Rightarrow> bool" where
  "keeps I s t \<longleftrightarrow> (I s \<longrightarrow> I t)"

interpretation inv: step_order "keeps I" for I
  by unfold_locales (auto simp: keeps_def)

text \<open>So is leaving a part of the state as it was.\<close>

definition unchanged :: "('s \<Rightarrow> 'x) \<Rightarrow> 's \<Rightarrow> 's \<Rightarrow> bool" where
  "unchanged f s t \<longleftrightarrow> f t = f s"

interpretation un: step_order "unchanged f" for f
  by unfold_locales (simp_all add: unchanged_def)

lemma un_modify: "(\<And>s. f (g s) = f s) \<Longrightarrow> state_io_rel (unchanged f) (modify g)"
  by (rule un.io_modify) (simp add: unchanged_def)

text \<open>What these relations give for one run.\<close>

lemma relD: "state_io_rel R m \<Longrightarrow> R s (exec m s)"
  by (simp add: state_io_rel_exec)

lemma keepsD: "state_io_rel (unchanged f) m \<Longrightarrow> f (exec m s) = f s"
  by (simp add: state_io_rel_exec unchanged_def)

lemma invD: "state_io_rel (keeps I) m \<Longrightarrow> I s \<Longrightarrow> I (exec m s)"
  by (simp add: state_io_rel_exec keeps_def)

section \<open>Routines that return\<close>

text \<open>From every state that satisfies \<open>I\<close>, the routine does not run out of fuel.\<close>

definition returns :: "('s \<Rightarrow> bool) \<Rightarrow> ('s, 'x option) state \<Rightarrow> bool" where
  "returns I m \<longleftrightarrow> (\<forall>s. I s \<longrightarrow> result m s \<noteq> None)"

lemma returns_ret: "returns I (ret (Some x))"
  by (simp add: returns_def)

lemma returns_bind:
  assumes "state_io_rel (keeps I) m" and "\<And>x. returns I (f x)"
  shows "returns I (m \<bind> f)"
  using assms by (simp add: returns_def state_io_rel_exec keeps_def)

lemma returns_bindO:
  assumes "returns I m" and "state_io_rel (keeps I) m" and "\<And>x. returns I (f x)"
  shows "returns I (bindO m f)"
  unfolding returns_def
proof (intro allI impI)
  fix s assume s: "I s"
  then obtain x where "result m s = Some x"
    using assms(1) by (auto simp: returns_def)
  moreover have "I (exec m s)"
    using assms(2) s by (simp add: state_io_rel_exec keeps_def)
  ultimately show "result (bindO m f) s \<noteq> None"
    using assms(3) by (simp add: bindO_def returns_def)
qed

lemma returns_forO:
  assumes "\<And>x. x \<in> set xs \<Longrightarrow> returns I (f x)" and "\<And>x. x \<in> set xs \<Longrightarrow> state_io_rel (keeps I) (f x)"
  shows "returns I (forO xs f)"
  using assms by (induction xs) (auto intro: returns_ret returns_bindO)

lemma returns_if:
  "(b \<Longrightarrow> returns I m) \<Longrightarrow> (\<not> b \<Longrightarrow> returns I n) \<Longrightarrow> returns I (if b then m else n)"
  by simp

section \<open>Words\<close>

lemma and_mask12: "(x :: u64) AND 0xFFF = word_of_nat (unat x mod 4096)"
proof -
  have "x AND 0xFFF = take_bit 12 x"
    by (simp add: take_bit_eq_mask mask_eq_exp_minus_1)
  then show ?thesis
    by (simp add: take_bit_eq_mod unat_word_ariths word_unat_eq_iff unat_mod_distrib unat_of_nat)
qed

lemma ucast_u32_id: "unat x < 2 ^ 32 \<Longrightarrow> ucast (ucast (x :: u64) :: u32) = x"
  by (simp add: word_unat_eq_iff unsigned_ucast_eq unsigned_take_bit_eq take_bit_nat_eq_self)

lemma unat_ucast_u64 [simp]: "unat (ucast (x :: u32) :: u64) = unat x"
proof -
  have "unat x < 2 ^ LENGTH(32)" by (rule unsigned_less)
  then show ?thesis by (simp add: unsigned_ucast_eq unsigned_take_bit_eq take_bit_nat_eq_self)
qed

lemma ucast_u64_inj: "ucast (x :: u32) = (ucast y :: u64) \<Longrightarrow> x = y"
  by (metis unat_ucast_u64 word_unat_eq_iff)

lemma unat_drop_bit2: "unat (drop_bit 2 x) = unat (x :: u64) div 4"
  by (simp add: drop_bit_eq_div unat_div)

lemma bit_not_mask_clears: "((x :: 'a :: len word) AND NOT m) AND m = 0"
  by (simp add: and.assoc)

lemma or_absorbs_mask: "((x :: 'a :: len word) AND NOT m) OR m = x OR m"
  by (rule bit_word_eqI) (auto simp: bit_simps)

lemma unat_and_15: "unat ((x :: u32) AND 15) = unat x mod 16"
proof -
  have "x AND 15 = take_bit 4 x"
    by (simp add: take_bit_eq_mask mask_eq_exp_minus_1)
  then show ?thesis
    by (simp add: take_bit_eq_mod unat_mod_distrib)
qed

lemma all_ones32: "(NOT 0 :: u32) = 0xFFFFFFFF"
  by simp

end
