(* ===== verification/NG_Mmio.thy ===== *)
theory NG_Mmio
  imports NG_Prelude
begin

text \<open>
  Register access of the plugin (\<open>NGreen.hpp\<close>): the mapped BAR, \<open>readReg32\<close> and
  \<open>writeReg32\<close> with the zero-surface guard, the 64-bit variants, the read-modify-write
  helper and the workaround helpers (\<open>wa_*\<close>).

  The hardware is not part of the sources. It is a parameter of the state: \<open>dev_load\<close>
  answers a load from the whole history of bus accesses and the dword index, \<open>dev_clock\<close>
  answers a reading of the uptime clock. Loads, stores, delays and clock readings are
  recorded in \<open>hist\<close>, newest first. A theorem that does not restrict these two functions
  holds for every hardware. Log output and the counters that only limit log output are not
  modelled.
\<close>

section \<open>State\<close>

datatype access =
    Ld u64 u32      \<comment> \<open>load of a dword index and the value it returned\<close>
  | St u64 u32      \<comment> \<open>store to a dword index\<close>
  | Dly nat         \<comment> \<open>a busy wait (\<open>IODelay\<close>, \<open>IOPause\<close>), nanoseconds\<close>
  | Clk nat         \<comment> \<open>\<open>clock_get_uptime\<close> and the value it returned\<close>

record mmio =
  rmmio :: bool
  rmmioPtr :: bool
  rmmio_len :: u64
  hist :: "access list"
  dev_load :: "access list \<Rightarrow> u64 \<Rightarrow> u32"
  dev_clock :: "access list \<Rightarrow> nat"

definition load_dw :: "u64 \<Rightarrow> ('a mmio_scheme, u32) state" where
  "load_dw i = State (\<lambda>s. let v = dev_load s (hist s) i in (v, s\<lparr>hist := Ld i v # hist s\<rparr>))"

definition store_dw :: "u64 \<Rightarrow> u32 \<Rightarrow> ('a mmio_scheme, unit) state" where
  "store_dw i v = State (\<lambda>s. ((), s\<lparr>hist := St i v # hist s\<rparr>))"

definition IODelay :: "nat \<Rightarrow> ('a mmio_scheme, unit) state" where
  "IODelay us = State (\<lambda>s. ((), s\<lparr>hist := Dly (1000 * us) # hist s\<rparr>))"

definition IOPause :: "nat \<Rightarrow> ('a mmio_scheme, unit) state" where
  "IOPause ns = State (\<lambda>s. ((), s\<lparr>hist := Dly ns # hist s\<rparr>))"

definition clock_get_uptime :: "('a mmio_scheme, nat) state" where
  "clock_get_uptime = State (\<lambda>s. let v = dev_clock s (hist s) in (v, s\<lparr>hist := Clk v # hist s\<rparr>))"

section \<open>Access functions\<close>

definition mmPCIE_INDEX2 :: u64 where [reg_defs]: "mmPCIE_INDEX2 = 0xE"
definition mmPCIE_DATA2 :: u64 where [reg_defs]: "mmPCIE_DATA2 = 0xF"

definition mmioValid :: "'a mmio_scheme \<Rightarrow> bool" where
  "mmioValid s \<longleftrightarrow> rmmio s \<and> rmmioPtr s"

definition readReg32 :: "u64 \<Rightarrow> ('a mmio_scheme, u32) state" where
  "readReg32 reg = do {
     ok \<leftarrow> gets (\<lambda>s. rmmio s \<and> rmmioPtr s);
     if \<not> ok then ret 0 else do {
       len \<leftarrow> gets rmmio_len;
       if reg + 4 \<le> len then load_dw (drop_bit 2 reg)
       else do { store_dw mmPCIE_INDEX2 (ucast reg); load_dw mmPCIE_DATA2 }
     }
   }"

definition looksLikePlaneSurf :: "u64 \<Rightarrow> bool" where
  "looksLikePlaneSurf reg \<longleftrightarrow> (0x60000 \<le> reg \<and> reg \<le> 0xBFFFF) \<and> reg AND 0xFFF = 0x19C"

lemma plane_surf_ctl_offset:
  assumes "looksLikePlaneSurf reg"
  shows "(reg - 0x1C) AND 0xFFF = 0x180" and "\<not> looksLikePlaneSurf (ucast (ucast (reg - 0x1C) :: u32))"
    and "ucast (ucast (reg - 0x1C) :: u32) = reg - 0x1C"
proof -
  have ge: "0x60000 \<le> reg" and le: "reg \<le> 0xBFFFF" and low: "reg AND 0xFFF = 0x19C"
    using assms by (auto simp: looksLikePlaneSurf_def)
  have n: "unat reg \<le> 0xBFFFF" "0x60000 \<le> unat reg"
    using le ge by (simp_all add: word_le_nat_alt)
  have m: "unat reg mod 4096 = 0x19C"
    using low by (simp add: and_mask12 word_unat_eq_iff unat_of_nat)
  have d: "unat (reg - 0x1C) = unat reg - 0x1C"
    using ge by (subst unat_sub) (auto simp: word_le_nat_alt)
  have m': "unat (reg - 0x1C) mod 4096 = 0x180"
  proof -
    define q where "q = unat reg div 4096"
    have "unat reg = 4096 * q + 0x19C"
      using m unfolding q_def by (metis mult_div_mod_eq)
    then have "unat (reg - 0x1C) = 0x180 + 4096 * q"
      unfolding d by simp
    then show ?thesis by simp
  qed
  then show a: "(reg - 0x1C) AND 0xFFF = 0x180"
    by (simp add: and_mask12)
  show c: "ucast (ucast (reg - 0x1C) :: u32) = reg - 0x1C"
    using n d by (intro ucast_u32_id) simp
  show "\<not> looksLikePlaneSurf (ucast (ucast (reg - 0x1C) :: u32))"
    using a by (simp add: c looksLikePlaneSurf_def)
qed

text \<open>
  \<open>writeReg32\<close> calls itself on the control register of the plane. The recursion ends
  after one call: the control register's offset does not have the low bits of a surface
  register.
\<close>

definition rawWrite32 :: "u64 \<Rightarrow> u32 \<Rightarrow> ('a mmio_scheme, unit) state" where
  "rawWrite32 reg val = do {
     len \<leftarrow> gets rmmio_len;
     if reg + 4 \<le> len then store_dw (drop_bit 2 reg) val
     else do { store_dw mmPCIE_INDEX2 (ucast reg); store_dw mmPCIE_DATA2 val }
   }"

function writeReg32 :: "u64 \<Rightarrow> u32 \<Rightarrow> ('a mmio_scheme, unit) state" where
  "writeReg32 reg val = do {
     ok \<leftarrow> gets (\<lambda>s. rmmio s \<and> rmmioPtr s);
     if \<not> ok then ret () else do {
       val' \<leftarrow> (if looksLikePlaneSurf reg \<and> val = 0 then do {
           let ctlReg = ucast (ucast (reg - 0x1C) :: u32);
           planCtl \<leftarrow> readReg32 ctlReg;
           if planCtl AND 0x80000000 \<noteq> 0 then do {
             currentSurf \<leftarrow> readReg32 reg;
             if currentSurf \<noteq> 0 then ret currentSurf
             else do { writeReg32 ctlReg (planCtl AND NOT 0x80000000); ret val }
           } else ret val
         } else ret val);
       rawWrite32 reg val'
     }
   }"
  by pat_completeness auto
termination
  by (relation "measure (\<lambda>(reg, val). if looksLikePlaneSurf reg then 1 else 0)")
     (auto simp: plane_surf_ctl_offset(2))

declare writeReg32.simps [simp del]

definition readReg64 :: "u64 \<Rightarrow> ('a mmio_scheme, u64) state" where
  "readReg64 reg = do {
     ok \<leftarrow> gets (\<lambda>s. rmmio s \<and> rmmioPtr s);
     if \<not> ok then ret 0 else do {
       len \<leftarrow> gets rmmio_len;
       if reg * 8 < len then do { v \<leftarrow> load_dw reg; ret (ucast v) }
       else do { store_dw mmPCIE_INDEX2 (ucast reg); v \<leftarrow> load_dw mmPCIE_DATA2; ret (ucast v) }
     }
   }"

definition writeReg64 :: "u64 \<Rightarrow> u64 \<Rightarrow> ('a mmio_scheme, unit) state" where
  "writeReg64 reg val = do {
     ok \<leftarrow> gets (\<lambda>s. rmmio s \<and> rmmioPtr s);
     if \<not> ok then ret () else do {
       val' \<leftarrow> (if looksLikePlaneSurf reg \<and> val = 0 then do {
           let ctlReg = ucast (ucast (reg - 0x1C) :: u32);
           planCtl \<leftarrow> readReg32 ctlReg;
           if planCtl AND 0x80000000 \<noteq> 0 then do {
             currentSurf \<leftarrow> readReg32 reg;
             if currentSurf \<noteq> 0 then ret (ucast currentSurf)
             else do { writeReg32 ctlReg (planCtl AND NOT 0x80000000); ret val }
           } else ret val
         } else ret val);
       len \<leftarrow> gets rmmio_len;
       if reg * 8 < len then store_dw reg (ucast val')
       else do { store_dw mmPCIE_INDEX2 (ucast reg); store_dw mmPCIE_DATA2 (ucast val') }
     }
   }"

definition intel_de_rmw :: "u32 \<Rightarrow> u32 \<Rightarrow> u32 \<Rightarrow> ('a mmio_scheme, u32) state" where
  "intel_de_rmw reg clear setv = do {
     old \<leftarrow> readReg32 (ucast reg);
     let val = (old AND NOT clear) OR setv;
     writeReg32 (ucast reg) val;
     ret old
   }"

definition RING_FORCE_TO_NONPRIV_ACCESS_RW :: u32 where
  [reg_defs]: "RING_FORCE_TO_NONPRIV_ACCESS_RW = push_bit 28 0"

definition whitelist_reg_ext :: "u32 \<Rightarrow> u32 \<Rightarrow> ('a mmio_scheme, unit) state" where
  "whitelist_reg_ext reg flags = do {
     old \<leftarrow> readReg32 (ucast reg);
     writeReg32 (ucast reg) (old OR flags)
   }"

definition whitelist_reg :: "u32 \<Rightarrow> ('a mmio_scheme, unit) state" where
  "whitelist_reg reg = whitelist_reg_ext reg RING_FORCE_TO_NONPRIV_ACCESS_RW"

section \<open>Workaround helpers\<close>

definition MASKED_FIELD :: "u32 \<Rightarrow> u32 \<Rightarrow> u32" where
  "MASKED_FIELD mask' value' = push_bit 16 mask' OR value'"

definition MASKED_BIT_ENABLE :: "u32 \<Rightarrow> u32" where
  "MASKED_BIT_ENABLE a = MASKED_FIELD a a"

definition wa_value :: "u32 \<Rightarrow> u32 \<Rightarrow> u32 \<Rightarrow> u32 \<Rightarrow> bool \<Rightarrow> u32" where
  "wa_value old clear setv read_mask masked_reg =
     (let set2 = (if masked_reg then setv AND NOT (drop_bit 16 setv) else setv)
      in ((old AND NOT clear) OR set2) OR read_mask)"

definition wa_add :: "u32 \<Rightarrow> u32 \<Rightarrow> u32 \<Rightarrow> u32 \<Rightarrow> bool \<Rightarrow> ('a mmio_scheme, unit) state" where
  "wa_add reg clear setv read_mask masked_reg = do {
     old \<leftarrow> readReg32 (ucast reg);
     writeReg32 (ucast reg) (wa_value old clear setv read_mask masked_reg)
   }"

definition wa_masked_en :: "u32 \<Rightarrow> u32 \<Rightarrow> ('a mmio_scheme, unit) state" where
  "wa_masked_en reg val = wa_add reg 0 (MASKED_BIT_ENABLE val) val True"

definition wa_masked_field_set :: "u32 \<Rightarrow> u32 \<Rightarrow> u32 \<Rightarrow> ('a mmio_scheme, unit) state" where
  "wa_masked_field_set reg mask' val = wa_add reg 0 (MASKED_FIELD mask' val) mask' True"

definition wa_write_clr_set :: "u32 \<Rightarrow> u32 \<Rightarrow> u32 \<Rightarrow> ('a mmio_scheme, unit) state" where
  "wa_write_clr_set reg clear setv = wa_add reg clear setv (clear OR setv) False"

definition wa_mcr_add :: "u32 \<Rightarrow> u32 \<Rightarrow> u32 \<Rightarrow> u32 \<Rightarrow> bool \<Rightarrow> ('a mmio_scheme, unit) state" where
  "wa_mcr_add reg clear setv read_mask masked_reg = wa_add reg clear setv read_mask masked_reg"

definition wa_mcr_masked_en :: "u32 \<Rightarrow> u32 \<Rightarrow> ('a mmio_scheme, unit) state" where
  "wa_mcr_masked_en reg val = wa_mcr_add reg 0 (MASKED_BIT_ENABLE val) val True"

definition wa_mcr_write_clr_set :: "u32 \<Rightarrow> u32 \<Rightarrow> u32 \<Rightarrow> ('a mmio_scheme, unit) state" where
  "wa_mcr_write_clr_set reg clear setv = wa_mcr_add reg clear setv (clear OR setv) False"

definition wa_write :: "u32 \<Rightarrow> u32 \<Rightarrow> ('a mmio_scheme, unit) state" where
  "wa_write reg setv = wa_write_clr_set reg (NOT 0) setv"

definition wa_write_or :: "u32 \<Rightarrow> u32 \<Rightarrow> ('a mmio_scheme, unit) state" where
  "wa_write_or reg setv = wa_write_clr_set reg setv setv"

definition wa_mcr_write_or :: "u32 \<Rightarrow> u32 \<Rightarrow> ('a mmio_scheme, unit) state" where
  "wa_mcr_write_or reg setv = wa_mcr_write_clr_set reg setv setv"

definition wa_write_clr :: "u32 \<Rightarrow> u32 \<Rightarrow> ('a mmio_scheme, unit) state" where
  "wa_write_clr reg clr = wa_write_clr_set reg clr 0"

definition wa_mcr_write_clr :: "u32 \<Rightarrow> u32 \<Rightarrow> ('a mmio_scheme, unit) state" where
  "wa_mcr_write_clr reg clr = wa_mcr_write_clr_set reg clr 0"

section \<open>Execution of single accesses\<close>

abbreviation dw :: "u64 \<Rightarrow> u64" where
  "dw reg \<equiv> drop_bit 2 reg"

definition direct :: "'a mmio_scheme \<Rightarrow> u64 \<Rightarrow> bool" where
  "direct s reg \<longleftrightarrow> mmioValid s \<and> reg + 4 \<le> rmmio_len s"

lemma load_dw_run [simp]:
  "result (load_dw i) s = dev_load s (hist s) i"
  "exec (load_dw i) s = s\<lparr>hist := Ld i (dev_load s (hist s) i) # hist s\<rparr>"
  by (simp_all add: result_def exec_def load_dw_def Let_def)

lemma store_dw_run [simp]: "exec (store_dw i v) s = s\<lparr>hist := St i v # hist s\<rparr>"
  by (simp add: exec_def store_dw_def)

lemma IODelay_run [simp]: "exec (IODelay n) s = s\<lparr>hist := Dly (1000 * n) # hist s\<rparr>"
  by (simp add: exec_def IODelay_def)

lemma IOPause_run [simp]: "exec (IOPause n) s = s\<lparr>hist := Dly n # hist s\<rparr>"
  by (simp add: exec_def IOPause_def)

lemma clock_run [simp]:
  "result clock_get_uptime s = dev_clock s (hist s)"
  "exec clock_get_uptime s = s\<lparr>hist := Clk (dev_clock s (hist s)) # hist s\<rparr>"
  by (simp_all add: result_def exec_def clock_get_uptime_def Let_def)

lemma readReg32_unmapped:
  assumes "\<not> mmioValid s"
  shows "result (readReg32 reg) s = 0" and "exec (readReg32 reg) s = s"
  using assms by (simp_all add: readReg32_def mmioValid_def)

lemma readReg32_direct:
  assumes "direct s reg"
  shows "result (readReg32 reg) s = dev_load s (hist s) (dw reg)"
    and "exec (readReg32 reg) s = s\<lparr>hist := Ld (dw reg) (dev_load s (hist s) (dw reg)) # hist s\<rparr>"
  using assms by (simp_all add: readReg32_def direct_def mmioValid_def)

lemma writeReg32_unmapped: "\<not> mmioValid s \<Longrightarrow> exec (writeReg32 reg val) s = s"
  by (simp add: writeReg32.simps mmioValid_def)

lemma writeReg32_unguarded:
  assumes "\<not> (looksLikePlaneSurf reg \<and> val = 0)"
  shows "writeReg32 reg val = do {
     ok \<leftarrow> gets (\<lambda>s. rmmio s \<and> rmmioPtr s);
     if \<not> ok then ret () else rawWrite32 reg val }"
  using assms by (subst writeReg32.simps) (auto cong: if_cong)

lemma writeReg32_direct:
  assumes "direct s reg" and "\<not> (looksLikePlaneSurf reg \<and> val = 0)"
  shows "exec (writeReg32 reg val) s = s\<lparr>hist := St (dw reg) val # hist s\<rparr>"
  using assms(1) by (simp add: writeReg32_unguarded [OF assms(2)] rawWrite32_def direct_def mmioValid_def)

section \<open>What a routine emits on the bus\<close>

definition same_bus :: "'a mmio_scheme \<Rightarrow> 'b mmio_scheme \<Rightarrow> bool" where
  "same_bus s t \<longleftrightarrow> rmmio t = rmmio s \<and> rmmioPtr t = rmmioPtr s \<and> rmmio_len t = rmmio_len s
     \<and> dev_load t = dev_load s \<and> dev_clock t = dev_clock s"

definition emits :: "(access \<Rightarrow> bool) \<Rightarrow> 'a mmio_scheme \<Rightarrow> 'a mmio_scheme \<Rightarrow> bool" where
  "emits P s t \<longleftrightarrow> same_bus s t \<and> (\<exists>new. hist t = new @ hist s \<and> list_all P new)"

interpretation em: step_order "emits P" for P
proof unfold_locales
  show "emits P s s" for s :: "'a mmio_scheme"
    by (simp add: emits_def same_bus_def)
  show "emits P s t \<Longrightarrow> emits P t u \<Longrightarrow> emits P s u" for s t u :: "'a mmio_scheme"
    unfolding emits_def same_bus_def by (metis append_assoc list_all_append)
qed

text \<open>
  A predicate on accesses is \<open>transparent\<close> when it constrains only stores other than those
  to the index register of the indirect path: loads, delays and clock readings always
  satisfy it.
\<close>

definition transparent :: "(access \<Rightarrow> bool) \<Rightarrow> bool" where
  "transparent P \<longleftrightarrow> (\<forall>i v. P (Ld i v)) \<and> (\<forall>v. P (St mmPCIE_INDEX2 v)) \<and> (\<forall>n. P (Dly n)) \<and> (\<forall>v. P (Clk v))"

lemma emits_hist: "P a \<Longrightarrow> emits P s (s\<lparr>hist := a # hist s\<rparr>)"
  by (auto simp: emits_def same_bus_def)

lemma em_load: "transparent P \<Longrightarrow> state_io_rel (emits P) (load_dw i)"
  by (auto simp: state_io_rel_exec transparent_def intro: emits_hist)

lemma em_store: "P (St i v) \<Longrightarrow> state_io_rel (emits P) (store_dw i v)"
  by (auto simp: state_io_rel_exec intro: emits_hist)

lemma em_delay: "transparent P \<Longrightarrow> state_io_rel (emits P) (IODelay n)"
  by (auto simp: state_io_rel_exec transparent_def intro: emits_hist)

lemma em_clock: "transparent P \<Longrightarrow> state_io_rel (emits P) clock_get_uptime"
  by (auto simp: state_io_rel_exec transparent_def intro: emits_hist)

lemma em_readReg32: "transparent P \<Longrightarrow> state_io_rel (emits P) (readReg32 reg)"
  unfolding readReg32_def
  by (intro em.io_rules em_load em_store) (auto simp: transparent_def)

lemma em_rawWrite32:
  "transparent P \<Longrightarrow> P (St (dw reg) val) \<Longrightarrow> P (St mmPCIE_DATA2 val) \<Longrightarrow>
   state_io_rel (emits P) (rawWrite32 reg val)"
  unfolding rawWrite32_def
  by (intro em.io_rules em_store) (auto simp: transparent_def)

lemma em_writeReg32:
  assumes "transparent P" and "\<not> (looksLikePlaneSurf reg \<and> val = 0)"
    and "P (St (dw reg) val)" and "P (St mmPCIE_DATA2 val)"
  shows "state_io_rel (emits P) (writeReg32 reg val)"
  unfolding writeReg32_unguarded [OF assms(2)]
  by (intro em.io_rules em_rawWrite32) (use assms in auto)

text \<open>
  The general rule: a guarded write may also store the value it read back from the surface
  register, or clear the enable bit of the control register first.
\<close>

lemma em_writeReg32_any:
  assumes "transparent P" and "\<And>v. P (St (dw reg) v)" and "\<And>v. P (St mmPCIE_DATA2 v)"
    and "\<And>v. looksLikePlaneSurf reg \<Longrightarrow> P (St (dw (reg - 0x1C)) v)"
  shows "state_io_rel (emits P) (writeReg32 reg val)"
proof (cases "looksLikePlaneSurf reg \<and> val = 0")
  case True
  then have surf: "looksLikePlaneSurf reg" by simp
  have ctl: "state_io_rel (emits P) (writeReg32 (reg - 0x1C) w)" for w
    using plane_surf_ctl_offset(2,3) [OF surf] assms surf by (intro em_writeReg32) auto
  show ?thesis
    by (subst writeReg32.simps, simp only: Let_def plane_surf_ctl_offset(3) [OF surf])
       (intro em.io_rules em_readReg32 em_rawWrite32 ctl assms)
next
  case False
  then show ?thesis using assms by (intro em_writeReg32) auto
qed

text \<open>A routine that only looks: no store except through the index register.\<close>

fun quiet_access :: "access \<Rightarrow> bool" where
  "quiet_access (St i v) = (i = mmPCIE_INDEX2)"
| "quiet_access _ = True"

lemma transparent_quiet: "transparent quiet_access"
  by (simp add: transparent_def)

lemmas quiet_read = em_readReg32 [OF transparent_quiet]

text \<open>The access functions change nothing but the history, whatever record they run in.\<close>

definition bus_only :: "'a mmio_scheme \<Rightarrow> 'a mmio_scheme \<Rightarrow> bool" where
  "bus_only s t \<longleftrightarrow> (\<exists>h. t = s\<lparr>hist := h\<rparr>)"

interpretation bo: step_order bus_only
proof unfold_locales
  show "bus_only s s" for s :: "'a mmio_scheme"
    unfolding bus_only_def by (rule exI [of _ "hist s"]) simp
  show "bus_only s t \<Longrightarrow> bus_only t u \<Longrightarrow> bus_only s u" for s t u :: "'a mmio_scheme"
    by (auto simp: bus_only_def)
qed

lemma bo_primitives:
  "state_io_rel bus_only (load_dw i)" "state_io_rel bus_only (store_dw i v)"
  "state_io_rel bus_only (IODelay n)" "state_io_rel bus_only clock_get_uptime"
  by (auto simp: state_io_rel_exec bus_only_def)

lemma bo_readReg32: "state_io_rel bus_only (readReg32 reg)"
  unfolding readReg32_def by (intro bo.io_rules bo_primitives)

lemma bo_writeReg32: "state_io_rel bus_only (writeReg32 reg val)"
proof (induction reg val rule: writeReg32.induct)
  case (1 reg val)
  show ?case
    by (subst writeReg32.simps, unfold rawWrite32_def Let_def)
       (intro bo.io_rules bo_primitives bo_readReg32, use 1 in simp)
qed

lemma bo_intel_de_rmw: "state_io_rel bus_only (intel_de_rmw reg clear setv)"
  unfolding intel_de_rmw_def Let_def by (intro bo.io_rules bo_readReg32 bo_writeReg32)

lemma bo_wa_add: "state_io_rel bus_only (wa_add reg clear setv rm masked)"
  unfolding wa_add_def by (intro bo.io_rules bo_readReg32 bo_writeReg32)

lemmas bo_rules = bo.io_rules bo_primitives bo_readReg32 bo_writeReg32 bo_intel_de_rmw bo_wa_add

lemma bus_only_exec: "state_io_rel bus_only m \<Longrightarrow> \<exists>h. exec m s = s\<lparr>hist := h\<rparr>"
  by (auto simp: state_io_rel_exec bus_only_def)

lemma un_bus:
  assumes "state_io_rel bus_only m" and "\<And>s h. f (s\<lparr>hist := h\<rparr>) = f s"
  shows "state_io_rel (unchanged f) m"
  unfolding state_io_rel_exec unchanged_def using bus_only_exec [OF assms(1)] assms(2) by metis

lemma em_modify:
  assumes "\<And>s. same_bus s (f s) \<and> hist (f s) = hist s"
  shows "state_io_rel (emits P) (modify f)"
  by (rule em.io_modify) (simp add: emits_def assms)

section \<open>Zero-surface safety\<close>

text \<open>
  \<open>last_seen h i\<close> is the value of the latest access to dword \<open>i\<close>, loaded or stored.
  A history is \<open>surf_safe\<close> when a plane surface register was stored with zero only while
  the last known value of the plane's control register had the enable bit (bit 31) clear.
\<close>

fun last_seen :: "access list \<Rightarrow> u64 \<Rightarrow> u32 option" where
  "last_seen [] i = None"
| "last_seen (Ld j v # h) i = (if i = j then Some v else last_seen h i)"
| "last_seen (St j v # h) i = (if i = j then Some v else last_seen h i)"
| "last_seen (Dly _ # h) i = last_seen h i"
| "last_seen (Clk _ # h) i = last_seen h i"

definition plane_off :: "access list \<Rightarrow> u64 \<Rightarrow> bool" where
  "plane_off h reg \<longleftrightarrow> (\<exists>c. last_seen h (dw (reg - 0x1C)) = Some c \<and> c AND 0x80000000 = 0)"

primrec surf_safe :: "access list \<Rightarrow> bool" where
  "surf_safe [] \<longleftrightarrow> True"
| "surf_safe (a # h) \<longleftrightarrow> surf_safe h \<and>
     (\<forall>reg. a = St (dw reg) 0 \<and> looksLikePlaneSurf reg \<longrightarrow> plane_off h reg)"

definition surf_inv :: "'a mmio_scheme \<Rightarrow> bool" where
  "surf_inv s \<longleftrightarrow> surf_safe (hist s)"

lemma dw_surf_ge:
  assumes "looksLikePlaneSurf reg" shows "0x18000 \<le> dw reg"
proof -
  have "0x60000 \<le> unat reg"
    using assms by (simp add: looksLikePlaneSurf_def word_le_nat_alt)
  then show ?thesis
    by (simp add: word_le_nat_alt unat_drop_bit2)
qed

lemma index_not_surf: "looksLikePlaneSurf reg \<Longrightarrow> dw reg \<noteq> mmPCIE_INDEX2 \<and> dw reg \<noteq> mmPCIE_DATA2"
  using dw_surf_ge [of reg] by (auto simp: reg_defs)

lemma surf_aligned: "looksLikePlaneSurf reg \<Longrightarrow> unat reg mod 4 = 0"
proof -
  assume "looksLikePlaneSurf reg"
  then have "unat reg mod 4096 = 0x19C"
    by (simp add: looksLikePlaneSurf_def and_mask12 word_unat_eq_iff unat_of_nat)
  then have "(unat reg mod 4096) mod 4 = 0" by simp
  then show ?thesis by (simp add: mod_mod_cancel)
qed

lemma dw_inj:
  assumes "dw a = dw b" and "unat a mod 4 = 0" and "unat b mod 4 = 0"
  shows "a = b"
proof -
  have "unat a div 4 = unat b div 4"
    using arg_cong [OF assms(1), of unat] by (simp only: unat_drop_bit2)
  then have "unat a = unat b"
    using assms(2,3) by (metis mult_div_mod_eq)
  then show ?thesis by (simp add: word_unat_eq_iff)
qed

lemma surf_safe_nonzero: "v \<noteq> 0 \<Longrightarrow> surf_safe (St i v # h) = surf_safe h"
  by auto

lemma surf_safe_other:
  assumes "\<And>reg. looksLikePlaneSurf reg \<Longrightarrow> dw reg \<noteq> i"
  shows "surf_safe (St i v # h) = surf_safe h"
  using assms by auto

lemma surf_safe_misc [simp]:
  "surf_safe (Ld i v # h) = surf_safe h"
  "surf_safe (Dly n # h) = surf_safe h"
  "surf_safe (Clk w # h) = surf_safe h"
  "surf_safe (St mmPCIE_INDEX2 v # h) = surf_safe h"
  "surf_safe (St mmPCIE_DATA2 v # h) = surf_safe h"
  using index_not_surf by (auto simp del: surf_safe.simps intro!: surf_safe_other)
      (auto dest: index_not_surf)

text \<open>The cases of a guarded write: the surface register of a plane in reach of the BAR.\<close>

lemma writeReg32_surf_zero:
  assumes "mmioValid s" and "looksLikePlaneSurf reg" and "reg + 4 \<le> rmmio_len s"
  defines "ctl \<equiv> reg - 0x1C"
  defines "c \<equiv> dev_load s (hist s) (dw ctl)"
  defines "h1 \<equiv> Ld (dw ctl) c # hist s"
  defines "v \<equiv> dev_load s h1 (dw reg)"
  shows "exec (writeReg32 reg 0) s =
    (if c AND 0x80000000 = 0 then s\<lparr>hist := St (dw reg) 0 # h1\<rparr>
     else if v \<noteq> 0 then s\<lparr>hist := St (dw reg) v # Ld (dw reg) v # h1\<rparr>
     else s\<lparr>hist := St (dw reg) 0 # St (dw ctl) (c AND NOT 0x80000000) # Ld (dw reg) v # h1\<rparr>)"
proof -
  have ge: "0x60000 \<le> reg" and le: "reg \<le> 0xBFFFF"
    using assms(2) by (auto simp: looksLikePlaneSurf_def)
  have "ctl + 4 \<le> reg + 4"
    unfolding ctl_def using ge le by unat_arith auto
  then have "ctl + 4 \<le> rmmio_len s"
    using assms(3) by (rule order_trans)
  then have dc: "direct (s\<lparr>hist := h\<rparr>) ctl" and dr: "direct (s\<lparr>hist := h\<rparr>) reg" for h
    using assms(1,3) by (simp_all add: direct_def mmioValid_def)
  have dc0: "direct s ctl"
    using dc [of "hist s"] by simp
  have nc: "\<not> (looksLikePlaneSurf ctl \<and> x = 0)" for x :: u32
    using plane_surf_ctl_offset(2,3) [OF assms(2)] by (simp add: ctl_def)
  have cast: "ucast (ucast (reg - 0x1C) :: u32) = ctl"
    using plane_surf_ctl_offset(3) [OF assms(2)] by (simp add: ctl_def)
  have ok: "rmmio s" "rmmioPtr s"
    using assms(1) by (simp_all add: mmioValid_def)
  show ?thesis
    unfolding c_def h1_def v_def
    by (subst writeReg32.simps)
       (simp add: assms(2) ok cast Let_def readReg32_direct [OF dc0] readReg32_direct [OF dr]
          writeReg32_direct [OF dc nc] rawWrite32_def assms(3))
qed

definition surf_inv_at :: "u64 \<Rightarrow> 'a mmio_scheme \<Rightarrow> bool" where
  "surf_inv_at len s \<longleftrightarrow> surf_inv s \<and> rmmio_len s = len"

lemma surf_inv_at_hist:
  "surf_inv_at len (s\<lparr>hist := h\<rparr>) \<longleftrightarrow> surf_safe h \<and> rmmio_len s = len"
  by (simp add: surf_inv_at_def surf_inv_def)

lemma surf_load: "state_io_rel (keeps (surf_inv_at len)) (load_dw i)"
  by (simp add: state_io_rel_exec keeps_def surf_inv_at_hist del: surf_safe.simps)
     (simp add: surf_inv_at_def surf_inv_def)

lemma surf_store:
  assumes "\<And>h. surf_safe h \<Longrightarrow> surf_safe (St i v # h)"
  shows "state_io_rel (keeps (surf_inv_at len)) (store_dw i v)"
  by (simp add: state_io_rel_exec keeps_def surf_inv_at_hist del: surf_safe.simps)
     (simp add: surf_inv_at_def surf_inv_def assms del: surf_safe.simps)

lemma surf_readReg32: "state_io_rel (keeps (surf_inv_at len)) (readReg32 reg)"
  unfolding readReg32_def
  by (intro inv.io_rules surf_load surf_store) (simp del: surf_safe.simps)

lemma surf_writeReg32_unguarded:
  assumes "\<not> (looksLikePlaneSurf reg \<and> val = 0)" and "unat reg mod 4 = 0"
  shows "state_io_rel (keeps (surf_inv_at len)) (writeReg32 reg val)"
proof -
  have "surf_safe (St (dw reg) val # h)" if "surf_safe h" for h
  proof (cases "val = 0")
    case True
    then have "\<not> looksLikePlaneSurf reg" using assms(1) by simp
    then have "dw r \<noteq> dw reg" if "looksLikePlaneSurf r" for r
      using that assms(2) dw_inj [of r reg] surf_aligned [of r] by auto
    then show ?thesis using \<open>surf_safe h\<close> by (simp add: surf_safe_other del: surf_safe.simps)
  next
    case False
    then show ?thesis using that by auto
  qed
  then show ?thesis
    unfolding writeReg32_unguarded [OF assms(1)] rawWrite32_def
    by (intro inv.io_rules surf_store) (simp_all del: surf_safe.simps)
qed

lemma ctl_write_unguarded:
  assumes "looksLikePlaneSurf reg"
  shows "\<not> (looksLikePlaneSurf (ucast (ucast (reg - 0x1C) :: u32)) \<and> val = (0 :: u32))"
    and "unat (ucast (ucast (reg - 0x1C) :: u32) :: u64) mod 4 = 0"
proof -
  show "\<not> (looksLikePlaneSurf (ucast (ucast (reg - 0x1C) :: u32)) \<and> val = (0 :: u32))"
    using plane_surf_ctl_offset(2) [OF assms] by simp
  have "unat (reg - 0x1C) mod 4096 = 0x180"
    using plane_surf_ctl_offset(1) [OF assms] by (simp add: and_mask12 word_unat_eq_iff unat_of_nat)
  then have "(unat (reg - 0x1C) mod 4096) mod 4 = 0" by simp
  then show "unat (ucast (ucast (reg - 0x1C) :: u32) :: u64) mod 4 = 0"
    unfolding plane_surf_ctl_offset(3) [OF assms] by (simp add: mod_mod_cancel)
qed

lemma surf_writeReg32_indirect:
  assumes "looksLikePlaneSurf reg" and "\<not> reg + 4 \<le> len"
  shows "keeps (surf_inv_at len) s (exec (writeReg32 reg 0) s)"
proof -
  define guard where "guard = (do {
      planCtl \<leftarrow> readReg32 (ucast (ucast (reg - 0x1C) :: u32));
      if planCtl AND 0x80000000 \<noteq> 0 then do {
        currentSurf \<leftarrow> readReg32 reg;
        if currentSurf \<noteq> 0 then ret currentSurf
        else do { writeReg32 (ucast (ucast (reg - 0x1C) :: u32)) (planCtl AND NOT 0x80000000); ret 0 }
      } else ret 0 } :: ('a mmio_scheme, u32) state)"
  have g: "state_io_rel (keeps (surf_inv_at len)) guard"
    unfolding guard_def
    by (intro inv.io_rules surf_readReg32 surf_writeReg32_unguarded ctl_write_unguarded assms)
  have r: "keeps (surf_inv_at len) t (exec (rawWrite32 reg v) t)" for t :: "'a mmio_scheme" and v
    using assms(2) by (auto simp: keeps_def rawWrite32_def surf_inv_at_def surf_inv_def simp del: surf_safe.simps)
  have e: "exec (writeReg32 reg 0) s = (if mmioValid s then exec (rawWrite32 reg (result guard s)) (exec guard s) else s)"
    by (subst writeReg32.simps) (simp add: assms(1) mmioValid_def guard_def Let_def)
  show ?thesis
    unfolding e using g r [of "exec guard s" "result guard s"]
    by (auto simp: state_io_rel_exec keeps_def)
qed

lemma surf_safe_zero_store:
  assumes "looksLikePlaneSurf reg" and "surf_safe h" and "plane_off h reg"
  shows "surf_safe (St (dw reg) 0 # h)"
proof -
  have "r = reg" if "dw r = dw reg" and "looksLikePlaneSurf r" for r
    by (rule dw_inj [OF that(1) surf_aligned [OF that(2)] surf_aligned [OF assms(1)]])
  then show ?thesis
    using assms(2,3) by (simp only: surf_safe.simps access.inject) metis
qed

lemma surf_safe_ctl_store:
  assumes "looksLikePlaneSurf reg"
  shows "surf_safe (St (dw (reg - 0x1C)) v # h) = surf_safe h"
proof (rule surf_safe_other, rule notI)
  fix r assume r: "looksLikePlaneSurf r" and eq: "dw r = dw (reg - 0x1C)"
  have "r = reg - 0x1C"
    using eq surf_aligned [OF r] ctl_write_unguarded(2) [OF assms]
    unfolding plane_surf_ctl_offset(3) [OF assms] by (rule dw_inj)
  then show False
    using r plane_surf_ctl_offset(2,3) [OF assms] by simp
qed

lemma surf_writeReg32_guarded:
  assumes "mmioValid s" and "looksLikePlaneSurf reg" and "reg + 4 \<le> rmmio_len s" and "surf_inv s"
  shows "surf_inv (exec (writeReg32 reg 0) s)"
proof -
  define c where "c = dev_load s (hist s) (dw (reg - 0x1C))"
  define v where "v = dev_load s (Ld (dw (reg - 0x1C)) c # hist s) (dw reg)"
  have h: "surf_safe (hist s)"
    using assms(4) by (simp add: surf_inv_def)
  have off: "plane_off (St (dw (reg - 0x1C)) (c AND NOT 0x80000000) # h) reg" for h
    using bit_not_mask_clears [of c "0x80000000"] by (simp add: plane_off_def)
  have ctl0: "c AND 0x80000000 = 0 \<Longrightarrow> plane_off (Ld (dw (reg - 0x1C)) c # h) reg" for h
    by (simp add: plane_off_def)
  show ?thesis
    unfolding writeReg32_surf_zero [OF assms(1,2,3)] c_def [symmetric] v_def [symmetric]
    using h ctl0 off assms(2)
    by (simp add: surf_inv_def surf_safe_zero_store surf_safe_ctl_store surf_safe_nonzero
          del: surf_safe.simps drop_bit_eq_div)
qed

lemma writeReg32_len: "rmmio_len (exec (writeReg32 reg val) s) = rmmio_len s"
proof -
  have "state_io_rel (emits (\<lambda>_. True)) (writeReg32 reg val :: ('a mmio_scheme, unit) state)"
    by (rule em_writeReg32_any) (simp_all add: transparent_def)
  then show ?thesis by (simp add: state_io_rel_exec emits_def same_bus_def)
qed

lemma surf_writeReg32:
  assumes "unat reg mod 4 = 0"
  shows "state_io_rel (keeps (surf_inv_at len)) (writeReg32 reg val)"
proof (cases "looksLikePlaneSurf reg \<and> val = 0")
  case False
  then show ?thesis using assms by (rule surf_writeReg32_unguarded)
next
  case True
  have "keeps (surf_inv_at len) s (exec (writeReg32 reg 0) s)" for s :: "'a mmio_scheme"
  proof (cases "mmioValid s \<and> reg + 4 \<le> len")
    case valid: True
    then show ?thesis
      using surf_writeReg32_guarded [of s reg] True
      by (auto simp: keeps_def surf_inv_at_def writeReg32_len)
  next
    case False
    then show ?thesis
      using surf_writeReg32_indirect [of reg len s] True
      by (auto simp: writeReg32_unmapped keeps_def)
  qed
  then show ?thesis using True by (simp add: state_io_rel_exec)
qed

lemma surf_delay: "state_io_rel (keeps (surf_inv_at len)) (IODelay n)"
  by (simp add: state_io_rel_exec keeps_def surf_inv_at_hist del: surf_safe.simps)
     (simp add: surf_inv_at_def surf_inv_def)

lemma surf_clock: "state_io_rel (keeps (surf_inv_at len)) clock_get_uptime"
  by (simp add: state_io_rel_exec keeps_def surf_inv_at_hist del: surf_safe.simps)
     (simp add: surf_inv_at_def surf_inv_def)

text \<open>A change of fields outside the bus keeps the surface invariant.\<close>

lemma surf_modify:
  assumes "\<And>s. hist (f s) = hist s \<and> rmmio_len (f s) = rmmio_len s"
  shows "state_io_rel (keeps (surf_inv_at len)) (modify f)"
  by (rule inv.io_modify) (simp add: keeps_def surf_inv_at_def surf_inv_def assms)

lemmas surf_rules = inv.io_rules surf_readReg32 surf_writeReg32 surf_delay surf_clock

lemma surf_inv_exec:
  assumes "\<And>len. state_io_rel (keeps (surf_inv_at len)) m" and "surf_inv s"
  shows "surf_inv (exec m s)"
  using assms(1) [of "rmmio_len s"] assms(2)
  by (auto simp: state_io_rel_exec keeps_def surf_inv_at_def)

section \<open>A register file\<close>

text \<open>
  The plainest hardware: a load returns the value last stored, or an initial value. It is
  the instance at which the witnesses of the development are evaluated, and the behaviour
  that \<open>plain_reg\<close> states of a single register as a hypothesis.
\<close>

fun last_store :: "access list \<Rightarrow> u64 \<Rightarrow> u32 option" where
  "last_store [] i = None"
| "last_store (St j v # h) i = (if i = j then Some v else last_store h i)"
| "last_store (Ld _ _ # h) i = last_store h i"
| "last_store (Dly _ # h) i = last_store h i"
| "last_store (Clk _ # h) i = last_store h i"

definition regfile :: "(u64 \<Rightarrow> u32) \<Rightarrow> access list \<Rightarrow> u64 \<Rightarrow> u32" where
  "regfile init h i = (case last_store h i of Some v \<Rightarrow> v | None \<Rightarrow> init i)"

definition regfile_bus :: "(u64 \<Rightarrow> u32) \<Rightarrow> mmio" where
  "regfile_bus init = \<lparr>rmmio = True, rmmioPtr = True, rmmio_len = 0x1000000, hist = [],
     dev_load = regfile init, dev_clock = length\<rparr>"

definition plain_reg :: "'a mmio_scheme \<Rightarrow> u64 \<Rightarrow> bool" where
  "plain_reg s reg \<longleftrightarrow>
     (\<forall>h. dev_load s h (dw reg) = (case last_store h (dw reg) of Some v \<Rightarrow> v | None \<Rightarrow> dev_load s [] (dw reg)))"

lemma regfile_plain: "plain_reg (regfile_bus init) reg"
  by (simp add: plain_reg_def regfile_bus_def regfile_def split: option.split)

lemma regfile_direct: "reg + 4 \<le> 0x1000000 \<Longrightarrow> direct (regfile_bus init) reg"
  by (simp add: direct_def mmioValid_def regfile_bus_def)

text \<open>The present value of a register, and what leaves it alone.\<close>

definition peek :: "'a mmio_scheme \<Rightarrow> u64 \<Rightarrow> u32" where
  "peek s reg = dev_load s (hist s) (dw reg)"

definition stores_in :: "u64 set \<Rightarrow> access \<Rightarrow> bool" where
  "stores_in I a \<longleftrightarrow> (\<forall>j v. a = St j v \<longrightarrow> j = mmPCIE_INDEX2 \<or> j = mmPCIE_DATA2 \<or> j \<in> I)"

lemma transparent_stores_in: "transparent (stores_in I)"
  by (simp add: transparent_def stores_in_def)

lemma quiet_stores_in: "quiet_access a \<Longrightarrow> stores_in I a"
  by (cases a) (simp_all add: stores_in_def)

lemma emits_mono: "emits P s t \<Longrightarrow> (\<And>a. P a \<Longrightarrow> Q a) \<Longrightarrow> emits Q s t"
  unfolding emits_def by (metis list_all_iff)

lemma stores_in_mono: "I \<subseteq> J \<Longrightarrow> stores_in I a \<Longrightarrow> stores_in J a"
  by (auto simp: stores_in_def)

lemma last_store_frame:
  assumes "emits (stores_in I) s t" and "i \<notin> I" and "i \<noteq> mmPCIE_INDEX2" and "i \<noteq> mmPCIE_DATA2"
  shows "last_store (hist t) i = last_store (hist s) i"
proof -
  obtain new where n: "hist t = new @ hist s" "list_all (stores_in I) new"
    using assms(1) by (auto simp: emits_def)
  have "last_store (new @ hist s) i = last_store (hist s) i"
    using n(2)
  proof (induction new)
    case (Cons a new)
    then show ?case using assms(2-4) by (cases a) (auto simp: stores_in_def)
  qed simp
  then show ?thesis by (simp add: n(1))
qed

lemma plain_same_bus: "same_bus s t \<Longrightarrow> plain_reg s reg \<Longrightarrow> plain_reg t reg"
  unfolding plain_reg_def same_bus_def by metis

lemma peek_frame:
  assumes "plain_reg s reg" and "emits (stores_in I) s t" and "dw reg \<notin> I"
    and "dw reg \<noteq> mmPCIE_INDEX2" and "dw reg \<noteq> mmPCIE_DATA2"
  shows "peek t reg = peek s reg"
proof -
  have "dev_load t = dev_load s" using assms(2) by (simp add: emits_def same_bus_def)
  moreover have "dev_load s h (dw reg) = (case last_store h (dw reg) of Some v \<Rightarrow> v | None \<Rightarrow> dev_load s [] (dw reg))" for h
    using assms(1) unfolding plain_reg_def by blast
  ultimately show ?thesis
    unfolding peek_def using last_store_frame [OF assms(2-5)] by metis
qed

lemma peek_stored:
  assumes "plain_reg s reg" and "last_store (hist s) (dw reg) = Some v"
  shows "peek s reg = v"
  using assms unfolding peek_def plain_reg_def by (metis option.simps(5))

text \<open>A BAR of at least two megabytes reaches every register up to there directly.\<close>

definition big_bar :: "'a mmio_scheme \<Rightarrow> bool" where
  "big_bar s \<longleftrightarrow> mmioValid s \<and> 0x200000 \<le> rmmio_len s"

lemma big_bar_direct:
  assumes "big_bar s" and "reg \<le> 0x1FFFFC"
  shows "direct s reg"
proof -
  have "reg + 4 \<le> 0x200000"
    using assms(2) by unat_arith
  then show ?thesis
    using assms(1) by (auto simp: big_bar_def direct_def intro: order_trans)
qed

lemma big_bar_emits: "emits P s t \<Longrightarrow> big_bar s \<Longrightarrow> big_bar t"
  by (simp add: emits_def same_bus_def big_bar_def mmioValid_def)

lemma direct_hist [simp]: "direct (s\<lparr>hist := h\<rparr>) r \<longleftrightarrow> direct s r"
  by (simp add: direct_def mmioValid_def)

section \<open>Workaround values\<close>

lemma low_half_bits: "take_bit 16 v = v \<Longrightarrow> bit (v :: u32) n \<Longrightarrow> n < 16"
  by (metis bit_take_bit_iff)

lemma wa_value_clr_set: "wa_value old clear setv (clear OR setv) False = old OR clear OR setv"
  by (rule bit_word_eqI) (auto simp: wa_value_def bit_simps)

lemma wa_value_masked:
  assumes "take_bit 16 m = m" and "take_bit 16 v = v"
  shows "wa_value old 0 (MASKED_FIELD m v) m True = old OR push_bit 16 m OR m OR v"
proof (rule bit_word_eqI)
  fix n assume "n < LENGTH(32)"
  then show "bit (wa_value old 0 (MASKED_FIELD m v) m True) n = bit (old OR push_bit 16 m OR m OR v) n"
    using low_half_bits [OF assms(1), of n] low_half_bits [OF assms(2), of n]
      low_half_bits [OF assms(1), of "16 + n"] low_half_bits [OF assms(2), of "16 + n"]
    by (auto simp: wa_value_def MASKED_FIELD_def bit_simps Let_def)
qed

lemma wa_add_effect:
  assumes "direct s (ucast reg)" and "\<not> looksLikePlaneSurf (ucast reg)"
  defines "old \<equiv> dev_load s (hist s) (dw (ucast reg))"
  shows "hist (exec (wa_add reg clear setv rm masked) s) =
    St (dw (ucast reg)) (wa_value old clear setv rm masked) # Ld (dw (ucast reg)) old # hist s"
proof -
  have d: "direct (s\<lparr>hist := h\<rparr>) (ucast reg)" for h
    using assms(1) by (simp add: direct_def mmioValid_def)
  show ?thesis
    unfolding wa_add_def old_def
    by (simp add: readReg32_direct [OF assms(1)] writeReg32_direct [OF d] assms(2))
qed

section \<open>Properties\<close>

text \<open>C1: \<open>writeReg32\<close> never arms an enabled display plane with a zero surface address:
  whatever the hardware answers and whatever the register and value, every store of zero to a
  plane surface register follows an access to that plane's control register in which the
  enable bit (bit 31) is clear, provided this held of the accesses before the call.
  Register offsets are dword aligned.\<close>

theorem writeReg32_surf_safe:
  assumes "unat reg mod 4 = 0" and "surf_inv s"
  shows "surf_inv (exec (writeReg32 reg val) s)"
  by (rule surf_inv_exec [OF surf_writeReg32 [OF assms(1)] assms(2)])

theorem writeReg32_surf_safe_witness:
  "unat (0x7019C :: u64) mod 4 = 0 \<and> surf_inv (regfile_bus (\<lambda>_. 0x80000000)) \<and>
   surf_inv (exec (writeReg32 0x7019C 0) (regfile_bus (\<lambda>_. 0x80000000)))"
proof -
  have a: "unat (0x7019C :: u64) mod 4 = 0" and b: "surf_inv (regfile_bus (\<lambda>_. 0x80000000))"
    by (simp_all add: surf_inv_def regfile_bus_def)
  show ?thesis using a b writeReg32_surf_safe [OF a b] by blast
qed

text \<open>The three outcomes of writing zero to the surface register of a plane, by what the
  hardware answers: a disabled plane gets the zero; an enabled plane keeps the surface it has;
  an enabled plane without a surface is disabled first and then gets the zero.\<close>

theorem writeReg32_zero_surf_cases:
  assumes "mmioValid s" and "looksLikePlaneSurf reg" and "reg + 4 \<le> rmmio_len s"
  defines "c \<equiv> dev_load s (hist s) (dw (reg - 0x1C))"
  defines "v \<equiv> dev_load s (Ld (dw (reg - 0x1C)) c # hist s) (dw reg)"
  shows "hist (exec (writeReg32 reg 0) s) =
    (if c AND 0x80000000 = 0 then St (dw reg) 0 # Ld (dw (reg - 0x1C)) c # hist s
     else if v \<noteq> 0 then St (dw reg) v # Ld (dw reg) v # Ld (dw (reg - 0x1C)) c # hist s
     else St (dw reg) 0 # St (dw (reg - 0x1C)) (c AND NOT 0x80000000) # Ld (dw reg) v #
       Ld (dw (reg - 0x1C)) c # hist s)"
  using writeReg32_surf_zero [OF assms(1-3)] unfolding c_def v_def
  by (simp del: drop_bit_eq_div)

text \<open>C40: \<open>wa_write_clr_set\<close> stores the old value with the bits to set and also the bits to
  clear switched on: no bit of the register is ever cleared by it, nor by \<open>wa_write\<close> and
  \<open>wa_write_clr\<close>, which are instances.\<close>

theorem wa_write_clr_set_never_clears:
  assumes "direct s (ucast reg)" and "\<not> looksLikePlaneSurf (ucast reg)"
  defines "old \<equiv> dev_load s (hist s) (dw (ucast reg))"
  shows "hist (exec (wa_write_clr_set reg clear setv) s) =
    St (dw (ucast reg)) (old OR clear OR setv) # Ld (dw (ucast reg)) old # hist s"
  unfolding wa_write_clr_set_def old_def
  by (simp only: wa_add_effect [OF assms(1,2)] wa_value_clr_set)

theorem wa_write_clr_set_never_clears_witness:
  "hist (exec (wa_write_clr_set 0xfdc 0x0F000000 0) (regfile_bus (\<lambda>_. 0x3))) =
     [St 0x3F7 0x0F000003, Ld 0x3F7 0x3]"
proof -
  have a: "direct (regfile_bus (\<lambda>_. 0x3)) (ucast (0xfdc :: u32))"
    and b: "\<not> looksLikePlaneSurf (ucast (0xfdc :: u32))"
    by (simp_all add: regfile_direct looksLikePlaneSurf_def)
  show ?thesis
    using wa_write_clr_set_never_clears [OF a b, of "0x0F000000" 0]
    by (simp add: regfile_bus_def regfile_def drop_bit_eq_div)
qed

end
