(* ===== verification/NG_Regs.thy ===== *)
theory NG_Regs
  imports NG_Mmio
begin

text \<open>
  The register offsets and bit masks of \<open>iTGL/TGL.hpp\<close> the routines below use. The macros
  are untyped in the source and take the width of their context, so the constants are
  polymorphic words. Definitions unfold by \<open>simp\<close>.
\<close>

definition RENDER_RING_BASE :: "'a :: len word" where [simp]: "RENDER_RING_BASE = 0x02000"
definition BLT_RING_BASE :: "'a :: len word" where [simp]: "BLT_RING_BASE = 0x22000"
abbreviation (input) GEN11_VEBOX_RING_BASE :: "'a :: len word" where "GEN11_VEBOX_RING_BASE \<equiv> 0x1c8000"
abbreviation (input) RING_START :: "'a :: len word \<Rightarrow> 'a word" where "RING_START base \<equiv> base + 0x38"
abbreviation (input) RING_CTL :: "'a :: len word \<Rightarrow> 'a word" where "RING_CTL base \<equiv> base + 0x3c"
abbreviation (input) RING_EIR :: "'a :: len word \<Rightarrow> 'a word" where "RING_EIR base \<equiv> base + 0xb0"
abbreviation (input) RING_EMR :: "'a :: len word \<Rightarrow> 'a word" where "RING_EMR base \<equiv> base + 0xb4"
abbreviation (input) RING_TAIL :: "'a :: len word \<Rightarrow> 'a word" where "RING_TAIL base \<equiv> base + 0x30"
abbreviation (input) RING_HEAD :: "'a :: len word \<Rightarrow> 'a word" where "RING_HEAD base \<equiv> base + 0x34"
abbreviation (input) RING_HWS_PGA :: "'a :: len word \<Rightarrow> 'a word" where "RING_HWS_PGA base \<equiv> base + 0x80"
abbreviation (input) RING_HWSTAM :: "'a :: len word \<Rightarrow> 'a word" where "RING_HWSTAM base \<equiv> base + 0x98"
abbreviation (input) RING_MI_MODE :: "'a :: len word \<Rightarrow> 'a word" where "RING_MI_MODE base \<equiv> base + 0x9c"
abbreviation (input) RING_ACTHD :: "'a :: len word \<Rightarrow> 'a word" where "RING_ACTHD base \<equiv> base + 0x74"
abbreviation (input) RING_ACTHD_UDW :: "'a :: len word \<Rightarrow> 'a word" where "RING_ACTHD_UDW base \<equiv> base + 0x5c"
abbreviation (input) RING_IPEHR :: "'a :: len word \<Rightarrow> 'a word" where "RING_IPEHR base \<equiv> base + 0x68"
abbreviation (input) RING_IPEIR :: "'a :: len word \<Rightarrow> 'a word" where "RING_IPEIR base \<equiv> base + 0x64"
abbreviation (input) RING_INSTDONE :: "'a :: len word \<Rightarrow> 'a word" where "RING_INSTDONE base \<equiv> base + 0x6c"
abbreviation (input) RING_ESR :: "'a :: len word \<Rightarrow> 'a word" where "RING_ESR base \<equiv> base + 0xb8"
abbreviation (input) RING_CTX_SIZE :: "'a :: len word \<Rightarrow> 'a word" where "RING_CTX_SIZE base \<equiv> base + 0x1a0"
abbreviation (input) RING_CCID :: "'a :: len word \<Rightarrow> 'a word" where "RING_CCID base \<equiv> base + 0x180"
abbreviation (input) RING_CTX_CTRL :: "'a :: len word \<Rightarrow> 'a word" where "RING_CTX_CTRL base \<equiv> base + 0x244"
abbreviation (input) RING_EXECLIST_STATUS :: "'a :: len word \<Rightarrow> 'a word" where "RING_EXECLIST_STATUS base \<equiv> base + 0x234"
abbreviation (input) RING_CONTEXT_STATUS_PTR :: "'a :: len word \<Rightarrow> 'a word" where "RING_CONTEXT_STATUS_PTR base \<equiv> base + 0x3a0"
abbreviation (input) RING_MODE :: "'a :: len word \<Rightarrow> 'a word" where "RING_MODE base \<equiv> base + 0x29c"
abbreviation (input) RING_FAULT_REG :: "'a :: len word \<Rightarrow> 'a word" where "RING_FAULT_REG base \<equiv> base + 0x150"
abbreviation (input) RING_DMA_FADD :: "'a :: len word \<Rightarrow> 'a word" where "RING_DMA_FADD base \<equiv> base + 0x78"
abbreviation (input) RING_DMA_FADD_UDW :: "'a :: len word \<Rightarrow> 'a word" where "RING_DMA_FADD_UDW base \<equiv> base + 0x60"
abbreviation (input) RING_INSTPM :: "'a :: len word \<Rightarrow> 'a word" where "RING_INSTPM base \<equiv> base + 0xC0"
abbreviation (input) VDBOX_CGCTL3F10 :: "'a :: len word \<Rightarrow> 'a word" where "VDBOX_CGCTL3F10 base \<equiv> base + 0x3f10"
definition ERROR_GEN6 :: "'a :: len word" where [simp]: "ERROR_GEN6 = 0x40A0"
abbreviation (input) GEN12_RING_FAULT_REG :: "'a :: len word" where "GEN12_RING_FAULT_REG \<equiv> 0xCEC4"
abbreviation (input) GEN8_FAULT_TLB_DATA0 :: "'a :: len word" where "GEN8_FAULT_TLB_DATA0 \<equiv> 0x4B10"
abbreviation (input) GEN8_FAULT_TLB_DATA1 :: "'a :: len word" where "GEN8_FAULT_TLB_DATA1 \<equiv> 0x4B14"
abbreviation (input) GEN8_GGTT_PTE_BASE :: "'a :: len word" where "GEN8_GGTT_PTE_BASE \<equiv> 0x800000"
abbreviation (input) STOP_RING :: "'a :: len word" where "STOP_RING \<equiv> 0x100"
abbreviation (input) IECPUNIT_CLKGATE_DIS :: "'a :: len word" where "IECPUNIT_CLKGATE_DIS \<equiv> 0x400000"
abbreviation (input) GEN10_DFR_RATIO_EN_AND_CHICKEN :: "'a :: len word" where "GEN10_DFR_RATIO_EN_AND_CHICKEN \<equiv> 0x9550"
abbreviation (input) DFR_DISABLE :: "'a :: len word" where "DFR_DISABLE \<equiv> 0x200"
abbreviation (input) GEN11_COMMON_SLICE_CHICKEN3 :: "'a :: len word" where "GEN11_COMMON_SLICE_CHICKEN3 \<equiv> 0x7304"
abbreviation (input) GEN12_DISABLE_CPS_AWARE_COLOR_PIPE :: "'a :: len word" where "GEN12_DISABLE_CPS_AWARE_COLOR_PIPE \<equiv> 0x200"
abbreviation (input) GEN8_CS_CHICKEN1 :: "'a :: len word" where "GEN8_CS_CHICKEN1 \<equiv> 0x2580"
abbreviation (input) GEN8_MCR_SELECTOR :: "'a :: len word" where "GEN8_MCR_SELECTOR \<equiv> 0xfdc"
abbreviation (input) GEN7_FF_SLICE_CS_CHICKEN1 :: "'a :: len word" where "GEN7_FF_SLICE_CS_CHICKEN1 \<equiv> 0x20e0"
abbreviation (input) GEN9_FFSC_PERCTX_PREEMPT_CTRL :: "'a :: len word" where "GEN9_FFSC_PERCTX_PREEMPT_CTRL \<equiv> 0x4000"
abbreviation (input) GEN7_MISCCPCTL :: "'a :: len word" where "GEN7_MISCCPCTL \<equiv> 0x9424"
abbreviation (input) GEN12_DOP_CLOCK_GATE_RENDER_ENABLE :: "'a :: len word" where "GEN12_DOP_CLOCK_GATE_RENDER_ENABLE \<equiv> 0x2"
abbreviation (input) GEN11_GT_INTR_DW0 :: "'a :: len word" where "GEN11_GT_INTR_DW0 \<equiv> 0x190018"
abbreviation (input) GEN11_GT_INTR_DW1 :: "'a :: len word" where "GEN11_GT_INTR_DW1 \<equiv> 0x19001c"
abbreviation (input) GEN11_INTR_IDENTITY_REG0 :: "'a :: len word" where "GEN11_INTR_IDENTITY_REG0 \<equiv> 0x190060"
abbreviation (input) GEN11_INTR_IDENTITY_REG1 :: "'a :: len word" where "GEN11_INTR_IDENTITY_REG1 \<equiv> 0x190064"
definition GEN11_RENDER_COPY_INTR_ENABLE :: "'a :: len word" where [simp]: "GEN11_RENDER_COPY_INTR_ENABLE = 0x190030"
abbreviation (input) GEN11_VCS_VECS_INTR_ENABLE :: "'a :: len word" where "GEN11_VCS_VECS_INTR_ENABLE \<equiv> 0x190034"
definition GEN11_RCS0_RSVD_INTR_MASK :: "'a :: len word" where [simp]: "GEN11_RCS0_RSVD_INTR_MASK = 0x190090"
abbreviation (input) GEN11_BCS_RSVD_INTR_MASK :: "'a :: len word" where "GEN11_BCS_RSVD_INTR_MASK \<equiv> 0x1900a0"
abbreviation (input) GT_CONTEXT_SWITCH_INTERRUPT :: "'a :: len word" where "GT_CONTEXT_SWITCH_INTERRUPT \<equiv> 0x100"
abbreviation (input) GT_RENDER_USER_INTERRUPT :: "'a :: len word" where "GT_RENDER_USER_INTERRUPT \<equiv> 0x1"
definition GEN11_GFX_MSTR_IRQ :: "'a :: len word" where [simp]: "GEN11_GFX_MSTR_IRQ = 0x190010"
abbreviation (input) GEN11_MASTER_IRQ :: "'a :: len word" where "GEN11_MASTER_IRQ \<equiv> 0x80000000"
abbreviation (input) GEN11_DISPLAY_INT_CTL :: "'a :: len word" where "GEN11_DISPLAY_INT_CTL \<equiv> 0x44200"
abbreviation (input) GT_CS_MASTER_ERROR_INTERRUPT :: "'a :: len word" where "GT_CS_MASTER_ERROR_INTERRUPT \<equiv> 3"
abbreviation (input) GT_WAIT_SEMAPHORE_INTERRUPT :: "'a :: len word" where "GT_WAIT_SEMAPHORE_INTERRUPT \<equiv> 11"
definition FORCEWAKE_RENDER_GEN9 :: "'a :: len word" where [simp]: "FORCEWAKE_RENDER_GEN9 = 0xa278"
abbreviation (input) FORCEWAKE_BLITTER_GEN9 :: "'a :: len word" where "FORCEWAKE_BLITTER_GEN9 \<equiv> 0xa188"
abbreviation (input) FORCEWAKE_ACK_RENDER_GEN9 :: "'a :: len word" where "FORCEWAKE_ACK_RENDER_GEN9 \<equiv> 0x0D84"
abbreviation (input) FORCEWAKE_ACK_BLITTER_GEN9 :: "'a :: len word" where "FORCEWAKE_ACK_BLITTER_GEN9 \<equiv> 0x130044"
abbreviation (input) GEN11_GUC_SG_INTR_ENABLE :: "'a :: len word" where "GEN11_GUC_SG_INTR_ENABLE \<equiv> 0x190038"
abbreviation (input) GEN11_GUC_SG_INTR_MASK :: "'a :: len word" where "GEN11_GUC_SG_INTR_MASK \<equiv> 0x1900e8"
abbreviation (input) GEN11_IIR_REG0_SELECTOR :: "'a :: len word" where "GEN11_IIR_REG0_SELECTOR \<equiv> 0x190070"
abbreviation (input) GEN11_IIR_REG1_SELECTOR :: "'a :: len word" where "GEN11_IIR_REG1_SELECTOR \<equiv> 0x190074"
abbreviation (input) I915_ERROR_INSTRUCTION :: "'a :: len word" where "I915_ERROR_INSTRUCTION \<equiv> 0x1"
abbreviation (input) GEN11_VCS0_VCS1_INTR_MASK :: "'a :: len word" where "GEN11_VCS0_VCS1_INTR_MASK \<equiv> 0x1900a8"
abbreviation (input) GEN11_VCS2_VCS3_INTR_MASK :: "'a :: len word" where "GEN11_VCS2_VCS3_INTR_MASK \<equiv> 0x1900ac"
abbreviation (input) GEN11_VECS0_VECS1_INTR_MASK :: "'a :: len word" where "GEN11_VECS0_VECS1_INTR_MASK \<equiv> 0x1900d0"
abbreviation (input) GEN12_VECS2_VECS3_INTR_MASK :: "'a :: len word" where "GEN12_VECS2_VECS3_INTR_MASK \<equiv> 0x1900d4"
abbreviation (input) DG1_MSTR_TILE_INTR :: "'a :: len word" where "DG1_MSTR_TILE_INTR \<equiv> 0x190008"
abbreviation (input) DG1_MSTR_IRQ :: "'a :: len word" where "DG1_MSTR_IRQ \<equiv> 0x80000000"
abbreviation (input) GEN11_GPM_WGBOXPERF_INTR_ENABLE :: "'a :: len word" where "GEN11_GPM_WGBOXPERF_INTR_ENABLE \<equiv> 0x19003c"
abbreviation (input) GEN11_GPM_WGBOXPERF_INTR_MASK :: "'a :: len word" where "GEN11_GPM_WGBOXPERF_INTR_MASK \<equiv> 0x1900ec"
abbreviation (input) GEN11_CRYPTO_RSVD_INTR_ENABLE :: "'a :: len word" where "GEN11_CRYPTO_RSVD_INTR_ENABLE \<equiv> 0x190040"
abbreviation (input) GEN11_CRYPTO_RSVD_INTR_MASK :: "'a :: len word" where "GEN11_CRYPTO_RSVD_INTR_MASK \<equiv> 0x1900f0"
abbreviation (input) GEN11_DISPLAY_IRQ_ENABLE :: "'a :: len word" where "GEN11_DISPLAY_IRQ_ENABLE \<equiv> 0x80000000"
abbreviation (input) FORCEWAKE_GT_GEN9 :: "'a :: len word" where "FORCEWAKE_GT_GEN9 \<equiv> 0xa188"
abbreviation (input) FORCEWAKE_ACK_GT_GEN9 :: "'a :: len word" where "FORCEWAKE_ACK_GT_GEN9 \<equiv> 0x130044"
abbreviation (input) FORCEWAKE_REQ_GSC :: "'a :: len word" where "FORCEWAKE_REQ_GSC \<equiv> 0xa618"
abbreviation (input) FORCEWAKE_ACK_GSC :: "'a :: len word" where "FORCEWAKE_ACK_GSC \<equiv> 0xdf8"

text \<open>Bit numbers rather than masks.\<close>

definition GEN11_RCS0 :: nat where [simp]: "GEN11_RCS0 = 0"
definition GEN11_BCS :: nat where [simp]: "GEN11_BCS = 15"

definition RING_CONTEXT_STATUS_BUF :: "'a :: len word \<Rightarrow> nat \<Rightarrow> 'a word" where
  [simp]: "RING_CONTEXT_STATUS_BUF base idx = base + 0x370 + of_nat idx * 8"

definition RING_CONTEXT_STATUS_BUF_HI :: "'a :: len word \<Rightarrow> nat \<Rightarrow> 'a word" where
  [simp]: "RING_CONTEXT_STATUS_BUF_HI base idx = base + 0x374 + of_nat idx * 8"

text \<open>The page of a page-table entry is a 32-bit value in the source, and so is the offset.\<close>

definition GGTT_PTE_LO :: "u32 \<Rightarrow> u64" where
  "GGTT_PTE_LO page = ucast (GEN8_GGTT_PTE_BASE + page * 8)"

definition GGTT_PTE_HI :: "u32 \<Rightarrow> u64" where
  "GGTT_PTE_HI page = ucast (GEN8_GGTT_PTE_BASE + page * 8 + 4)"

definition GEN8_MCR_SLICE :: "u32 \<Rightarrow> u32" where
  [simp]: "GEN8_MCR_SLICE slice' = push_bit 26 (slice' AND 3)"

definition GEN8_MCR_SUBSLICE :: "u32 \<Rightarrow> u32" where
  [simp]: "GEN8_MCR_SUBSLICE subslice = push_bit 24 (subslice AND 3)"

definition GEN9_PREEMPT_GPGPU_LEVEL :: "u32 \<Rightarrow> u32 \<Rightarrow> u32" where
  [simp]: "GEN9_PREEMPT_GPGPU_LEVEL hi lo = push_bit 2 hi OR push_bit 1 lo"

end
