(* ===== verification/NG_OSObjects.thy ===== *)
theory NG_OSObjects
  imports NG_Prelude
begin

text \<open>
  The IOKit values the plugin reads and writes: property values, and dictionaries as
  association lists in insertion order, with the lookup and update operations of
  \<open>OSDictionary\<close> and of the property table of a registry entry.
\<close>

section \<open>Values and dictionaries\<close>

datatype osobj =
    OData "u8 list"
  | OString string
  | ONumber u64
  | OBool bool
  | ODict "(string \<times> osobj) list"

type_synonym osdict = "(string \<times> osobj) list"

definition getObject :: "osdict \<Rightarrow> string \<Rightarrow> osobj option" where
  "getObject d k = map_of d k"

primrec setObject :: "string \<Rightarrow> osobj \<Rightarrow> osdict \<Rightarrow> osdict" where
  "setObject k v [] = [(k, v)]"
| "setObject k v (e # d) = (if fst e = k then (k, v) # d else e # setObject k v d)"

definition hasKey :: "osdict \<Rightarrow> string \<Rightarrow> bool" where
  "hasKey d k \<longleftrightarrow> getObject d k \<noteq> None"

lemma getObject_setObject [simp]:
  "getObject (setObject k v d) k' = (if k' = k then Some v else getObject d k')"
  by (induction d) (auto simp: getObject_def)

lemma hasKey_setObject [simp]: "hasKey (setObject k v d) k' \<longleftrightarrow> k' = k \<or> hasKey d k'"
  by (simp add: hasKey_def)

lemma distinct_setObject: "distinct (map fst d) \<Longrightarrow> distinct (map fst (setObject k v d))"
proof (induction d)
  case (Cons e d)
  have keys: "set (map fst (setObject k v d)) = insert k (set (map fst d))" for d
    by (induction d) auto
  from Cons show ?case using keys [of d] by auto
qed simp

section \<open>The registry\<close>

text \<open>
  Registry entries are objects: two paths may resolve to the same one, so the property
  tables live in a store indexed by entry. \<open>resolve\<close> is \<open>IORegistryEntry::fromPath\<close>, code
  of the kernel.
\<close>

record ioreg =
  resolve :: "string \<Rightarrow> nat option"
  props :: "nat \<Rightarrow> osdict"

definition setProperty :: "nat \<Rightarrow> string \<Rightarrow> osobj \<Rightarrow> ioreg \<Rightarrow> ioreg" where
  "setProperty e k v r = r\<lparr>props := (props r)(e := setObject k v (props r e))\<rparr>"

lemma setProperty_props [simp]:
  "props (setProperty e k v r) e' = (if e' = e then setObject k v (props r e) else props r e')"
  by (simp add: setProperty_def)

lemma setProperty_resolve [simp]: "resolve (setProperty e k v r) = resolve r"
  by (simp add: setProperty_def)

section \<open>Bytes\<close>

definition le32 :: "u8 list \<Rightarrow> u32" where
  "le32 bs = ucast (bs ! 0) OR push_bit 8 (ucast (bs ! 1)) OR push_bit 16 (ucast (bs ! 2))
     OR push_bit 24 (ucast (bs ! 3))"

definition cstring_bytes :: "string \<Rightarrow> u8 list" where
  "cstring_bytes s = map (\<lambda>c. of_nat (of_char c)) s @ [0]"

end
