(* ===== verification/NG_BootArgs.thy ===== *)
theory NG_BootArgs
  imports NG_Prelude
begin

text \<open>
  Boot arguments and the policy switches read from them. \<open>PE_parse_boot_argn\<close> and
  \<open>checkKernelArgument\<close> are code of the kernel and of Lilu: \<open>boot_int\<close> gives the integer
  parsed for a name, if any, \<open>boot_flag\<close> whether a flag is present.
\<close>

record boot =
  boot_int :: "string \<Rightarrow> int option"
  boot_flag :: "string \<Rightarrow> bool"

definition int_or_flag :: "string \<Rightarrow> string \<Rightarrow> boot \<Rightarrow> bool" where
  "int_or_flag name flag b = (case boot_int b name of Some v \<Rightarrow> v \<noteq> 0 | None \<Rightarrow> boot_flag b flag)"

section \<open>NGreen.cpp\<close>

definition shouldEnableLegacyPllBringup :: "boot \<Rightarrow> bool" where
  "shouldEnableLegacyPllBringup = int_or_flag ''ngreenlegacypll'' ''-ngreenlegacypll''"

definition hasAllow3DBootArg :: "boot \<Rightarrow> bool" where
  "hasAllow3DBootArg b = boot_flag b ''-allow3d''"

definition shouldDisableExternalOutputs :: "boot \<Rightarrow> bool" where
  "shouldDisableExternalOutputs = int_or_flag ''NGreenNoExternal'' ''-NGreenNoExternal''"

definition isLegacyIGPUPropSeedingEnabled :: "boot \<Rightarrow> bool" where
  "isLegacyIGPUPropSeedingEnabled = int_or_flag ''ngreenforceprops'' ''-ngreenforceprops''"

section \<open>iTGL/TGL.cpp\<close>

definition getRcsDeepSchedulerType :: "boot \<Rightarrow> int" where
  "getRcsDeepSchedulerType b = (case boot_int b ''ngreenSched'' of
     Some v \<Rightarrow> if 3 \<le> v \<and> v \<le> 5 then v else 5 | None \<Rightarrow> 5)"

definition getConfiguredLaneCountOverride :: "boot \<Rightarrow> u32" where
  "getConfiguredLaneCountOverride b = (case boot_int b ''ngreenLanes'' of
     Some v \<Rightarrow> if v = 1 \<or> v = 2 \<or> v = 4 then word_of_int v else 0 | None \<Rightarrow> 0)"

definition isWEGCoexistMode :: "boot \<Rightarrow> bool" where
  "isWEGCoexistMode = int_or_flag ''nbwegcoex'' ''-nbwegcoex''"

definition isExperimentalMonitorEnabled :: "boot \<Rightarrow> bool" where
  "isExperimentalMonitorEnabled = int_or_flag ''ngreenexp'' ''-ngreenexp''"

definition isScheduler5TraceEnabled :: "boot \<Rightarrow> bool" where
  "isScheduler5TraceEnabled = int_or_flag ''ngreenS5Trace'' ''-ngreenS5Trace''"

definition isDisplayPipeForceDisabled :: "boot \<Rightarrow> bool" where
  "isDisplayPipeForceDisabled b =
     (if (case boot_int b ''ngreendp1'' of Some v \<Rightarrow> v \<noteq> 0 | None \<Rightarrow> False) then False
      else if boot_flag b ''-ngreendp1'' then False
      else case boot_int b ''ngreendp0'' of
          Some v \<Rightarrow> v \<noteq> 0
        | None \<Rightarrow> boot_flag b ''-ngreendp0'')"

definition isV93PlaneGuardEnabled :: "boot \<Rightarrow> bool" where
  "isV93PlaneGuardEnabled = int_or_flag ''ngreenv93'' ''-ngreenv93''"

definition isReferenceF2ProbeEnabled :: "boot \<Rightarrow> bool" where
  "isReferenceF2ProbeEnabled = int_or_flag ''ngreenRefProbeF2'' ''-ngreenRefProbeF2''"

definition shouldForceFullMetalPath :: "boot \<Rightarrow> bool" where
  "shouldForceFullMetalPath = int_or_flag ''ngreenfullmtl'' ''-ngreenfullmtl''"

definition isV88ScanoutFillEnabled :: "boot \<Rightarrow> bool" where
  "isV88ScanoutFillEnabled = int_or_flag ''ngreenv88'' ''-ngreenv88''"

definition getV77KillDelayIterations :: "boot \<Rightarrow> int" where
  "getV77KillDelayIterations b = (case boot_int b ''ngreenV77DelayKill'' of
     Some delay \<Rightarrow> if delay < 0 then 0 else if delay > 60 then 60 else delay
   | None \<Rightarrow> 60)"

section \<open>The other sources\<close>

definition isRcsEngineTraceEnabled :: "boot \<Rightarrow> bool" where
  "isRcsEngineTraceEnabled b = (case boot_int b ''ngreen-rcsdeep'' of
     Some v \<Rightarrow> v \<noteq> 0
   | None \<Rightarrow> (case boot_int b ''ngreenRcsEngineTrace'' of
       Some v \<Rightarrow> v \<noteq> 0
     | None \<Rightarrow> if boot_flag b ''-ngreen-rcsdeep'' then True else boot_flag b ''-ngreenRcsEngineTrace''))"

definition getTraceSchedulerType :: "boot \<Rightarrow> int" where
  "getTraceSchedulerType b = (case boot_int b ''ngreenSched'' of
     Some v \<Rightarrow> if 3 \<le> v \<and> v \<le> 5 then v else 5 | None \<Rightarrow> 5)"

definition isTglTraceEnabled :: "boot \<Rightarrow> bool" where
  "isTglTraceEnabled = int_or_flag ''ngreenTglTrace'' ''-ngreenTglTrace''"

definition shouldDisableMetalPath :: "boot \<Rightarrow> bool" where
  "shouldDisableMetalPath b = boot_flag b ''-ngreenNoMetal''"

definition getLegacyFullMTLStage :: "boot \<Rightarrow> int" where
  "getLegacyFullMTLStage b =
     (let fullMTLStage = (if boot_flag b ''-ngreenFullMTLTest'' then 1 else 0)
      in case boot_int b ''ngreenFullMTLStage'' of
           None \<Rightarrow> fullMTLStage
         | Some v \<Rightarrow> if v < 0 then 0 else if v > 3 then 3 else v)"

definition shouldEnableSkyLightBypass :: "boot \<Rightarrow> bool" where
  "shouldEnableSkyLightBypass b = boot_flag b ''-ngreenSkylBypass''"

section \<open>Ranges\<close>

lemma kill_delay_range: "0 \<le> getV77KillDelayIterations b \<and> getV77KillDelayIterations b \<le> 60"
  by (simp add: getV77KillDelayIterations_def split: option.split)

lemma full_mtl_stage_range: "0 \<le> getLegacyFullMTLStage b \<and> getLegacyFullMTLStage b \<le> 3"
  by (simp add: getLegacyFullMTLStage_def Let_def split: option.split)

lemma lane_override_range: "getConfiguredLaneCountOverride b \<in> {0, 1, 2, 4}"
  by (auto simp: getConfiguredLaneCountOverride_def split: option.split)

lemma trace_scheduler_agree: "getTraceSchedulerType b = getRcsDeepSchedulerType b"
  by (simp add: getTraceSchedulerType_def getRcsDeepSchedulerType_def)

lemma dp1_wins:
  "boot_flag b ''-ngreendp1'' \<Longrightarrow> \<not> isDisplayPipeForceDisabled b"
  by (simp add: isDisplayPipeForceDisabled_def)

definition boot_none :: boot where
  "boot_none = \<lparr>boot_int = (\<lambda>_. None), boot_flag = (\<lambda>_. False)\<rparr>"

end
