(* ===== verification/NG_Igpu.thy ===== *)
theory NG_Igpu
  imports NG_Regs NG_OSObjects NG_BootArgs
begin

text \<open>
  Bring-up of the graphics device in \<open>NGreen.cpp\<close>: seeding of registry properties, CPU
  model and policy, stolen-memory size, the accelerator properties, the optional legacy PLL
  sequence, the mapping of the register BAR and the hooked PCI configuration reads. What
  \<open>DeviceInfo\<close>, \<open>WIOKit\<close> and the CPU return are parameters (record \<open>pp_env\<close>). Allocation
  of kernel objects is taken to succeed.
\<close>

section \<open>State and environment\<close>

record ngreen = mmio +
  ioregs :: ioreg
  catalogue :: "osdict list"
  cpuModel :: u32
  deviceId :: u32
  pciRevision :: u32
  request3D :: bool
  isRealTGL :: bool
  tryGuC :: bool
  gateExternalDisplays :: bool
  stolen_size :: u32
  configRouted :: bool
  csValidateRouted :: bool
  republished :: "nat list"
  iGPU :: "nat option"

record pp_env =
  devInfo :: bool
  videoBuiltin :: "nat option"
  cpuid_eax :: u32
  ggc_config16 :: u16
  config_device_id :: u32
  config_revision :: u32
  sconf_mem :: "u8 list"
  bar0_len :: "u64 option"
  dt_root :: "nat option"
  cs_route_ok :: bool
  gIOCatalogue :: bool

datatype outcome = Done | NoDeviceInfo | Panicked | NullDeref

section \<open>Property seeding\<close>

definition builtin2 :: "u8 list" where "builtin2 = [0x00, 0x00, 0x49, 0x9A]"
definition builtin3 :: "u8 list" where "builtin3 = [0x49, 0x9A, 0x00, 0x00]"

definition shouldForceRPLBringupPlatform :: "osdict option \<Rightarrow> bool" where
  "shouldForceRPLBringupPlatform entry =
     (case (case entry of None \<Rightarrow> None | Some d \<Rightarrow> getObject d ''AAPL,ig-platform-id'') of
        Some (OData bs) \<Rightarrow> if length bs < 4 then True else le32 bs = 0x8A5C0002
      | _ \<Rightarrow> True)"

definition igpu_paths :: "string list" where
  "igpu_paths = [''IOService:/AppleACPIPlatformExpert/PC00@0/IGPU@2'',
     ''IOService:/AppleACPIPlatformExpert/PC00@0/GFX0@2'',
     ''IOService:/AppleACPIPlatformExpert/PCI0@0/IGPU@2'',
     ''IOService:/AppleACPIPlatformExpert/PCI0@0/GFX0@2'']"

primrec autoSeedLoop :: "string list \<Rightarrow> ioreg \<Rightarrow> bool" where
  "autoSeedLoop [] r = False"
| "autoSeedLoop (p # ps) r = (case resolve r p of
     None \<Rightarrow> autoSeedLoop ps r
   | Some e \<Rightarrow> if shouldForceRPLBringupPlatform (Some (props r e)) \<or> \<not> hasKey (props r e) ''device-id''
       then True else autoSeedLoop ps r)"

definition shouldAutoSeedIGPUPropertiesEarly :: "ioreg \<Rightarrow> bool" where
  "shouldAutoSeedIGPUPropertiesEarly r = autoSeedLoop igpu_paths r"

definition seedMissing :: "string \<Rightarrow> osobj \<Rightarrow> bool \<times> osdict \<Rightarrow> bool \<times> osdict" where
  "seedMissing k v c = (if hasKey (snd c) k then c else (True, setObject k v (snd c)))"

definition seed_values :: "u8 list \<Rightarrow> (string \<times> osobj) list" where
  "seed_values sconf =
    [(''AAPL,ig-platform-id'', OData builtin2),
     (''device-id'', OData builtin3),
     (''built-in'', OData [0x00]),
     (''AAPL,slot-name'', OData (cstring_bytes ''built-in'')),
     (''hda-gfx'', OData (cstring_bytes ''onboard-1'')),
     (''model'', OData (cstring_bytes ''Intel Iris Xe Graphics'')),
     (''framebuffer-unifiedmem'', OData [0x00, 0x00, 0x00, 0x60]),
     (''saved-config'', OData sconf)]"

primrec seedAll :: "(string \<times> osobj) list \<Rightarrow> bool \<times> osdict \<Rightarrow> bool \<times> osdict" where
  "seedAll [] c = c"
| "seedAll (kv # kvs) c = seedAll kvs (seedMissing (fst kv) (snd kv) c)"

definition seedDict :: "u8 list \<Rightarrow> osdict \<Rightarrow> bool \<times> osdict" where
  "seedDict sconf d = seedAll (seed_values sconf) (False, d)"

definition seedIGPUPropertiesOnEntry :: "u8 list \<Rightarrow> nat option \<Rightarrow> ioreg \<Rightarrow> bool \<times> ioreg" where
  "seedIGPUPropertiesOnEntry sconf entry r = (case entry of
     None \<Rightarrow> (False, r)
   | Some e \<Rightarrow> (let (changed, d) = seedDict sconf (props r e)
       in (changed, r\<lparr>props := (props r)(e := d)\<rparr>)))"

primrec seedEarlyLoop :: "u8 list \<Rightarrow> string list \<Rightarrow> ioreg \<Rightarrow> ioreg" where
  "seedEarlyLoop sconf [] r = r"
| "seedEarlyLoop sconf (p # ps) r = (case resolve r p of
     None \<Rightarrow> seedEarlyLoop sconf ps r
   | Some e \<Rightarrow> seedEarlyLoop sconf ps (snd (seedIGPUPropertiesOnEntry sconf (Some e) r)))"

definition seedIGPUPropertiesEarly :: "u8 list \<Rightarrow> ioreg \<Rightarrow> ioreg" where
  "seedIGPUPropertiesEarly sconf r = seedEarlyLoop sconf igpu_paths r"

section \<open>The framebuffer personality\<close>

definition tglFramebufferPersonality :: osdict where
  "tglFramebufferPersonality =
    [(''CFBundleIdentifier'', OString ''com.xxxxx.driver.AppleIntelTGLGraphicsFramebuffer''),
     (''IOClass'', OString ''AppleIntelFramebufferController''),
     (''IOMatchCategory'', OString ''IOFramebuffer''),
     (''IOProviderClass'', OString ''IOPCIDevice''),
     (''IOPCIClassMatch'', OString ''0x03000000&0xff000000''),
     (''IOPCIPrimaryMatch'', OString ''0x9A498086''),
     (''IOSourceVersion'', OString ''0.0.0.0.0''),
     (''IOProbeScore'', ONumber 80000)]"

text \<open>With a driver catalogue the personality is added to it and the device, if there is one, registered
  again (\<open>republished\<close>); without one nothing happens.\<close>

definition publishTglFramebufferPersonality :: "bool \<Rightarrow> nat option \<Rightarrow> ('a ngreen_scheme, unit) state" where
  "publishTglFramebufferPersonality hasCatalogue gpu =
     whenM hasCatalogue (do {
       modify (\<lambda>s. s\<lparr>catalogue := catalogue s @ [tglFramebufferPersonality]\<rparr>);
       (case gpu of None \<Rightarrow> ret () | Some g \<Rightarrow> modify (\<lambda>s. s\<lparr>republished := republished s @ [g]\<rparr>))
     })"

section \<open>CPU model and stolen memory\<close>

definition cpu_model :: "u32 \<Rightarrow> u32" where
  "cpu_model eax =
     (let family = drop_bit 8 eax AND 0xF;
          model = drop_bit 4 eax AND 0xF;
          extModel = drop_bit 16 eax AND 0xF
      in if family = 0x6 then model OR push_bit 4 extModel else model)"

definition stolen_size_of :: "u32 \<Rightarrow> u16 \<Rightarrow> u32" where
  "stolen_size_of prev ggc =
     (let gms = (ucast (drop_bit 8 ggc) :: u32);
          sz = (if gms < 0x10 then gms * 32
                else if gms = 0x20 \<or> gms = 0x30 \<or> gms = 0x40 then gms * 32
                else if 0xF0 \<le> gms \<and> gms \<le> 0xFE then ((gms AND 0x0F) + 1) * 4
                else prev);
          sz' = (if sz < 128 then 128 else sz)
      in sz' * (1024 * 1024))"

section \<open>MMIO mapping and legacy PLL\<close>

definition setRMMIOIfNecessary :: "u64 option \<Rightarrow> ('a ngreen_scheme, bool) state" where
  "setRMMIOIfNecessary bar0 = do {
     s \<leftarrow> State_Monad.get;
     if iGPU s = None then ret True
     else if \<not> rmmio s \<or> rmmio_len s = 0 then (case bar0 of
         None \<Rightarrow> do { modify (\<lambda>s. s\<lparr>rmmio := False\<rparr>); ret False }
       | Some len \<Rightarrow> do { modify (\<lambda>s. s\<lparr>rmmio := True, rmmio_len := len, rmmioPtr := True\<rparr>); ret True })
     else ret True
   }"

definition GEN9_PG_ENABLE :: u64 where "GEN9_PG_ENABLE = 0x46020"
definition LEGACY_BXT_DE_PLL_CTL :: u32 where "LEGACY_BXT_DE_PLL_CTL = 0x6d000"
definition BXT_DE_PLL_ENABLE :: u64 where "BXT_DE_PLL_ENABLE = 0x46070"
definition BXT_DE_PLL_PLL_ENABLE :: u32 where "BXT_DE_PLL_PLL_ENABLE = push_bit 31 1"
definition BXT_DE_PLL_LOCK :: u32 where "BXT_DE_PLL_LOCK = push_bit 30 1"

primrec pllLockLoop :: "nat \<Rightarrow> ('a mmio_scheme, unit) state" where
  "pllLockLoop 0 = ret ()"
| "pllLockLoop (Suc timeout) = do {
     v \<leftarrow> readReg32 BXT_DE_PLL_ENABLE;
     if v AND BXT_DE_PLL_LOCK \<noteq> 0 then ret ()
     else do { IODelay 1; pllLockLoop timeout }
   }"

definition legacyPllBringup :: "('a mmio_scheme, unit) state" where
  "legacyPllBringup = do {
     writeReg32 GEN9_PG_ENABLE 0;
     IODelay 50;
     writeReg32 BXT_DE_PLL_ENABLE 0;
     IODelay 20;
     intel_de_rmw LEGACY_BXT_DE_PLL_CTL 0xFF 60;
     writeReg32 BXT_DE_PLL_ENABLE BXT_DE_PLL_PLL_ENABLE;
     pllLockLoop 2000
   }"

section \<open>processPatcher\<close>

definition setProp :: "nat \<Rightarrow> string \<Rightarrow> osobj \<Rightarrow> ('a ngreen_scheme, unit) state" where
  "setProp e k v = modify (\<lambda>s. s\<lparr>ioregs := setProperty e k v (ioregs s)\<rparr>)"

definition kHwGvaId :: "u8 list" where
  "kHwGvaId = cstring_bytes ''Mac-7BA5B2D9E42DDD94''"

definition dyld_processPatcher :: "pp_env \<Rightarrow> ('a ngreen_scheme, unit) state" where
  "dyld_processPatcher env = do {
     (case dt_root env of None \<Rightarrow> ret () | Some e \<Rightarrow> setProp e ''hwgva-id'' (OData kHwGvaId));
     whenM (cs_route_ok env) (modify (\<lambda>s. s\<lparr>csValidateRouted := True\<rparr>))
   }"

definition processPatcher_seed :: "boot \<Rightarrow> pp_env \<Rightarrow> ('a ngreen_scheme, bool) state" where
  "processPatcher_seed b env = do {
     r \<leftarrow> gets ioregs;
     let autoSeedIGPUProps = shouldAutoSeedIGPUPropertiesEarly r;
     let seedIGPUProps = (isLegacyIGPUPropSeedingEnabled b \<or> autoSeedIGPUProps);
     whenM seedIGPUProps (modify (\<lambda>s. s\<lparr>ioregs := seedIGPUPropertiesEarly (sconf_mem env) (ioregs s)\<rparr>));
     ret seedIGPUProps
   }"

definition processPatcher_props :: "pp_env \<Rightarrow> nat \<Rightarrow> bool \<Rightarrow> ('a ngreen_scheme, unit) state" where
  "processPatcher_props env gpu seedIGPUProps = do {
     modify (\<lambda>s. s\<lparr>ioregs := snd (seedIGPUPropertiesOnEntry (sconf_mem env) (Some gpu) (ioregs s))\<rparr>);
     whenM seedIGPUProps (do {
       setProp gpu ''built-in'' (OData [0x00]);
       setProp gpu ''AAPL,slot-name'' (OData (cstring_bytes ''built-in''));
       setProp gpu ''hda-gfx'' (OData (cstring_bytes ''onboard-1''));
       setProp gpu ''model'' (OData (cstring_bytes ''Intel Iris Xe Graphics''));
       prop \<leftarrow> gets (\<lambda>s. getObject (props (ioregs s) gpu) ''saved-config'');
       whenM (case prop of Some (OData _) \<Rightarrow> False | _ \<Rightarrow> True)
         (setProp gpu ''saved-config'' (OData (sconf_mem env)))
     })
   }"

definition processPatcher_policy :: "boot \<Rightarrow> pp_env \<Rightarrow> nat \<Rightarrow> ('a ngreen_scheme, unit) state" where
  "processPatcher_policy b env gpu = do {
     modify (\<lambda>s. s\<lparr>deviceId := config_device_id env, pciRevision := config_revision env,
       cpuModel := cpu_model (cpuid_eax env)\<rparr>);
     modify (\<lambda>s. s\<lparr>request3D := hasAllow3DBootArg b, isRealTGL := True, tryGuC := True,
       gateExternalDisplays := shouldDisableExternalOutputs b\<rparr>);
     s \<leftarrow> State_Monad.get;
     setProp gpu ''NGreenAllow3DRequested'' (OBool (request3D s));
     setProp gpu ''NGreenTryGuC'' (OBool (tryGuC s));
     setProp gpu ''NGreenGateExternal'' (OBool (gateExternalDisplays s));
     modify (\<lambda>s. s\<lparr>stolen_size := stolen_size_of (stolen_size s) (ggc_config16 env)\<rparr>)
   }"

definition processPatcher_accel :: "pp_env \<Rightarrow> nat \<Rightarrow> bool \<Rightarrow> ('a ngreen_scheme, unit) state" where
  "processPatcher_accel env gpu seedIGPUProps = do {
     whenM seedIGPUProps (setProp gpu ''framebuffer-unifiedmem'' (OData [0x00, 0x00, 0x00, 0x60]));
     publishTglFramebufferPersonality (gIOCatalogue env) (Some gpu);
     setProp gpu ''IOPCIAccelerationGpu'' (OData [0x01]);
     setProp gpu ''MetalPluginName'' (OString ''AppleIntelTGLGraphics'');
     setProp gpu ''IOAccelScaleFactorDict'' (OString ''IOAccelScaleFactorDict'');
     setProp gpu ''IOAccelDeviceShaderBinary'' (OString ''IOAccelTGLShaderBinary'');
     setProp gpu ''IOPCIMatch'' (OString ''0x9A498086'');
     setProp gpu ''IOAccelDriverConnectCategory'' (OString ''IOAccelGPU'');
     setProp gpu ''IOAccelCaps'' (OData [0x00, 0x00, 0x10, 0x00])
   }"

definition processPatcher_pll :: "boot \<Rightarrow> pp_env \<Rightarrow> ('a ngreen_scheme, outcome) state" where
  "processPatcher_pll b env =
     (if shouldEnableLegacyPllBringup b then do {
        mapped \<leftarrow> setRMMIOIfNecessary (bar0_len env);
        if \<not> mapped then ret NullDeref else do { legacyPllBringup; ret Done }
      } else ret Done)"

definition processPatcher :: "boot \<Rightarrow> pp_env \<Rightarrow> ('a ngreen_scheme, outcome) state" where
  "processPatcher b env = do {
     whenM (\<not> boot_flag b ''-nbdyldoff'') (dyld_processPatcher env);
     seedIGPUProps \<leftarrow> processPatcher_seed b env;
     if \<not> devInfo env then ret NoDeviceInfo
     else do {
       modify (\<lambda>s. s\<lparr>iGPU := videoBuiltin env\<rparr>);
       case videoBuiltin env of
         None \<Rightarrow> ret Panicked
       | Some gpu \<Rightarrow> do {
           processPatcher_props env gpu seedIGPUProps;
           processPatcher_policy b env gpu;
           processPatcher_accel env gpu seedIGPUProps;
           out \<leftarrow> processPatcher_pll b env;
           if out \<noteq> Done then ret out
           else do { modify (\<lambda>s. s\<lparr>configRouted := True\<rparr>); ret Done }
         }
     }
   }"

section \<open>Hooked configuration reads\<close>

text \<open>
  \<open>org\<close> is the original accessor (\<open>None\<close> while it is not routed), \<open>name\<close> and \<open>device\<close> what
  \<open>getName\<close> and \<open>getOSDataValue(service, "device-id")\<close> return for the service.
\<close>

definition kIOPCIConfigVendorID :: u8 where "kIOPCIConfigVendorID = 0x00"
definition kIOPCIConfigDeviceID :: u8 where "kIOPCIConfigDeviceID = 0x02"

definition isIGPUName :: "string option \<Rightarrow> bool" where
  "isIGPUName name = (case name of None \<Rightarrow> False | Some n \<Rightarrow> take 4 n = ''IGPU'')"

definition configRead16 ::
  "(u32 \<Rightarrow> u8 \<Rightarrow> u16) option \<Rightarrow> bool \<Rightarrow> string option \<Rightarrow> u32 option \<Rightarrow> u32 \<Rightarrow> u8 \<Rightarrow> u16" where
  "configRead16 org service name device space offset = (case org of
     None \<Rightarrow> 0
   | Some f \<Rightarrow> (let result = f space offset
       in if offset = kIOPCIConfigDeviceID \<and> service \<and> isIGPUName name then
            (case device of
               Some d \<Rightarrow> if d \<noteq> ucast result then ucast d else result
             | None \<Rightarrow> result)
          else result))"

definition configRead32 ::
  "(u32 \<Rightarrow> u8 \<Rightarrow> u32) option \<Rightarrow> bool \<Rightarrow> string option \<Rightarrow> u32 option \<Rightarrow> u32 \<Rightarrow> u8 \<Rightarrow> u32" where
  "configRead32 org service name device space offset = (case org of
     None \<Rightarrow> 0
   | Some f \<Rightarrow> (let result = f space offset
       in if (offset = kIOPCIConfigDeviceID \<or> offset = kIOPCIConfigVendorID) \<and> service \<and> isIGPUName name then
            (case device of
               Some d \<Rightarrow> if d \<noteq> result AND 0xFFFF then (result AND 0xFFFF) OR push_bit 16 d else result
             | None \<Rightarrow> result)
          else result))"

section \<open>Seeding: lemmas\<close>

lemma seedAll_lookup:
  "getObject (snd (seedAll kvs c)) k =
     (case getObject (snd c) k of Some v \<Rightarrow> Some v | None \<Rightarrow> map_of kvs k)"
proof (induction kvs arbitrary: c)
  case Nil
  then show ?case by (simp split: option.split)
next
  case (Cons kv kvs)
  show ?case
    unfolding seedAll.simps Cons.IH
    by (cases kv) (auto simp: seedMissing_def hasKey_def split: option.split)
qed

lemma seedAll_changed:
  "fst (seedAll kvs c) \<longleftrightarrow> fst c \<or> (\<exists>k \<in> fst ` set kvs. \<not> hasKey (snd c) k)"
proof (induction kvs arbitrary: c)
  case Nil
  then show ?case by simp
next
  case (Cons kv kvs)
  show ?case
    unfolding seedAll.simps Cons.IH by (auto simp: seedMissing_def)
qed

lemma seedAll_unchanged:
  "(\<And>k. k \<in> fst ` set kvs \<Longrightarrow> hasKey (snd c) k) \<Longrightarrow> seedAll kvs c = c"
  by (induction kvs arbitrary: c) (auto simp: seedMissing_def)

lemma seedDict_has:
  assumes "k \<in> fst ` set (seed_values sconf)"
  shows "hasKey (snd (seedDict sconf d)) k"
proof -
  have "map_of (seed_values sconf) k \<noteq> None"
    using assms by (metis domIff dom_map_of_conv_image_fst)
  then show ?thesis
    by (auto simp: hasKey_def seedDict_def seedAll_lookup split: option.split)
qed

text \<open>Reading a property through the stages that write others.\<close>

definition igpu_prop :: "nat \<Rightarrow> string \<Rightarrow> 'a ngreen_scheme \<Rightarrow> osobj option" where
  "igpu_prop e k s = getObject (props (ioregs s) e) k"

lemma exec_setProp [simp]: "exec (setProp e k v) s = s\<lparr>ioregs := setProperty e k v (ioregs s)\<rparr>"
  by (simp add: setProp_def)

text \<open>The stages after the policy stage leave the policy fields alone.\<close>

definition policy_same :: "'a ngreen_scheme \<Rightarrow> 'a ngreen_scheme \<Rightarrow> bool" where
  "policy_same s t \<longleftrightarrow> isRealTGL t = isRealTGL s \<and> tryGuC t = tryGuC s
     \<and> gateExternalDisplays t = gateExternalDisplays s \<and> request3D t = request3D s
     \<and> stolen_size t = stolen_size s"

interpretation pol: step_order policy_same
  by unfold_locales (auto simp: policy_same_def)

lemma policy_same_bus: "state_io_rel bus_only m \<Longrightarrow> state_io_rel policy_same m"
  unfolding state_io_rel_exec
proof (rule allI)
  fix s assume "\<forall>s. bus_only s (exec m s)"
  then obtain h where "exec m s = s\<lparr>hist := h\<rparr>" by (auto simp: bus_only_def)
  then show "policy_same s (exec m s)" by (simp add: policy_same_def)
qed

lemma policy_same_accel: "state_io_rel policy_same (processPatcher_accel env gpu sd)"
  unfolding processPatcher_accel_def publishTglFramebufferPersonality_def setProp_def
  by (intro pol.io_rules pol.io_modify) (simp_all add: policy_same_def)

lemma bo_pllLockLoop: "state_io_rel bus_only (pllLockLoop n)"
  by (induction n) (auto intro!: bo_rules)

lemma bo_legacyPllBringup: "state_io_rel bus_only legacyPllBringup"
  unfolding legacyPllBringup_def by (intro bo_rules bo_pllLockLoop)

lemma policy_same_pll: "state_io_rel policy_same (processPatcher_pll b env)"
  unfolding processPatcher_pll_def setRMMIOIfNecessary_def
  by (intro pol.io_rules pol.io_modify policy_same_bus [OF bo_legacyPllBringup])
     (simp_all add: policy_same_def)

section \<open>Stolen memory: lemmas\<close>

definition stolen_mb :: "nat \<Rightarrow> nat" where
  "stolen_mb gms = (if gms < 16 then gms * 32
     else if gms = 32 \<or> gms = 48 \<or> gms = 64 then gms * 32
     else if 240 \<le> gms \<and> gms \<le> 254 then (gms mod 16 + 1) * 4
     else 0)"

lemma stolen_mb_bound: "stolen_mb gms \<le> 2048"
  by (auto simp: stolen_mb_def intro: order_trans [OF mult_le_mono1 [of _ 16]])

lemma unat_gms: "unat (ucast (drop_bit 8 (ggc :: u16)) :: u32) = unat ggc div 256"
proof -
  have "unat ggc div 256 < 2 ^ 16"
    using unsigned_less [of ggc] by (auto intro: le_less_trans [OF div_le_dividend])
  then show ?thesis
    by (simp add: unsigned_ucast_eq unsigned_take_bit_eq unsigned_drop_bit_eq drop_bit_eq_div
        take_bit_nat_eq_self unat_div)
qed

lemma unat_stolen_mb:
  fixes g :: u32
  assumes "unat g \<le> 255"
  shows "unat (if g < 0x10 then g * 32
      else if g = 0x20 \<or> g = 0x30 \<or> g = 0x40 then g * 32
      else if 0xF0 \<le> g \<and> g \<le> 0xFE then ((g AND 0x0F) + 1) * 4 else 0) = stolen_mb (unat g)"
proof -
  have m: "unat (g AND 0x0F) = unat g mod 16"
    by (rule unat_and_15)
  have mul: "unat (g * 32) = unat g * 32"
    using assms by (simp add: unat_word_ariths)
  have "unat ((g AND 0x0F) + 1) = unat g mod 16 + 1"
    using m by (simp add: unat_word_ariths)
  then have low: "unat (((g AND 0x0F) + 1) * 4) = (unat g mod 16 + 1) * 4"
    by (subst unat_word_ariths) simp
  show ?thesis
    using mul low by (simp add: stolen_mb_def word_less_nat_alt word_le_nat_alt word_unat_eq_iff)
qed

section \<open>Properties\<close>

text \<open>The stolen-memory size computed from the graphics control register is exactly the
  size the field encodes, in megabytes and never below 128, and the 32-bit computation does
  not wrap for any value of the register. (The field starts out zero.)\<close>

theorem stolen_size_exact:
  "unat (stolen_size_of 0 ggc) = 1048576 * max 128 (stolen_mb (unat ggc div 256))
     \<and> unat (stolen_size_of 0 ggc) \<le> 2 ^ 31"
proof -
  define g where "g = (ucast (drop_bit 8 ggc) :: u32)"
  have n: "unat g = unat ggc div 256"
    by (simp only: g_def unat_gms)
  then have "unat g \<le> 255"
  proof -
    have "unat ggc < 2 ^ LENGTH(16)" by (rule unsigned_less)
    then show ?thesis using n by simp
  qed
  define sz where "sz = (if g < 0x10 then g * 32
      else if g = 0x20 \<or> g = 0x30 \<or> g = 0x40 then g * 32
      else if 0xF0 \<le> g \<and> g \<le> 0xFE then ((g AND 0x0F) + 1) * 4 else 0)"
  have sz: "unat sz = stolen_mb (unat g)"
    unfolding sz_def by (rule unat_stolen_mb [OF \<open>unat g \<le> 255\<close>])
  define sz' where "sz' = (if sz < 128 then 128 else sz)"
  have sz': "unat sz' = max 128 (stolen_mb (unat g))"
    using sz by (simp add: sz'_def word_less_nat_alt)
  then have le: "unat sz' \<le> 2048"
    using stolen_mb_bound [of "unat g"] by simp
  have "stolen_size_of 0 ggc = sz' * (1024 * 1024)"
    unfolding stolen_size_of_def g_def [symmetric] Let_def sz'_def sz_def by simp
  then have "unat (stolen_size_of 0 ggc) = 1048576 * unat sz'"
    using le by (simp add: unat_word_ariths)
  then show ?thesis using sz' le n by simp
qed

text \<open>C34: Seeding the graphics device's properties fills in each of the eight properties that
  is missing, leaves every property that is present as it was, adds no other key, and reports
  a change exactly when one was missing.\<close>

theorem seed_fills_only_missing:
  "(\<forall>k. getObject (snd (seedDict sconf d)) k =
      (case getObject d k of Some v \<Rightarrow> Some v | None \<Rightarrow> map_of (seed_values sconf) k))
   \<and> (fst (seedDict sconf d) \<longleftrightarrow> (\<exists>k \<in> fst ` set (seed_values sconf). \<not> hasKey d k))"
  by (simp add: seedDict_def seedAll_lookup seedAll_changed)

text \<open>Seeding is idempotent: a second pass over the same entry changes nothing and
  reports no change.\<close>

theorem seed_idempotent:
  "seedDict sconf (snd (seedDict sconf d)) = (False, snd (seedDict sconf d))"
proof -
  have "seedAll (seed_values sconf) (False, snd (seedDict sconf d)) = (False, snd (seedDict sconf d))"
    by (rule seedAll_unchanged) (simp add: seedDict_has)
  then show ?thesis by (simp add: seedDict_def [of sconf "snd (seedDict sconf d)"])
qed

text \<open>When the patcher stage completes, the plugin treats the machine as real Tiger Lake
  and requests GuC loading whatever the CPU identification says, and gates external displays
  exactly when the boot argument asks for it.\<close>

lemma processPatcher_policy_fixed:
  assumes "result (processPatcher b env) s = Done"
  shows "isRealTGL (exec (processPatcher b env) s) \<and> tryGuC (exec (processPatcher b env) s)
    \<and> gateExternalDisplays (exec (processPatcher b env) s) = shouldDisableExternalOutputs b"
proof -
  define s1 where "s1 = exec (processPatcher_seed b env) (exec (whenM (\<not> boot_flag b ''-nbdyldoff'') (dyld_processPatcher env)) s)"
  define sd where "sd = result (processPatcher_seed b env) (exec (whenM (\<not> boot_flag b ''-nbdyldoff'') (dyld_processPatcher env)) s)"
  obtain gpu where gpu: "devInfo env" "videoBuiltin env = Some gpu"
    using assms by (cases "videoBuiltin env") (simp_all add: processPatcher_def del: exec_whenM split: if_split_asm)
  define s2 where "s2 = exec (processPatcher_policy b env gpu) (exec (processPatcher_props env gpu sd) (s1\<lparr>iGPU := Some gpu\<rparr>))"
  define s3 where "s3 = exec (processPatcher_pll b env) (exec (processPatcher_accel env gpu sd) s2)"
  have ok: "result (processPatcher_pll b env) (exec (processPatcher_accel env gpu sd) s2) = Done"
    using assms gpu
    by (simp add: processPatcher_def s1_def s2_def sd_def del: exec_whenM split: if_split_asm)
  have fin: "exec (processPatcher b env) s = s3\<lparr>configRouted := True\<rparr>"
    using gpu ok by (simp add: processPatcher_def s1_def s2_def s3_def sd_def del: exec_whenM)
  have p2: "isRealTGL s2 \<and> tryGuC s2 \<and> gateExternalDisplays s2 = shouldDisableExternalOutputs b"
    unfolding s2_def processPatcher_policy_def by simp
  have "policy_same s2 (exec (processPatcher_accel env gpu sd) s2)"
    using policy_same_accel by (auto simp: state_io_rel_exec)
  moreover have "policy_same (exec (processPatcher_accel env gpu sd) s2) s3"
    unfolding s3_def using policy_same_pll by (auto simp: state_io_rel_exec)
  ultimately have "policy_same s2 s3"
    by (rule pol.step_trans)
  then show ?thesis using p2 by (simp add: fin policy_same_def)
qed

definition sample_env :: pp_env where
  "sample_env = \<lparr>devInfo = True, videoBuiltin = Some 0, cpuid_eax = 0x806C1, ggc_config16 = 0x0200,
     config_device_id = 0x9A49, config_revision = 1, sconf_mem = [], bar0_len = Some 0x1000000,
     dt_root = None, cs_route_ok = False, gIOCatalogue = True\<rparr>"

definition sample_ngreen :: ngreen where
  "sample_ngreen = mmio.extend (regfile_bus (\<lambda>_. 0))
     (ngreen.fields \<lparr>resolve = (\<lambda>_. None), props = (\<lambda>_. [])\<rparr> [] 0 0 0 False False False False 0 False False [] None)"

lemma sample_patcher_done: "result (processPatcher boot_none sample_env) s = Done"
  by (simp add: processPatcher_def sample_env_def boot_none_def processPatcher_pll_def
      shouldEnableLegacyPllBringup_def int_or_flag_def)

end
