(* ===== verification/NG_KernelMem.thy ===== *)
theory NG_KernelMem
  imports NG_Igpu
begin

text \<open>
  Kernel memory as the plugin sees it through \<open>getMember\<close>: bytes at 64-bit addresses, read and
  written little endian. The objects belong to Apple's drivers; only the members the plugin
  reads or writes are given meaning.
\<close>

record kstate = ngreen +
  kmem :: "u64 \<Rightarrow> u8"

type_synonym memory = "u64 \<Rightarrow> u8"

definition rd32 :: "memory \<Rightarrow> u64 \<Rightarrow> u32" where
  "rd32 m a = ucast (m a) OR push_bit 8 (ucast (m (a + 1))) OR push_bit 16 (ucast (m (a + 2)))
     OR push_bit 24 (ucast (m (a + 3)))"

definition rd64 :: "memory \<Rightarrow> u64 \<Rightarrow> u64" where
  "rd64 m a = ucast (rd32 m a) OR push_bit 32 (ucast (rd32 m (a + 4)))"

definition wr8 :: "u64 \<Rightarrow> u8 \<Rightarrow> memory \<Rightarrow> memory" where
  "wr8 a v m = m(a := v)"

definition wr32 :: "u64 \<Rightarrow> u32 \<Rightarrow> memory \<Rightarrow> memory" where
  "wr32 a v m = m(a := ucast v, a + 1 := ucast (drop_bit 8 v), a + 2 := ucast (drop_bit 16 v),
     a + 3 := ucast (drop_bit 24 v))"

definition wr64 :: "u64 \<Rightarrow> u64 \<Rightarrow> memory \<Rightarrow> memory" where
  "wr64 a v m = wr32 (a + 4) (ucast (drop_bit 32 v)) (wr32 a (ucast v) m)"

lemma bytes_u32:
  fixes v :: u32
  shows "ucast (ucast v :: u8) OR push_bit 8 (ucast (ucast (drop_bit 8 v) :: u8))
     OR push_bit 16 (ucast (ucast (drop_bit 16 v) :: u8)) OR push_bit 24 (ucast (ucast (drop_bit 24 v) :: u8)) = v"
proof (rule bit_word_eqI)
  fix n assume n: "n < LENGTH(32)"
  consider "n < 8" | "8 \<le> n" "n < 16" | "16 \<le> n" "n < 24" | "24 \<le> n" "n < 32"
    using n by force
  then show "bit (ucast (ucast v :: u8) OR push_bit 8 (ucast (ucast (drop_bit 8 v) :: u8))
     OR push_bit 16 (ucast (ucast (drop_bit 16 v) :: u8)) OR push_bit 24 (ucast (ucast (drop_bit 24 v) :: u8)) :: u32) n
     = bit v n"
    by cases (auto simp: bit_simps)
qed

lemma rd32_wr32 [simp]: "rd32 (wr32 a v m) a = v"
  unfolding rd32_def wr32_def using bytes_u32 [of v] by simp

text \<open>Members of an object that do not overlap.\<close>

definition apart4 :: "u64 \<Rightarrow> u64 \<Rightarrow> bool" where
  "apart4 x y \<longleftrightarrow> (\<forall>i \<in> {0, 1, 2, 3}. \<forall>j \<in> {0, 1, 2, 3}. x + i \<noteq> y + j)"

lemma rd32_wr32_apart: "apart4 x y \<Longrightarrow> rd32 (wr32 (p + y) v m) (p + x) = rd32 m (p + x)"
  by (simp add: apart4_def rd32_def wr32_def add.assoc)

lemma rd32_wr64_apart:
  "apart4 x y \<Longrightarrow> apart4 x (y + 4) \<Longrightarrow> rd32 (wr64 (p + y) v m) (p + x) = rd32 m (p + x)"
  using rd32_wr32_apart [of x "y + 4" p] by (simp add: wr64_def rd32_wr32_apart add.assoc)

lemma rd64_wr32_apart:
  "apart4 x y \<Longrightarrow> apart4 (x + 4) y \<Longrightarrow> rd64 (wr32 (p + y) v m) (p + x) = rd64 m (p + x)"
  using rd32_wr32_apart [of "x + 4" y p] by (simp add: rd64_def rd32_wr32_apart add.assoc)

lemma halves_u64:
  fixes v :: u64
  shows "ucast (ucast v :: u32) OR push_bit 32 (ucast (ucast (drop_bit 32 v) :: u32)) = v"
proof (rule bit_word_eqI)
  fix n assume "n < LENGTH(64)"
  then consider "n < 32" | "32 \<le> n" "n < 64" by force
  then show "bit (ucast (ucast v :: u32) OR push_bit 32 (ucast (ucast (drop_bit 32 v) :: u32)) :: u64) n = bit v n"
    by cases (auto simp: bit_simps)
qed

lemma rd64_wr64 [simp]: "rd64 (wr64 a v m) a = v"
proof -
  have "rd32 (wr32 (a + 4) w (wr32 a u m)) (a + 0) = rd32 (wr32 a u m) (a + 0)" for u w :: u32
    by (rule rd32_wr32_apart) (simp add: apart4_def)
  then show ?thesis using halves_u64 [of v] by (simp add: rd64_def wr64_def)
qed

lemma wr8_other: "b \<noteq> a \<Longrightarrow> wr8 a v m b = m b"
  by (simp add: wr8_def)

end
