(* ===== verification/NG_Trace.thy ===== *)
theory NG_Trace
  imports NG_KernelMem
begin

text \<open>
  The diagnostic modules \<open>iTGL/TglGpuBringup.cpp\<close> and \<open>iTGL/RcsEngineTrace.cpp\<close>: the bring-up
  state derived from the registers, the register transition latch, the dumps and the memory
  scans. A dump is modelled by the registers it loads, in textual order; a memory scan by the
  lines it reports (a tag and the numbers printed).
\<close>

section \<open>Reading without using the value\<close>

definition readRegs :: "u64 list \<Rightarrow> ('a mmio_scheme, unit) state" where
  "readRegs rs = forM rs (\<lambda>r. do { _ \<leftarrow> readReg32 r; ret () })"

lemma em_readRegs: "transparent P \<Longrightarrow> state_io_rel (emits P) (readRegs rs)"
  unfolding readRegs_def by (intro em.io_rules em_readReg32)

lemma bo_readRegs: "state_io_rel bus_only (readRegs rs)"
  unfolding readRegs_def by (intro bo.io_rules bo_readReg32)

lemma surf_readRegs: "state_io_rel (keeps (surf_inv_at len)) (readRegs rs)"
  unfolding readRegs_def by (intro surf_rules)

section \<open>TglGpuBringup.cpp\<close>

record TglGpuBringupState =
  isTgl9A49 :: bool
  allow3d :: bool
  schedulerType :: int
  mmioReady :: bool
  forceWakeOk :: bool
  gtPowered :: bool
  topologyOk :: bool
  gucRequested :: bool
  gucWopcmProgrammed :: bool
  gucFirmwareLoaded :: bool
  gucBooted :: bool
  gucInterruptsEnabled :: bool
  gucSubmissionReady :: bool
  rcsResetSeen :: bool
  rcsRingStarted :: bool
  rcsContextReady :: bool
  rcsInterruptsEnabled :: bool
  rcsFirstSubmitSeen :: bool
  rcsFirstCompletionSeen :: bool
  lastGucStatus :: u32
  lastRcsCtl :: u32
  lastRcsHead :: u32
  lastRcsTail :: u32
  lastErrorGen6 :: u32

record RcsEngineTransitionState =
  tr_ringStart :: u32
  tr_ringCtl :: u32
  tr_ringTail :: u32
  tr_acthd :: u32
  tr_contextStatusPtr :: u32
  tr_errorGen6 :: u32
  tr_initialized :: bool
  firstCsbNonZeroSeen :: bool
  firstErrorNonZeroSeen :: bool

record tstate = kstate +
  gTglGpuBringupState :: TglGpuBringupState
  gRcsTransitionState :: RcsEngineTransitionState

definition GUC_STATUS_REG :: u64 where [simp]: "GUC_STATUS_REG = 0xC000"

definition tmmioReady :: "('a mmio_scheme, bool) state" where
  "tmmioReady = gets mmioValid"

primrec prefix_of :: "string \<Rightarrow> string \<Rightarrow> bool" where
  "prefix_of [] hay = True"
| "prefix_of (c # cs) hay = (case hay of [] \<Rightarrow> False | d # ds \<Rightarrow> c = d \<and> prefix_of cs ds)"

primrec strstr :: "string \<Rightarrow> string \<Rightarrow> bool" where
  "strstr [] needle = prefix_of needle []"
| "strstr (c # cs) needle = (prefix_of needle (c # cs) \<or> strstr cs needle)"

definition stageContains :: "string option \<Rightarrow> string \<Rightarrow> bool" where
  "stageContains stage needle = (case stage of None \<Rightarrow> False | Some st \<Rightarrow> strstr st needle)"

primrec csbLoop :: "nat list \<Rightarrow> ('a mmio_scheme, bool) state" where
  "csbLoop [] = ret False"
| "csbLoop (i # is) = do {
     lo \<leftarrow> readReg32 (RING_CONTEXT_STATUS_BUF RENDER_RING_BASE i);
     if lo \<noteq> 0 then ret True else do {
       hi \<leftarrow> readReg32 (RING_CONTEXT_STATUS_BUF_HI RENDER_RING_BASE i);
       if hi \<noteq> 0 then ret True else csbLoop is
     }
   }"

definition anyRcsCsbEntrySet :: "('a mmio_scheme, bool) state" where
  "anyRcsCsbEntrySet = csbLoop [0..<6]"

definition RCS_IRQ_BITS :: u32 where
  "RCS_IRQ_BITS = GT_CONTEXT_SWITCH_INTERRUPT OR GT_RENDER_USER_INTERRUPT"

text \<open>The stage name and the boot arguments alone set the first group of flags.\<close>

definition bringup_stage :: "boot \<Rightarrow> string option \<Rightarrow> bool \<Rightarrow> TglGpuBringupState \<Rightarrow> TglGpuBringupState" where
  "bringup_stage b stage ready st =
     st\<lparr>allow3d := boot_flag b ''-allow3d'',
        mmioReady := ready,
        topologyOk := topologyOk st \<or> stageContains stage ''getGPUInfo'',
        rcsResetSeen := rcsResetSeen st \<or> stageContains stage ''resetGraphicsEngine'',
        gucRequested := gucRequested st \<or> stageContains stage ''loadGuCBinary'',
        gucWopcmProgrammed := gucWopcmProgrammed st \<or> stageContains stage ''checkWOPCMSettings''\<rparr>"

definition updateTglGpuBringupStateFromRegisters :: "boot \<Rightarrow> string option \<Rightarrow> ('a tstate_scheme, unit) state" where
  "updateTglGpuBringupStateFromRegisters b stage =
    (if \<not> isTglTraceEnabled b then ret () else do {
       ready \<leftarrow> tmmioReady;
       modify (\<lambda>s. s\<lparr>gTglGpuBringupState := bringup_stage b stage ready (gTglGpuBringupState s)\<rparr>);
       if \<not> ready then ret () else do {
         fwAckRender \<leftarrow> readReg32 FORCEWAKE_ACK_RENDER_GEN9;
         gucStatus \<leftarrow> readReg32 GUC_STATUS_REG;
         gucIntrEnable \<leftarrow> readReg32 GEN11_GUC_SG_INTR_ENABLE;
         gucIntrMask \<leftarrow> readReg32 GEN11_GUC_SG_INTR_MASK;
         rcsCtl \<leftarrow> readReg32 (RING_CTL RENDER_RING_BASE);
         rcsHead \<leftarrow> readReg32 (RING_HEAD RENDER_RING_BASE);
         rcsTail \<leftarrow> readReg32 (RING_TAIL RENDER_RING_BASE);
         rcsStart \<leftarrow> readReg32 (RING_START RENDER_RING_BASE);
         rcsHws \<leftarrow> readReg32 (RING_HWS_PGA RENDER_RING_BASE);
         rcsContextStatusPtr \<leftarrow> readReg32 (RING_CONTEXT_STATUS_PTR RENDER_RING_BASE);
         rcsIntrEnable \<leftarrow> readReg32 GEN11_RENDER_COPY_INTR_ENABLE;
         rcsIntrMask \<leftarrow> readReg32 GEN11_RCS0_RSVD_INTR_MASK;
         acthd \<leftarrow> readReg32 (RING_ACTHD RENDER_RING_BASE);
         ipehr \<leftarrow> readReg32 (RING_IPEHR RENDER_RING_BASE);
         errorGen6 \<leftarrow> readReg32 ERROR_GEN6;
         gtIntrDw0 \<leftarrow> readReg32 GEN11_GT_INTR_DW0;
         csb \<leftarrow> anyRcsCsbEntrySet;
         modify (\<lambda>s. s\<lparr>gTglGpuBringupState := (gTglGpuBringupState s)
           \<lparr>forceWakeOk := fwAckRender AND 1 \<noteq> 0,
            gtPowered := fwAckRender AND 1 \<noteq> 0 \<or> rcsCtl \<noteq> 0 \<or> rcsStart \<noteq> 0 \<or> gucStatus \<noteq> 0,
            gucBooted := gucStatus \<noteq> 0,
            gucInterruptsEnabled := gucIntrEnable \<noteq> 0 \<and> gucIntrMask \<noteq> 0xFFFFFFFF,
            gucSubmissionReady := gucStatus \<noteq> 0 \<and> gucIntrEnable \<noteq> 0 \<and> gucIntrMask \<noteq> 0xFFFFFFFF,
            rcsRingStarted := rcsStart \<noteq> 0 \<or> rcsCtl \<noteq> 0,
            rcsContextReady := rcsHws \<noteq> 0 \<or> rcsContextStatusPtr \<noteq> 0,
            rcsInterruptsEnabled := rcsIntrEnable AND push_bit GEN11_RCS0 1 \<noteq> 0
              \<and> rcsIntrMask AND RCS_IRQ_BITS \<noteq> RCS_IRQ_BITS,
            rcsFirstSubmitSeen := rcsHead \<noteq> 0 \<or> rcsTail \<noteq> 0 \<or> acthd \<noteq> 0 \<or> ipehr \<noteq> 0,
            rcsFirstCompletionSeen := csb \<or> gtIntrDw0 AND push_bit GEN11_RCS0 1 \<noteq> 0,
            lastGucStatus := gucStatus,
            lastRcsCtl := rcsCtl,
            lastRcsHead := rcsHead,
            lastRcsTail := rcsTail,
            lastErrorGen6 := errorGen6\<rparr>\<rparr>)
       }
     })"

definition whenReady :: "('a mmio_scheme, unit) state \<Rightarrow> ('a mmio_scheme, unit) state" where
  "whenReady m = do { ready \<leftarrow> tmmioReady; whenM ready m }"

definition dumpRcsRegisters :: "boot \<Rightarrow> ('a mmio_scheme, unit) state" where
  "dumpRcsRegisters b = whenM (isTglTraceEnabled b) (whenReady (do {
     readRegs [RING_START RENDER_RING_BASE, RING_CTL RENDER_RING_BASE, RING_HEAD RENDER_RING_BASE,
       RING_TAIL RENDER_RING_BASE, RING_HWS_PGA RENDER_RING_BASE, RING_EXECLIST_STATUS RENDER_RING_BASE,
       RING_CONTEXT_STATUS_PTR RENDER_RING_BASE, RING_ACTHD RENDER_RING_BASE, RING_ACTHD_UDW RENDER_RING_BASE,
       RING_IPEHR RENDER_RING_BASE, RING_IPEIR RENDER_RING_BASE, RING_INSTDONE RENDER_RING_BASE,
       RING_EIR RENDER_RING_BASE, RING_ESR RENDER_RING_BASE, ERROR_GEN6, GEN12_RING_FAULT_REG];
     forM [0..<6] (\<lambda>i. readRegs [RING_CONTEXT_STATUS_BUF_HI RENDER_RING_BASE i,
       RING_CONTEXT_STATUS_BUF RENDER_RING_BASE i])
   }))"

definition dumpGucRegisters :: "boot \<Rightarrow> ('a mmio_scheme, unit) state" where
  "dumpGucRegisters b = whenM (isTglTraceEnabled b) (whenReady
     (readRegs [GUC_STATUS_REG, GEN11_GUC_SG_INTR_ENABLE, GEN11_GUC_SG_INTR_MASK, GEN11_GT_INTR_DW0,
       GEN11_GT_INTR_DW1, GEN11_INTR_IDENTITY_REG0, GEN11_INTR_IDENTITY_REG1, GEN11_IIR_REG0_SELECTOR,
       GEN11_IIR_REG1_SELECTOR]))"

definition dumpGtInterruptRegisters :: "boot \<Rightarrow> ('a mmio_scheme, unit) state" where
  "dumpGtInterruptRegisters b = whenM (isTglTraceEnabled b) (whenReady
     (readRegs [GEN11_GFX_MSTR_IRQ, GEN11_RENDER_COPY_INTR_ENABLE, GEN11_RCS0_RSVD_INTR_MASK,
       GEN11_GT_INTR_DW0, GEN11_GT_INTR_DW1, GEN11_GUC_SG_INTR_ENABLE, GEN11_GUC_SG_INTR_MASK]))"

definition dumpTglGpuBringupState :: "boot \<Rightarrow> string option \<Rightarrow> ('a tstate_scheme, unit) state" where
  "dumpTglGpuBringupState b stage = whenM (isTglTraceEnabled b) (do {
     updateTglGpuBringupStateFromRegisters b stage;
     dumpRcsRegisters b;
     dumpGucRegisters b;
     dumpGtInterruptRegisters b
   })"

section \<open>RcsEngineTrace.cpp: registers\<close>

definition decodeErrorGen6 :: "boot \<Rightarrow> u32 \<Rightarrow> (u32 \<times> u32) option" where
  "decodeErrorGen6 b value' = (if \<not> isRcsEngineTraceEnabled b then None else
     (let knownMask = (if value' AND I915_ERROR_INSTRUCTION \<noteq> 0 then I915_ERROR_INSTRUCTION else 0)
      in Some (knownMask, value' AND NOT knownMask)))"

definition dumpRcsEngineActivationState :: "boot \<Rightarrow> ('a mmio_scheme, unit) state" where
  "dumpRcsEngineActivationState b = whenM (isRcsEngineTraceEnabled b) (whenReady (do {
     readRegs [FORCEWAKE_ACK_RENDER_GEN9];
     readRegs [RING_START RENDER_RING_BASE, RING_CTL RENDER_RING_BASE, RING_HEAD RENDER_RING_BASE,
       RING_TAIL RENDER_RING_BASE, RING_HWS_PGA RENDER_RING_BASE, RING_EXECLIST_STATUS RENDER_RING_BASE,
       RING_CONTEXT_STATUS_PTR RENDER_RING_BASE, RING_ACTHD RENDER_RING_BASE, RING_ACTHD_UDW RENDER_RING_BASE,
       RING_IPEHR RENDER_RING_BASE, RING_IPEIR RENDER_RING_BASE, RING_INSTDONE RENDER_RING_BASE,
       RING_EIR RENDER_RING_BASE, RING_ESR RENDER_RING_BASE, RING_FAULT_REG RENDER_RING_BASE, ERROR_GEN6,
       GEN12_RING_FAULT_REG, GEN11_RENDER_COPY_INTR_ENABLE, GEN11_RCS0_RSVD_INTR_MASK, GEN11_GFX_MSTR_IRQ,
       GEN11_GT_INTR_DW0, GEN11_GT_INTR_DW1];
     forM [0..<6] (\<lambda>i. readRegs [RING_CONTEXT_STATUS_BUF_HI RENDER_RING_BASE i,
       RING_CONTEXT_STATUS_BUF RENDER_RING_BASE i, RING_CONTEXT_STATUS_BUF_HI RENDER_RING_BASE i,
       RING_CONTEXT_STATUS_BUF RENDER_RING_BASE i])
   }))"

definition transition_next ::
  "u32 \<Rightarrow> u32 \<Rightarrow> u32 \<Rightarrow> u32 \<Rightarrow> u32 \<Rightarrow> u32 \<Rightarrow> bool \<Rightarrow> RcsEngineTransitionState \<Rightarrow> RcsEngineTransitionState" where
  "transition_next start ctl tail head ptr err csbNonZero g =
     (if \<not> tr_initialized g then
        g\<lparr>tr_initialized := True, tr_ringStart := start, tr_ringCtl := ctl, tr_ringTail := tail,
          tr_acthd := head, tr_contextStatusPtr := ptr, tr_errorGen6 := err,
          firstCsbNonZeroSeen := csbNonZero, firstErrorNonZeroSeen := err \<noteq> 0\<rparr>
      else
        (let g1 = (if \<not> firstCsbNonZeroSeen g \<and> csbNonZero then g\<lparr>firstCsbNonZeroSeen := True\<rparr> else g);
             g2 = (if \<not> firstErrorNonZeroSeen g1 \<and> err \<noteq> 0 then g1\<lparr>firstErrorNonZeroSeen := True\<rparr> else g1)
         in g2\<lparr>tr_ringStart := start, tr_ringCtl := ctl, tr_ringTail := tail, tr_acthd := head,
           tr_contextStatusPtr := ptr, tr_errorGen6 := err\<rparr>))"

definition markRcsRegisterTransition :: "boot \<Rightarrow> ('a tstate_scheme, unit) state" where
  "markRcsRegisterTransition b = (if \<not> isRcsEngineTraceEnabled b then ret () else do {
     ready \<leftarrow> tmmioReady;
     if \<not> ready then ret () else do {
       start \<leftarrow> readReg32 (RING_START RENDER_RING_BASE);
       ctl \<leftarrow> readReg32 (RING_CTL RENDER_RING_BASE);
       tail \<leftarrow> readReg32 (RING_TAIL RENDER_RING_BASE);
       head \<leftarrow> readReg32 (RING_ACTHD RENDER_RING_BASE);
       ptr \<leftarrow> readReg32 (RING_CONTEXT_STATUS_PTR RENDER_RING_BASE);
       err \<leftarrow> readReg32 ERROR_GEN6;
       csbNonZero \<leftarrow> csbLoop [0..<6];
       modify (\<lambda>s. s\<lparr>gRcsTransitionState :=
         transition_next start ctl tail head ptr err csbNonZero (gRcsTransitionState s)\<rparr>)
     }
   })"

section \<open>RcsEngineTrace.cpp: memory scans\<close>

type_synonym logline = "string \<times> u64 list"

text \<open>
  \<open>shared\<close> and \<open>gpu\<close> are \<open>tGetSharedMappedBufferVirtualAddress\<close> and
  \<open>tGetMappedBufferGPUVirtualAddress\<close>, calls into Apple's driver, 0 for a failed lookup;
  \<open>vtShared\<close> and \<open>vtMapped\<close> are the vtable symbols.
\<close>

definition looksLikeKernelPtr :: "u64 \<Rightarrow> bool" where
  "looksLikeKernelPtr v \<longleftrightarrow> 0xffffff8000000000 \<le> v"

definition isCanonicalPtr :: "u64 \<Rightarrow> bool" where
  "isCanonicalPtr v \<longleftrightarrow> drop_bit 63 v = 0 \<or> 0x1FFFF \<le> drop_bit 47 v"

definition isAlignedPtr :: "u64 \<Rightarrow> u32 \<Rightarrow> bool" where
  "isAlignedPtr v alignment \<longleftrightarrow> v AND ucast (alignment - 1) = 0"

definition vtableMatches :: "u64 \<Rightarrow> u64 \<Rightarrow> bool" where
  "vtableMatches objectVtable symbolVtable \<longleftrightarrow>
     symbolVtable \<noteq> 0 \<and> (objectVtable = symbolVtable \<or> objectVtable = symbolVtable + 0x10)"

datatype candidate_type = CNull | CShared | CMapped | CUnknown

definition candidateTypeName :: "memory \<Rightarrow> u64 \<Rightarrow> u64 \<Rightarrow> u64 \<Rightarrow> candidate_type" where
  "candidateTypeName m vtShared vtMapped candidate =
     (if candidate = 0 then CNull
      else if vtableMatches (rd64 m candidate) vtShared then CShared
      else if vtableMatches (rd64 m candidate) vtMapped then CMapped
      else CUnknown)"

definition qword :: "memory \<Rightarrow> u64 \<Rightarrow> nat \<Rightarrow> u64" where
  "qword m obj i = rd64 m (obj + of_nat (8 * i))"

definition dumpObjectQwords :: "memory \<Rightarrow> u64 \<Rightarrow> logline list" where
  "dumpObjectQwords m obj = (if obj = 0 then [(''object=null'', [])]
     else map (\<lambda>i. (''qword'', [of_nat (8 * i), qword m obj i])) [0..<0x120 div 8])"

definition dumpCandidateMappedBuffers ::
  "memory \<Rightarrow> u64 \<Rightarrow> u64 \<Rightarrow> (u64 \<Rightarrow> u64) \<Rightarrow> (u64 \<Rightarrow> u64) \<Rightarrow> u64 \<Rightarrow> logline list" where
  "dumpCandidateMappedBuffers m vtShared vtMapped shared gpu obj = (if obj = 0 then [] else
     concat (map (\<lambda>i. let v = qword m obj i; off = of_nat (8 * i) in
       if \<not> looksLikeKernelPtr v then [] else
         (let ty = candidateTypeName m vtShared vtMapped v
          in [(''candidate'', [off, v, rd64 m v])]
             @ (if ty = CShared then [(''sharedCpu'', [off, shared v])] else [])
             @ (if ty = CMapped then [(''mappedGpu'', [off, gpu v])] else []))) [0..<0x120 div 8]))"

definition readMem32 :: "memory \<Rightarrow> u64 \<Rightarrow> nat \<Rightarrow> u32" where
  "readMem32 m base dwordOffset = (if base \<noteq> 0 then rd32 m (base + of_nat (4 * dwordOffset)) else 0)"

definition dumpContextImageKnownFields ::
  "boot \<Rightarrow> memory \<Rightarrow> u64 \<Rightarrow> u64 \<Rightarrow> (u64 \<Rightarrow> u64) \<Rightarrow> (u64 \<Rightarrow> u64) \<Rightarrow> u64 \<Rightarrow> logline list" where
  "dumpContextImageKnownFields b m vtShared vtMapped shared gpu context =
    (if \<not> isRcsEngineTraceEnabled b \<or> context = 0 then [] else
      (let ctxImage = shared (rd64 m (context + 0x98));
           lrcaGpu = gpu (rd64 m (context + 0xb0));
           hwsCpu = shared (rd64 m (context + 0xa8));
           auxCpu = shared (rd64 m (context + 0xa0));
           owner = rd64 m (context + 0x50);
           ringSizeBytes = (if owner \<noteq> 0 then push_bit 10 (rd32 m (owner + 0x119c)) else 0)
       in dumpObjectQwords m context
          @ dumpCandidateMappedBuffers m vtShared vtMapped shared gpu context
          @ [(''NG_CONTEXT_DESC'', [context, ctxImage, lrcaGpu, ucast ringSizeBytes, hwsCpu, auxCpu,
               ucast (m (context + 0x6c)), ucast (m (context + 0x6e))])]
          @ (if ctxImage = 0 then [] else
               [(''NG_LRCA'', map ucast [readMem32 m ctxImage (0x1014 div 4), readMem32 m ctxImage (0x101c div 4),
                  readMem32 m ctxImage (0x1024 div 4), readMem32 m ctxImage (0x102c div 4)])]
               @ map (\<lambda>i. (''dword'', [of_nat i, ucast (readMem32 m ctxImage i)])) [0..<8]
               @ (if hwsCpu = 0 then [] else
                    map (\<lambda>i. (''HWS'', [of_nat i, ucast (readMem32 m hwsCpu i)])) [0..<8]
                    @ [(''stampIdx3'', [hwsCpu + 12, ucast (readMem32 m hwsCpu 3)])]))))"

text \<open>The dword a ring window shows: the masked index, as in the two ring dumps.\<close>

definition ringIdx :: "u32 \<Rightarrow> u32 \<Rightarrow> nat \<Rightarrow> u32" where
  "ringIdx msk start i = (start + of_nat i) AND drop_bit 2 msk"

definition ringWindow :: "memory \<Rightarrow> u64 \<Rightarrow> u32 \<Rightarrow> u32 \<Rightarrow> u32 list" where
  "ringWindow m cpu msk off =
     map (\<lambda>i. rd32 m (cpu + 4 * ucast (ringIdx msk (drop_bit 2 off) i))) [0..<16]"

definition dumpRingMemoryKnownFields ::
  "boot \<Rightarrow> memory \<Rightarrow> u64 \<Rightarrow> u64 \<Rightarrow> (u64 \<Rightarrow> u64) \<Rightarrow> (u64 \<Rightarrow> u64) \<Rightarrow> u64 \<Rightarrow> logline list" where
  "dumpRingMemoryKnownFields b m vtShared vtMapped shared gpu ring =
    (if \<not> isRcsEngineTraceEnabled b \<or> ring = 0 then [] else
      (let ringCpu = shared (rd64 m (ring + 0x80));
           tailCursor = rd32 m (ring + 0x64);
           oldTail = rd32 m (ring + 0x68);
           msk = rd32 m (ring + 0x90);
           ringSize = msk + 1;
           avail = rd32 m (ring + 0x88);
           engineIndex = m (ring + 0x40);
           submitState = m (ring + 0x48);
           submitFlags = rd32 m (ring + 0x64);
           descIndex = rd32 m (ring + 0x38);
           waitFlags = rd32 m (ring + 0x4c)
       in dumpObjectQwords m ring
          @ dumpCandidateMappedBuffers m vtShared vtMapped shared gpu ring
          @ [(''NG_RING_MEM'', [ring, ringCpu, ucast engineIndex, ucast descIndex, ucast ringSize, ucast msk,
               ucast tailCursor, ucast oldTail, ucast avail, ucast submitState, ucast submitFlags, ucast waitFlags]),
             (''NG_TAIL_WRITE'', [ucast oldTail, ucast tailCursor, ucast ringSize])]
          @ (if ringCpu = 0 \<or> ringSize = 0 then [] else
               [(''window'', map ucast (ringWindow m ringCpu msk (tailCursor AND msk)))])))"

record IGHwCsDesc =
  cs_type :: u32
  csMask :: u32
  cs_name :: "string option"
  cs_label :: "string option"
  mmioExecListSubmitPort :: u32
  mmioExecListSubmitQueue :: u32
  mmioExecListControl :: u32
  mmioExecListStatus :: u32
  mmioContextStatusPointer :: u32
  mmioContextStatusBuffer :: u32
  mmioContextStatusPort :: u32
  mmioContextStatusFifoStatus :: u32
  mmioGlobalStatusPage :: u32
  mmioGfxMode :: u32
  mmioResetCtrl :: u32
  mmioErrorIdentity :: u32
  mmioErrorMask :: u32
  mmioTimeStamp :: u32
  mmioGpr0 :: u32
  fuseMask :: u32
  contextSizeBytes :: u32
  stampIndexRangeMin :: u32
  stampIndexRangeMax :: u32
  stampIndexRangeSize :: u32
  contextSwitchInterruptType :: u32
  flushNotifyInterruptType :: u32
  errorInterruptType :: u32
  mmioForcewakeReq :: u32
  mmioForcewakeAck :: u32

definition kIGHwCsTypeRCS :: u32 where "kIGHwCsTypeRCS = 0"
definition kIGHwCsTypeBCS :: u32 where "kIGHwCsTypeBCS = 2"

definition desc_base :: "IGHwCsDesc \<Rightarrow> u32" where
  "desc_base d = (if 0x3c \<le> mmioExecListControl d then mmioExecListControl d - 0x3c else 0)"

definition validateRcsDescriptorOrEngineObject :: "boot \<Rightarrow> IGHwCsDesc list option \<Rightarrow> u64 \<Rightarrow> bool" where
  "validateRcsDescriptorOrEngineObject b descs obj =
    (if \<not> isRcsEngineTraceEnabled b then False
     else if obj = 0 then False
     else case descs of
       None \<Rightarrow> True
     | Some ds \<Rightarrow> (case find (\<lambda>d. cs_type d = kIGHwCsTypeRCS) (take 6 ds) of
         None \<Rightarrow> False
       | Some d \<Rightarrow> desc_base d = RENDER_RING_BASE))"

definition dumpNearbyKnownEngineGlobals :: "boot \<Rightarrow> IGHwCsDesc list option \<Rightarrow> (string \<times> string \<times> u32 list \<times> bool) list" where
  "dumpNearbyKnownEngineGlobals b descs = (if \<not> isRcsEngineTraceEnabled b then [] else
     (case descs of None \<Rightarrow> []
      | Some ds \<Rightarrow> map (\<lambda>d. (case_option ''<null>'' id (cs_name d), case_option ''<null>'' id (cs_label d),
          [cs_type d, desc_base d, mmioExecListControl d, mmioContextStatusPointer d, mmioGlobalStatusPage d,
           mmioForcewakeReq d, mmioForcewakeAck d], desc_base d = RENDER_RING_BASE)) (take 6 ds)))"

definition dumpNonZeroQwords :: "boot \<Rightarrow> memory \<Rightarrow> u64 \<Rightarrow> logline list" where
  "dumpNonZeroQwords b m obj = (if \<not> isRcsEngineTraceEnabled b \<or> obj = 0 then [] else
     (''this'', [obj]) # map (\<lambda>i. (''qword'', [of_nat (8 * i), qword m obj i]))
       (filter (\<lambda>i. qword m obj i \<noteq> 0) [0..<0x180 div 8]))"

definition dumpIGHardwareContextObject :: "boot \<Rightarrow> memory \<Rightarrow> u64 \<Rightarrow> logline list" where
  "dumpIGHardwareContextObject b m context = dumpNonZeroQwords b m context"

definition dumpIGHardwareRingBufferObject :: "boot \<Rightarrow> memory \<Rightarrow> u64 \<Rightarrow> logline list" where
  "dumpIGHardwareRingBufferObject b m ring = dumpNonZeroQwords b m ring"

definition scanMappedCandidates ::
  "boot \<Rightarrow> memory \<Rightarrow> (u64 \<Rightarrow> u64) \<Rightarrow> (u64 \<Rightarrow> u64) \<Rightarrow> u64 \<Rightarrow> u32 \<Rightarrow> (u64 \<times> u64 \<times> u64 \<times> u64 \<times> bool) list" where
  "scanMappedCandidates b m shared gpu obj objectSize =
    (if \<not> isRcsEngineTraceEnabled b \<or> obj = 0 then [] else
      concat (map (\<lambda>i. let v = qword m obj i in
        if v = 0 \<or> \<not> looksLikeKernelPtr v \<or> \<not> isCanonicalPtr v \<or> \<not> isAlignedPtr v 8 then [] else
          (let cpuShared = shared v
           in if cpuShared \<noteq> 0 then [(of_nat (8 * i), v, cpuShared, gpu v, True)]
              else [(of_nat (8 * i), v, 0, gpu v, gpu v \<noteq> 0)])) [0..<unat objectSize div 8]))"

section \<open>RcsEngineTrace.cpp: formatted lists\<close>

definition hex_digit :: "nat \<Rightarrow> char" where
  "hex_digit n = (if n < 10 then char_of (48 + n) else char_of (87 + n))"

fun hex_nat :: "nat \<Rightarrow> string" where
  "hex_nat n = (if n < 16 then [hex_digit n] else hex_nat (n div 16) @ [hex_digit (n mod 16)])"

declare hex_nat.simps [simp del]

definition dwordText :: "bool \<Rightarrow> u32 \<Rightarrow> string" where
  "dwordText first x = (if first then '''' else '','') @ ''0x'' @ hex_nat (unat x)"

text \<open>
  The loop that prints dwords into a buffer of 256 bytes: \<open>snprintf\<close> keeps one byte for the
  terminator and returns the full length, by which the pointer and the rest are moved.
\<close>

fun dwordsLoop :: "bool \<Rightarrow> nat \<Rightarrow> u32 list \<Rightarrow> string" where
  "dwordsLoop first bufLeft [] = []"
| "dwordsLoop first bufLeft (x # xs) = (if bufLeft \<le> 16 then [] else
     (let txt = dwordText first x
      in take (bufLeft - 1) txt @ dwordsLoop False (bufLeft - length txt) xs))"

definition dwordsBuf :: "u32 list \<Rightarrow> string" where
  "dwordsBuf xs = dwordsLoop True 256 xs"

definition scanContextImageFields :: "boot \<Rightarrow> memory \<Rightarrow> u64 \<Rightarrow> (u32 list \<times> string) option" where
  "scanContextImageFields b m cpu = (if \<not> isRcsEngineTraceEnabled b \<or> cpu = 0 then None else
     Some ([readMem32 m cpu (0x1014 div 4), readMem32 m cpu (0x101c div 4),
            readMem32 m cpu (0x1024 div 4), readMem32 m cpu (0x102c div 4)],
           dwordsBuf (map (readMem32 m cpu) [0..<8])))"

definition scanRingMemoryFields ::
  "boot \<Rightarrow> memory \<Rightarrow> u64 \<Rightarrow> u32 \<Rightarrow> u32 \<Rightarrow> u32 \<Rightarrow> string list" where
  "scanRingMemoryFields b m cpu ringSize oldTail newTail =
    (if \<not> isRcsEngineTraceEnabled b \<or> cpu = 0 \<or> ringSize = 0 then [] else
      (let msk = ringSize - 1
       in [dwordsBuf (map (readMem32 m cpu) [0..<16])]
          @ (if oldTail > 0 then [dwordsBuf (ringWindow m cpu msk (oldTail AND msk))] else [])
          @ (if newTail > 0 \<and> newTail \<noteq> oldTail then [dwordsBuf (ringWindow m cpu msk (newTail AND msk))] else [])))"

definition scanHwsCandidates :: "boot \<Rightarrow> memory \<Rightarrow> u64 \<Rightarrow> (string \<times> u64 \<times> u32) option" where
  "scanHwsCandidates b m cpu = (if \<not> isRcsEngineTraceEnabled b \<or> cpu = 0 then None else
     Some (dwordsBuf (map (readMem32 m cpu) [0..<16]), cpu + 12, readMem32 m cpu 3))"

definition findVtableEntry :: "memory \<Rightarrow> u64 \<Rightarrow> u32 \<Rightarrow> u64" where
  "findVtableEntry m obj vtableOffset = (if obj = 0 then 0 else rd64 m obj + ucast vtableOffset)"

definition traceVirtualCallInSubmitToRing :: "boot \<Rightarrow> memory \<Rightarrow> u64 \<Rightarrow> logline list" where
  "traceVirtualCallInSubmitToRing b m ring = (if \<not> isRcsEngineTraceEnabled b \<or> ring = 0 then [] else
     (let context = rd64 m (ring + 0x20);
          submitEntry = findVtableEntry m context 0x100
      in [(''submitToRing'', [ring, context])]
         @ (if context = 0 then [] else [(''vtable'', [context, rd64 m context])]
              @ (if submitEntry = 0 then [] else [(''target'', [context, rd64 m context, 0x100, submitEntry])]))))"

section \<open>Lemmas: tracing is quiet\<close>

text \<open>
  \<open>traced\<close>: no store besides the index register, and no field changed except the two
  diagnostic records and the history.
\<close>

definition traced :: "'a tstate_scheme \<Rightarrow> 'a tstate_scheme \<Rightarrow> bool" where
  "traced s t \<longleftrightarrow> emits quiet_access s t \<and>
     (\<exists>h g r. t = s\<lparr>hist := h, gTglGpuBringupState := g, gRcsTransitionState := r\<rparr>)"

interpretation tr: step_order traced
proof unfold_locales
  show "traced s s" for s :: "'a tstate_scheme"
  proof -
    have "s = s\<lparr>hist := hist s, gTglGpuBringupState := gTglGpuBringupState s,
        gRcsTransitionState := gRcsTransitionState s\<rparr>" by simp
    then show ?thesis unfolding traced_def using em.step_refl by blast
  qed
  show "traced s t \<Longrightarrow> traced t u \<Longrightarrow> traced s u" for s t u :: "'a tstate_scheme"
    unfolding traced_def using em.step_trans by fastforce
qed

lemma tr_bus:
  assumes "state_io_rel (emits quiet_access) m" and "state_io_rel bus_only m"
  shows "state_io_rel traced m"
  unfolding state_io_rel_exec
proof (rule allI)
  fix s
  obtain h where "exec m s = s\<lparr>hist := h\<rparr>"
    using bus_only_exec [OF assms(2)] by blast
  then have "exec m s = s\<lparr>hist := h, gTglGpuBringupState := gTglGpuBringupState s,
      gRcsTransitionState := gRcsTransitionState s\<rparr>" by simp
  moreover have "emits quiet_access s (exec m s)"
    using assms(1) by (simp add: state_io_rel_exec)
  ultimately show "traced s (exec m s)"
    unfolding traced_def by blast
qed

lemma traced_exec:
  assumes "state_io_rel traced m"
  obtains h g r where "exec m s = s\<lparr>hist := h, gTglGpuBringupState := g, gRcsTransitionState := r\<rparr>"
  using assms unfolding state_io_rel_exec traced_def by blast

lemma tr_readReg32: "state_io_rel traced (readReg32 reg)"
  by (rule tr_bus [OF quiet_read bo_readReg32])

lemma tr_readRegs: "state_io_rel traced (readRegs rs)"
  by (rule tr_bus [OF em_readRegs [OF transparent_quiet] bo_readRegs])

lemma tr_csbLoop: "state_io_rel traced (csbLoop is)"
  by (induction "is") (auto intro!: tr.io_rules tr_readReg32)

lemma traced_gst: "traced s (s\<lparr>gTglGpuBringupState := g\<rparr>)"
proof -
  have "s\<lparr>gTglGpuBringupState := g\<rparr> = s\<lparr>hist := hist s, gTglGpuBringupState := g,
      gRcsTransitionState := gRcsTransitionState s\<rparr>" by simp
  moreover have "emits quiet_access s (s\<lparr>gTglGpuBringupState := g\<rparr>)"
    by (simp add: emits_def same_bus_def)
  ultimately show ?thesis unfolding traced_def by blast
qed

lemma traced_trs: "traced s (s\<lparr>gRcsTransitionState := r\<rparr>)"
proof -
  have "s\<lparr>gRcsTransitionState := r\<rparr> = s\<lparr>hist := hist s, gTglGpuBringupState := gTglGpuBringupState s,
      gRcsTransitionState := r\<rparr>" by simp
  moreover have "emits quiet_access s (s\<lparr>gRcsTransitionState := r\<rparr>)"
    by (simp add: emits_def same_bus_def)
  ultimately show ?thesis unfolding traced_def by blast
qed

lemma tr_tmmioReady: "state_io_rel traced tmmioReady"
  unfolding tmmioReady_def by (rule tr.io_gets)

lemma tr_whenReady: "state_io_rel traced m \<Longrightarrow> state_io_rel traced (whenReady m)"
  unfolding whenReady_def by (intro tr.io_rules tr_tmmioReady)

lemmas tr_rules = tr.io_rules tr_readReg32 tr_readRegs tr_csbLoop tr_tmmioReady tr_whenReady

lemma tr_updateBringup: "state_io_rel traced (updateTglGpuBringupStateFromRegisters b stage)"
  unfolding updateTglGpuBringupStateFromRegisters_def anyRcsCsbEntrySet_def
  by (intro tr_rules tr.io_modify traced_gst)

lemma tr_dumpTglGpuBringupState: "state_io_rel traced (dumpTglGpuBringupState b stage)"
  unfolding dumpTglGpuBringupState_def dumpRcsRegisters_def dumpGucRegisters_def dumpGtInterruptRegisters_def
  by (intro tr_rules tr_updateBringup)

lemma tr_dumpRcsEngineActivationState: "state_io_rel traced (dumpRcsEngineActivationState b)"
  unfolding dumpRcsEngineActivationState_def by (intro tr_rules)

lemma tr_markRcsRegisterTransition: "state_io_rel traced (markRcsRegisterTransition b)"
  unfolding markRcsRegisterTransition_def by (intro tr_rules tr.io_modify traced_trs)

section \<open>Lemmas: the bring-up state\<close>

definition bringup_ok :: "TglGpuBringupState \<Rightarrow> bool" where
  "bringup_ok st \<longleftrightarrow>
     (gucSubmissionReady st \<longleftrightarrow> gucBooted st \<and> gucInterruptsEnabled st)
     \<and> (forceWakeOk st \<or> rcsRingStarted st \<or> gucBooted st \<longrightarrow> gtPowered st)
     \<and> (gucBooted st \<longleftrightarrow> lastGucStatus st \<noteq> 0)
     \<and> (lastRcsCtl st \<noteq> 0 \<longrightarrow> rcsRingStarted st)
     \<and> (lastRcsHead st \<noteq> 0 \<or> lastRcsTail st \<noteq> 0 \<longrightarrow> rcsFirstSubmitSeen st)"

definition bringup_inv :: "'a tstate_scheme \<Rightarrow> bool" where
  "bringup_inv s \<longleftrightarrow> bringup_ok (gTglGpuBringupState s)"

lemma bi_bus: "state_io_rel bus_only m \<Longrightarrow> state_io_rel (keeps bringup_inv) m"
  unfolding state_io_rel_exec keeps_def bringup_inv_def
proof (rule allI)
  fix s :: "'a tstate_scheme"
  assume "\<forall>s. bus_only s (exec m s)"
  then obtain h where "exec m s = s\<lparr>hist := h\<rparr>" by (auto simp: bus_only_def)
  then show "bringup_ok (gTglGpuBringupState s) \<longrightarrow> bringup_ok (gTglGpuBringupState (exec m s))" by simp
qed

lemma bo_csbLoop: "state_io_rel bus_only (csbLoop is)"
  by (induction "is") (auto intro!: bo_rules)

lemma bo_whenReady: "state_io_rel bus_only m \<Longrightarrow> state_io_rel bus_only (whenReady m)"
  unfolding whenReady_def tmmioReady_def by (intro bo_rules)

lemma bi_update: "state_io_rel (keeps bringup_inv) (updateTglGpuBringupStateFromRegisters b stage)"
  unfolding updateTglGpuBringupStateFromRegisters_def anyRcsCsbEntrySet_def tmmioReady_def
  by (intro inv.io_rules inv.io_modify bi_bus bo_readReg32 bo_csbLoop)
     (auto simp: keeps_def bringup_inv_def bringup_ok_def bringup_stage_def)

lemma bi_dump: "state_io_rel (keeps bringup_inv) (dumpTglGpuBringupState b stage)"
  unfolding dumpTglGpuBringupState_def dumpRcsRegisters_def dumpGucRegisters_def dumpGtInterruptRegisters_def
  by (intro inv.io_rules bi_update bi_bus bo_whenReady bo_rules bo_readRegs)

section \<open>Lemmas: formatted lists\<close>

lemma hex_nat_length: "n < 16 ^ Suc k \<Longrightarrow> length (hex_nat n) \<le> Suc k"
proof (induction k arbitrary: n)
  case 0
  then show ?case by (subst hex_nat.simps) simp
next
  case (Suc k)
  have "n div 16 < 16 ^ Suc k"
    using Suc.prems by (simp add: less_mult_imp_div_less mult.commute)
  then have "length (hex_nat (n div 16)) \<le> Suc k" by (rule Suc.IH)
  then show ?case by (subst hex_nat.simps) simp
qed

lemma dwordText_length: "length (dwordText first x) \<le> 11"
proof -
  have "unat x < 2 ^ LENGTH(32)" by (rule unsigned_less)
  then have "unat x < 16 ^ Suc 7" by simp
  then have "length (hex_nat (unat x)) \<le> Suc 7" by (rule hex_nat_length)
  then show ?thesis by (simp add: dwordText_def)
qed

text \<open>The reference: all dwords, separated by commas.\<close>

primrec hexJoin :: "u32 list \<Rightarrow> string" where
  "hexJoin [] = []"
| "hexJoin (x # xs) = dwordText True x @ concat (map (dwordText False) xs)"

lemma dwordsLoop_all:
  "11 * length xs + 6 \<le> left \<Longrightarrow>
   dwordsLoop first left xs = (case xs of [] \<Rightarrow> [] | x # ys \<Rightarrow> dwordText first x @ concat (map (dwordText False) ys))"
proof (induction xs arbitrary: first left)
  case Nil
  then show ?case by simp
next
  case (Cons x xs)
  have l: "length (dwordText first x) \<le> 11" by (rule dwordText_length)
  have "dwordsLoop False (left - length (dwordText first x)) xs = concat (map (dwordText False) xs)"
    using Cons.prems l by (subst Cons.IH) (auto split: list.split)
  then show ?case using Cons.prems l by (simp add: Let_def)
qed

section \<open>Properties\<close>

text \<open>C38: No diagnostic dump writes a register: for every hardware and boot argument, the
  bring-up dump, the engine dump and the transition mark issue no store (other than the index
  register of the indirect read path) and change nothing but the two diagnostic records.\<close>

theorem trace_never_writes:
  "traced s (exec (do { dumpTglGpuBringupState b stage; dumpRcsEngineActivationState b;
     markRcsRegisterTransition b }) s)"
proof -
  have "state_io_rel traced (do { dumpTglGpuBringupState b stage; dumpRcsEngineActivationState b;
     markRcsRegisterTransition b })"
    by (intro tr.io_bind tr_dumpTglGpuBringupState tr_dumpRcsEngineActivationState tr_markRcsRegisterTransition)
  then show ?thesis unfolding state_io_rel_exec by blast
qed

text \<open>The bring-up flags stay consistent with each other and with the values they were
  derived from, whatever the registers return: submission readiness is GuC booted with
  interrupts enabled, anything awake or running implies a powered GT, a non-zero ring control
  a started ring.\<close>

theorem bringup_state_consistent:
  assumes "bringup_inv s"
  shows "bringup_inv (exec (dumpTglGpuBringupState b stage) s)"
  using bi_dump assms by (auto simp: state_io_rel_exec keeps_def)

definition bringup_init :: TglGpuBringupState where
  "bringup_init = TglGpuBringupState.make False False 0 False False False False False False False False
     False False False False False False False False 0 0 0 0 0"

definition trans_init :: RcsEngineTransitionState where
  "trans_init = RcsEngineTransitionState.make 0 0 0 0 0 0 False False False"

definition sample_kstate :: kstate where
  "sample_kstate = ngreen.extend sample_ngreen (kstate.fields (\<lambda>_. 0))"

definition sample_tstate :: tstate where
  "sample_tstate = kstate.extend sample_kstate (tstate.fields bringup_init trans_init)"

text \<open>The ring dumps stay inside the ring: for a ring whose size is a non-zero multiple of
  four bytes, every dword the masked index selects lies below the ring size, whatever the tail
  cursor.\<close>

theorem ring_window_in_bounds:
  assumes "msk + 1 \<noteq> 0" and "msk AND 3 = 3"
  shows "4 * unat (ringIdx msk start i) + 4 \<le> unat (msk + 1)"
proof -
  have "unat (ringIdx msk start i) \<le> unat (drop_bit 2 msk)"
    unfolding ringIdx_def by (simp only: word_le_nat_alt [symmetric] word_and_le1)
  also have "\<dots> = unat msk div 4"
    by (simp add: drop_bit_eq_div unat_div)
  finally have le: "unat (ringIdx msk start i) \<le> unat msk div 4" .
  have "take_bit 2 msk = 3"
    using assms(2) by (simp add: take_bit_eq_mask mask_eq_exp_minus_1)
  then have "unat msk mod 4 = 3"
    by (simp add: take_bit_eq_mod word_unat_eq_iff unat_mod_distrib)
  moreover have "unat (msk + 1) = unat msk + 1"
    using assms(1) by (metis Suc_eq_plus1 add.commute unatSuc)
  moreover have "4 * (unat msk div 4) + unat msk mod 4 = unat msk" by simp
  ultimately show ?thesis using le by linarith
qed

text \<open>The fixed buffer of 256 bytes is never truncated: printing up to sixteen dwords
  gives exactly their comma-separated list.\<close>

theorem dwordsBuf_complete:
  assumes "length xs \<le> 16"
  shows "dwordsBuf xs = hexJoin xs"
  using assms unfolding dwordsBuf_def
  by (subst dwordsLoop_all) (auto split: list.split)

end
