(* ===== verification/NG_Engine.thy ===== *)
theory NG_Engine
  imports NG_Trace
begin

text \<open>
  Engine bring-up tracking of \<open>iTGL/TGL.cpp\<close>: the per-engine state (blitter and render), the
  smoke test and quarantine, and the hooks around Apple's context, ring buffer, command
  streamer and scheduler routines. Apple's originals are parameters; \<open>None\<close> stands for a symbol
  that was not resolved. Reports read from kernel objects only (see the trace theory) have no
  effect and are left out of the hooks.
\<close>

section \<open>State\<close>

datatype NGTglTrackedEngine = NoEngine | BCS | RCS

record NGTglEngineState =
  contextSeen :: bool
  ringReady :: bool
  controlReady :: bool
  submitted :: bool
  smokePassed :: bool
  quarantined :: bool
  lastTail :: u32

record estate = tstate +
  bcs :: NGTglEngineState
  rcs :: NGTglEngineState

definition getTrackedEngineFromCsType :: "u32 \<Rightarrow> NGTglTrackedEngine" where
  "getTrackedEngineFromCsType type = (if type = kIGHwCsTypeBCS then BCS
     else if type = kIGHwCsTypeRCS then RCS else NoEngine)"

definition trackedEngineState :: "NGTglTrackedEngine \<Rightarrow> 'a estate_scheme \<Rightarrow> NGTglEngineState option" where
  "trackedEngineState e s = (case e of BCS \<Rightarrow> Some (bcs s) | RCS \<Rightarrow> Some (rcs s) | NoEngine \<Rightarrow> None)"

definition updateEngine ::
  "NGTglTrackedEngine \<Rightarrow> (NGTglEngineState \<Rightarrow> NGTglEngineState) \<Rightarrow> ('a estate_scheme, unit) state" where
  "updateEngine e f = modify (\<lambda>s. case e of
     BCS \<Rightarrow> s\<lparr>bcs := f (bcs s)\<rparr> | RCS \<Rightarrow> s\<lparr>rcs := f (rcs s)\<rparr> | NoEngine \<Rightarrow> s)"

definition getTrackedEngineFromContext :: "memory \<Rightarrow> u64 \<Rightarrow> NGTglTrackedEngine" where
  "getTrackedEngineFromContext m context =
     (let csState = (if context \<noteq> 0 then rd64 m (context + 0xb8) else 0)
      in if csState = 0 then NoEngine else getTrackedEngineFromCsType (rd32 m (csState + 0x20)))"

definition getTrackedEngineFromRingBuffer :: "memory \<Rightarrow> u64 \<Rightarrow> NGTglTrackedEngine" where
  "getTrackedEngineFromRingBuffer m ringBuffer =
     getTrackedEngineFromContext m (if ringBuffer \<noteq> 0 then rd64 m (ringBuffer + 0x20) else 0)"

definition isRcsEngineType :: "u32 \<Rightarrow> bool" where
  "isRcsEngineType type \<longleftrightarrow> type = kIGHwCsTypeRCS"

definition shouldUseSpoofedSafeSchedulerPolicy :: "'a ngreen_scheme \<Rightarrow> bool" where
  "shouldUseSpoofedSafeSchedulerPolicy s \<longleftrightarrow> \<not> isRealTGL s \<and> \<not> tryGuC s"

definition shouldBlockTrackedEngine :: "NGTglTrackedEngine \<Rightarrow> 'a estate_scheme \<Rightarrow> bool" where
  "shouldBlockTrackedEngine e s = (case trackedEngineState e s of Some st \<Rightarrow> quarantined st | None \<Rightarrow> False)"

definition markTrackedEngineContextSeen :: "NGTglTrackedEngine \<Rightarrow> ('a estate_scheme, unit) state" where
  "markTrackedEngineContextSeen e = updateEngine e (\<lambda>st. st\<lparr>contextSeen := True\<rparr>)"

definition markTrackedEngineRingReady :: "NGTglTrackedEngine \<Rightarrow> ('a estate_scheme, unit) state" where
  "markTrackedEngineRingReady e = updateEngine e (\<lambda>st. st\<lparr>ringReady := True\<rparr>)"

definition markTrackedEngineControlReady :: "NGTglTrackedEngine \<Rightarrow> bool \<Rightarrow> ('a estate_scheme, unit) state" where
  "markTrackedEngineControlReady e ready = updateEngine e (\<lambda>st. st\<lparr>controlReady := ready\<rparr>)"

definition markTrackedEngineSubmitted :: "NGTglTrackedEngine \<Rightarrow> ('a estate_scheme, unit) state" where
  "markTrackedEngineSubmitted e = updateEngine e (\<lambda>st. st\<lparr>submitted := True\<rparr>)"

definition trackedEngineRingBase :: "NGTglTrackedEngine \<Rightarrow> u64" where
  "trackedEngineRingBase e = (case e of BCS \<Rightarrow> BLT_RING_BASE | RCS \<Rightarrow> RENDER_RING_BASE | NoEngine \<Rightarrow> 0)"

section \<open>The smoke test\<close>

definition smoke_ok :: "NGTglEngineState \<Rightarrow> u32 \<Rightarrow> u32 \<Rightarrow> u32 \<Rightarrow> u32 \<Rightarrow> u32 \<Rightarrow> u32 \<Rightarrow> bool" where
  "smoke_ok st ringStart ringCtl ringHead ringTail execListStatus contextStatusPtr \<longleftrightarrow>
     contextSeen st \<and> ringReady st \<and> controlReady st \<and> ringStart \<noteq> 0 \<and> ringCtl \<noteq> 0
     \<and> (ringTail \<noteq> 0 \<or> ringHead \<noteq> 0 \<or> execListStatus \<noteq> 0 \<or> contextStatusPtr \<noteq> 0)"

definition readRing :: "u64 \<Rightarrow> ('a mmio_scheme, u32 \<times> u32 \<times> u32 \<times> u32 \<times> u32 \<times> u32) state" where
  "readRing ringBase = do {
     ringStart \<leftarrow> readReg32 (RING_START ringBase);
     ringCtl \<leftarrow> readReg32 (RING_CTL ringBase);
     ringHead \<leftarrow> readReg32 (RING_HEAD ringBase);
     ringTail \<leftarrow> readReg32 (RING_TAIL ringBase);
     execListStatus \<leftarrow> readReg32 (RING_EXECLIST_STATUS ringBase);
     contextStatusPtr \<leftarrow> readReg32 (RING_CONTEXT_STATUS_PTR ringBase);
     ret (ringStart, ringCtl, ringHead, ringTail, execListStatus, contextStatusPtr)
   }"

definition evaluateTrackedEngineBootstrap :: "NGTglTrackedEngine \<Rightarrow> ('a estate_scheme, bool) state" where
  "evaluateTrackedEngineBootstrap e = do {
     s \<leftarrow> State_Monad.get;
     let ringBase = trackedEngineRingBase e;
     case trackedEngineState e s of
       None \<Rightarrow> ret False
     | Some st \<Rightarrow> if ringBase = 0 \<or> \<not> mmioValid s then ret False else do {
         (ringStart, ringCtl, ringHead, ringTail, execListStatus, contextStatusPtr) \<leftarrow> readRing ringBase;
         if smoke_ok st ringStart ringCtl ringHead ringTail execListStatus contextStatusPtr
         then do { updateEngine e (\<lambda>st. st\<lparr>smokePassed := True\<rparr>); ret True }
         else if isRealTGL s \<and> e = RCS then ret False
         else do { updateEngine e (\<lambda>st. st\<lparr>quarantined := True\<rparr>); ret False }
       }
   }"

section \<open>Trace points\<close>

definition dumpRCSSubmissionState :: "('a mmio_scheme, unit) state" where
  "dumpRCSSubmissionState = whenReady (do {
     readRegs [RING_START RENDER_RING_BASE, RING_CTL RENDER_RING_BASE, RING_HEAD RENDER_RING_BASE,
       RING_TAIL RENDER_RING_BASE, RING_HWS_PGA RENDER_RING_BASE, RING_EXECLIST_STATUS RENDER_RING_BASE,
       RING_CONTEXT_STATUS_PTR RENDER_RING_BASE, ERROR_GEN6, GEN11_RENDER_COPY_INTR_ENABLE,
       GEN11_RCS0_RSVD_INTR_MASK, GEN11_GFX_MSTR_IRQ, GEN11_GT_INTR_DW0, GEN11_GT_INTR_DW1];
     forM [0..<4] (\<lambda>i. readRegs [RING_CONTEXT_STATUS_BUF RENDER_RING_BASE i,
       RING_CONTEXT_STATUS_BUF_HI RENDER_RING_BASE i])
   })"

text \<open>Before and after an original, in the hooks that only trace.\<close>

definition tracePost :: "boot \<Rightarrow> ('a tstate_scheme, unit) state" where
  "tracePost b = whenM (isRcsEngineTraceEnabled b) (do {
     dumpRcsEngineActivationState b; markRcsRegisterTransition b })"

definition callOrig :: "('s, 'r) state option \<Rightarrow> 'r \<Rightarrow> ('s, 'r) state" where
  "callOrig orig dflt = (case orig of None \<Rightarrow> ret dflt | Some m \<Rightarrow> m)"

section \<open>Scheduler hooks\<close>

definition scheduler5Hook :: "boot \<Rightarrow> ('a tstate_scheme, bool) state option \<Rightarrow> ('a tstate_scheme, bool) state" where
  "scheduler5Hook b orig = do {
     dumpRCSSubmissionState;
     dumpRcsEngineActivationState b;
     case orig of
       None \<Rightarrow> do { dumpRCSSubmissionState; dumpRcsEngineActivationState b; ret False }
     | Some m \<Rightarrow> do {
         r \<leftarrow> m;
         dumpRCSSubmissionState;
         tracePost b;
         ret r
       }
   }"

definition IGScheduler5initWithAccelerator ::
  "boot \<Rightarrow> (u64 \<Rightarrow> u64 \<Rightarrow> ('a tstate_scheme, bool) state) option \<Rightarrow> u64 \<Rightarrow> u64 \<Rightarrow> ('a tstate_scheme, bool) state" where
  "IGScheduler5initWithAccelerator b orig that accelerator =
     scheduler5Hook b (map_option (\<lambda>f. f that accelerator) orig)"

definition IGScheduler5resume ::
  "boot \<Rightarrow> (u64 \<Rightarrow> ('a tstate_scheme, unit) state) option \<Rightarrow> u64 \<Rightarrow> ('a tstate_scheme, unit) state" where
  "IGScheduler5resume b orig that = do {
     _ \<leftarrow> scheduler5Hook b (map_option (\<lambda>f. do { f that; ret True }) orig); ret () }"

definition IGScheduler5push ::
  "boot \<Rightarrow> (u64 \<Rightarrow> u64 \<Rightarrow> u32 \<Rightarrow> u32 \<Rightarrow> bool \<Rightarrow> bool \<Rightarrow> ('a tstate_scheme, bool) state) option \<Rightarrow>
   u64 \<Rightarrow> u64 \<Rightarrow> u32 \<Rightarrow> u32 \<Rightarrow> bool \<Rightarrow> bool \<Rightarrow> ('a tstate_scheme, bool) state" where
  "IGScheduler5push b orig that context arg2 arg3 arg4 arg5 = do {
     r \<leftarrow> scheduler5Hook b (map_option (\<lambda>f. f that context arg2 arg3 arg4 arg5) orig);
     whenM (isRcsEngineTraceEnabled b \<and> orig \<noteq> None)
       (readRegs [RING_START RENDER_RING_BASE, RING_CTL RENDER_RING_BASE, RING_TAIL RENDER_RING_BASE,
         RING_ACTHD RENDER_RING_BASE, RING_CONTEXT_STATUS_BUF RENDER_RING_BASE 0,
         RING_CONTEXT_STATUS_BUF_HI RENDER_RING_BASE 0]);
     ret r
   }"

definition IGScheduler5notify ::
  "boot \<Rightarrow> (u64 \<Rightarrow> u32 \<Rightarrow> ('a tstate_scheme, unit) state) option \<Rightarrow> u64 \<Rightarrow> u32 \<Rightarrow> ('a tstate_scheme, unit) state" where
  "IGScheduler5notify b orig that type = do {
     _ \<leftarrow> scheduler5Hook b (map_option (\<lambda>f. do { f that type; ret True }) orig); ret () }"

definition IGScheduler5enableStampInterrupt ::
  "boot \<Rightarrow> (u64 \<Rightarrow> int \<Rightarrow> ('a tstate_scheme, unit) state) option \<Rightarrow> u64 \<Rightarrow> int \<Rightarrow> ('a tstate_scheme, unit) state" where
  "IGScheduler5enableStampInterrupt b orig that stampIndex = do {
     _ \<leftarrow> scheduler5Hook b (map_option (\<lambda>f. do { f that stampIndex; ret True }) orig); ret () }"

definition IGScheduler5enableContextSwitchInterrupts ::
  "boot \<Rightarrow> (u64 \<Rightarrow> ('a tstate_scheme, unit) state) option \<Rightarrow> u64 \<Rightarrow> ('a tstate_scheme, unit) state" where
  "IGScheduler5enableContextSwitchInterrupts b orig that = do {
     _ \<leftarrow> scheduler5Hook b (map_option (\<lambda>f. do { f that; ret True }) orig); ret () }"

definition IGScheduler5checkForProgress ::
  "boot \<Rightarrow> (u64 \<Rightarrow> u32 \<Rightarrow> ('a tstate_scheme, bool) state) option \<Rightarrow> u64 \<Rightarrow> u32 \<Rightarrow> ('a tstate_scheme, bool) state" where
  "IGScheduler5checkForProgress b orig that type =
     scheduler5Hook b (map_option (\<lambda>f. f that type) orig)"

section \<open>Context, ring buffer and command streamer hooks\<close>

definition engineOf :: "u64 \<Rightarrow> ('a estate_scheme, NGTglTrackedEngine) state" where
  "engineOf context = gets (\<lambda>s. getTrackedEngineFromContext (kmem s) context)"

definition IGHardwareContextinitRingGPUVirtualAddress ::
  "boot \<Rightarrow> ('a estate_scheme, bool) state option \<Rightarrow> u64 \<Rightarrow> ('a estate_scheme, unit) state" where
  "IGHardwareContextinitRingGPUVirtualAddress b orig that = do {
     engine \<leftarrow> engineOf that;
     blocked \<leftarrow> gets (shouldBlockTrackedEngine engine);
     if blocked then ret () else do {
       dumpRcsEngineActivationState b;
       _ \<leftarrow> callOrig orig True;
       markTrackedEngineContextSeen engine;
       tracePost b
     }
   }"

definition IGHardwareContextinitRingRegisters ::
  "boot \<Rightarrow> ('a estate_scheme, bool) state option \<Rightarrow> u64 \<Rightarrow> ('a estate_scheme, unit) state" where
  "IGHardwareContextinitRingRegisters b orig that = do {
     engine \<leftarrow> engineOf that;
     blocked \<leftarrow> gets (shouldBlockTrackedEngine engine);
     if blocked then ret () else do {
       dumpRcsEngineActivationState b;
       _ \<leftarrow> callOrig orig True;
       markTrackedEngineRingReady engine;
       tracePost b
     }
   }"

definition IGHardwareContextinitRingControl ::
  "boot \<Rightarrow> ('a estate_scheme, bool) state option \<Rightarrow> u64 \<Rightarrow> bool \<Rightarrow> ('a estate_scheme, unit) state" where
  "IGHardwareContextinitRingControl b orig that enable = do {
     engine \<leftarrow> engineOf that;
     blocked \<leftarrow> gets (shouldBlockTrackedEngine engine);
     if blocked then ret () else do {
       st \<leftarrow> gets (trackedEngineState engine);
       whenM (case st of Some e \<Rightarrow> enable \<and> \<not> ringReady e | None \<Rightarrow> False) (markTrackedEngineRingReady engine);
       dumpRcsEngineActivationState b;
       _ \<leftarrow> callOrig orig True;
       markTrackedEngineControlReady engine enable;
       whenM enable (do { _ \<leftarrow> evaluateTrackedEngineBootstrap engine; ret () });
       tracePost b
     }
   }"

definition IGHardwareContextresetRingHead ::
  "boot \<Rightarrow> ('a estate_scheme, bool) state option \<Rightarrow> u64 \<Rightarrow> ('a estate_scheme, unit) state" where
  "IGHardwareContextresetRingHead b orig that = do {
     engine \<leftarrow> engineOf that;
     blocked \<leftarrow> gets (shouldBlockTrackedEngine engine);
     if blocked then ret () else do {
       dumpRcsEngineActivationState b;
       _ \<leftarrow> callOrig orig True;
       updateEngine engine (\<lambda>st. st\<lparr>submitted := False\<rparr>);
       tracePost b
     }
   }"

definition IGHardwareContextupdateRingTail ::
  "boot \<Rightarrow> ('a estate_scheme, bool) state option \<Rightarrow> u64 \<Rightarrow> u32 \<Rightarrow> ('a estate_scheme, unit) state" where
  "IGHardwareContextupdateRingTail b orig that tail = do {
     engine \<leftarrow> engineOf that;
     st \<leftarrow> gets (trackedEngineState engine);
     blocked \<leftarrow> gets (shouldBlockTrackedEngine engine);
     if blocked then ret ()
     else if (case st of Some e \<Rightarrow> \<not> ringReady e | None \<Rightarrow> False)
       then updateEngine engine (\<lambda>st. st\<lparr>quarantined := True\<rparr>)
     else do {
       updateEngine engine (\<lambda>st. st\<lparr>lastTail := tail\<rparr>);
       dumpRcsEngineActivationState b;
       _ \<leftarrow> callOrig orig True;
       markTrackedEngineSubmitted engine;
       _ \<leftarrow> evaluateTrackedEngineBootstrap engine;
       tracePost b
     }
   }"

definition IGHardwareRingBufferinit ::
  "boot \<Rightarrow> ('a estate_scheme, bool) state option \<Rightarrow> u64 \<Rightarrow> u64 \<Rightarrow> ('a estate_scheme, bool) state" where
  "IGHardwareRingBufferinit b orig that context = do {
     engine \<leftarrow> engineOf context;
     blocked \<leftarrow> gets (shouldBlockTrackedEngine engine);
     if blocked then ret False else do {
       dumpRcsEngineActivationState b;
       case orig of
         None \<Rightarrow> do { dumpRcsEngineActivationState b; ret False }
       | Some m \<Rightarrow> do { r \<leftarrow> m; tracePost b; ret r }
     }
   }"

definition evaluateUnlessPassed :: "NGTglTrackedEngine \<Rightarrow> ('a estate_scheme, unit) state" where
  "evaluateUnlessPassed e = do {
     st \<leftarrow> gets (trackedEngineState e);
     whenM (case st of Some x \<Rightarrow> \<not> smokePassed x | None \<Rightarrow> False)
       (do { _ \<leftarrow> evaluateTrackedEngineBootstrap e; ret () })
   }"

definition IGHardwareRingBuffersubmitToRing ::
  "boot \<Rightarrow> ('a estate_scheme, bool) state option \<Rightarrow> u64 \<Rightarrow> ('a estate_scheme, unit) state" where
  "IGHardwareRingBuffersubmitToRing b orig that = do {
     engine \<leftarrow> gets (\<lambda>s. getTrackedEngineFromRingBuffer (kmem s) that);
     st \<leftarrow> gets (trackedEngineState engine);
     blocked \<leftarrow> gets (shouldBlockTrackedEngine engine);
     if blocked then ret ()
     else if (case st of Some e \<Rightarrow> \<not> controlReady e | None \<Rightarrow> False)
       then updateEngine engine (\<lambda>st. st\<lparr>quarantined := True\<rparr>)
     else do {
       dumpRcsEngineActivationState b;
       _ \<leftarrow> callOrig orig True;
       markTrackedEngineSubmitted engine;
       evaluateUnlessPassed engine;
       tracePost b
     }
   }"

definition IGHardwareRenderCommandStreamerinit ::
  "boot \<Rightarrow> ('a estate_scheme, bool) state option \<Rightarrow> ('a estate_scheme, bool) state" where
  "IGHardwareRenderCommandStreamerinit b orig = do {
     dumpRcsEngineActivationState b;
     case orig of
       None \<Rightarrow> do { dumpRcsEngineActivationState b; ret False }
     | Some m \<Rightarrow> do { r \<leftarrow> m; tracePost b; ret r }
   }"

definition safePolicyBlocks :: "'a estate_scheme \<Rightarrow> bool" where
  "safePolicyBlocks s \<longleftrightarrow> shouldUseSpoofedSafeSchedulerPolicy s \<and> quarantined (bcs s)"

definition IGHardwareCommandStreamerresumeScheduling ::
  "boot \<Rightarrow> ('a estate_scheme, bool) state option \<Rightarrow> ('a estate_scheme, unit) state" where
  "IGHardwareCommandStreamerresumeScheduling b orig = do {
     blocked \<leftarrow> gets safePolicyBlocks;
     if blocked then ret () else do {
       dumpRcsEngineActivationState b;
       _ \<leftarrow> callOrig orig True;
       tracePost b
     }
   }"

definition IGHardwareCommandStreamersubmitExecList ::
  "boot \<Rightarrow> ('a estate_scheme, bool) state option \<Rightarrow> ('a estate_scheme, unit) state" where
  "IGHardwareCommandStreamersubmitExecList b orig = do {
     blocked \<leftarrow> gets safePolicyBlocks;
     if blocked then ret () else do {
       dumpRcsEngineActivationState b;
       _ \<leftarrow> callOrig orig True;
       evaluateUnlessPassed RCS;
       tracePost b
     }
   }"

definition IGHardwareCommandStreamerprepareExecListAndSubmit ::
  "boot \<Rightarrow> ('a estate_scheme, bool) state option \<Rightarrow> ('a estate_scheme, unit) state" where
  "IGHardwareCommandStreamerprepareExecListAndSubmit b orig = do {
     blocked \<leftarrow> gets safePolicyBlocks;
     if blocked then ret () else do {
       dumpRcsEngineActivationState b;
       _ \<leftarrow> callOrig orig True;
       evaluateUnlessPassed RCS;
       tracePost b
     }
   }"

text \<open>
  The hooks as one family: the arguments of a call, and the hook it enters. \<open>orig\<close> gives
  Apple's routine for the call, which may itself enter further hooks.
\<close>

datatype engine_call =
    InitRingGPUVirtualAddress u64
  | InitRingRegisters u64
  | InitRingControl u64 bool
  | ResetRingHead u64
  | UpdateRingTail u64 u32
  | RingBufferInit u64 u64
  | SubmitToRing u64
  | RenderCommandStreamerInit u64 u64 u64 u64
  | ResumeScheduling u64
  | SubmitExecList u64 u32
  | PrepareExecListAndSubmit u64 u32 u32 u64

fun runCall ::
  "boot \<Rightarrow> (engine_call \<Rightarrow> ('a estate_scheme, bool) state option) \<Rightarrow> engine_call \<Rightarrow> ('a estate_scheme, unit) state" where
  "runCall b orig (InitRingGPUVirtualAddress c) =
     IGHardwareContextinitRingGPUVirtualAddress b (orig (InitRingGPUVirtualAddress c)) c"
| "runCall b orig (InitRingRegisters c) =
     IGHardwareContextinitRingRegisters b (orig (InitRingRegisters c)) c"
| "runCall b orig (InitRingControl c en) =
     IGHardwareContextinitRingControl b (orig (InitRingControl c en)) c en"
| "runCall b orig (ResetRingHead c) =
     IGHardwareContextresetRingHead b (orig (ResetRingHead c)) c"
| "runCall b orig (UpdateRingTail c t) =
     IGHardwareContextupdateRingTail b (orig (UpdateRingTail c t)) c t"
| "runCall b orig (RingBufferInit r c) =
     do { _ \<leftarrow> IGHardwareRingBufferinit b (orig (RingBufferInit r c)) r c; ret () }"
| "runCall b orig (SubmitToRing r) =
     IGHardwareRingBuffersubmitToRing b (orig (SubmitToRing r)) r"
| "runCall b orig (RenderCommandStreamerInit t a w sc) =
     do { _ \<leftarrow> IGHardwareRenderCommandStreamerinit b (orig (RenderCommandStreamerInit t a w sc)); ret () }"
| "runCall b orig (ResumeScheduling t) =
     IGHardwareCommandStreamerresumeScheduling b (orig (ResumeScheduling t))"
| "runCall b orig (SubmitExecList t stamp) =
     IGHardwareCommandStreamersubmitExecList b (orig (SubmitExecList t stamp))"
| "runCall b orig (PrepareExecListAndSubmit t a1 a2 a3) =
     IGHardwareCommandStreamerprepareExecListAndSubmit b (orig (PrepareExecListAndSubmit t a1 a2 a3))"

section \<open>The engine state machine\<close>

text \<open>
  What the hooks promise of one engine: the transitions its state may take. A tail is recorded
  only for a ready ring, the smoke test is passed only with context, ring and control in place.
\<close>

inductive eng_step :: "NGTglEngineState \<Rightarrow> NGTglEngineState \<Rightarrow> bool" where
  see: "eng_step e (e\<lparr>contextSeen := True\<rparr>)"
| ring: "eng_step e (e\<lparr>ringReady := True\<rparr>)"
| control: "eng_step e (e\<lparr>controlReady := c\<rparr>)"
| submit: "eng_step e (e\<lparr>submitted := True\<rparr>)"
| rewind: "eng_step e (e\<lparr>submitted := False\<rparr>)"
| tail: "ringReady e \<Longrightarrow> eng_step e (e\<lparr>lastTail := t\<rparr>)"
| pass: "contextSeen e \<Longrightarrow> ringReady e \<Longrightarrow> controlReady e \<Longrightarrow> eng_step e (e\<lparr>smokePassed := True\<rparr>)"
| quarantine: "eng_step e (e\<lparr>quarantined := True\<rparr>)"

inductive_cases eng_step_E: "eng_step e f"

abbreviation eng_steps :: "NGTglEngineState \<Rightarrow> NGTglEngineState \<Rightarrow> bool" where
  "eng_steps \<equiv> eng_step\<^sup>*\<^sup>*"

definition eng_evolves :: "'a estate_scheme \<Rightarrow> 'a estate_scheme \<Rightarrow> bool" where
  "eng_evolves s t \<longleftrightarrow> eng_steps (bcs s) (bcs t) \<and> eng_steps (rcs s) (rcs t)"

interpretation eo: step_order eng_evolves
  by unfold_locales (auto simp: eng_evolves_def)

definition eng_ok :: "NGTglEngineState \<Rightarrow> bool" where
  "eng_ok e \<longleftrightarrow> (smokePassed e \<longrightarrow> contextSeen e \<and> ringReady e) \<and> (lastTail e \<noteq> 0 \<longrightarrow> ringReady e)"

lemma eng_step_ok: "eng_step e f \<Longrightarrow> eng_ok e \<Longrightarrow> eng_ok f"
  by (erule eng_step.cases) (auto simp: eng_ok_def)

lemma eng_steps_ok: "eng_steps e f \<Longrightarrow> eng_ok e \<Longrightarrow> eng_ok f"
  by (induction rule: rtranclp_induct) (auto intro: eng_step_ok)

definition latched :: "NGTglEngineState \<Rightarrow> NGTglEngineState \<Rightarrow> bool" where
  "latched e f \<longleftrightarrow> (contextSeen e \<longrightarrow> contextSeen f) \<and> (ringReady e \<longrightarrow> ringReady f)
     \<and> (smokePassed e \<longrightarrow> smokePassed f) \<and> (quarantined e \<longrightarrow> quarantined f)"

lemma eng_step_latched: "eng_step e f \<Longrightarrow> latched e f"
  by (erule eng_step.cases) (auto simp: latched_def)

lemma eng_steps_latched: "eng_steps e f \<Longrightarrow> latched e f"
proof (induction rule: rtranclp_induct)
  case base
  then show ?case by (simp add: latched_def)
next
  case (step f g)
  then show ?case using eng_step_latched [of f g] by (auto simp: latched_def)
qed

section \<open>The hooks refine the machine\<close>

lemma eo_traced:
  assumes "state_io_rel traced m"
  shows "state_io_rel eng_evolves m"
  unfolding state_io_rel_exec
proof (rule allI)
  fix s :: "'a estate_scheme"
  obtain h g r where "exec m s = s\<lparr>hist := h, gTglGpuBringupState := g, gRcsTransitionState := r\<rparr>"
    by (rule traced_exec [OF assms])
  then show "eng_evolves s (exec m s)" by (simp add: eng_evolves_def)
qed

lemma eo_update:
  assumes "\<And>st. trackedEngineState e s = Some st \<Longrightarrow> eng_step st (f st)"
  shows "eng_evolves s (exec (updateEngine e f) s)"
  using assms by (cases e) (auto simp: eng_evolves_def updateEngine_def trackedEngineState_def)

lemma eo_update_any: "(\<And>st. eng_step st (f st)) \<Longrightarrow> state_io_rel eng_evolves (updateEngine e f)"
  unfolding state_io_rel_exec using eo_update by blast

lemma tr_dumpRCSSubmissionState: "state_io_rel traced dumpRCSSubmissionState"
  unfolding dumpRCSSubmissionState_def by (intro tr_rules)

lemma tr_tracePost: "state_io_rel traced (tracePost b)"
  unfolding tracePost_def by (intro tr_rules tr_dumpRcsEngineActivationState tr_markRcsRegisterTransition)

lemmas eo_trace = eo_traced [OF tr_dumpRcsEngineActivationState] eo_traced [OF tr_tracePost]

lemma eo_marks:
  "state_io_rel eng_evolves (markTrackedEngineContextSeen e)"
  "state_io_rel eng_evolves (markTrackedEngineRingReady e)"
  "state_io_rel eng_evolves (markTrackedEngineControlReady e r)"
  "state_io_rel eng_evolves (markTrackedEngineSubmitted e)"
  "state_io_rel eng_evolves (updateEngine e (\<lambda>st. st\<lparr>submitted := False\<rparr>))"
  "state_io_rel eng_evolves (updateEngine e (\<lambda>st. st\<lparr>quarantined := True\<rparr>))"
  unfolding markTrackedEngineContextSeen_def markTrackedEngineRingReady_def
    markTrackedEngineControlReady_def markTrackedEngineSubmitted_def
  by (rule eo_update_any, rule eng_step.intros)+

lemma eo_callOrig:
  "(\<And>m. orig = Some m \<Longrightarrow> state_io_rel eng_evolves m) \<Longrightarrow> state_io_rel eng_evolves (callOrig orig d)"
  unfolding callOrig_def by (intro eo.io_case_option eo.io_ret)

lemma bo_readRing: "state_io_rel bus_only (readRing base)"
  unfolding readRing_def by (intro bo_rules)

text \<open>The four outcomes of the smoke test.\<close>

lemma evaluate_cases:
  fixes s :: "'a estate_scheme"
  obtains (none) "trackedEngineState e s = None" "result (evaluateTrackedEngineBootstrap e) s = False"
      "exec (evaluateTrackedEngineBootstrap e) s = s"
  | (unmapped) "\<not> mmioValid s" "result (evaluateTrackedEngineBootstrap e) s = False"
      "exec (evaluateTrackedEngineBootstrap e) s = s"
  | (pass) st h where "trackedEngineState e s = Some st" "mmioValid s"
      "contextSeen st" "ringReady st" "controlReady st"
      "result (evaluateTrackedEngineBootstrap e) s = True"
      "exec (evaluateTrackedEngineBootstrap e) s =
         exec (updateEngine e (\<lambda>st. st\<lparr>smokePassed := True\<rparr>)) (s\<lparr>hist := h\<rparr>)"
  | (deferred) st h where "trackedEngineState e s = Some st" "mmioValid s" "isRealTGL s" "e = RCS"
      "result (evaluateTrackedEngineBootstrap e) s = False"
      "exec (evaluateTrackedEngineBootstrap e) s = s\<lparr>hist := h\<rparr>"
  | (fail) st h where "trackedEngineState e s = Some st" "mmioValid s" "\<not> (isRealTGL s \<and> e = RCS)"
      "result (evaluateTrackedEngineBootstrap e) s = False"
      "exec (evaluateTrackedEngineBootstrap e) s =
         exec (updateEngine e (\<lambda>st. st\<lparr>quarantined := True\<rparr>)) (s\<lparr>hist := h\<rparr>)"
proof (cases "trackedEngineState e s")
  case None
  then show ?thesis by (intro none) (simp_all add: evaluateTrackedEngineBootstrap_def Let_def)
next
  case (Some st)
  then have base: "trackedEngineRingBase e \<noteq> 0"
    by (cases e) (simp_all add: trackedEngineState_def trackedEngineRingBase_def)
  show ?thesis
  proof (cases "mmioValid s")
    case False
    then show ?thesis using Some by (intro unmapped) (simp_all add: evaluateTrackedEngineBootstrap_def Let_def)
  next
    case True
    obtain h where h: "exec (readRing (trackedEngineRingBase e)) s = s\<lparr>hist := h\<rparr>"
      using bus_only_exec [OF bo_readRing] by blast
    obtain a c d t x p where r: "result (readRing (trackedEngineRingBase e)) s = (a, c, d, t, x, p)"
      by (cases "result (readRing (trackedEngineRingBase e)) s") auto
    note ev = evaluateTrackedEngineBootstrap_def Let_def
    show ?thesis
    proof (cases "smoke_ok st a c d t x p")
      case ok: True
      then show ?thesis using Some True base h r
        by (intro pass [of st h]) (simp_all add: ev smoke_ok_def)
    next
      case no: False
      show ?thesis
      proof (cases "isRealTGL s \<and> e = RCS")
        case d: True
        then show ?thesis using Some True base h r no
          by (intro deferred [of st h]) (simp_all add: ev)
      next
        case nd: False
        then show ?thesis using Some True base h r no
          by (intro fail [of st h]) (auto simp: ev)
      qed
    qed
  qed
qed

lemma trackedEngineState_hist [simp]: "trackedEngineState e (s\<lparr>hist := h\<rparr>) = trackedEngineState e s"
  by (simp add: trackedEngineState_def cong: NGTglTrackedEngine.case_cong)

lemma eng_evolves_hist [simp]: "eng_evolves (s\<lparr>hist := h\<rparr>) t \<longleftrightarrow> eng_evolves s t"
  by (simp add: eng_evolves_def)

lemma eo_evaluate: "state_io_rel eng_evolves (evaluateTrackedEngineBootstrap e)"
  unfolding state_io_rel_exec
proof (rule allI)
  fix s :: "'a estate_scheme"
  show "eng_evolves s (exec (evaluateTrackedEngineBootstrap e) s)"
  proof (cases rule: evaluate_cases [of e s])
    case (pass st h)
    have "eng_evolves (s\<lparr>hist := h\<rparr>) (exec (updateEngine e (\<lambda>st. st\<lparr>smokePassed := True\<rparr>)) (s\<lparr>hist := h\<rparr>))"
      using pass by (intro eo_update) (auto intro: eng_step.pass)
    then show ?thesis unfolding pass by simp
  next
    case (fail st h)
    have "eng_evolves (s\<lparr>hist := h\<rparr>) (exec (updateEngine e (\<lambda>st. st\<lparr>quarantined := True\<rparr>)) (s\<lparr>hist := h\<rparr>))"
      by (rule eo_update) (rule eng_step.quarantine)
    then show ?thesis unfolding fail by simp
  next
    case (deferred st h)
    show ?thesis by (subst deferred(6)) (simp add: eng_evolves_def)
  qed (simp_all add: eo.step_refl)
qed

lemma eo_evaluateUnlessPassed: "state_io_rel eng_evolves (evaluateUnlessPassed e)"
  unfolding evaluateUnlessPassed_def by (intro eo.io_rules eo_evaluate)

lemma eo_updateRingTail:
  assumes o: "\<And>m. orig = Some m \<Longrightarrow> state_io_rel eng_evolves m"
  shows "state_io_rel eng_evolves (IGHardwareContextupdateRingTail b orig that tail)"
  unfolding state_io_rel_exec
proof (rule allI)
  fix s :: "'a estate_scheme"
  define e where "e = getTrackedEngineFromContext (kmem s) that"
  define rest where "rest = do { dumpRcsEngineActivationState b; _ \<leftarrow> callOrig orig True;
    markTrackedEngineSubmitted e; _ \<leftarrow> evaluateTrackedEngineBootstrap e; tracePost b }"
  have r: "state_io_rel eng_evolves rest"
    unfolding rest_def by (intro eo.io_rules eo_trace eo_callOrig o eo_marks eo_evaluate)
  define notReady where "notReady = (case trackedEngineState e s of Some st \<Rightarrow> \<not> ringReady st | None \<Rightarrow> False)"
  have ex: "exec (IGHardwareContextupdateRingTail b orig that tail) s =
      (if shouldBlockTrackedEngine e s then s
       else if notReady then exec (updateEngine e (\<lambda>st. st\<lparr>quarantined := True\<rparr>)) s
       else exec rest (exec (updateEngine e (\<lambda>st. st\<lparr>lastTail := tail\<rparr>)) s))"
    unfolding IGHardwareContextupdateRingTail_def engineOf_def e_def rest_def notReady_def by simp
  have t: "eng_evolves s (exec (updateEngine e (\<lambda>st. st\<lparr>lastTail := tail\<rparr>)) s)" if "\<not> notReady"
    using that unfolding notReady_def by (intro eo_update eng_step.tail) auto
  have q: "eng_evolves s (exec (updateEngine e (\<lambda>st. st\<lparr>quarantined := True\<rparr>)) s)"
    using eo_marks(6) by (auto simp: state_io_rel_exec)
  have rest: "eng_evolves u (exec rest u)" for u
    using r by (simp add: state_io_rel_exec)
  have tr: "eng_evolves s (exec rest (exec (updateEngine e (\<lambda>st. st\<lparr>lastTail := tail\<rparr>)) s))" if "\<not> notReady"
    by (rule eo.step_trans [OF t [OF that] rest])
  show "eng_evolves s (exec (IGHardwareContextupdateRingTail b orig that tail) s)"
    unfolding ex using q tr eo.step_refl [of s] by (simp only: if_splits) auto
qed

lemma eo_hooks:
  assumes o: "\<And>m. orig = Some m \<Longrightarrow> state_io_rel eng_evolves m"
  shows "state_io_rel eng_evolves (IGHardwareContextinitRingGPUVirtualAddress b orig c)"
    and "state_io_rel eng_evolves (IGHardwareContextinitRingRegisters b orig c)"
    and "state_io_rel eng_evolves (IGHardwareContextinitRingControl b orig c en)"
    and "state_io_rel eng_evolves (IGHardwareContextresetRingHead b orig c)"
    and "state_io_rel eng_evolves (IGHardwareRingBufferinit b orig r c)"
    and "state_io_rel eng_evolves (IGHardwareRingBuffersubmitToRing b orig r)"
    and "state_io_rel eng_evolves (IGHardwareRenderCommandStreamerinit b orig)"
    and "state_io_rel eng_evolves (IGHardwareCommandStreamerresumeScheduling b orig)"
    and "state_io_rel eng_evolves (IGHardwareCommandStreamersubmitExecList b orig)"
    and "state_io_rel eng_evolves (IGHardwareCommandStreamerprepareExecListAndSubmit b orig)"
  unfolding IGHardwareContextinitRingGPUVirtualAddress_def engineOf_def
      IGHardwareContextinitRingRegisters_def IGHardwareContextinitRingControl_def
      IGHardwareContextresetRingHead_def IGHardwareRingBufferinit_def IGHardwareRingBuffersubmitToRing_def
      IGHardwareRenderCommandStreamerinit_def IGHardwareCommandStreamerresumeScheduling_def
      IGHardwareCommandStreamersubmitExecList_def IGHardwareCommandStreamerprepareExecListAndSubmit_def
  by (intro eo.io_rules eo_trace eo_marks eo_callOrig [OF o] eo_evaluate eo_evaluateUnlessPassed o; assumption)+

lemma eo_runCall:
  assumes o: "\<And>c m. orig c = Some m \<Longrightarrow> state_io_rel eng_evolves m"
  shows "state_io_rel eng_evolves (runCall b orig call)"
proof -
  have hooks: "state_io_rel eng_evolves (do { _ \<leftarrow> m; ret () })" if "state_io_rel eng_evolves m" for m :: "('a estate_scheme, bool) state"
    using that by (intro eo.io_rules)
  show ?thesis
    by (cases call; simp only: runCall.simps)
       (rule eo_hooks eo_updateRingTail hooks [OF eo_hooks(5)] hooks [OF eo_hooks(7)]; erule o)+
qed

lemma eo_runCalls:
  assumes "\<And>c m. orig c = Some m \<Longrightarrow> state_io_rel eng_evolves m"
  shows "state_io_rel eng_evolves (forM calls (runCall b orig))"
  by (rule eo.io_forM, rule eo_runCall, erule assms)

section \<open>Properties\<close>

definition eng_init :: NGTglEngineState where
  "eng_init = NGTglEngineState.make False False False False False False 0"

definition sample_estate :: estate where
  "sample_estate = tstate.extend sample_tstate (estate.fields eng_init eng_init)"

definition no_orig :: "engine_call \<Rightarrow> ('s, bool) state option" where
  "no_orig c = Some (ret True)"

lemma no_orig_evolves: "no_orig c = Some m \<Longrightarrow> state_io_rel eng_evolves m"
  by (auto simp: no_orig_def intro: eo.io_ret)

text \<open>C2: Every sequence of hook calls takes each engine's state only through the transitions
  of the engine state machine, when Apple's routines (which may enter further hooks) do.\<close>

theorem hooks_refine_engine_machine:
  assumes "\<And>c m. orig c = Some m \<Longrightarrow> state_io_rel eng_evolves m"
  shows "eng_evolves s (exec (forM calls (runCall b orig)) s)"
  using eo_runCalls [OF assms] by (simp add: state_io_rel_exec)

theorem hooks_refine_engine_machine_witness:
  "eng_evolves sample_estate (exec (forM [InitRingRegisters 0x10, UpdateRingTail 0x10 8] (runCall boot_none no_orig)) sample_estate)"
  by (rule hooks_refine_engine_machine) (rule no_orig_evolves)

text \<open>C16: Quarantine is permanent: once an engine is quarantined, no sequence of hook calls
  lifts it. The same holds of the context-seen, ring-ready and smoke-passed marks.\<close>

theorem quarantine_permanent:
  assumes "\<And>c m. orig c = Some m \<Longrightarrow> state_io_rel eng_evolves m"
  shows "latched (rcs s) (rcs (exec (forM calls (runCall b orig)) s))
    \<and> latched (bcs s) (bcs (exec (forM calls (runCall b orig)) s))"
  using eo_runCalls [OF assms] by (auto simp: state_io_rel_exec eng_evolves_def intro!: eng_steps_latched)

theorem quarantine_permanent_witness:
  "quarantined (rcs (exec (forM [InitRingRegisters 0x10, SubmitToRing 0x10] (runCall boot_none no_orig))
     (sample_estate\<lparr>rcs := eng_init\<lparr>quarantined := True\<rparr>\<rparr>)))"
  using quarantine_permanent [of no_orig "sample_estate\<lparr>rcs := eng_init\<lparr>quarantined := True\<rparr>\<rparr>"
      "[InitRingRegisters 0x10, SubmitToRing 0x10]" boot_none, OF no_orig_evolves]
  unfolding latched_def by simp

text \<open>An engine is only marked as passing the smoke test with its context seen and its ring
  ready, and a ring tail is only recorded for a ready ring, after any sequence of hook calls
  from the initial state.\<close>

theorem smoke_pass_needs_setup:
  assumes "\<And>c m. orig c = Some m \<Longrightarrow> state_io_rel eng_evolves m"
    and "rcs s = eng_init" and "bcs s = eng_init"
  shows "eng_ok (rcs (exec (forM calls (runCall b orig)) s)) \<and> eng_ok (bcs (exec (forM calls (runCall b orig)) s))"
proof -
  have "eng_ok eng_init" by (simp add: eng_ok_def eng_init_def NGTglEngineState.defs)
  moreover have "eng_evolves s (exec (forM calls (runCall b orig)) s)"
    using eo_runCalls [of orig calls b, OF assms(1)] by (simp add: state_io_rel_exec)
  ultimately show ?thesis
    using assms(2,3) by (auto simp: eng_evolves_def intro: eng_steps_ok)
qed

text \<open>The engine a call is about.\<close>

fun callEngine :: "memory \<Rightarrow> engine_call \<Rightarrow> NGTglTrackedEngine" where
  "callEngine m (InitRingGPUVirtualAddress c) = getTrackedEngineFromContext m c"
| "callEngine m (InitRingRegisters c) = getTrackedEngineFromContext m c"
| "callEngine m (InitRingControl c en) = getTrackedEngineFromContext m c"
| "callEngine m (ResetRingHead c) = getTrackedEngineFromContext m c"
| "callEngine m (UpdateRingTail c t) = getTrackedEngineFromContext m c"
| "callEngine m (RingBufferInit r c) = getTrackedEngineFromContext m c"
| "callEngine m (SubmitToRing r) = getTrackedEngineFromRingBuffer m r"
| "callEngine m (RenderCommandStreamerInit t a w sc) = RCS"
| "callEngine m (ResumeScheduling t) = RCS"
| "callEngine m (SubmitExecList t stamp) = RCS"
| "callEngine m (PrepareExecListAndSubmit t a1 a2 a3) = RCS"

text \<open>The hooks of contexts and ring buffers look up their engine and its quarantine; those of the command
  streamer do not, but give way to the safe policy.\<close>

fun ringCall :: "engine_call \<Rightarrow> bool" where
  "ringCall (RenderCommandStreamerInit t a w sc) = False"
| "ringCall (ResumeScheduling t) = False"
| "ringCall (SubmitExecList t stamp) = False"
| "ringCall (PrepareExecListAndSubmit t a1 a2 a3) = False"
| "ringCall c = True"

fun policyCall :: "engine_call \<Rightarrow> bool" where
  "policyCall (ResumeScheduling t) = True"
| "policyCall (SubmitExecList t stamp) = True"
| "policyCall (PrepareExecListAndSubmit t a1 a2 a3) = True"
| "policyCall c = False"

fun execListCall :: "engine_call \<Rightarrow> bool" where
  "execListCall (SubmitExecList t stamp) = True"
| "execListCall (PrepareExecListAndSubmit t a1 a2 a3) = True"
| "execListCall c = False"

definition rcs_context_mem :: memory where
  "rcs_context_mem a = (if a = 0xc8 then 0x40 else 0)"

lemma rcs_context_mem_engine: "getTrackedEngineFromContext rcs_context_mem 0x10 = RCS"
  by (simp add: getTrackedEngineFromContext_def rcs_context_mem_def rd64_def rd32_def
      getTrackedEngineFromCsType_def kIGHwCsTypeBCS_def kIGHwCsTypeRCS_def)

lemmas streamer_defs = IGHardwareRenderCommandStreamerinit_def IGHardwareCommandStreamerresumeScheduling_def
  IGHardwareCommandStreamersubmitExecList_def IGHardwareCommandStreamerprepareExecListAndSubmit_def

lemma untraced:
  assumes "\<not> isRcsEngineTraceEnabled b"
  shows "dumpRcsEngineActivationState b = ret ()" and "tracePost b = ret ()"
  using assms by (simp_all add: dumpRcsEngineActivationState_def tracePost_def whenM_def)

text \<open>C23: Where quarantine blocks a call and where it does not. A hook of a context or ring buffer whose
  engine is quarantined does nothing at all: Apple's routine is not entered, no register is touched
  and no state changes. The hooks of the command streamer do nothing when the policy for spoofed
  devices is in force and the blitter is quarantined; otherwise they, and the streamer's init in
  every case, enter Apple's routine whatever the quarantine of the render engine they run on, an
  execution list being followed by an evaluation of that engine only.\<close>

theorem quarantined_call_blocked:
  fixes s :: "'a estate_scheme"
  shows "(ringCall call \<longrightarrow> shouldBlockTrackedEngine (callEngine (kmem s) call) s \<longrightarrow> exec (runCall b orig call) s = s)
   \<and> (policyCall call \<longrightarrow> safePolicyBlocks s \<longrightarrow> exec (runCall b orig call) s = s)
   \<and> (\<not> ringCall call \<longrightarrow> \<not> (policyCall call \<and> safePolicyBlocks s) \<longrightarrow> orig call = Some m \<longrightarrow>
       \<not> isRcsEngineTraceEnabled b \<longrightarrow>
       exec (runCall b orig call) s = exec (whenM (execListCall call) (evaluateUnlessPassed RCS)) (exec m s))"
proof (intro conjI impI)
  show "exec (runCall b orig call) s = s" if "ringCall call" "shouldBlockTrackedEngine (callEngine (kmem s) call) s"
    using that
    by (cases call)
       (simp_all add: engineOf_def IGHardwareContextinitRingGPUVirtualAddress_def
         IGHardwareContextinitRingRegisters_def IGHardwareContextinitRingControl_def
         IGHardwareContextresetRingHead_def IGHardwareContextupdateRingTail_def
         IGHardwareRingBufferinit_def IGHardwareRingBuffersubmitToRing_def)
  show "exec (runCall b orig call) s = s" if "policyCall call" "safePolicyBlocks s"
    using that by (cases call) (simp_all add: streamer_defs)
  show "exec (runCall b orig call) s = exec (whenM (execListCall call) (evaluateUnlessPassed RCS)) (exec m s)"
    if "\<not> ringCall call" "\<not> (policyCall call \<and> safePolicyBlocks s)" "orig call = Some m" "\<not> isRcsEngineTraceEnabled b"
    using that by (cases call) (simp_all add: streamer_defs callOrig_def untraced)
qed

theorem quarantined_call_blocked_witness:
  "exec (runCall boot_none no_orig (InitRingControl 0x10 True))
     (sample_estate\<lparr>rcs := eng_init\<lparr>quarantined := True\<rparr>, kmem := rcs_context_mem\<rparr>) =
     sample_estate\<lparr>rcs := eng_init\<lparr>quarantined := True\<rparr>, kmem := rcs_context_mem\<rparr>
   \<and> kmem (exec (runCall boot_none (\<lambda>_. Some (do { modify (\<lambda>s. s\<lparr>kmem := (\<lambda>_. 7)\<rparr>); ret True })) (ResumeScheduling 0x10))
     (sample_estate\<lparr>rcs := eng_init\<lparr>quarantined := True\<rparr>, isRealTGL := True\<rparr>)) 0 = 7"
proof -
  define s where "s = sample_estate\<lparr>rcs := eng_init\<lparr>quarantined := True\<rparr>, kmem := rcs_context_mem\<rparr>"
  define t where "t = sample_estate\<lparr>rcs := eng_init\<lparr>quarantined := True\<rparr>, isRealTGL := True\<rparr>"
  define m where "m = (do { modify (\<lambda>s :: estate. s\<lparr>kmem := (\<lambda>_. 7)\<rparr>); ret True })"
  have a: "ringCall (InitRingControl 0x10 True)"
      "shouldBlockTrackedEngine (callEngine (kmem s) (InitRingControl 0x10 True)) s"
    by (simp_all add: s_def rcs_context_mem_engine shouldBlockTrackedEngine_def trackedEngineState_def)
  have c: "\<not> ringCall (ResumeScheduling 0x10)" "\<not> (policyCall (ResumeScheduling 0x10) \<and> safePolicyBlocks t)"
      "\<not> isRcsEngineTraceEnabled boot_none"
    by (simp_all add: t_def safePolicyBlocks_def shouldUseSpoofedSafeSchedulerPolicy_def isRcsEngineTraceEnabled_def boot_none_def)
  have "exec (runCall boot_none no_orig (InitRingControl 0x10 True)) s = s"
    using quarantined_call_blocked a by blast
  moreover have "exec (runCall boot_none (\<lambda>_. Some m) (ResumeScheduling 0x10)) t =
      exec (whenM (execListCall (ResumeScheduling 0x10)) (evaluateUnlessPassed RCS)) (exec m t)"
    using quarantined_call_blocked [where orig = "\<lambda>_. Some m"] c by blast
  ultimately show ?thesis unfolding s_def t_def m_def by (simp del: runCall.simps)
qed

text \<open>C33: A ring tail may only move on a ready ring and a submission only go through an enabled
  control: otherwise the call quarantines the engine without entering Apple's routine.\<close>

theorem early_submission_quarantines:
  assumes "trackedEngineState (callEngine (kmem s) call) s = Some st" and "\<not> quarantined st"
    and "(\<exists>c t. call = UpdateRingTail c t) \<and> \<not> ringReady st \<or> (\<exists>r. call = SubmitToRing r) \<and> \<not> controlReady st"
  shows "exec (runCall b orig call) s =
    exec (updateEngine (callEngine (kmem s) call) (\<lambda>st. st\<lparr>quarantined := True\<rparr>)) s"
  using assms
  by (auto simp: IGHardwareContextupdateRingTail_def IGHardwareRingBuffersubmitToRing_def engineOf_def
      shouldBlockTrackedEngine_def)

theorem early_submission_quarantines_witness:
  "rcs (exec (runCall boot_none no_orig (UpdateRingTail 0x10 8)) (sample_estate\<lparr>kmem := rcs_context_mem\<rparr>)) =
     eng_init\<lparr>quarantined := True\<rparr>"
proof -
  define s where "s = sample_estate\<lparr>kmem := rcs_context_mem\<rparr>"
  have r: "rcs s = eng_init"
    by (simp add: s_def sample_estate_def estate.defs tstate.defs)
  have e: "callEngine (kmem s) (UpdateRingTail 0x10 8) = RCS"
    by (simp add: s_def rcs_context_mem_engine)
  have st: "trackedEngineState (callEngine (kmem s) (UpdateRingTail 0x10 8)) s = Some eng_init"
    unfolding e by (simp add: trackedEngineState_def r)
  have "exec (runCall boot_none no_orig (UpdateRingTail 0x10 8)) s =
      exec (updateEngine (callEngine (kmem s) (UpdateRingTail 0x10 8)) (\<lambda>st. st\<lparr>quarantined := True\<rparr>)) s"
    by (rule early_submission_quarantines [OF st]) (simp_all add: eng_init_def NGTglEngineState.defs)
  then show ?thesis unfolding e unfolding s_def [symmetric] by (simp add: updateEngine_def r del: runCall.simps)
qed

end
