(* ===== verification/NG_RegHooks.thy ===== *)
theory NG_RegHooks
  imports NG_Engine
begin

text \<open>
  The hooks on Apple's register accessors in \<open>iTGL/TGL.cpp\<close>: the framebuffer controller's
  \<open>ReadRegister32\<close> and \<open>WriteRegister32\<close>, the accelerator's \<open>ra*\<close> accessors with the optional
  plane guard, and the fast write. Apple's accessors are parameters. A controller's own mapping
  of the register BAR is taken to reach the same registers as the plugin's mapping.
\<close>

section \<open>State\<close>

record V93PlaneSurfState =
  v93_surfReg :: u32
  lastNonZeroSurf :: u32

record rstate = estate +
  v93States :: "V93PlaneSurfState list"
  framecont :: u64

section \<open>Framebuffer controller accessors\<close>

definition wrapReadRegister32 ::
  "(u64 \<Rightarrow> u32 \<Rightarrow> ('a rstate_scheme, u32) state) \<Rightarrow> u64 \<Rightarrow> u32 \<Rightarrow> ('a rstate_scheme, u32) state" where
  "wrapReadRegister32 orig controller address =
     (if controller = 0 then readReg32 (ucast address)
      else do {
        m \<leftarrow> gets kmem;
        let partInfo = rd64 m (controller + 0xCF8);
        let mmioBase = rd64 m (controller + 0x9B8);
        let mmioSize = rd32 m (controller + 0xC38);
        let twoDOnlyPart = (partInfo \<noteq> 0 \<and> m (partInfo + 0xB2) AND 1 \<noteq> 0);
        let dropped2DWindow = (0x2000 \<le> address \<and> address \<le> 0x23FFFF);
        if twoDOnlyPart \<and> dropped2DWindow then readReg32 (ucast address)
        else if mmioBase \<noteq> 0 \<and> 4 \<le> mmioSize \<and> address < mmioSize - 4 then load_dw (dw (ucast address))
        else orig controller address
      })"

text \<open>The error mask registers of the render and blitter rings, by offset: the same test stands in
  \<open>wrapWriteRegister32\<close>, \<open>raWriteRegister32\<close> and \<open>FastWriteRegister32\<close>.\<close>

definition isEmrReg :: "u64 \<Rightarrow> bool" where
  "isEmrReg reg \<longleftrightarrow> reg = 0x20b4 \<or> reg = 0x220b4"

definition emrForce :: "u64 \<Rightarrow> u32 \<Rightarrow> u32" where
  "emrForce reg val = (if isEmrReg reg then (if val \<noteq> 0xFFFFFFFF then 0xFFFFFFFF else val) else val)"

definition wrapWriteRegister32 ::
  "(u64 \<Rightarrow> u32 \<Rightarrow> u32 \<Rightarrow> ('a rstate_scheme, unit) state) \<Rightarrow> u64 \<Rightarrow> u32 \<Rightarrow> u32 \<Rightarrow> ('a rstate_scheme, unit) state" where
  "wrapWriteRegister32 orig controller address val =
     (if controller = 0 then writeReg32 (ucast address) val
      else orig controller address (emrForce (ucast address) val))"

section \<open>Accelerator accessors\<close>

definition raReadRegister32 ::
  "(u64 \<Rightarrow> u64 \<Rightarrow> ('a rstate_scheme, u32) state) \<Rightarrow> u64 \<Rightarrow> u64 \<Rightarrow> ('a rstate_scheme, u32) state" where
  "raReadRegister32 orig that param_1 =
     (if that = 0 then readReg32 param_1 else orig that param_1)"

definition raReadRegister32b ::
  "(u64 \<Rightarrow> u64 \<Rightarrow> ('a rstate_scheme, u32) state) \<Rightarrow> u64 \<Rightarrow> u64 \<Rightarrow> u64 \<Rightarrow> ('a rstate_scheme, u32) state" where
  "raReadRegister32b orig that param_1 param_2 = raReadRegister32 orig that (param_1 + param_2)"

definition raReadRegister64 ::
  "(u64 \<Rightarrow> u64 \<Rightarrow> ('a rstate_scheme, u64) state) \<Rightarrow> u64 \<Rightarrow> u64 \<Rightarrow> ('a rstate_scheme, u64) state" where
  "raReadRegister64 orig that param_1 = orig that param_1"

definition raReadRegister64b ::
  "(u64 \<Rightarrow> u64 \<Rightarrow> ('a rstate_scheme, u64) state) \<Rightarrow> u64 \<Rightarrow> u64 \<Rightarrow> u64 \<Rightarrow> ('a rstate_scheme, u64) state" where
  "raReadRegister64b orig that param_1 param_2 = raReadRegister64 orig that (param_1 + param_2)"

text \<open>The table of the plane guard: the slot of a register, taking the first free one.\<close>

fun v93Find :: "u32 \<Rightarrow> V93PlaneSurfState list \<Rightarrow> nat option" where
  "v93Find reg [] = None"
| "v93Find reg (st # sts) = (if v93_surfReg st = reg then Some 0 else map_option Suc (v93Find reg sts))"

definition getV93State :: "u32 \<Rightarrow> V93PlaneSurfState list \<Rightarrow> nat option \<times> V93PlaneSurfState list" where
  "getV93State surfReg sts = (case v93Find surfReg sts of
     Some i \<Rightarrow> (Some i, sts)
   | None \<Rightarrow> (case v93Find 0 sts of
       Some i \<Rightarrow> (Some i, sts[i := \<lparr>v93_surfReg = surfReg, lastNonZeroSurf = 0\<rparr>])
     | None \<Rightarrow> (None, sts)))"

definition v93Remember :: "nat option \<Rightarrow> u32 \<Rightarrow> ('a rstate_scheme, unit) state" where
  "v93Remember slot v = (case slot of
     None \<Rightarrow> ret ()
   | Some i \<Rightarrow> modify (\<lambda>s. s\<lparr>v93States := (v93States s)[i := (v93States s ! i)\<lparr>lastNonZeroSurf := v\<rparr>]\<rparr>))"

definition v93Guard :: "boot \<Rightarrow> u64 \<Rightarrow> u32 \<Rightarrow> ('a rstate_scheme, u32) state" where
  "v93Guard b param_1 param_2 = (if \<not> isV93PlaneGuardEnabled b then ret param_2 else do {
     let reg = (ucast (param_1 AND 0xFFFFF) :: u32);
     if \<not> looksLikePlaneSurf (ucast reg) then ret param_2
     else do {
       sts \<leftarrow> gets v93States;
       let (slot, sts') = getV93State reg sts;
       modify (\<lambda>s. s\<lparr>v93States := sts'\<rparr>);
       if param_2 \<noteq> 0 then do { v93Remember slot param_2; ret param_2 }
       else do {
         let ctlReg = reg - 0x1C;
         planCtl \<leftarrow> readReg32 (ucast ctlReg);
         if planCtl AND 0x80000000 = 0 then ret param_2
         else do {
           let lastSurf = (case slot of Some i \<Rightarrow> lastNonZeroSurf (sts' ! i) | None \<Rightarrow> 0);
           if lastSurf \<noteq> 0 then ret lastSurf
           else do {
             currentSurf \<leftarrow> readReg32 (ucast reg);
             if currentSurf \<noteq> 0 then do { v93Remember slot currentSurf; ret currentSurf }
             else do { writeReg32 (ucast ctlReg) (planCtl AND NOT 0x80000000); ret param_2 }
           }
         }
       }
     }
   })"

definition raWriteRegister32 ::
  "boot \<Rightarrow> (u64 \<Rightarrow> u64 \<Rightarrow> u32 \<Rightarrow> ('a rstate_scheme, unit) state) option \<Rightarrow> u64 \<Rightarrow> u64 \<Rightarrow> u32 \<Rightarrow> ('a rstate_scheme, unit) state" where
  "raWriteRegister32 b orig that param_1 param_2 = do {
     guarded \<leftarrow> v93Guard b param_1 param_2;
     let val = emrForce param_1 guarded;
     case orig of
       None \<Rightarrow> writeReg32 param_1 val
     | Some f \<Rightarrow> if that = 0 then writeReg32 param_1 val else f that param_1 val
   }"

definition raWriteRegister32f ::
  "(u64 \<Rightarrow> u64 \<Rightarrow> u32 \<Rightarrow> ('a rstate_scheme, unit) state) \<Rightarrow> u64 \<Rightarrow> u64 \<Rightarrow> u32 \<Rightarrow> ('a rstate_scheme, unit) state" where
  "raWriteRegister32f orig that param_1 param_2 = orig that param_1 param_2"

definition raWriteRegister32b ::
  "boot \<Rightarrow> (u64 \<Rightarrow> u64 \<Rightarrow> u32 \<Rightarrow> ('a rstate_scheme, unit) state) option \<Rightarrow> u64 \<Rightarrow> u64 \<Rightarrow> u64 \<Rightarrow> u32 \<Rightarrow> ('a rstate_scheme, unit) state" where
  "raWriteRegister32b b orig that param_1 param_2 param_3 =
     raWriteRegister32 b orig that (param_1 + param_2) param_3"

definition raWriteRegister64 ::
  "(u64 \<Rightarrow> u64 \<Rightarrow> u64 \<Rightarrow> ('a rstate_scheme, unit) state) \<Rightarrow> u64 \<Rightarrow> u64 \<Rightarrow> u64 \<Rightarrow> ('a rstate_scheme, unit) state" where
  "raWriteRegister64 orig that param_1 param_2 = do {
     let reg = (ucast (param_1 AND 0xFFFFF) :: u32);
     val \<leftarrow> (if looksLikePlaneSurf (ucast reg) \<and> param_2 = 0 then do {
         let ctlReg = reg - 0x1C;
         planCtl \<leftarrow> readReg32 (ucast ctlReg);
         if planCtl AND 0x80000000 \<noteq> 0 then do {
           currentSurf \<leftarrow> readReg32 (ucast reg);
           if currentSurf \<noteq> 0 then ret (ucast currentSurf)
           else do { writeReg32 (ucast ctlReg) (planCtl AND NOT 0x80000000); ret param_2 }
         } else ret param_2
       } else ret param_2);
     orig that param_1 val
   }"

definition raWriteRegister64b ::
  "(u64 \<Rightarrow> u64 \<Rightarrow> u64 \<Rightarrow> ('a rstate_scheme, unit) state) \<Rightarrow> u64 \<Rightarrow> u64 \<Rightarrow> u64 \<Rightarrow> u64 \<Rightarrow> ('a rstate_scheme, unit) state" where
  "raWriteRegister64b orig that param_1 param_2 param_3 = raWriteRegister64 orig that (param_1 + param_2) param_3"

definition FastWriteRegister32 ::
  "(u64 \<Rightarrow> u64 \<Rightarrow> u32 \<Rightarrow> ('a rstate_scheme, unit) state) \<Rightarrow> u64 \<Rightarrow> u64 \<Rightarrow> u32 \<Rightarrow> ('a rstate_scheme, unit) state" where
  "FastWriteRegister32 orig that param_1 param_2 =
     (let v1 = emrForce param_1 param_2;
          v2 = (if param_1 = 0x70188 then v1 * 8 else v1);
          v3 = (if param_1 = 0x70180 then v2 AND NOT (push_bit 10 7) else v2)
      in orig that param_1 v3)"

section \<open>Lemmas\<close>

lemma isEmrReg_not_surf: "isEmrReg r \<Longrightarrow> \<not> looksLikePlaneSurf (ucast (ucast (r AND 0xFFFFF) :: u32))"
  by (auto simp: isEmrReg_def looksLikePlaneSurf_def)

text \<open>Neither does an error mask register seen from a page-aligned base.\<close>

lemma based_not_surf:
  assumes "isEmrReg r" and "base AND 0xFFF = 0"
  shows "\<not> looksLikePlaneSurf (ucast (ucast ((base + r) AND 0xFFFFF) :: u32))"
proof -
  have "unat (base AND 0xFFF) = 0" using assms(2) by simp
  then have b: "unat base mod 4096 = 0" by (simp add: and_mask12 unat_of_nat)
  have r: "unat r mod 4096 = 0xb4" using assms(1) by (auto simp: isEmrReg_def)
  have "unat (base + r) mod 4096 = (unat base + unat r) mod 4096"
    by (simp add: unat_word_ariths mod_mod_cancel)
  also have "\<dots> = 0xb4" using b r by (simp add: mod_add_eq [symmetric])
  finally have "(base + r) AND 0xFFF = 0xb4" by (simp add: and_mask12)
  moreover have "ucast (ucast ((base + r) AND 0xFFFFF) :: u32) AND (0xFFF :: u64) = (base + r) AND 0xFFF"
  proof (rule bit_word_eqI)
    fix n assume "n < LENGTH(64)"
    have "(0xFFF :: u64) = mask 12" and "(0xFFFFF :: u64) = mask 20" by (simp_all add: mask_eq_exp_minus_1)
    then have "bit (0xFFF :: u64) n \<longleftrightarrow> n < 12" and "bit (0xFFFFF :: u64) n \<longleftrightarrow> n < 20"
      using \<open>n < LENGTH(64)\<close> by (simp_all only: bit_mask_iff) auto
    then show "bit (ucast (ucast ((base + r) AND 0xFFFFF) :: u32) AND (0xFFF :: u64)) n = bit ((base + r) AND 0xFFF) n"
      by (auto simp: bit_simps)
  qed
  ultimately show ?thesis by (auto simp: looksLikePlaneSurf_def)
qed

lemma v93Guard_passes:
  "\<not> looksLikePlaneSurf (ucast (ucast (r AND 0xFFFFF) :: u32)) \<Longrightarrow> v93Guard b r v = ret v"
  by (simp add: v93Guard_def Let_def)

lemma emrForce_emr: "isEmrReg r \<Longrightarrow> emrForce r v = 0xFFFFFFFF"
  by (simp add: emrForce_def)

lemma low20_id:
  fixes r :: u64
  assumes "r < 0x100000"
  shows "ucast (ucast (r AND 0xFFFFF) :: u32) = r"
proof -
  have "r AND 0xFFFFF = take_bit 20 r"
    by (simp add: take_bit_eq_mask mask_eq_exp_minus_1)
  also have "\<dots> = r"
    using assms by (simp add: take_bit_eq_mod word_unat_eq_iff unat_mod_distrib word_less_nat_alt)
  finally have "r AND 0xFFFFF = r" .
  then show ?thesis
    using assms by (simp add: ucast_u32_id word_less_nat_alt)
qed

lemma ctlReg_u32:
  fixes r :: u64
  assumes "r < 0x100000" and "0x60000 \<le> r"
  shows "ucast ((ucast (r AND 0xFFFFF) :: u32) - 0x1C) = r - 0x1C"
proof -
  have n: "unat r < 0x100000" "0x60000 \<le> unat r"
    using assms by (simp_all add: word_less_nat_alt word_le_nat_alt)
  have u: "unat (ucast (r AND 0xFFFFF) :: u32) = unat r"
    using low20_id [OF assms(1)] by (metis unat_ucast_u64)
  have "unat ((ucast (r AND 0xFFFFF) :: u32) - 0x1C) = unat r - 0x1C"
    using u n by (subst unat_sub) (simp_all add: word_le_nat_alt)
  moreover have "unat (r - 0x1C) = unat r - 0x1C"
    using n by (subst unat_sub) (simp_all add: word_le_nat_alt)
  ultimately show ?thesis by (simp only: word_unat_eq_iff unat_ucast_u64)
qed

lemma surf_ctl_direct:
  assumes "looksLikePlaneSurf r" and "direct s r"
  shows "direct (s\<lparr>hist := h\<rparr>) r" and "direct (s\<lparr>hist := h\<rparr>) (r - 0x1C)"
proof -
  have ge: "0x60000 \<le> r" and le: "r \<le> 0xBFFFF"
    using assms(1) by (auto simp: looksLikePlaneSurf_def)
  have "r - 0x1C + 4 \<le> r + 4"
    using ge le by unat_arith auto
  then show "direct (s\<lparr>hist := h\<rparr>) r" and "direct (s\<lparr>hist := h\<rparr>) (r - 0x1C)"
    using assms(2) by (auto simp: direct_def mmioValid_def)
qed

lemma direct_v93 [simp]: "direct (s\<lparr>v93States := x\<rparr>) r \<longleftrightarrow> direct s r"
  by (simp add: direct_def mmioValid_def)

lemma v93Remember_hist [simp]: "hist (exec (v93Remember slot v) s) = hist s"
  by (simp add: v93Remember_def split: option.split)

text \<open>What the guard leaves on the bus, and what it hands on, for a plane surface register.\<close>

lemma v93Guard_zero:
  fixes s :: "'a rstate_scheme"
  assumes on: "isV93PlaneGuardEnabled b" and surf: "looksLikePlaneSurf r" and d: "direct s r"
  defines "c \<equiv> dev_load s (hist s) (dw (r - 0x1C))"
  defines "h1 \<equiv> Ld (dw (r - 0x1C)) c # hist s"
  shows "result (v93Guard b r 0) s \<noteq> 0 \<and> surf_safe (hist (exec (v93Guard b r 0) s)) = surf_safe (hist s)
    \<or> result (v93Guard b r 0) s = 0 \<and> plane_off (hist (exec (v93Guard b r 0) s)) r
      \<and> surf_safe (hist (exec (v93Guard b r 0) s)) = surf_safe (hist s)"
proof -
  have lt: "r < 0x100000" and ge: "0x60000 \<le> r"
    using surf by (auto simp: looksLikePlaneSurf_def word_less_nat_alt word_le_nat_alt)
  note id = low20_id [OF lt] and ctl = ctlReg_u32 [OF lt ge]
  have d0: "direct s (r - 0x1C)"
    using surf_ctl_direct(2) [OF surf d, of "hist s"] by simp
  have nosurf: "\<not> (looksLikePlaneSurf (r - 0x1C) \<and> x = 0)" for x :: u32
    using plane_surf_ctl_offset(2,3) [OF surf] by simp
  obtain slot sts' where g: "getV93State (ucast (r AND 0xFFFFF)) (v93States s) = (slot, sts')"
    by (cases "getV93State (ucast (r AND 0xFFFFF)) (v93States s)")
  define v where "v = dev_load s h1 (dw r)"
  define lst where "lst = (case slot of Some i \<Rightarrow> lastNonZeroSurf (sts' ! i) | None \<Rightarrow> 0)"
  have off: "plane_off (St (dw (r - 0x1C)) (c AND NOT 0x80000000) # h) r" for h
    using bit_not_mask_clears [of c "0x80000000"] by (simp add: plane_off_def)
  have c0: "c AND 0x80000000 = 0 \<Longrightarrow> plane_off h1 r"
    by (simp add: plane_off_def h1_def)
  note run = v93Guard_def on Let_def id ctl surf g readReg32_direct writeReg32_direct nosurf d d0
    v93Remember_hist lst_def [symmetric] c_def [symmetric] h1_def [symmetric] v_def [symmetric]
    surf_safe_ctl_store [OF surf]
  consider "c AND 0x80000000 = 0" | "c AND 0x80000000 \<noteq> 0" "lst \<noteq> 0"
    | "c AND 0x80000000 \<noteq> 0" "lst = 0" "v \<noteq> 0" | "c AND 0x80000000 \<noteq> 0" "lst = 0" "v = 0"
    by blast
  then show ?thesis
    by cases (simp_all add: run c0 off del: surf_safe.simps drop_bit_eq_div, simp_all add: h1_def off [simplified] del: surf_safe.simps drop_bit_eq_div)
qed

lemma surf_safe_store_nonzero_or_off:
  assumes "looksLikePlaneSurf r" and "surf_safe h" and "v \<noteq> 0 \<or> plane_off h r"
  shows "surf_safe (St (dw r) v # h)"
proof (cases "v = 0")
  case True
  then show ?thesis using assms by (simp add: surf_safe_zero_store del: surf_safe.simps)
next
  case False
  then show ?thesis using assms(2) by (simp add: surf_safe_nonzero del: surf_safe.simps)
qed

lemma v93Guard_nonzero_hist:
  assumes "v \<noteq> 0"
  shows "hist (exec (v93Guard b r v) s) = hist s" and "result (v93Guard b r v) s = v"
  using assms by (auto simp: v93Guard_def Let_def split: prod.split)

section \<open>Properties\<close>

text \<open>C4: Which hooked writes force the error masks of the render and blitter rings. A write that names
  the register by its offset, through the accelerator's accessor, the fast write or the
  controller's accessor, reaches Apple's accessor (or the plugin's own write) with all errors
  masked, whatever value the driver asks for; so does the form with a base address when base and
  offset add up to the register. Two ways pass the driver's value on unforced: the controller's
  accessor without a controller, and the form with a base address when the base is that of a
  mapping, since the test compares the sum and not the offset.\<close>

theorem emr_writes_forced:
  assumes "isEmrReg r"
  shows "raWriteRegister32 b (Some f) that r v = (if that = 0 then writeReg32 r 0xFFFFFFFF else f that r 0xFFFFFFFF)
    \<and> raWriteRegister32 b None that r v = writeReg32 r 0xFFFFFFFF
    \<and> FastWriteRegister32 g that r v = g that r 0xFFFFFFFF
    \<and> (controller \<noteq> 0 \<longrightarrow> wrapWriteRegister32 w controller (ucast r) v = w controller (ucast r) 0xFFFFFFFF)
    \<and> raWriteRegister32b b (Some f) that base (r - base) v =
        (if that = 0 then writeReg32 r 0xFFFFFFFF else f that r 0xFFFFFFFF)
    \<and> wrapWriteRegister32 w 0 (ucast r) v = writeReg32 r v
    \<and> (base AND 0xFFF = 0 \<and> \<not> isEmrReg (base + r) \<longrightarrow>
        raWriteRegister32b b (Some f) that base r v =
          (if that = 0 then writeReg32 (base + r) v else f that (base + r) v))"
proof -
  have r: "ucast (ucast r :: u32) = r" and n: "r \<noteq> 0x70188" "r \<noteq> 0x70180"
    using assms by (auto simp: isEmrReg_def)
  have based: "raWriteRegister32b b (Some f) that base r v =
      (if that = 0 then writeReg32 (base + r) v else f that (base + r) v)"
    if "base AND 0xFFF = 0" "\<not> isEmrReg (base + r)"
    unfolding raWriteRegister32b_def raWriteRegister32_def Let_def
    using that by (simp add: v93Guard_passes based_not_surf [OF assms] emrForce_def)
  show ?thesis
    using based
    unfolding raWriteRegister32_def FastWriteRegister32_def wrapWriteRegister32_def Let_def
    by (simp add: raWriteRegister32b_def raWriteRegister32_def v93Guard_passes isEmrReg_not_surf emrForce_emr assms r n)
qed

theorem emr_writes_forced_witness:
  "isEmrReg 0x220b4 \<and>
   FastWriteRegister32 (\<lambda>that r v. modify (\<lambda>s :: rstate. s\<lparr>framecont := ucast v\<rparr>)) 8 0x220b4 0xFFFFFFFA =
     modify (\<lambda>s. s\<lparr>framecont := ucast (0xFFFFFFFF :: u32)\<rparr>) \<and>
   raWriteRegister32b boot_none (Some (\<lambda>that r v. modify (\<lambda>s :: rstate. s\<lparr>framecont := ucast v\<rparr>))) 8
     0xFFFFFF8010000000 0x220b4 0xFFFFFFFA = modify (\<lambda>s. s\<lparr>framecont := ucast (0xFFFFFFFA :: u32)\<rparr>)"
proof -
  have e: "isEmrReg 0x220b4" by (simp add: isEmrReg_def)
  have p: "(0xFFFFFF8010000000 :: u64) AND 0xFFF = 0" "\<not> isEmrReg (0xFFFFFF8010000000 + 0x220b4)"
    by (simp_all add: isEmrReg_def)
  define f where "f = (\<lambda>(that :: u64) (r :: u64) (v :: u32). modify (\<lambda>s :: rstate. s\<lparr>framecont := ucast v\<rparr>))"
  have "FastWriteRegister32 f 8 0x220b4 0xFFFFFFFA = f 8 0x220b4 0xFFFFFFFF"
    using emr_writes_forced [OF e] by blast
  moreover have "raWriteRegister32b boot_none (Some f) 8 0xFFFFFF8010000000 0x220b4 0xFFFFFFFA =
      (if (8 :: u64) = 0 then writeReg32 (0xFFFFFF8010000000 + 0x220b4) 0xFFFFFFFA
       else f 8 (0xFFFFFF8010000000 + 0x220b4) 0xFFFFFFFA)"
    using emr_writes_forced [OF e] p by blast
  ultimately show ?thesis using e unfolding f_def by simp
qed

text \<open>C27: With the plane guard switched on, the accelerator's register write never arms an enabled
  plane with a zero surface: if Apple's accessor stores the value it is given, every zero stored
  to a plane surface register follows an access that saw the plane's enable bit clear.\<close>

theorem v93_guard_surf_safe:
  assumes on: "isV93PlaneGuardEnabled b" and inv: "surf_inv s"
    and reg: "r < 0x100000" "unat r mod 4 = 0" "direct s r" "\<not> isEmrReg r"
    and orig: "\<And>v. f that r v = store_dw (dw r) v" and that: "that \<noteq> 0"
  shows "surf_inv (exec (raWriteRegister32 b (Some f) that r v) s)"
proof -
  have ex: "exec (raWriteRegister32 b (Some f) that r v) s =
      exec (store_dw (dw r) (result (v93Guard b r v) s)) (exec (v93Guard b r v) s)"
    by (simp add: raWriteRegister32_def Let_def emrForce_def reg(4) that orig)
  have h: "surf_safe (hist s)" using inv by (simp add: surf_inv_def)
  show ?thesis
  proof (cases "looksLikePlaneSurf r")
    case False
    then have "\<not> looksLikePlaneSurf (ucast (ucast (r AND 0xFFFFF) :: u32))"
      by (simp add: low20_id [OF reg(1)])
    then have "exec (v93Guard b r v) s = s"
      by (simp add: v93Guard_passes)
    moreover have "dw q \<noteq> dw r" if "looksLikePlaneSurf q" for q
      using that False dw_inj [OF _ surf_aligned [OF that] reg(2)] by auto
    ultimately show ?thesis
      unfolding ex surf_inv_def using h by (simp add: surf_safe_other del: surf_safe.simps drop_bit_eq_div)
  next
    case surf: True
    have "surf_safe (hist (exec (v93Guard b r v) s))
        \<and> (result (v93Guard b r v) s \<noteq> 0 \<or> plane_off (hist (exec (v93Guard b r v) s)) r)"
    proof (cases "v = 0")
      case True
      then show ?thesis using v93Guard_zero [OF on surf reg(3)] h by blast
    next
      case False
      then show ?thesis using v93Guard_nonzero_hist [of v b r s] h by simp
    qed
    then show ?thesis
      unfolding ex surf_inv_def store_dw_run
      using surf_safe_store_nonzero_or_off [OF surf] by (simp del: surf_safe.simps drop_bit_eq_div)
  qed
qed

definition sample_rstate :: rstate where
  "sample_rstate = estate.extend sample_estate (rstate.fields (replicate 8 \<lparr>v93_surfReg = 0, lastNonZeroSurf = 0\<rparr>) 0)"

definition boot_v93 :: boot where
  "boot_v93 = boot_none\<lparr>boot_flag := (\<lambda>n. n = ''-ngreenv93'')\<rparr>"

theorem v93_guard_surf_safe_witness:
  "surf_inv (exec (raWriteRegister32 boot_v93 (Some (\<lambda>that r v. store_dw (dw r) v)) 8 0x7019C 0) sample_rstate)"
proof (rule v93_guard_surf_safe)
  show "isV93PlaneGuardEnabled boot_v93"
    by (simp add: isV93PlaneGuardEnabled_def int_or_flag_def boot_v93_def boot_none_def)
  show "surf_inv sample_rstate" and "direct sample_rstate 0x7019C"
    by (simp_all add: surf_inv_def direct_def mmioValid_def sample_rstate_def sample_estate_def
        sample_tstate_def sample_kstate_def sample_ngreen_def regfile_bus_def
        rstate.defs estate.defs tstate.defs kstate.defs ngreen.defs mmio.defs)
qed (simp_all add: isEmrReg_def)

end
