(* ===== verification/NG_Irq.thy ===== *)
theory NG_Irq
  imports NG_RegHooks
begin

text \<open>
  Interrupt and error handling around Apple's driver in \<open>iTGL/TGL.cpp\<close>: the one-time interrupt
  set-up in \<open>readAndClearInterrupts\<close>, the begin and end of a reset, the workarounds around
  \<open>resetGraphicsEngine\<close>, and the two timers that keep error masks and interrupt enables in place.
  Timers are kept as a list of pending calls with their delay in milliseconds; allocation of a
  timer is taken to succeed. Values that are only printed are loaded and dropped.
\<close>

section \<open>State\<close>

datatype timer = EmrEnforcer | IrqWatchdog | HealthMonitor | DelayedChildCheck nat

record istate = rstate +
  timers :: "(timer \<times> nat) list"
  iniin :: bool
  v54WatchdogCount :: nat

definition enterDelayed :: "timer \<Rightarrow> nat \<Rightarrow> ('a istate_scheme, unit) state" where
  "enterDelayed t ms = modify (\<lambda>s. s\<lparr>timers := timers s @ [(t, ms)]\<rparr>)"

section \<open>Interrupt set-up\<close>

definition gt_irqs :: u32 where
  "gt_irqs = GT_RENDER_USER_INTERRUPT OR (GT_CS_MASTER_ERROR_INTERRUPT OR GT_CONTEXT_SWITCH_INTERRUPT
     OR GT_WAIT_SEMAPHORE_INTERRUPT)"

definition dmask_of :: "u32 \<Rightarrow> u32" where "dmask_of irqs = push_bit 16 irqs OR irqs"
definition smask_of :: "u32 \<Rightarrow> u32" where "smask_of irqs = push_bit 16 irqs"

definition irq_disable_writes :: "(u32 \<times> u32) list" where
  "irq_disable_writes =
    [(GEN11_RENDER_COPY_INTR_ENABLE, 0), (GEN11_VCS_VECS_INTR_ENABLE, 0),
     (GEN11_RCS0_RSVD_INTR_MASK, NOT 0), (GEN11_BCS_RSVD_INTR_MASK, NOT 0),
     (GEN11_VCS0_VCS1_INTR_MASK, NOT 0), (GEN11_VCS2_VCS3_INTR_MASK, NOT 0),
     (GEN11_VECS0_VECS1_INTR_MASK, NOT 0),
     (GEN11_GPM_WGBOXPERF_INTR_ENABLE, 0), (GEN11_GPM_WGBOXPERF_INTR_MASK, NOT 0),
     (GEN11_GUC_SG_INTR_ENABLE, 0), (GEN11_GUC_SG_INTR_MASK, NOT 0)]"

definition irq_enable_writes :: "(u32 \<times> u32) list" where
  "irq_enable_writes =
    [(GEN11_RENDER_COPY_INTR_ENABLE, dmask_of gt_irqs), (GEN11_VCS_VECS_INTR_ENABLE, dmask_of gt_irqs),
     (GEN11_RCS0_RSVD_INTR_MASK, NOT (smask_of gt_irqs)), (GEN11_BCS_RSVD_INTR_MASK, NOT (smask_of gt_irqs)),
     (GEN11_VCS0_VCS1_INTR_MASK, NOT (dmask_of gt_irqs)), (GEN11_VCS2_VCS3_INTR_MASK, NOT (dmask_of gt_irqs)),
     (GEN11_VECS0_VECS1_INTR_MASK, NOT (dmask_of gt_irqs)),
     (GEN11_GPM_WGBOXPERF_INTR_ENABLE, 0), (GEN11_GPM_WGBOXPERF_INTR_MASK, NOT 0),
     (GEN11_GUC_SG_INTR_ENABLE, 0), (GEN11_GUC_SG_INTR_MASK, NOT 0),
     (GEN11_DISPLAY_INT_CTL, GEN11_DISPLAY_IRQ_ENABLE), (GEN11_GFX_MSTR_IRQ, GEN11_MASTER_IRQ)]"

definition readAndClearInterrupts ::
  "(u64 \<Rightarrow> u32 \<Rightarrow> ('a istate_scheme, u32) state) \<Rightarrow> (u64 \<Rightarrow> u32 \<Rightarrow> u32 \<Rightarrow> ('a istate_scheme, unit) state) \<Rightarrow>
   ('a istate_scheme, unit) state \<Rightarrow> ('a istate_scheme, unit) state" where
  "readAndClearInterrupts oread owrite orig = do {
     first \<leftarrow> gets iniin;
     whenM first (do {
       modify (\<lambda>s. s\<lparr>iniin := False\<rparr>);
       fc \<leftarrow> gets framecont;
       wrapWriteRegister32 owrite fc GEN11_GFX_MSTR_IRQ 0;
       wrapWriteRegister32 owrite fc GEN11_DISPLAY_INT_CTL 0;
       _ \<leftarrow> wrapReadRegister32 oread fc GEN11_GFX_MSTR_IRQ;
       forM irq_disable_writes (\<lambda>(r, v). wrapWriteRegister32 owrite fc r v);
       forM irq_enable_writes (\<lambda>(r, v). wrapWriteRegister32 owrite fc r v)
     });
     orig
   }"

section \<open>Begin and end of a reset\<close>

definition begin_reset_writes :: "(u64 \<times> u32) list" where
  "begin_reset_writes =
    [(DG1_MSTR_TILE_INTR, 0), (GEN11_GFX_MSTR_IRQ, 0),
     (GEN11_RENDER_COPY_INTR_ENABLE, 0), (GEN11_VCS_VECS_INTR_ENABLE, 0),
     (GEN11_RCS0_RSVD_INTR_MASK, NOT 0), (GEN11_BCS_RSVD_INTR_MASK, NOT 0),
     (GEN11_VCS0_VCS1_INTR_MASK, NOT 0), (GEN11_VCS2_VCS3_INTR_MASK, NOT 0),
     (GEN12_VECS2_VECS3_INTR_MASK, NOT 0),
     (GEN11_GPM_WGBOXPERF_INTR_ENABLE, 0), (GEN11_GPM_WGBOXPERF_INTR_MASK, NOT 0),
     (GEN11_GUC_SG_INTR_ENABLE, 0), (GEN11_GUC_SG_INTR_MASK, NOT 0),
     (GEN11_CRYPTO_RSVD_INTR_ENABLE, 0), (GEN11_CRYPTO_RSVD_INTR_MASK, NOT 0),
     (GEN11_GFX_MSTR_IRQ, NOT 0)]"

definition writeAll :: "(u64 \<times> u32) list \<Rightarrow> ('a mmio_scheme, unit) state" where
  "writeAll ws = forM ws (\<lambda>w. writeReg32 (fst w) (snd w))"

definition beginReset :: "('a mmio_scheme, u8) state \<Rightarrow> ('a mmio_scheme, u8) state" where
  "beginReset orig = do { r \<leftarrow> orig; writeAll begin_reset_writes; ret r }"

definition end_reset_writes :: "(u64 \<times> u32) list" where
  "end_reset_writes =
    (let irqs = GT_RENDER_USER_INTERRUPT; dmask = dmask_of irqs; smask = smask_of irqs
     in [(GEN11_RENDER_COPY_INTR_ENABLE, dmask), (GEN11_VCS_VECS_INTR_ENABLE, dmask),
         (GEN11_RCS0_RSVD_INTR_MASK, NOT smask), (GEN11_BCS_RSVD_INTR_MASK, NOT smask),
         (GEN11_VCS0_VCS1_INTR_MASK, NOT dmask), (GEN11_VCS2_VCS3_INTR_MASK, NOT dmask),
         (GEN11_VECS0_VECS1_INTR_MASK, NOT dmask), (GEN12_VECS2_VECS3_INTR_MASK, NOT dmask),
         (GEN11_GFX_MSTR_IRQ, GEN11_MASTER_IRQ), (DG1_MSTR_TILE_INTR, DG1_MSTR_IRQ)])"

definition endReset :: "('a mmio_scheme, unit) state \<Rightarrow> ('a mmio_scheme, unit) state" where
  "endReset orig = do { orig; writeAll end_reset_writes }"

section \<open>The error mask enforcer\<close>

definition clearErrorGen6 :: "('a mmio_scheme, unit) state" where
  "clearErrorGen6 = do {
     err \<leftarrow> readReg32 ERROR_GEN6;
     whenM (err \<noteq> 0) (writeReg32 ERROR_GEN6 0)
   }"

definition v71EmrEnforcer :: "('a istate_scheme, unit) state" where
  "v71EmrEnforcer = do {
     emrRcs \<leftarrow> readReg32 (RING_EMR RENDER_RING_BASE);
     emrBcs \<leftarrow> readReg32 (RING_EMR BLT_RING_BASE);
     whenM (emrRcs \<noteq> 0xFFFFFFFF) (writeReg32 (RING_EMR RENDER_RING_BASE) 0xFFFFFFFF);
     whenM (emrBcs \<noteq> 0xFFFFFFFF) (writeReg32 (RING_EMR BLT_RING_BASE) 0xFFFFFFFF);
     clearErrorGen6;
     enterDelayed EmrEnforcer 50
   }"

section \<open>The interrupt watchdog\<close>

definition v54MasterIrq :: "('a mmio_scheme, unit) state" where
  "v54MasterIrq = do {
     mstrIrq \<leftarrow> readReg32 GEN11_GFX_MSTR_IRQ;
     whenM (mstrIrq AND GEN11_MASTER_IRQ = 0) (do {
       writeReg32 GEN11_GFX_MSTR_IRQ GEN11_MASTER_IRQ;
       IODelay 100;
       readRegs [GEN11_GFX_MSTR_IRQ]
     })
   }"

definition wantBits :: u32 where
  "wantBits = push_bit GEN11_RCS0 1 OR push_bit GEN11_BCS 1"

definition v65Tier1 :: "('a mmio_scheme, unit) state" where
  "v65Tier1 = do {
     rcIntrEn \<leftarrow> readReg32 GEN11_RENDER_COPY_INTR_ENABLE;
     whenM (rcIntrEn AND push_bit GEN11_RCS0 1 = 0) (do {
       writeReg32 GEN11_RENDER_COPY_INTR_ENABLE (rcIntrEn OR wantBits);
       readRegs [GEN11_RENDER_COPY_INTR_ENABLE]
     })
   }"

definition v65Tier2 :: "('a mmio_scheme, unit) state" where
  "v65Tier2 = do {
     rcsMask \<leftarrow> readReg32 GEN11_RCS0_RSVD_INTR_MASK;
     whenM (rcsMask AND RCS_IRQ_BITS \<noteq> 0)
       (writeReg32 GEN11_RCS0_RSVD_INTR_MASK (rcsMask AND NOT RCS_IRQ_BITS))
   }"

definition v54IrqWatchdog :: "('a istate_scheme, unit) state" where
  "v54IrqWatchdog = do {
     modify (\<lambda>s. s\<lparr>v54WatchdogCount := v54WatchdogCount s + 1\<rparr>);
     v54MasterIrq;
     v65Tier1;
     v65Tier2;
     clearErrorGen6;
     readRegs [RING_CTL RENDER_RING_BASE, RING_HEAD RENDER_RING_BASE, RING_TAIL RENDER_RING_BASE, ERROR_GEN6];
     n \<leftarrow> gets v54WatchdogCount;
     whenM (n < 5) (enterDelayed IrqWatchdog 2000)
   }"

section \<open>Reset of an engine\<close>

definition GEN9_PREEMPT_GPGPU_LEVEL_MASK :: u32 where
  [simp]: "GEN9_PREEMPT_GPGPU_LEVEL_MASK = GEN9_PREEMPT_GPGPU_LEVEL 1 1"

definition GEN9_PREEMPT_GPGPU_THREAD_GROUP_LEVEL :: u32 where
  [simp]: "GEN9_PREEMPT_GPGPU_THREAD_GROUP_LEVEL = GEN9_PREEMPT_GPGPU_LEVEL 0 1"

definition gtWorkarounds :: "('a mmio_scheme, unit) state" where
  "gtWorkarounds = do {
     wa_write_or (VDBOX_CGCTL3F10 RENDER_RING_BASE) IECPUNIT_CLKGATE_DIS;
     wa_write_or (VDBOX_CGCTL3F10 BLT_RING_BASE) IECPUNIT_CLKGATE_DIS;
     wa_write_or (VDBOX_CGCTL3F10 GEN11_VEBOX_RING_BASE) IECPUNIT_CLKGATE_DIS;
     wa_mcr_write_or GEN10_DFR_RATIO_EN_AND_CHICKEN DFR_DISABLE;
     wa_add GEN7_MISCCPCTL GEN12_DOP_CLOCK_GATE_RENDER_ENABLE 0 0 False;
     wa_masked_en GEN11_COMMON_SLICE_CHICKEN3 GEN12_DISABLE_CPS_AWARE_COLOR_PIPE;
     wa_masked_field_set GEN8_CS_CHICKEN1 GEN9_PREEMPT_GPGPU_LEVEL_MASK GEN9_PREEMPT_GPGPU_THREAD_GROUP_LEVEL;
     wa_write_clr_set GEN8_MCR_SELECTOR (GEN8_MCR_SLICE 3 OR GEN8_MCR_SUBSLICE 3)
       (GEN8_MCR_SLICE 0 OR GEN8_MCR_SUBSLICE 0);
     wa_masked_en GEN7_FF_SLICE_CS_CHICKEN1 GEN9_FFSC_PERCTX_PREEMPT_CTRL
   }"

definition v71Suppress :: "('a mmio_scheme, unit) state" where
  "v71Suppress = do {
     clearErrorGen6;
     writeReg32 (RING_EMR RENDER_RING_BASE) 0xFFFFFFFF;
     writeReg32 (RING_EMR BLT_RING_BASE) 0xFFFFFFFF
   }"

definition resetGraphicsEngine ::
  "boot \<Rightarrow> ('a istate_scheme, u64) state \<Rightarrow> ('a istate_scheme, u64) state" where
  "resetGraphicsEngine b orig = do {
     whenM (isTglTraceEnabled b) (do {
       modify (\<lambda>s. s\<lparr>gTglGpuBringupState := (gTglGpuBringupState s)\<lparr>rcsResetSeen := True\<rparr>\<rparr>);
       dumpTglGpuBringupState b (Some ''resetGraphicsEngine PRE'')
     });
     dumpRcsEngineActivationState b;
     gtWorkarounds;
     v71Suppress;
     readRegs [RING_CTL RENDER_RING_BASE, RING_HEAD RENDER_RING_BASE, RING_TAIL RENDER_RING_BASE];
     readRegs [RING_CTL BLT_RING_BASE, RING_HEAD BLT_RING_BASE, RING_TAIL BLT_RING_BASE];
     readRegs [ERROR_GEN6, RING_MI_MODE RENDER_RING_BASE, RING_MI_MODE BLT_RING_BASE];
     r \<leftarrow> orig;
     readRegs [RING_CTL RENDER_RING_BASE, RING_HEAD RENDER_RING_BASE, RING_TAIL RENDER_RING_BASE];
     readRegs [RING_CTL BLT_RING_BASE, ERROR_GEN6];
     v71Suppress;
     dumpTglGpuBringupState b (Some ''resetGraphicsEngine POST'');
     tracePost b;
     ret r
   }"

section \<open>Lemmas: test and set of a register\<close>

text \<open>The shape the enforcers share: read, test, write if the test says so, then only look.\<close>

definition fixReg :: "u64 \<Rightarrow> (u32 \<Rightarrow> bool) \<Rightarrow> (u32 \<Rightarrow> u32) \<Rightarrow> ('a mmio_scheme, unit) state \<Rightarrow> ('a mmio_scheme, unit) state" where
  "fixReg reg bad mend rest = do {
     v \<leftarrow> readReg32 reg;
     whenM (bad v) (do { writeReg32 reg (mend v); rest })
   }"

lemma fixReg_emits:
  assumes "\<not> looksLikePlaneSurf reg" and "state_io_rel (emits quiet_access) rest"
  shows "emits (stores_in {dw reg}) s (exec (fixReg reg bad mend rest) s)"
proof -
  have "state_io_rel (emits (stores_in {dw reg})) rest"
    using assms(2) unfolding state_io_rel_exec by (blast intro: emits_mono quiet_stores_in)
  then have "state_io_rel (emits (stores_in {dw reg})) (fixReg reg bad mend rest)"
    unfolding fixReg_def using assms(1)
    by (intro em.io_rules em_readReg32 em_writeReg32 transparent_stores_in) (auto simp: stores_in_def)
  then show ?thesis by (simp add: state_io_rel_exec)
qed

lemma fixReg_peek:
  assumes "\<not> looksLikePlaneSurf reg" and "state_io_rel (emits quiet_access) rest"
    and "direct s reg" and "plain_reg s reg" and "dw reg \<noteq> mmPCIE_INDEX2" "dw reg \<noteq> mmPCIE_DATA2"
  shows "peek (exec (fixReg reg bad mend rest) s) reg = (if bad (peek s reg) then mend (peek s reg) else peek s reg)"
proof -
  define h where "h = Ld (dw reg) (peek s reg) # hist s"
  have rd: "result (readReg32 reg) s = peek s reg" "exec (readReg32 reg) s = s\<lparr>hist := h\<rparr>"
    using readReg32_direct [OF assms(3)] by (simp_all add: peek_def h_def)
  have plain: "dev_load s g (dw reg) = (case last_store g (dw reg) of Some v \<Rightarrow> v | None \<Rightarrow> dev_load s [] (dw reg))" for g
    using assms(4) unfolding plain_reg_def by blast
  show ?thesis
  proof (cases "bad (peek s reg)")
    case False
    have "exec (fixReg reg bad mend rest) s = s\<lparr>hist := h\<rparr>"
      using False by (simp add: fixReg_def rd)
    moreover have "dev_load s h (dw reg) = dev_load s (hist s) (dw reg)"
      unfolding plain [of h] plain [of "hist s"] by (simp add: h_def)
    ultimately show ?thesis using False by (simp add: peek_def)
  next
    case True
    define t where "t = s\<lparr>hist := St (dw reg) (mend (peek s reg)) # h\<rparr>"
    have ex: "exec (fixReg reg bad mend rest) s = exec rest t"
      using True assms(1) writeReg32_direct [of "s\<lparr>hist := h\<rparr>" reg "mend (peek s reg)"] assms(3)
      by (simp add: fixReg_def rd t_def)
    have "emits (stores_in {}) t (exec rest t)"
      using assms(2) unfolding state_io_rel_exec by (blast intro: emits_mono quiet_stores_in)
    then have "last_store (hist (exec rest t)) (dw reg) = Some (mend (peek s reg))"
      using last_store_frame [of "{}" t "exec rest t" "dw reg"] assms(5,6) by (simp add: t_def)
    moreover have "plain_reg (exec rest t) reg"
    proof (rule plain_same_bus [of t])
      show "same_bus t (exec rest t)" using assms(2) by (simp add: state_io_rel_exec emits_def)
      show "plain_reg t reg"
        by (rule plain_same_bus [OF _ assms(4)]) (simp add: t_def same_bus_def)
    qed
    ultimately show ?thesis using True ex by (simp add: peek_stored)
  qed
qed

text \<open>A register kept by another block's stores.\<close>

lemma fixReg_keeps:
  assumes "\<not> looksLikePlaneSurf reg" and "state_io_rel (emits quiet_access) rest"
    and "plain_reg s q" and "dw q \<noteq> dw reg" "dw q \<noteq> mmPCIE_INDEX2" "dw q \<noteq> mmPCIE_DATA2"
  shows "peek (exec (fixReg reg bad mend rest) s) q = peek s q"
  by (rule peek_frame [OF assms(3) fixReg_emits [OF assms(1,2)]]) (use assms in auto)

lemma fixReg_bus:
  assumes "\<not> looksLikePlaneSurf reg" and "state_io_rel (emits quiet_access) rest"
  shows "big_bar s \<Longrightarrow> big_bar (exec (fixReg reg bad mend rest) s)"
    and "plain_reg s q \<Longrightarrow> plain_reg (exec (fixReg reg bad mend rest) s) q"
proof -
  note e = fixReg_emits [OF assms, of s bad mend]
  show "big_bar s \<Longrightarrow> big_bar (exec (fixReg reg bad mend rest) s)"
    by (rule big_bar_emits [OF e])
  show "plain_reg s q \<Longrightarrow> plain_reg (exec (fixReg reg bad mend rest) s) q"
    using e unfolding emits_def by (blast intro: plain_same_bus)
qed

definition v54Rest :: "('a mmio_scheme, unit) state" where
  "v54Rest = do { IODelay 100; readRegs [GEN11_GFX_MSTR_IRQ] }"

lemma quiet_rests:
  "state_io_rel (emits quiet_access) v54Rest"
  "state_io_rel (emits quiet_access) (readRegs rs)"
  "state_io_rel (emits quiet_access) (ret ())"
  unfolding v54Rest_def
  by (intro em.io_rules em_readRegs em_delay transparent_quiet)+

lemma blocks_are_fixReg:
  "exec v54MasterIrq s = exec (fixReg GEN11_GFX_MSTR_IRQ (\<lambda>v. v AND GEN11_MASTER_IRQ = 0) (\<lambda>_. GEN11_MASTER_IRQ) v54Rest) s"
  "exec v65Tier1 s = exec (fixReg GEN11_RENDER_COPY_INTR_ENABLE (\<lambda>v. v AND push_bit GEN11_RCS0 1 = 0)
     (\<lambda>v. v OR wantBits) (readRegs [GEN11_RENDER_COPY_INTR_ENABLE])) s"
  "exec v65Tier2 s = exec (fixReg GEN11_RCS0_RSVD_INTR_MASK (\<lambda>v. v AND RCS_IRQ_BITS \<noteq> 0)
     (\<lambda>v. v AND NOT RCS_IRQ_BITS) (ret ())) s"
  "exec clearErrorGen6 s = exec (fixReg ERROR_GEN6 (\<lambda>v. v \<noteq> 0) (\<lambda>_. 0) (ret ())) s"
  by (simp_all add: v54MasterIrq_def v65Tier1_def v65Tier2_def clearErrorGen6_def fixReg_def v54Rest_def)

lemma peek_quiet:
  assumes "state_io_rel (emits quiet_access) m" and "plain_reg s q"
    and "dw q \<noteq> mmPCIE_INDEX2" "dw q \<noteq> mmPCIE_DATA2"
  shows "peek (exec m s) q = peek s q"
proof -
  have "emits (stores_in {}) s (exec m s)"
    using assms(1) unfolding state_io_rel_exec by (blast intro: emits_mono quiet_stores_in)
  then show ?thesis using peek_frame [OF assms(2)] assms(3,4) by blast
qed

definition irq_plain :: "'a mmio_scheme \<Rightarrow> bool" where
  "irq_plain s \<longleftrightarrow> plain_reg s GEN11_GFX_MSTR_IRQ \<and> plain_reg s GEN11_RENDER_COPY_INTR_ENABLE
     \<and> plain_reg s GEN11_RCS0_RSVD_INTR_MASK \<and> plain_reg s ERROR_GEN6"

definition irq_enforced :: "'a mmio_scheme \<Rightarrow> bool" where
  "irq_enforced s \<longleftrightarrow> peek s GEN11_GFX_MSTR_IRQ AND GEN11_MASTER_IRQ \<noteq> 0
     \<and> peek s GEN11_RENDER_COPY_INTR_ENABLE AND push_bit GEN11_RCS0 1 \<noteq> 0
     \<and> peek s GEN11_RCS0_RSVD_INTR_MASK AND RCS_IRQ_BITS = 0
     \<and> peek s ERROR_GEN6 = 0"

lemma irq_regs_apart:
  "\<not> looksLikePlaneSurf GEN11_GFX_MSTR_IRQ" "\<not> looksLikePlaneSurf GEN11_RENDER_COPY_INTR_ENABLE"
  "\<not> looksLikePlaneSurf GEN11_RCS0_RSVD_INTR_MASK" "\<not> looksLikePlaneSurf ERROR_GEN6"
  "distinct [dw GEN11_GFX_MSTR_IRQ, dw GEN11_RENDER_COPY_INTR_ENABLE, dw GEN11_RCS0_RSVD_INTR_MASK,
     dw ERROR_GEN6, mmPCIE_INDEX2, mmPCIE_DATA2]"
  by (simp_all add: looksLikePlaneSurf_def reg_defs)

lemma wantBits_or: "(v OR wantBits) AND 1 \<noteq> 0"
proof -
  have "bit ((v OR wantBits) AND 1) 0" by (simp add: wantBits_def bit_simps)
  then show ?thesis by (metis bit_0_eq bot_apply bot_bool_def)
qed

lemma v54_blocks:
  assumes big: "big_bar s" and plain: "irq_plain s"
  shows "irq_enforced (exec (do { v54MasterIrq; v65Tier1; v65Tier2; clearErrorGen6 }) s)"
    and "irq_plain (exec (do { v54MasterIrq; v65Tier1; v65Tier2; clearErrorGen6 }) s)"
proof -
  define s1 where "s1 = exec v54MasterIrq s"
  define s2 where "s2 = exec v65Tier1 s1"
  define s3 where "s3 = exec v65Tier2 s2"
  define s4 where "s4 = exec clearErrorGen6 s3"
  note fx = blocks_are_fixReg and na = irq_regs_apart(1-4) and q = quiet_rests
  have b: "big_bar s1" "big_bar s2" "big_bar s3"
    unfolding s1_def s2_def s3_def fx by (intro fixReg_bus(1) na q big)+
  have p1: "irq_plain s1"
    using plain unfolding irq_plain_def s1_def fx by (elim conjE) (intro conjI fixReg_bus(2) na q; assumption)
  have p2: "irq_plain s2"
    using p1 unfolding irq_plain_def s2_def fx by (elim conjE) (intro conjI fixReg_bus(2) na q; assumption)
  have p3: "irq_plain s3"
    using p2 unfolding irq_plain_def s3_def fx by (elim conjE) (intro conjI fixReg_bus(2) na q; assumption)
  have p4: "irq_plain s4"
    using p3 unfolding irq_plain_def s4_def fx by (elim conjE) (intro conjI fixReg_bus(2) na q; assumption)
  have dirs: "direct u GEN11_GFX_MSTR_IRQ" "direct u GEN11_RENDER_COPY_INTR_ENABLE"
    "direct u GEN11_RCS0_RSVD_INTR_MASK" "direct u ERROR_GEN6" if "big_bar u" for u :: "'a mmio_scheme"
    by (rule big_bar_direct [OF that], simp)+
  show "irq_plain (exec (do { v54MasterIrq; v65Tier1; v65Tier2; clearErrorGen6 }) s)"
    using p4 by (simp add: s1_def s2_def s3_def s4_def)
  note ap = irq_regs_apart(5)
  have m1: "peek s1 GEN11_GFX_MSTR_IRQ AND GEN11_MASTER_IRQ \<noteq> 0"
    unfolding s1_def fx using plain ap
    by (subst fixReg_peek [OF na(1) q(1) dirs(1) [OF big]]) (simp_all add: irq_plain_def)
  have m2: "peek s2 GEN11_RENDER_COPY_INTR_ENABLE AND push_bit GEN11_RCS0 1 \<noteq> 0"
    unfolding s2_def fx using p1 ap
    by (subst fixReg_peek [OF na(2) q(2) dirs(2) [OF b(1)]]) (simp_all add: irq_plain_def wantBits_or)
  have m3: "peek s3 GEN11_RCS0_RSVD_INTR_MASK AND RCS_IRQ_BITS = 0"
    unfolding s3_def fx using p2 ap
    by (subst fixReg_peek [OF na(3) q(3) dirs(3) [OF b(2)]]) (simp_all add: irq_plain_def bit_not_mask_clears)
  have m4: "peek s4 ERROR_GEN6 = 0"
    unfolding s4_def fx using p3 ap
    by (subst fixReg_peek [OF na(4) q(3) dirs(4) [OF b(3)]]) (simp_all add: irq_plain_def)
  have e2: "emits (stores_in {dw GEN11_RENDER_COPY_INTR_ENABLE}) s1 s2"
    and e3: "emits (stores_in {dw GEN11_RCS0_RSVD_INTR_MASK}) s2 s3"
    and e4: "emits (stores_in {dw ERROR_GEN6}) s3 s4"
    unfolding s2_def s3_def s4_def fx by (intro fixReg_emits na q)+
  have "peek s2 GEN11_GFX_MSTR_IRQ = peek s1 GEN11_GFX_MSTR_IRQ"
    by (rule peek_frame [OF _ e2]) (use p1 ap in \<open>simp_all add: irq_plain_def\<close>)
  moreover have "peek s3 GEN11_GFX_MSTR_IRQ = peek s2 GEN11_GFX_MSTR_IRQ"
    "peek s3 GEN11_RENDER_COPY_INTR_ENABLE = peek s2 GEN11_RENDER_COPY_INTR_ENABLE"
    by (rule peek_frame [OF _ e3], use p2 ap in \<open>simp_all add: irq_plain_def\<close>)+
  moreover have "peek s4 GEN11_GFX_MSTR_IRQ = peek s3 GEN11_GFX_MSTR_IRQ"
    "peek s4 GEN11_RENDER_COPY_INTR_ENABLE = peek s3 GEN11_RENDER_COPY_INTR_ENABLE"
    "peek s4 GEN11_RCS0_RSVD_INTR_MASK = peek s3 GEN11_RCS0_RSVD_INTR_MASK"
    by (rule peek_frame [OF _ e4], use p3 ap in \<open>simp_all add: irq_plain_def\<close>)+
  ultimately have "irq_enforced s4"
    unfolding irq_enforced_def using m1 m2 m3 m4 by (simp only:) simp
  then show "irq_enforced (exec (do { v54MasterIrq; v65Tier1; v65Tier2; clearErrorGen6 }) s)"
    by (simp add: s1_def s2_def s3_def s4_def)
qed

section \<open>Lemmas: sequences of writes\<close>

definition plain_writes :: "(u64 \<times> u32) list \<Rightarrow> bool" where
  "plain_writes ws \<longleftrightarrow> list_all (\<lambda>w. fst w \<le> 0x1FFFFC \<and> \<not> looksLikePlaneSurf (fst w)) ws"

lemma big_bar_hist [simp]: "big_bar (s\<lparr>hist := h\<rparr>) \<longleftrightarrow> big_bar s"
  by (simp add: big_bar_def mmioValid_def)

lemma writeAll_exec:
  assumes "big_bar s" and "plain_writes ws"
  shows "exec (writeAll ws) s = s\<lparr>hist := rev (map (\<lambda>w. St (dw (fst w)) (snd w)) ws) @ hist s\<rparr>"
  using assms
proof (induction ws arbitrary: s)
  case Nil
  then show ?case by (simp add: writeAll_def)
next
  case (Cons w ws)
  have "direct s (fst w)" and ns: "\<not> looksLikePlaneSurf (fst w)" and ws: "plain_writes ws"
    using Cons.prems by (auto simp: plain_writes_def intro: big_bar_direct)
  then have "exec (writeReg32 (fst w) (snd w)) s = s\<lparr>hist := St (dw (fst w)) (snd w) # hist s\<rparr>"
    using writeReg32_direct [of s "fst w" "snd w"] by simp
  then have "exec (writeAll (w # ws)) s = exec (writeAll ws) (s\<lparr>hist := St (dw (fst w)) (snd w) # hist s\<rparr>)"
    by (simp add: writeAll_def)
  also have "\<dots> = s\<lparr>hist := rev (map (\<lambda>w. St (dw (fst w)) (snd w)) (w # ws)) @ hist s\<rparr>"
    using Cons.prems(1) ws by (subst Cons.IH) simp_all
  finally show ?case .
qed

lemma end_reset_plain: "plain_writes end_reset_writes"
  by (simp add: plain_writes_def end_reset_writes_def Let_def looksLikePlaneSurf_def)

lemma em_writeAll:
  assumes "list_all (\<lambda>w. \<not> looksLikePlaneSurf (fst w)) ws"
  shows "state_io_rel (emits (stores_in (dw ` fst ` set ws))) (writeAll ws)"
  unfolding writeAll_def using assms
  by (intro em.io_forM em_writeReg32 transparent_stores_in) (auto simp: stores_in_def list_all_iff)

section \<open>Lemmas: the BAR stays mapped\<close>

lemma kb_emits: "state_io_rel (emits P) m \<Longrightarrow> state_io_rel (keeps big_bar) m"
  unfolding state_io_rel_exec keeps_def by (blast intro: big_bar_emits)

lemma any_access: "transparent (\<lambda>_. True)"
  by (simp add: transparent_def)

lemma em_writeReg32_True: "state_io_rel (emits (\<lambda>_. True)) (writeReg32 reg val)"
  by (intro em_writeReg32_any any_access TrueI)

lemma em_wa_add: "state_io_rel (emits (\<lambda>_. True)) (wa_add reg clear setv rm masked)"
  unfolding wa_add_def by (intro em.io_rules em_readReg32 em_writeReg32_any any_access TrueI)

lemma em_gtWorkarounds: "state_io_rel (emits (\<lambda>_. True)) gtWorkarounds"
  unfolding gtWorkarounds_def wa_write_or_def wa_mcr_write_or_def wa_mcr_write_clr_set_def wa_mcr_add_def
    wa_masked_en_def wa_masked_field_set_def wa_write_clr_set_def
  by (intro em.io_rules em_wa_add)

lemma em_v71Suppress: "state_io_rel (emits (\<lambda>_. True)) v71Suppress"
  unfolding v71Suppress_def clearErrorGen6_def
  by (intro em.io_rules em_readReg32 em_writeReg32_any any_access TrueI)

lemma em_traced: "state_io_rel traced m \<Longrightarrow> state_io_rel (emits quiet_access) m"
  unfolding state_io_rel_exec traced_def by blast

lemma traced_rcsReset:
  "state_io_rel traced (modify (\<lambda>s. s\<lparr>gTglGpuBringupState := (gTglGpuBringupState s)\<lparr>rcsResetSeen := True\<rparr>\<rparr>))"
  by (rule tr.io_modify) (rule traced_gst)

lemma v71Suppress_stores:
  assumes "big_bar s"
  shows "last_store (hist (exec v71Suppress s)) (dw (RING_EMR RENDER_RING_BASE)) = Some 0xFFFFFFFF"
    and "last_store (hist (exec v71Suppress s)) (dw (RING_EMR BLT_RING_BASE)) = Some 0xFFFFFFFF"
proof -
  define t where "t = exec clearErrorGen6 s"
  have "big_bar t"
    unfolding t_def blocks_are_fixReg by (intro fixReg_bus(1) irq_regs_apart quiet_rests assms)
  moreover have "exec v71Suppress s = exec (writeAll [(RING_EMR RENDER_RING_BASE, 0xFFFFFFFF), (RING_EMR BLT_RING_BASE, 0xFFFFFFFF)]) t"
    by (simp add: v71Suppress_def writeAll_def t_def)
  moreover have "plain_writes [(RING_EMR RENDER_RING_BASE, 0xFFFFFFFF), (RING_EMR BLT_RING_BASE, 0xFFFFFFFF)]"
    by (simp add: plain_writes_def looksLikePlaneSurf_def)
  ultimately show "last_store (hist (exec v71Suppress s)) (dw (RING_EMR RENDER_RING_BASE)) = Some 0xFFFFFFFF"
    and "last_store (hist (exec v71Suppress s)) (dw (RING_EMR BLT_RING_BASE)) = Some 0xFFFFFFFF"
    by (simp_all add: writeAll_exec)
qed

section \<open>Properties\<close>

text \<open>C30: After the graphics engine was reset, the error masks of the render and blitter rings
  are all ones: the last store to each is 0xFFFFFFFF, whatever Apple's reset routine stored, as
  long as it leaves the register mapping alone.\<close>

theorem reset_leaves_errors_masked:
  fixes s :: "'a istate_scheme"
  assumes "big_bar s" and "state_io_rel (keeps big_bar) orig"
  shows "last_store (hist (exec (resetGraphicsEngine b orig) s)) (dw (RING_EMR RENDER_RING_BASE)) = Some 0xFFFFFFFF
    \<and> last_store (hist (exec (resetGraphicsEngine b orig) s)) (dw (RING_EMR BLT_RING_BASE)) = Some 0xFFFFFFFF"
proof -
  define pre where "pre = do {
     whenM (isTglTraceEnabled b) (do {
       modify (\<lambda>s. s\<lparr>gTglGpuBringupState := (gTglGpuBringupState s)\<lparr>rcsResetSeen := True\<rparr>\<rparr>);
       dumpTglGpuBringupState b (Some ''resetGraphicsEngine PRE'')
     });
     dumpRcsEngineActivationState b;
     gtWorkarounds;
     v71Suppress;
     readRegs [RING_CTL RENDER_RING_BASE, RING_HEAD RENDER_RING_BASE, RING_TAIL RENDER_RING_BASE];
     readRegs [RING_CTL BLT_RING_BASE, RING_HEAD BLT_RING_BASE, RING_TAIL BLT_RING_BASE];
     readRegs [ERROR_GEN6, RING_MI_MODE RENDER_RING_BASE, RING_MI_MODE BLT_RING_BASE];
     r \<leftarrow> orig;
     readRegs [RING_CTL RENDER_RING_BASE, RING_HEAD RENDER_RING_BASE, RING_TAIL RENDER_RING_BASE];
     readRegs [RING_CTL BLT_RING_BASE, ERROR_GEN6]
   }"
  define post :: "('a istate_scheme, unit) state" where "post = do { dumpTglGpuBringupState b (Some ''resetGraphicsEngine POST''); tracePost b }"
  note trace = em_traced [OF tr_dumpTglGpuBringupState] em_traced [OF tr_dumpRcsEngineActivationState]
    em_traced [OF traced_rcsReset] em_traced [OF tr_tracePost]
  have "state_io_rel (keeps big_bar) pre"
    unfolding pre_def
    by (intro inv.io_rules assms(2) kb_emits [OF em_gtWorkarounds] kb_emits [OF em_v71Suppress]
        kb_emits [OF em_readRegs [OF any_access]] kb_emits [OF trace(1)] kb_emits [OF trace(2)] kb_emits [OF trace(3)])
  then have u: "big_bar (exec pre s)"
    using assms(1) by (auto simp: state_io_rel_exec keeps_def)
  have ex: "exec (resetGraphicsEngine b orig) s = exec post (exec v71Suppress (exec pre s))"
    unfolding resetGraphicsEngine_def pre_def post_def by (simp del: exec_whenM)
  have "state_io_rel (emits quiet_access) post"
    unfolding post_def by (intro em.io_rules trace)
  then have "emits (stores_in {}) (exec v71Suppress (exec pre s)) (exec post (exec v71Suppress (exec pre s)))"
    unfolding state_io_rel_exec by (blast intro: emits_mono quiet_stores_in)
  note fr = last_store_frame [OF this]
  show ?thesis
    unfolding ex using v71Suppress_stores [OF u] fr
    by (simp add: reg_defs)
qed

definition sample_istate :: istate where
  "sample_istate = rstate.extend sample_rstate (istate.fields [(IrqWatchdog, 2000)] True 0)"

lemma sample_istate_bus:
  "mmioValid sample_istate" "rmmio_len sample_istate = 0x1000000" "hist sample_istate = []"
  "dev_load sample_istate = regfile (\<lambda>_. 0)" "timers sample_istate = [(IrqWatchdog, 2000)]"
  "v54WatchdogCount sample_istate = 0" "iniin sample_istate" "framecont sample_istate = 0"
  "dev_clock sample_istate = length"
  by (simp_all add: mmioValid_def sample_istate_def sample_rstate_def sample_estate_def
        sample_tstate_def sample_kstate_def sample_ngreen_def regfile_bus_def istate.defs
        rstate.defs estate.defs tstate.defs kstate.defs ngreen.defs mmio.defs)

lemma sample_istate_big: "big_bar sample_istate"
  by (simp add: big_bar_def sample_istate_bus)

lemma sample_istate_plain: "plain_reg sample_istate r"
  by (simp add: plain_reg_def sample_istate_bus regfile_def split: option.split)

theorem reset_leaves_errors_masked_witness:
  "last_store (hist (exec (resetGraphicsEngine boot_none (do { writeReg32 0x20b4 0xFFFFFFFA; ret 0 })) sample_istate)) 0x82d
     = Some 0xFFFFFFFF"
proof -
  have "state_io_rel (keeps big_bar) (do { writeReg32 0x20b4 0xFFFFFFFA; ret (0 :: u64) })"
    by (intro inv.io_rules kb_emits [OF em_writeReg32_True])
  from reset_leaves_errors_masked [OF sample_istate_big this, of boot_none]
  show ?thesis by simp
qed

text \<open>One run of the error-mask timer leaves, on every hardware, the last value seen of both
  error mask registers all ones and that of the error register zero, and arms the timer again
  after 50 milliseconds: the enforcement never stops.\<close>

lemma emr_enforcer_effect:
  assumes "big_bar s"
  shows "last_seen (hist (exec v71EmrEnforcer s)) (dw (RING_EMR RENDER_RING_BASE)) = Some 0xFFFFFFFF
    \<and> last_seen (hist (exec v71EmrEnforcer s)) (dw (RING_EMR BLT_RING_BASE)) = Some 0xFFFFFFFF
    \<and> last_seen (hist (exec v71EmrEnforcer s)) (dw ERROR_GEN6) = Some 0
    \<and> timers (exec v71EmrEnforcer s) = timers s @ [(EmrEnforcer, 50)]"
proof -
  have d: "direct s 0x20b4" "direct s 0x220b4" "direct s ERROR_GEN6"
    by (rule big_bar_direct [OF assms], simp)+
  have n: "\<not> looksLikePlaneSurf 0x20b4" "\<not> looksLikePlaneSurf 0x220b4" "\<not> looksLikePlaneSurf ERROR_GEN6"
    by (simp_all add: looksLikePlaneSurf_def)
  show ?thesis
    using d n unfolding v71EmrEnforcer_def clearErrorGen6_def enterDelayed_def
    by (simp add: readReg32_direct writeReg32_direct)
qed

text \<open>One run of the interrupt watchdog leaves the master interrupt enabled, the render
  engine's interrupt enabled at the first level and unmasked at the second, and no pending
  error, when these four registers hold what is stored to them.\<close>

theorem irq_watchdog_enforces:
  assumes "big_bar s" and "irq_plain s"
  shows "irq_enforced (exec v54IrqWatchdog s)"
proof -
  define u where "u = s\<lparr>v54WatchdogCount := v54WatchdogCount s + 1\<rparr>"
  define t where "t = exec (do { v54MasterIrq; v65Tier1; v65Tier2; clearErrorGen6 }) u"
  define w where "w = exec (readRegs [RING_CTL RENDER_RING_BASE, RING_HEAD RENDER_RING_BASE, RING_TAIL RENDER_RING_BASE, ERROR_GEN6]) t"
  have su: "same_bus s u" by (simp add: u_def same_bus_def)
  have "big_bar u"
    using assms(1) by (simp add: u_def big_bar_def mmioValid_def)
  moreover have "irq_plain u"
    using assms(2) unfolding irq_plain_def by (blast intro: plain_same_bus [OF su])
  ultimately have "irq_enforced t" and "irq_plain t"
    unfolding t_def by (rule v54_blocks)+
  then have "irq_enforced w"
    unfolding irq_enforced_def irq_plain_def w_def using irq_regs_apart(5)
    by (simp add: peek_quiet [OF quiet_rests(2)])
  moreover have "exec v54IrqWatchdog s = (if v54WatchdogCount w < 5 then w\<lparr>timers := timers w @ [(IrqWatchdog, 2000)]\<rparr> else w)"
    by (simp add: v54IrqWatchdog_def enterDelayed_def w_def t_def u_def)
  ultimately show ?thesis by (simp add: irq_enforced_def peek_def)
qed

section \<open>Timers that arm themselves again\<close>

text \<open>A pending call is taken off the list and run.\<close>

definition fireTimer :: "timer \<times> nat \<Rightarrow> ('a istate_scheme, unit) state \<Rightarrow> ('a istate_scheme, unit) state" where
  "fireTimer key callback = do {
     ts \<leftarrow> gets timers;
     whenM (key \<in> set ts) (do {
       modify (\<lambda>s. s\<lparr>timers := remove1 key ts\<rparr>);
       callback
     })
   }"

lemma count_list_remove1: "x \<in> set xs \<Longrightarrow> Suc (count_list (remove1 x xs) x) = count_list xs x"
  by (induction xs) auto

lemma forM_snoc: "exec (forM (xs @ [x]) f) s = exec (f x) (exec (forM xs f) s)"
  by (induction xs arbitrary: s) simp_all

lemma forM_upt_Suc: "exec (forM [0..<Suc k] f) s = exec (f k) (exec (forM [0..<k] f) s)"
  unfolding upt_Suc_append [OF le0] by (rule forM_snoc)

text \<open>
  A callback that counts its runs and arms itself again while the count is below a bound. As
  long as it is \<open>live\<close> (the registers stay mapped, say), it runs exactly \<open>bound\<close> times.
\<close>

locale bounded_timer =
  fixes callback :: "('a istate_scheme, unit) state"
    and runs :: "'a istate_scheme \<Rightarrow> nat"
    and live :: "'a istate_scheme \<Rightarrow> bool"
    and key :: "timer \<times> nat"
    and bound :: nat
  assumes runs_callback: "live s \<Longrightarrow> runs (exec callback s) = Suc (runs s)"
    and rearm: "live s \<Longrightarrow> timers (exec callback s) = timers s @ (if Suc (runs s) < bound then [key] else [])"
    and live_callback: "live s \<Longrightarrow> live (exec callback s)"
    and runs_timers: "runs (s\<lparr>timers := ts\<rparr>) = runs s"
    and live_timers: "live (s\<lparr>timers := ts\<rparr>) = live s"
    and bound_pos: "0 < bound"
begin

lemma fire_step:
  assumes "live s" and "runs s = min n bound" and "count_list (timers s) key = (if n < bound then 1 else 0)"
  shows "live (exec (fireTimer key callback) s)"
    and "runs (exec (fireTimer key callback) s) = min (Suc n) bound"
    and "count_list (timers (exec (fireTimer key callback) s)) key = (if Suc n < bound then 1 else 0)"
proof -
  define u where "u = s\<lparr>timers := remove1 key (timers s)\<rparr>"
  have u: "live u" "runs u = min n bound"
    using assms(1,2) by (simp_all add: u_def runs_timers live_timers)
  have mem: "key \<in> set (timers s) \<longleftrightarrow> n < bound"
    using assms(3) count_list_0_iff [of "timers s" key] by (auto split: if_splits)
  have fire: "exec (fireTimer key callback) s = (if n < bound then exec callback u else s)"
    using mem by (simp add: fireTimer_def u_def)
  have z: "count_list (timers u) key = 0" if "n < bound"
    using count_list_remove1 [of key "timers s"] mem assms(3) that by (simp add: u_def)
  show "live (exec (fireTimer key callback) s)"
    using assms(1) u live_callback by (simp add: fire)
  show "runs (exec (fireTimer key callback) s) = min (Suc n) bound"
    using assms(2) u runs_callback by (simp add: fire)
  show "count_list (timers (exec (fireTimer key callback) s)) key = (if Suc n < bound then 1 else 0)"
    using assms(3) u z rearm by (simp add: fire)
qed

lemma fire_many:
  assumes "live s" and "runs s = 0" and "count_list (timers s) key = 1"
  defines "t \<equiv> \<lambda>n. exec (forM [0..<n] (\<lambda>_. fireTimer key callback)) s"
  shows "live (t n) \<and> runs (t n) = min n bound \<and> count_list (timers (t n)) key = (if n < bound then 1 else 0)"
proof (induction n)
  case 0
  then show ?case using assms bound_pos by (simp add: t_def)
next
  case (Suc n)
  then have "live (t n)" "runs (t n) = min n bound" "count_list (timers (t n)) key = (if n < bound then 1 else 0)"
    by blast+
  from fire_step [OF this] show ?case
    unfolding t_def forM_upt_Suc by blast
qed

lemma stops:
  assumes "live s" and "runs s = 0" and "count_list (timers s) key = 1" and "bound \<le> n"
  shows "runs (exec (forM [0..<n] (\<lambda>_. fireTimer key callback)) s) = bound
    \<and> key \<notin> set (timers (exec (forM [0..<n] (\<lambda>_. fireTimer key callback)) s))"
  using fire_many [OF assms(1-3), of n] assms(4) by (simp add: count_list_0_iff)

end

lemma bo_v54_body:
  "state_io_rel bus_only (do { v54MasterIrq; v65Tier1; v65Tier2; clearErrorGen6; readRegs rs })"
  unfolding v54MasterIrq_def v65Tier1_def v65Tier2_def clearErrorGen6_def
  by (intro bo_rules bo_readRegs)

lemma v54_exec:
  "\<exists>h. exec v54IrqWatchdog s = s\<lparr>hist := h, v54WatchdogCount := Suc (v54WatchdogCount s),
     timers := timers s @ (if Suc (v54WatchdogCount s) < 5 then [(IrqWatchdog, 2000)] else [])\<rparr>"
proof -
  define u where "u = s\<lparr>v54WatchdogCount := Suc (v54WatchdogCount s)\<rparr>"
  obtain h where h: "exec (do { v54MasterIrq; v65Tier1; v65Tier2; clearErrorGen6;
      readRegs [RING_CTL RENDER_RING_BASE, RING_HEAD RENDER_RING_BASE, RING_TAIL RENDER_RING_BASE, ERROR_GEN6] }) u = u\<lparr>hist := h\<rparr>"
    using bus_only_exec [OF bo_v54_body] by blast
  have "exec v54IrqWatchdog s = (let w = u\<lparr>hist := h\<rparr> in
      if v54WatchdogCount w < 5 then w\<lparr>timers := timers w @ [(IrqWatchdog, 2000)]\<rparr> else w)"
    using h by (simp add: v54IrqWatchdog_def enterDelayed_def u_def)
  then show ?thesis by (intro exI [of _ h]) (simp add: u_def)
qed

interpretation irqw: bounded_timer v54IrqWatchdog v54WatchdogCount "\<lambda>_. True" "(IrqWatchdog, 2000)" 5
proof unfold_locales
  fix s :: "'a istate_scheme"
  obtain h where e: "exec v54IrqWatchdog s = s\<lparr>hist := h, v54WatchdogCount := Suc (v54WatchdogCount s),
     timers := timers s @ (if Suc (v54WatchdogCount s) < 5 then [(IrqWatchdog, 2000)] else [])\<rparr>"
    using v54_exec by blast
  show "v54WatchdogCount (exec v54IrqWatchdog s) = Suc (v54WatchdogCount s)"
    and "timers (exec v54IrqWatchdog s) = timers s @ (if Suc (v54WatchdogCount s) < 5 then [(IrqWatchdog, 2000)] else [])"
    by (simp_all add: e)
qed simp_all

text \<open>C20: The interrupt watchdog stops by itself: armed once, it runs exactly five times however
  often pending calls are fired, and then no further call is pending.\<close>

theorem irq_watchdog_terminates:
  assumes "v54WatchdogCount s = 0" and "count_list (timers s) (IrqWatchdog, 2000) = 1" and "5 \<le> n"
  shows "v54WatchdogCount (exec (forM [0..<n] (\<lambda>_. fireTimer (IrqWatchdog, 2000) v54IrqWatchdog)) s) = 5
    \<and> (IrqWatchdog, 2000) \<notin> set (timers (exec (forM [0..<n] (\<lambda>_. fireTimer (IrqWatchdog, 2000) v54IrqWatchdog)) s))"
  by (rule irqw.stops [OF TrueI assms])

theorem irq_watchdog_terminates_witness:
  "(IrqWatchdog, 2000) \<notin>
     set (timers (exec (forM [0..<7] (\<lambda>_. fireTimer (IrqWatchdog, 2000) v54IrqWatchdog)) sample_istate))"
  using irq_watchdog_terminates [of sample_istate 7] by (simp add: sample_istate_bus)

text \<open>The end of a reset leaves every interrupt register it programs at its intended value,
  the master interrupts included.\<close>

theorem end_reset_final_values:
  assumes "big_bar (exec orig s)"
  shows "\<forall>w \<in> set end_reset_writes. last_store (hist (exec (endReset orig) s)) (dw (fst w)) = Some (snd w)"
proof -
  have "exec (endReset orig) s = exec (writeAll end_reset_writes) (exec orig s)"
    by (simp add: endReset_def)
  then show ?thesis
    by (simp add: writeAll_exec [OF assms end_reset_plain])
       (simp add: end_reset_writes_def Let_def)
qed

text \<open>The begin of a reset does not mask the first pair of video enhancement engines: the hook
  never stores to that mask register, unlike to those of all other engines.\<close>

theorem begin_reset_skips_vecs0:
  "last_store (hist (exec (beginReset orig) s)) (dw GEN11_VECS0_VECS1_INTR_MASK) =
   last_store (hist (exec orig s)) (dw GEN11_VECS0_VECS1_INTR_MASK)"
proof -
  have l: "list_all (\<lambda>w. \<not> looksLikePlaneSurf (fst w)) begin_reset_writes"
    by (simp add: begin_reset_writes_def looksLikePlaneSurf_def)
  have "emits (stores_in (dw ` fst ` set begin_reset_writes)) (exec orig s) (exec (writeAll begin_reset_writes) (exec orig s))"
    by (rule em_writeAll [OF l, unfolded state_io_rel_exec, rule_format])
  then show ?thesis
    unfolding beginReset_def
    by (simp only: exec_bind exec_ret, elim last_store_frame) (simp_all add: begin_reset_writes_def reg_defs)
qed

lemma wrap_forM:
  "exec (forM ws (\<lambda>(r, v). wrapWriteRegister32 owrite 0 r v)) s =
   exec (writeAll (map (\<lambda>(r, v). (ucast r, v)) ws)) s"
  by (induction ws arbitrary: s) (auto simp: writeAll_def wrapWriteRegister32_def)

lemma kb_writeAll: "state_io_rel (keeps big_bar) (writeAll ws)"
  unfolding writeAll_def by (intro inv.io_rules kb_emits [OF em_writeReg32_True])

definition irq_enable_writes64 :: "(u64 \<times> u32) list" where
  "irq_enable_writes64 = map (\<lambda>(r, v). (ucast r, v)) irq_enable_writes"

lemma irq_enable_plain: "plain_writes irq_enable_writes64"
  by (simp add: plain_writes_def irq_enable_writes64_def irq_enable_writes_def looksLikePlaneSurf_def)

text \<open>The interrupt set-up runs on the first call only, and programs the enable registers with
  0x010B010B: bit 11 (semaphore wait) is not among the enabled bits although the source names
  that interrupt. (The controller is not known yet and Apple's routine does nothing.)\<close>

theorem irq_setup_first_call:
  fixes s :: "'a istate_scheme"
  assumes "iniin s" and "framecont s = 0" and "big_bar s"
  shows "\<not> iniin (exec (readAndClearInterrupts oread owrite (ret ())) s)
    \<and> last_store (hist (exec (readAndClearInterrupts oread owrite (ret ())) s)) (dw GEN11_RENDER_COPY_INTR_ENABLE) = Some 0x010B010B
    \<and> last_store (hist (exec (readAndClearInterrupts oread owrite (ret ())) s)) (dw GEN11_GFX_MSTR_IRQ) = Some GEN11_MASTER_IRQ"
proof -
  define pre :: "('a istate_scheme, unit) state" where "pre = do {
     writeReg32 GEN11_GFX_MSTR_IRQ 0; writeReg32 GEN11_DISPLAY_INT_CTL 0; _ \<leftarrow> readReg32 GEN11_GFX_MSTR_IRQ;
     writeAll (map (\<lambda>(r, v). (ucast r, v)) irq_disable_writes) }"
  define s1 where "s1 = s\<lparr>iniin := False\<rparr>"
  have "state_io_rel (keeps big_bar) pre"
    unfolding pre_def
    by (intro inv.io_rules kb_writeAll kb_emits [OF em_writeReg32_True] kb_emits [OF em_readReg32 [OF any_access]])
  moreover have "big_bar s1" using assms(3) by (simp add: s1_def big_bar_def mmioValid_def)
  ultimately have b: "big_bar (exec pre s1)" by (auto simp: state_io_rel_exec keeps_def)
  have "state_io_rel bus_only pre"
    unfolding pre_def writeAll_def by (intro bo_rules)
  then obtain h where h: "exec pre s1 = s1\<lparr>hist := h\<rparr>" using bus_only_exec by blast
  have "exec (readAndClearInterrupts oread owrite (ret ())) s = exec (writeAll irq_enable_writes64) (exec pre s1)"
    unfolding readAndClearInterrupts_def pre_def s1_def irq_enable_writes64_def
    using assms(1,2) by (simp add: wrap_forM) (simp add: wrapWriteRegister32_def wrapReadRegister32_def)
  also have "\<dots> = s1\<lparr>hist := rev (map (\<lambda>w. St (dw (fst w)) (snd w)) irq_enable_writes64) @ h\<rparr>"
    using b unfolding writeAll_exec [OF b irq_enable_plain] by (simp add: h)
  finally show ?thesis
    by (simp add: s1_def irq_enable_writes64_def irq_enable_writes_def dmask_of_def gt_irqs_def)
qed

lemma emr_fire:
  assumes "big_bar s" and "(EmrEnforcer, 50) \<in> set (timers s)"
  defines "t \<equiv> exec (fireTimer (EmrEnforcer, 50) v71EmrEnforcer) s"
  shows "big_bar t" and "(EmrEnforcer, 50) \<in> set (timers t)"
    and "last_seen (hist t) (dw (RING_EMR RENDER_RING_BASE)) = Some 0xFFFFFFFF"
    and "last_seen (hist t) (dw (RING_EMR BLT_RING_BASE)) = Some 0xFFFFFFFF"
    and "last_seen (hist t) (dw ERROR_GEN6) = Some 0"
proof -
  define u where "u = s\<lparr>timers := remove1 (EmrEnforcer, 50) (timers s)\<rparr>"
  have big: "big_bar u" using assms(1) by (simp add: u_def big_bar_def mmioValid_def)
  have t: "t = exec v71EmrEnforcer u" using assms(2) by (simp add: t_def fireTimer_def u_def)
  show "(EmrEnforcer, 50) \<in> set (timers t)"
    and "last_seen (hist t) (dw (RING_EMR RENDER_RING_BASE)) = Some 0xFFFFFFFF"
    and "last_seen (hist t) (dw (RING_EMR BLT_RING_BASE)) = Some 0xFFFFFFFF"
    and "last_seen (hist t) (dw ERROR_GEN6) = Some 0"
    unfolding t using emr_enforcer_effect [OF big] by simp_all
  have "state_io_rel (emits (\<lambda>_. True)) (v71EmrEnforcer :: ('a istate_scheme, unit) state)"
    unfolding v71EmrEnforcer_def clearErrorGen6_def enterDelayed_def
    by (intro em.io_rules em_readReg32 em_writeReg32_any em.io_modify)
       (simp_all add: transparent_def emits_def same_bus_def)
  then show "big_bar t"
    unfolding t state_io_rel_exec using big big_bar_emits by blast
qed

text \<open>C19: The error-mask timer never stops enforcing: whatever Apple's driver does between two
  ticks (\<open>env k\<close>, which may store any value to any register but neither unmaps them nor cancels
  the timer), after every tick the last value seen of both error mask registers is all ones, that
  of the error register is zero, and the next tick is pending.\<close>

theorem emr_enforcer_forever:
  fixes env :: "nat \<Rightarrow> ('a istate_scheme, unit) state"
  assumes "big_bar s" and "(EmrEnforcer, 50) \<in> set (timers s)"
    and "\<And>k u. big_bar u \<Longrightarrow> big_bar (exec (env k) u)"
    and "\<And>k u. set (timers u) \<subseteq> set (timers (exec (env k) u))"
  defines "tick \<equiv> \<lambda>k. do { env k; fireTimer (EmrEnforcer, 50) v71EmrEnforcer }"
  shows "last_seen (hist (exec (forM [0..<Suc n] tick) s)) (dw (RING_EMR RENDER_RING_BASE)) = Some 0xFFFFFFFF
    \<and> last_seen (hist (exec (forM [0..<Suc n] tick) s)) (dw (RING_EMR BLT_RING_BASE)) = Some 0xFFFFFFFF
    \<and> last_seen (hist (exec (forM [0..<Suc n] tick) s)) (dw ERROR_GEN6) = Some 0
    \<and> (EmrEnforcer, 50) \<in> set (timers (exec (forM [0..<Suc n] tick) s))"
proof -
  have step: "big_bar (exec (env k) u) \<and> (EmrEnforcer, 50) \<in> set (timers (exec (env k) u))"
    if "big_bar u" "(EmrEnforcer, 50) \<in> set (timers u)" for k u
    using assms(3,4) that by blast
  have inv: "big_bar (exec (forM [0..<k] tick) s) \<and> (EmrEnforcer, 50) \<in> set (timers (exec (forM [0..<k] tick) s))" for k
  proof (induction k)
    case 0
    then show ?case using assms(1,2) by simp
  next
    case (Suc k)
    define v where "v = exec (env k) (exec (forM [0..<k] tick) s)"
    have "big_bar v" "(EmrEnforcer, 50) \<in> set (timers v)"
      using step Suc unfolding v_def by blast+
    from emr_fire(1,2) [OF this] show ?case unfolding forM_upt_Suc by (simp add: tick_def v_def)
  qed
  define u where "u = exec (env n) (exec (forM [0..<n] tick) s)"
  have "exec (forM [0..<Suc n] tick) s = exec (fireTimer (EmrEnforcer, 50) v71EmrEnforcer) u"
    unfolding forM_upt_Suc by (simp add: tick_def u_def)
  moreover have "big_bar u" "(EmrEnforcer, 50) \<in> set (timers u)"
    using step inv [of n] unfolding u_def by blast+
  ultimately show ?thesis using emr_fire [of u] by simp
qed

theorem emr_enforcer_forever_witness:
  "(EmrEnforcer, 50) \<in> set (timers (exec (forM [0..<Suc 9]
     (\<lambda>k. do { writeReg32 (RING_EMR RENDER_RING_BASE) (of_nat k); fireTimer (EmrEnforcer, 50) v71EmrEnforcer }))
     (sample_istate\<lparr>timers := [(EmrEnforcer, 50)]\<rparr>)))"
proof -
  have b: "big_bar (exec (writeReg32 r v) u)" if "big_bar u" for u :: istate and r v
  proof -
    have "state_io_rel (emits (\<lambda>_. True)) (writeReg32 r v :: (istate, unit) state)"
      by (rule em_writeReg32_any) (simp_all add: transparent_def)
    then show ?thesis unfolding state_io_rel_exec using that big_bar_emits by blast
  qed
  have t: "timers (exec (writeReg32 r v) u) = timers u" for u :: istate and r v
  proof -
    obtain h where "exec (writeReg32 r v) u = u\<lparr>hist := h\<rparr>"
      using bus_only_exec [OF bo_writeReg32] by blast
    then show ?thesis by simp
  qed
  have "big_bar (sample_istate\<lparr>timers := [(EmrEnforcer, 50)]\<rparr>)"
    using sample_istate_big by (simp add: big_bar_def mmioValid_def)
  from emr_enforcer_forever [OF this, of "\<lambda>k. writeReg32 (RING_EMR RENDER_RING_BASE) (of_nat k)" 9]
  show ?thesis using b t by simp
qed

end
