(* ===== verification/NG_Forcewake.thy ===== *)
theory NG_Forcewake
  imports NG_Irq
begin

text \<open>
  Force wake (\<open>iTGL/TGL.cpp\<close>, \<open>Gen11::forceWake\<close> with \<open>pollRegister\<close> and
  \<open>forceWakeWaitAckFallback\<close>; tables in \<open>iTGL/TGL.hpp\<close>): the request of a power domain, the
  wait for its acknowledgement with a deadline, and the fallback over the reserve bit.

  A poll reads the clock and the acknowledge register until one of them ends it. It has no
  bound of its own, so its model takes fuel and gives \<open>None\<close> when the fuel is spent. Under the
  hypothesis \<open>clock_runs\<close> (a given number of bus accesses takes at least the timeout) that never
  happens. Apple's accessors of the framebuffer controller are parameters; the contract
  \<open>controller_io\<close> says what is relied on.
\<close>

section \<open>Domains and tables\<close>

datatype forcewake_domain_id =
    FW_DOMAIN_ID_RENDER | FW_DOMAIN_ID_GT | FW_DOMAIN_ID_MEDIA
  | FW_DOMAIN_ID_MEDIA_VDBOX0 | FW_DOMAIN_ID_MEDIA_VDBOX1 | FW_DOMAIN_ID_MEDIA_VDBOX2
  | FW_DOMAIN_ID_MEDIA_VDBOX3 | FW_DOMAIN_ID_MEDIA_VDBOX4 | FW_DOMAIN_ID_MEDIA_VDBOX5
  | FW_DOMAIN_ID_MEDIA_VDBOX6 | FW_DOMAIN_ID_MEDIA_VDBOX7
  | FW_DOMAIN_ID_MEDIA_VEBOX0 | FW_DOMAIN_ID_MEDIA_VEBOX1 | FW_DOMAIN_ID_MEDIA_VEBOX2
  | FW_DOMAIN_ID_MEDIA_VEBOX3 | FW_DOMAIN_ID_GSC

definition forcewake_domain_ids :: "forcewake_domain_id list" where
  "forcewake_domain_ids = [FW_DOMAIN_ID_RENDER, FW_DOMAIN_ID_GT, FW_DOMAIN_ID_MEDIA,
     FW_DOMAIN_ID_MEDIA_VDBOX0, FW_DOMAIN_ID_MEDIA_VDBOX1, FW_DOMAIN_ID_MEDIA_VDBOX2,
     FW_DOMAIN_ID_MEDIA_VDBOX3, FW_DOMAIN_ID_MEDIA_VDBOX4, FW_DOMAIN_ID_MEDIA_VDBOX5,
     FW_DOMAIN_ID_MEDIA_VDBOX6, FW_DOMAIN_ID_MEDIA_VDBOX7,
     FW_DOMAIN_ID_MEDIA_VEBOX0, FW_DOMAIN_ID_MEDIA_VEBOX1, FW_DOMAIN_ID_MEDIA_VEBOX2,
     FW_DOMAIN_ID_MEDIA_VEBOX3, FW_DOMAIN_ID_GSC]"

definition FW_DOMAIN_ID_COUNT :: nat where
  "FW_DOMAIN_ID_COUNT = length forcewake_domain_ids"

text \<open>The number of an enumerator is its position, the domain mask its bit.\<close>

fun position :: "'x \<Rightarrow> 'x list \<Rightarrow> nat" where
  "position x [] = 0"
| "position x (y # ys) = (if x = y then 0 else Suc (position x ys))"

definition forcewake_domains :: "forcewake_domain_id \<Rightarrow> u32" where
  "forcewake_domains d = push_bit (position d forcewake_domain_ids) 1"

definition FORCEWAKE_ALL :: u32 where
  "FORCEWAKE_ALL = push_bit FW_DOMAIN_ID_COUNT 1 - 1"

definition FORCEWAKE_MEDIA_VDBOX_GEN11 :: "u32 \<Rightarrow> u32" where
  [simp]: "FORCEWAKE_MEDIA_VDBOX_GEN11 n = 0xa540 + n * 4"

definition FORCEWAKE_MEDIA_VEBOX_GEN11 :: "u32 \<Rightarrow> u32" where
  [simp]: "FORCEWAKE_MEDIA_VEBOX_GEN11 n = 0xa560 + n * 4"

definition FORCEWAKE_ACK_MEDIA_VDBOX_GEN11 :: "u32 \<Rightarrow> u32" where
  [simp]: "FORCEWAKE_ACK_MEDIA_VDBOX_GEN11 n = 0xd50 + n * 4"

definition FORCEWAKE_ACK_MEDIA_VEBOX_GEN11 :: "u32 \<Rightarrow> u32" where
  [simp]: "FORCEWAKE_ACK_MEDIA_VEBOX_GEN11 n = 0xd70 + n * 4"

text \<open>\<open>None\<close> where the source asserts an unknown domain (the enumerator \<open>MEDIA\<close> among them).\<close>

definition regForDom :: "u32 \<Rightarrow> u32 option" where
  "regForDom d =
    (if d = forcewake_domains FW_DOMAIN_ID_GT then Some FORCEWAKE_GT_GEN9
     else if d = forcewake_domains FW_DOMAIN_ID_RENDER then Some FORCEWAKE_RENDER_GEN9
     else if d = forcewake_domains FW_DOMAIN_ID_MEDIA_VDBOX0 then Some (FORCEWAKE_MEDIA_VDBOX_GEN11 0)
     else if d = forcewake_domains FW_DOMAIN_ID_MEDIA_VDBOX1 then Some (FORCEWAKE_MEDIA_VDBOX_GEN11 1)
     else if d = forcewake_domains FW_DOMAIN_ID_MEDIA_VDBOX2 then Some (FORCEWAKE_MEDIA_VDBOX_GEN11 2)
     else if d = forcewake_domains FW_DOMAIN_ID_MEDIA_VDBOX3 then Some (FORCEWAKE_MEDIA_VDBOX_GEN11 3)
     else if d = forcewake_domains FW_DOMAIN_ID_MEDIA_VDBOX4 then Some (FORCEWAKE_MEDIA_VDBOX_GEN11 4)
     else if d = forcewake_domains FW_DOMAIN_ID_MEDIA_VDBOX5 then Some (FORCEWAKE_MEDIA_VDBOX_GEN11 5)
     else if d = forcewake_domains FW_DOMAIN_ID_MEDIA_VDBOX6 then Some (FORCEWAKE_MEDIA_VDBOX_GEN11 6)
     else if d = forcewake_domains FW_DOMAIN_ID_MEDIA_VDBOX7 then Some (FORCEWAKE_MEDIA_VDBOX_GEN11 7)
     else if d = forcewake_domains FW_DOMAIN_ID_MEDIA_VEBOX0 then Some (FORCEWAKE_MEDIA_VEBOX_GEN11 0)
     else if d = forcewake_domains FW_DOMAIN_ID_MEDIA_VEBOX1 then Some (FORCEWAKE_MEDIA_VEBOX_GEN11 1)
     else if d = forcewake_domains FW_DOMAIN_ID_MEDIA_VEBOX2 then Some (FORCEWAKE_MEDIA_VEBOX_GEN11 2)
     else if d = forcewake_domains FW_DOMAIN_ID_MEDIA_VEBOX3 then Some (FORCEWAKE_MEDIA_VEBOX_GEN11 3)
     else if d = forcewake_domains FW_DOMAIN_ID_GSC then Some FORCEWAKE_REQ_GSC
     else None)"

definition ackForDom :: "u32 \<Rightarrow> u32 option" where
  "ackForDom d =
    (if d = forcewake_domains FW_DOMAIN_ID_GT then Some FORCEWAKE_ACK_GT_GEN9
     else if d = forcewake_domains FW_DOMAIN_ID_RENDER then Some FORCEWAKE_ACK_RENDER_GEN9
     else if d = forcewake_domains FW_DOMAIN_ID_MEDIA_VDBOX0 then Some (FORCEWAKE_ACK_MEDIA_VDBOX_GEN11 0)
     else if d = forcewake_domains FW_DOMAIN_ID_MEDIA_VDBOX1 then Some (FORCEWAKE_ACK_MEDIA_VDBOX_GEN11 1)
     else if d = forcewake_domains FW_DOMAIN_ID_MEDIA_VDBOX2 then Some (FORCEWAKE_ACK_MEDIA_VDBOX_GEN11 2)
     else if d = forcewake_domains FW_DOMAIN_ID_MEDIA_VDBOX3 then Some (FORCEWAKE_ACK_MEDIA_VDBOX_GEN11 3)
     else if d = forcewake_domains FW_DOMAIN_ID_MEDIA_VDBOX4 then Some (FORCEWAKE_ACK_MEDIA_VDBOX_GEN11 4)
     else if d = forcewake_domains FW_DOMAIN_ID_MEDIA_VDBOX5 then Some (FORCEWAKE_ACK_MEDIA_VDBOX_GEN11 5)
     else if d = forcewake_domains FW_DOMAIN_ID_MEDIA_VDBOX6 then Some (FORCEWAKE_ACK_MEDIA_VDBOX_GEN11 6)
     else if d = forcewake_domains FW_DOMAIN_ID_MEDIA_VDBOX7 then Some (FORCEWAKE_ACK_MEDIA_VDBOX_GEN11 7)
     else if d = forcewake_domains FW_DOMAIN_ID_MEDIA_VEBOX0 then Some (FORCEWAKE_ACK_MEDIA_VEBOX_GEN11 0)
     else if d = forcewake_domains FW_DOMAIN_ID_MEDIA_VEBOX1 then Some (FORCEWAKE_ACK_MEDIA_VEBOX_GEN11 1)
     else if d = forcewake_domains FW_DOMAIN_ID_MEDIA_VEBOX2 then Some (FORCEWAKE_ACK_MEDIA_VEBOX_GEN11 2)
     else if d = forcewake_domains FW_DOMAIN_ID_MEDIA_VEBOX3 then Some (FORCEWAKE_ACK_MEDIA_VEBOX_GEN11 3)
     else if d = forcewake_domains FW_DOMAIN_ID_GSC then Some FORCEWAKE_ACK_GSC
     else None)"

record intel_forcewake_range =
  fwr_start :: u32
  fwr_end :: u32
  fwr_domains :: forcewake_domain_id

definition GEN_FW_RANGE :: "u32 \<Rightarrow> u32 \<Rightarrow> forcewake_domain_id \<Rightarrow> intel_forcewake_range" where
  "GEN_FW_RANGE st en d = \<lparr>fwr_start = st, fwr_end = en, fwr_domains = d\<rparr>"

definition gen11_fw_ranges :: "intel_forcewake_range list" where
  "gen11_fw_ranges = [
     GEN_FW_RANGE 0x2000 0x26ff FW_DOMAIN_ID_RENDER,
     GEN_FW_RANGE 0x2700 0x2fff FW_DOMAIN_ID_GT,
     GEN_FW_RANGE 0x3000 0x3fff FW_DOMAIN_ID_RENDER,
     GEN_FW_RANGE 0x4000 0x51ff FW_DOMAIN_ID_GT,
     GEN_FW_RANGE 0x5200 0x7fff FW_DOMAIN_ID_RENDER,
     GEN_FW_RANGE 0x8000 0x813f FW_DOMAIN_ID_GT,
     GEN_FW_RANGE 0x8140 0x815f FW_DOMAIN_ID_RENDER,
     GEN_FW_RANGE 0x8160 0x82ff FW_DOMAIN_ID_GT,
     GEN_FW_RANGE 0x8300 0x84ff FW_DOMAIN_ID_RENDER,
     GEN_FW_RANGE 0x8500 0x87ff FW_DOMAIN_ID_GT,
     GEN_FW_RANGE 0x8c00 0x8cff FW_DOMAIN_ID_RENDER,
     GEN_FW_RANGE 0x8d00 0x94cf FW_DOMAIN_ID_GT,
     GEN_FW_RANGE 0x94d0 0x955f FW_DOMAIN_ID_RENDER,
     GEN_FW_RANGE 0x9600 0xafff FW_DOMAIN_ID_GT,
     GEN_FW_RANGE 0xb000 0xb47f FW_DOMAIN_ID_RENDER,
     GEN_FW_RANGE 0xb480 0xdeff FW_DOMAIN_ID_GT,
     GEN_FW_RANGE 0xdf00 0xe8ff FW_DOMAIN_ID_RENDER,
     GEN_FW_RANGE 0xe900 0x16dff FW_DOMAIN_ID_GT,
     GEN_FW_RANGE 0x16e00 0x19fff FW_DOMAIN_ID_RENDER,
     GEN_FW_RANGE 0x1a000 0x23fff FW_DOMAIN_ID_GT,
     GEN_FW_RANGE 0x24080 0x2417f FW_DOMAIN_ID_GT,
     GEN_FW_RANGE 0x24180 0x242ff FW_DOMAIN_ID_RENDER,
     GEN_FW_RANGE 0x24300 0x243ff FW_DOMAIN_ID_GT,
     GEN_FW_RANGE 0x24400 0x24fff FW_DOMAIN_ID_RENDER,
     GEN_FW_RANGE 0x25000 0x3ffff FW_DOMAIN_ID_GT,
     GEN_FW_RANGE 0x1c0000 0x1c3fff FW_DOMAIN_ID_MEDIA_VDBOX0,
     GEN_FW_RANGE 0x1c8000 0x1cffff FW_DOMAIN_ID_MEDIA_VEBOX0,
     GEN_FW_RANGE 0x1d0000 0x1d3fff FW_DOMAIN_ID_MEDIA_VDBOX2
   ]"

definition NEEDS_FORCE_WAKE :: "u32 \<Rightarrow> bool" where
  "NEEDS_FORCE_WAKE reg \<longleftrightarrow> reg < 0x40000 \<or> 0x116000 \<le> reg"

section \<open>State and primitives\<close>

record fstate = istate +
  fwCallCount :: nat
  hangcheckDumped :: bool

text \<open>Apple's accessors, the ticks of a millisecond, and whether the build evaluates \<open>DBGLOG\<close>.\<close>

record 'a fwenv =
  origRead :: "u64 \<Rightarrow> u32 \<Rightarrow> ('a fstate_scheme, u32) state"
  origWrite :: "u64 \<Rightarrow> u32 \<Rightarrow> u32 \<Rightarrow> ('a fstate_scheme, unit) state"
  ticksPerMs :: nat
  debugBuild :: bool

definition FORCEWAKE_KERNEL_FALLBACK :: u32 where
  "FORCEWAKE_KERNEL_FALLBACK = push_bit 15 1"

definition FORCEWAKE_ACK_TIMEOUT_MS :: nat where
  "FORCEWAKE_ACK_TIMEOUT_MS = 50"

definition masked_field :: "u32 \<Rightarrow> u32 \<Rightarrow> u32" where
  "masked_field mask' val = push_bit 16 mask' OR val"

definition fw_set :: "u32 \<Rightarrow> u32" where
  "fw_set v = masked_field v v"

definition fw_clear :: "u32 \<Rightarrow> u32" where
  "fw_clear v = masked_field v 0"

definition DOM_RENDER :: u32 where "DOM_RENDER = 1"
definition DOM_MEDIA :: u32 where "DOM_MEDIA = 2"
definition DOM_BLITTER :: u32 where "DOM_BLITTER = 4"

definition fwReqReg :: "u32 \<Rightarrow> u32" where
  "fwReqReg d = (if d = DOM_RENDER then FORCEWAKE_RENDER_GEN9
     else if d = DOM_BLITTER then FORCEWAKE_BLITTER_GEN9 else 0)"

definition fwAckReg :: "u32 \<Rightarrow> u32" where
  "fwAckReg d = (if d = DOM_RENDER then FORCEWAKE_ACK_RENDER_GEN9
     else if d = DOM_BLITTER then FORCEWAKE_ACK_BLITTER_GEN9 else 0)"

definition fwMediaEngines :: "(u32 \<times> u32) list" where
  "fwMediaEngines = [
     (FORCEWAKE_MEDIA_VDBOX_GEN11 0, FORCEWAKE_ACK_MEDIA_VDBOX_GEN11 0),
     (FORCEWAKE_MEDIA_VEBOX_GEN11 0, FORCEWAKE_ACK_MEDIA_VEBOX_GEN11 0)]"

definition fwRead :: "'a fwenv \<Rightarrow> u32 \<Rightarrow> ('a fstate_scheme, u32) state" where
  "fwRead E reg = do { fc \<leftarrow> gets framecont; wrapReadRegister32 (origRead E) fc reg }"

definition fwWrite :: "'a fwenv \<Rightarrow> u32 \<Rightarrow> u32 \<Rightarrow> ('a fstate_scheme, unit) state" where
  "fwWrite E reg val = do { fc \<leftarrow> gets framecont; wrapWriteRegister32 (origWrite E) fc reg val }"

section \<open>Polling\<close>

definition clock_interval_to_deadline :: "'a fwenv \<Rightarrow> nat \<Rightarrow> ('a fstate_scheme, nat) state" where
  "clock_interval_to_deadline E ms = do { now \<leftarrow> clock_get_uptime; ret (now + ms * ticksPerMs E) }"

primrec pollLoop ::
  "'a fwenv \<Rightarrow> nat \<Rightarrow> nat \<Rightarrow> u32 \<Rightarrow> u32 \<Rightarrow> u32 \<Rightarrow> ('a fstate_scheme, bool option) state" where
  "pollLoop E 0 deadline reg val mask' = ret None"
| "pollLoop E (Suc fuel) deadline reg val mask' = do {
     now \<leftarrow> clock_get_uptime;
     if now < deadline then do {
       rd \<leftarrow> fwRead E reg;
       if rd AND mask' = val then ret (Some True) else pollLoop E fuel deadline reg val mask'
     } else ret (Some False)
   }"

definition pollRegister ::
  "'a fwenv \<Rightarrow> nat \<Rightarrow> u32 \<Rightarrow> u32 \<Rightarrow> u32 \<Rightarrow> nat \<Rightarrow> ('a fstate_scheme, bool option) state" where
  "pollRegister E fuel reg val mask' timeout = do {
     deadline \<leftarrow> clock_interval_to_deadline E timeout;
     pollLoop E fuel deadline reg val mask'
   }"

definition fallbackPass ::
  "'a fwenv \<Rightarrow> nat \<Rightarrow> u32 \<Rightarrow> u32 \<Rightarrow> u32 \<Rightarrow> u32 \<Rightarrow> nat \<Rightarrow> ('a fstate_scheme, bool option) state" where
  "fallbackPass E fuel reqReg ackReg val mask' pass =
     bindO (pollRegister E fuel ackReg 0 FORCEWAKE_KERNEL_FALLBACK FORCEWAKE_ACK_TIMEOUT_MS) (\<lambda>_.
     bindO (do {
       fwWrite E reqReg (fw_set FORCEWAKE_KERNEL_FALLBACK);
       IODelay (10 * pass);
       pollRegister E fuel ackReg FORCEWAKE_KERNEL_FALLBACK FORCEWAKE_KERNEL_FALLBACK FORCEWAKE_ACK_TIMEOUT_MS
     }) (\<lambda>_. do {
       rd \<leftarrow> fwRead E ackReg;
       fwWrite E reqReg (fw_clear FORCEWAKE_KERNEL_FALLBACK);
       ret (Some (rd AND mask' = val))
     }))"

function fallbackLoop ::
  "'a fwenv \<Rightarrow> nat \<Rightarrow> u32 \<Rightarrow> u32 \<Rightarrow> u32 \<Rightarrow> u32 \<Rightarrow> nat \<Rightarrow> ('a fstate_scheme, bool option) state" where
  "fallbackLoop E fuel reqReg ackReg val mask' pass =
     bindO (fallbackPass E fuel reqReg ackReg val mask' pass) (\<lambda>ack.
       if \<not> ack \<and> pass < 10 then fallbackLoop E fuel reqReg ackReg val mask' (Suc pass)
       else ret (Some ack))"
  by pat_completeness auto

termination
  by (relation "measure (\<lambda>(E, fuel, reqReg, ackReg, val, mask', pass). 10 - pass)") auto

declare fallbackLoop.simps [simp del]

definition forceWakeWaitAckFallback ::
  "'a fwenv \<Rightarrow> nat \<Rightarrow> u32 \<Rightarrow> u32 \<Rightarrow> u32 \<Rightarrow> u32 \<Rightarrow> ('a fstate_scheme, bool option) state" where
  "forceWakeWaitAckFallback E fuel reqReg ackReg val mask' = fallbackLoop E fuel reqReg ackReg val mask' 1"


section \<open>Force wake\<close>

text \<open>The state dump of the fifteenth call. The walk over the accelerator's children only logs.\<close>

definition hangcheckDump :: "('a mmio_scheme, unit) state" where
  "hangcheckDump = do {
     writeReg32 FORCEWAKE_RENDER_GEN9 (push_bit 16 1 OR 1);
     writeReg32 FORCEWAKE_BLITTER_GEN9 (push_bit 16 1 OR 1);
     IODelay 1000;
     readRegs [FORCEWAKE_ACK_RENDER_GEN9, FORCEWAKE_ACK_BLITTER_GEN9,
       RING_HEAD RENDER_RING_BASE, RING_TAIL RENDER_RING_BASE, RING_CTL RENDER_RING_BASE, RING_START RENDER_RING_BASE,
       RING_ACTHD_UDW RENDER_RING_BASE, RING_ACTHD RENDER_RING_BASE, RING_IPEHR RENDER_RING_BASE,
       RING_INSTDONE RENDER_RING_BASE, RING_DMA_FADD_UDW RENDER_RING_BASE, RING_DMA_FADD RENDER_RING_BASE,
       RING_EIR RENDER_RING_BASE, RING_ESR RENDER_RING_BASE, RING_EMR RENDER_RING_BASE,
       RING_EXECLIST_STATUS RENDER_RING_BASE, RING_CONTEXT_STATUS_PTR RENDER_RING_BASE,
       RING_HEAD BLT_RING_BASE, RING_TAIL BLT_RING_BASE, RING_CTL BLT_RING_BASE, RING_START BLT_RING_BASE,
       RING_HWS_PGA BLT_RING_BASE, RING_ACTHD_UDW BLT_RING_BASE, RING_ACTHD BLT_RING_BASE,
       RING_IPEHR BLT_RING_BASE, RING_INSTDONE BLT_RING_BASE,
       RING_EIR BLT_RING_BASE, RING_ESR BLT_RING_BASE, RING_EMR BLT_RING_BASE,
       0x40A0, 0xCEC4, 0x4B10, 0x4B14, 0x190018, 0x19001C,
       RENDER_RING_BASE + 0x358, BLT_RING_BASE + 0x358];
     hcMstr \<leftarrow> readReg32 GEN11_GFX_MSTR_IRQ;
     whenM (hcMstr AND GEN11_MASTER_IRQ = 0) (writeReg32 GEN11_GFX_MSTR_IRQ GEN11_MASTER_IRQ);
     writeReg32 FORCEWAKE_RENDER_GEN9 (push_bit 16 1 OR 0);
     writeReg32 FORCEWAKE_BLITTER_GEN9 (push_bit 16 1 OR 0);
     readRegs [GEN11_RENDER_COPY_INTR_ENABLE, GEN11_RCS0_RSVD_INTR_MASK, GEN11_GFX_MSTR_IRQ]
   }"

text \<open>One request: the write, the pause, then poll, fallback and second poll, each only if the
  previous one failed.\<close>

definition fwWaitAck ::
  "'a fwenv \<Rightarrow> nat \<Rightarrow> u32 \<Rightarrow> u32 \<Rightarrow> u32 \<Rightarrow> u32 \<Rightarrow> ('a fstate_scheme, bool option) state" where
  "fwWaitAck E fuel req ack ack_exp mask' =
     bindO (pollRegister E fuel ack ack_exp mask' FORCEWAKE_ACK_TIMEOUT_MS) (\<lambda>ok.
       if ok then ret (Some True)
       else bindO (forceWakeWaitAckFallback E fuel req ack ack_exp mask') (\<lambda>ok.
         if ok then ret (Some True)
         else pollRegister E fuel ack ack_exp mask' FORCEWAKE_ACK_TIMEOUT_MS))"

definition fwRequest ::
  "'a fwenv \<Rightarrow> nat \<Rightarrow> u32 \<Rightarrow> u32 \<Rightarrow> u32 \<Rightarrow> u32 \<Rightarrow> u32 \<Rightarrow> ('a fstate_scheme, bool option) state" where
  "fwRequest E fuel wr ack_exp mask' req ack = do {
     fwWrite E req wr;
     IOPause 100;
     fwWaitAck E fuel req ack ack_exp mask'
   }"

definition fwDomain ::
  "'a fwenv \<Rightarrow> nat \<Rightarrow> u32 \<Rightarrow> u32 \<Rightarrow> u32 \<Rightarrow> u32 \<Rightarrow> u32 \<Rightarrow> ('a fstate_scheme, unit option) state" where
  "fwDomain E fuel doms wr ack_exp mask' d =
    (if doms AND d = 0 then ret (Some ())
     else if d = DOM_MEDIA then
       forO fwMediaEngines (\<lambda>(req, ack). bindO (fwRequest E fuel wr ack_exp mask' req ack) (\<lambda>_. ret (Some ())))
     else bindO (fwRequest E fuel wr ack_exp mask' (fwReqReg d) (fwAckReg d)) (\<lambda>ok. do {
       whenM (ok \<and> debugBuild E) (do { _ \<leftarrow> fwRead E (fwAckReg d); ret () });
       ret (Some ())
     }))"

definition fwBoundary :: "boot \<Rightarrow> ('a mmio_scheme, unit) state" where
  "fwBoundary b = whenM (isRcsEngineTraceEnabled b)
     (readRegs [FORCEWAKE_ACK_RENDER_GEN9, FORCEWAKE_ACK_BLITTER_GEN9])"

definition fw_ack :: "bool \<Rightarrow> u8 \<Rightarrow> u32" where
  "fw_ack on ctx = push_bit (unat ctx) (if on then 1 else 0)"

definition fw_wr :: "bool \<Rightarrow> u8 \<Rightarrow> u32" where
  "fw_wr on ctx = fw_ack on ctx OR push_bit 16 (push_bit (unat ctx) 1)"

definition forceWake ::
  "boot \<Rightarrow> 'a fwenv \<Rightarrow> nat \<Rightarrow> bool \<Rightarrow> u32 \<Rightarrow> u8 \<Rightarrow> ('a fstate_scheme, unit option) state" where
  "forceWake b E fuel on doms ctx = do {
     fwBoundary b;
     modify (\<lambda>s. s\<lparr>fwCallCount := Suc (fwCallCount s)\<rparr>);
     n \<leftarrow> gets fwCallCount;
     dumped \<leftarrow> gets hangcheckDumped;
     whenM (\<not> dumped \<and> n = 15) (do {
       modify (\<lambda>s. s\<lparr>hangcheckDumped := True\<rparr>);
       hangcheckDump
     });
     bindO (forO [DOM_RENDER, DOM_MEDIA, DOM_BLITTER]
         (fwDomain E fuel doms (fw_wr on ctx) (fw_ack on ctx) (push_bit (unat ctx) 1))) (\<lambda>_. do {
       fwBoundary b;
       ret (Some ())
     })
   }"

definition wrapSafeForceWake ::
  "boot \<Rightarrow> 'a fwenv \<Rightarrow> nat \<Rightarrow> bool \<Rightarrow> u32 \<Rightarrow> ('a fstate_scheme, unit option) state" where
  "wrapSafeForceWake b E fuel on doms = forceWake b E fuel on doms 1"


section \<open>What the routines do to the bus\<close>

text \<open>The state changes by new accesses only, each of them allowed by \<open>P\<close>.\<close>

definition grows :: "(access \<Rightarrow> bool) \<Rightarrow> 'a mmio_scheme \<Rightarrow> 'a mmio_scheme \<Rightarrow> bool" where
  "grows P s t \<longleftrightarrow> (\<exists>new. t = s\<lparr>hist := new @ hist s\<rparr> \<and> list_all P new)"

interpretation gr: step_order "grows P" for P
proof unfold_locales
  show "grows P s s" for s :: "'a mmio_scheme"
    unfolding grows_def by (rule exI [of _ "[]"]) simp
  fix s t u :: "'a mmio_scheme"
  assume "grows P s t" and "grows P t u"
  then obtain m n where "t = s\<lparr>hist := m @ hist s\<rparr>" "u = t\<lparr>hist := n @ hist t\<rparr>" "list_all P m" "list_all P n"
    unfolding grows_def by blast
  then show "grows P s u"
    unfolding grows_def by (intro exI [of _ "n @ m"]) simp
qed

lemma grows_mono: "grows P s t \<Longrightarrow> (\<And>a. P a \<Longrightarrow> Q a) \<Longrightarrow> grows Q s t"
  unfolding grows_def by (metis list_all_iff)

lemma gr_mono: "state_io_rel (grows P) m \<Longrightarrow> (\<And>a. P a \<Longrightarrow> Q a) \<Longrightarrow> state_io_rel (grows Q) m"
  unfolding state_io_rel_exec by (blast intro: grows_mono)

lemma grI:
  assumes "state_io_rel (emits P) m" and "state_io_rel bus_only m"
  shows "state_io_rel (grows P) m"
  unfolding state_io_rel_exec grows_def
proof (intro allI)
  fix s
  obtain h where h: "exec m s = s\<lparr>hist := h\<rparr>"
    using assms(2) by (auto dest: bus_only_exec [of m s])
  have "emits P s (exec m s)"
    using assms(1) by (simp add: state_io_rel_exec)
  then obtain new where "hist (exec m s) = new @ hist s" "list_all P new"
    by (auto simp: emits_def)
  with h show "\<exists>new. exec m s = s\<lparr>hist := new @ hist s\<rparr> \<and> list_all P new"
    by auto
qed

lemma em_pause: "transparent P \<Longrightarrow> state_io_rel (emits P) (IOPause n)"
  by (auto simp: state_io_rel_exec transparent_def intro: emits_hist)

lemma bo_pause: "state_io_rel bus_only (IOPause n)"
  by (auto simp: state_io_rel_exec bus_only_def)

lemma gr_primitives:
  assumes "transparent P"
  shows "state_io_rel (grows P) (load_dw i)" "state_io_rel (grows P) (IODelay n)"
    "state_io_rel (grows P) (IOPause n)" "state_io_rel (grows P) clock_get_uptime"
  by (intro grI em_load em_delay em_clock em_pause bo_primitives bo_pause assms)+

lemma gr_reads:
  assumes "transparent P"
  shows "state_io_rel (grows P) (readReg32 r)" "state_io_rel (grows P) (readRegs rs)"
  by (intro grI em_readReg32 em_readRegs bo_readReg32 bo_readRegs assms)+

section \<open>The controller's accessors\<close>

text \<open>
  What force wake relies on of Apple's accessors: a register read stores to no register, a
  register write is one store of the value, and neither changes anything else the plugin sees.
\<close>

locale controller_io =
  fixes E :: "'a fwenv"
  assumes read_quiet: "state_io_rel (grows quiet_access) (origRead E c reg)"
    and write_stores: "exec (origWrite E c reg v) s = s\<lparr>hist := St (dw (ucast reg)) v # hist s\<rparr>"
begin

lemma fwRead_quiet: "state_io_rel (grows quiet_access) (fwRead E reg)"
  unfolding fwRead_def wrapReadRegister32_def Let_def
  by (intro gr.io_rules gr_primitives gr_reads transparent_quiet read_quiet)

end


section \<open>Polling ends\<close>

text \<open>Any \<open>K\<close> bus accesses take at least \<open>D\<close> ticks of the clock.\<close>

definition clock_runs :: "nat \<Rightarrow> nat \<Rightarrow> 'a mmio_scheme \<Rightarrow> bool" where
  "clock_runs D K s \<longleftrightarrow> (\<forall>h new. K \<le> length new \<longrightarrow> dev_clock s h + D \<le> dev_clock s (new @ h))"

lemma clock_runs_hist [simp]: "clock_runs D K (s\<lparr>hist := h\<rparr>) \<longleftrightarrow> clock_runs D K s"
  by (simp add: clock_runs_def)

lemma grows_keeps_clock: "state_io_rel (grows P) m \<Longrightarrow> state_io_rel (keeps (clock_runs D K)) m"
  unfolding state_io_rel_exec keeps_def grows_def by (metis clock_runs_hist)

lemma gr_exec:
  assumes "state_io_rel (grows P) m"
  obtains new where "exec m s = s\<lparr>hist := new @ hist s\<rparr>" "list_all P new"
  using assms unfolding state_io_rel_exec grows_def by blast

context controller_io
begin

lemma pollLoop_grows: "transparent P \<Longrightarrow> (\<And>a. quiet_access a \<Longrightarrow> P a) \<Longrightarrow>
  state_io_rel (grows P) (pollLoop E fuel deadline reg val mask')"
  by (induction fuel)
    (auto intro!: gr.io_ret gr.io_bind gr_primitives gr_mono [OF fwRead_quiet] simp del: exec_if)

lemma pollLoop_returns:
  assumes "clock_runs D K s" and "hist s = new @ h0" and "deadline \<le> dev_clock s h0 + D"
    and "K < fuel + length new" and "0 < fuel"
  shows "result (pollLoop E fuel deadline reg val mask') s \<noteq> None"
  using assms
proof (induction fuel arbitrary: s new)
  case 0
  then show ?case by simp
next
  case (Suc fuel)
  let ?now = "dev_clock s (hist s)"
  let ?s1 = "s\<lparr>hist := Clk ?now # hist s\<rparr>"
  show ?case
  proof (cases "?now < deadline")
    case False
    then show ?thesis by simp
  next
    case True
    have "length new < K"
    proof (rule ccontr)
      assume "\<not> length new < K"
      then have "dev_clock s h0 + D \<le> ?now"
        using Suc.prems(1,2) by (simp add: clock_runs_def)
      with True Suc.prems(3) show False by simp
    qed
    then have fuel: "0 < fuel"
      using Suc.prems(4) by simp
    obtain n2 where n2: "exec (fwRead E reg) ?s1 = ?s1\<lparr>hist := n2 @ hist ?s1\<rparr>"
      by (rule gr_exec [OF fwRead_quiet, where s = ?s1])
    have "result (pollLoop E fuel deadline reg val mask') (?s1\<lparr>hist := n2 @ hist ?s1\<rparr>) \<noteq> None"
      by (rule Suc.IH [where new = "n2 @ Clk ?now # new"]) (use Suc.prems fuel in simp_all)
    then have "result (pollLoop E fuel deadline reg val mask') (exec (fwRead E reg) ?s1) \<noteq> None"
      unfolding n2 .
    then show ?thesis
      using True by auto
  qed
qed

lemma pollRegister_returns:
  assumes "D = timeout * ticksPerMs E" and "K \<le> fuel" and "0 < fuel"
  shows "returns (clock_runs D K) (pollRegister E fuel reg val mask' timeout)"
  unfolding returns_def pollRegister_def clock_interval_to_deadline_def
proof (intro allI impI)
  fix s :: "'a fstate_scheme" assume s: "clock_runs D K s"
  let ?s1 = "s\<lparr>hist := Clk (dev_clock s (hist s)) # hist s\<rparr>"
  have "result (pollLoop E fuel (dev_clock s (hist s) + timeout * ticksPerMs E) reg val mask') ?s1 \<noteq> None"
    by (rule pollLoop_returns [where D = D and K = K and new = "[Clk (dev_clock s (hist s))]" and ?h0.0 = "hist s"])
      (use s assms in simp_all)
  then show "result (do { deadline \<leftarrow> do { now \<leftarrow> clock_get_uptime; ret (now + timeout * ticksPerMs E) };
      pollLoop E fuel deadline reg val mask' }) s \<noteq> None"
    by simp
qed

lemma pollRegister_grows:
  "transparent P \<Longrightarrow> (\<And>a. quiet_access a \<Longrightarrow> P a) \<Longrightarrow>
   state_io_rel (grows P) (pollRegister E fuel reg val mask' timeout)"
  unfolding pollRegister_def clock_interval_to_deadline_def
  by (intro gr.io_bind gr.io_ret gr_primitives pollLoop_grows)

end


section \<open>Requests end\<close>

lemma grows_any: "state_io_rel (grows P) m \<Longrightarrow> state_io_rel (grows (\<lambda>_. True)) m"
  by (rule gr_mono) simp_all

lemma gr_writeReg32_any: "state_io_rel (grows (\<lambda>_. True)) (writeReg32 reg v)"
  by (intro grI em_writeReg32_True bo_writeReg32)

definition fw_ticks :: "'a fwenv \<Rightarrow> nat" where
  "fw_ticks E = FORCEWAKE_ACK_TIMEOUT_MS * ticksPerMs E"

lemma returns_after:
  assumes "state_io_rel (grows P) m" and "\<And>x. returns (clock_runs D K) (f x)"
  shows "returns (clock_runs D K) (m \<bind> f)"
  by (rule returns_bind [OF grows_keeps_clock [OF assms(1)] assms(2)])

context controller_io
begin

lemma fwWrite_any: "state_io_rel (grows (\<lambda>_. True)) (fwWrite E reg v)"
proof -
  have "state_io_rel (grows (\<lambda>_. True)) (origWrite E c reg v)" for c v
    unfolding state_io_rel_exec grows_def write_stores
    by (intro allI exI [of _ "[St (dw (ucast reg)) v]"]) simp
  then show ?thesis
    unfolding fwWrite_def wrapWriteRegister32_def by (intro gr.io_rules gr_writeReg32_any)
qed

lemmas any_rules = gr.io_rules gr.io_bindO gr.io_forO gr_primitives [OF any_access] gr_reads [OF any_access]
  grows_any [OF fwRead_quiet] fwWrite_any pollRegister_grows [OF any_access]

lemma fallbackPass_any: "state_io_rel (grows (\<lambda>_. True)) (fallbackPass E fuel req ack val mask' pass)"
  unfolding fallbackPass_def by (intro any_rules TrueI)

lemma fallbackLoop_any: "state_io_rel (grows (\<lambda>_. True)) (fallbackLoop E fuel req ack val mask' pass)"
proof (induction "10 - pass" arbitrary: pass rule: less_induct)
  case less
  show ?case
    unfolding fallbackLoop.simps [of E fuel req ack val mask' pass]
    by (intro gr.io_bindO gr.io_if gr.io_ret fallbackPass_any less) linarith
qed

lemma fwWaitAck_any: "state_io_rel (grows (\<lambda>_. True)) (fwWaitAck E fuel req ack e mask')"
  unfolding fwWaitAck_def forceWakeWaitAckFallback_def by (intro any_rules fallbackLoop_any TrueI)

lemma fwRequest_any: "state_io_rel (grows (\<lambda>_. True)) (fwRequest E fuel wr e mask' req ack)"
  unfolding fwRequest_def by (intro any_rules fwWaitAck_any)

lemma fwDomain_any: "state_io_rel (grows (\<lambda>_. True)) (fwDomain E fuel doms wr e mask' d)"
  unfolding fwDomain_def
  by (rule gr.io_if, rule gr.io_ret, rule gr.io_if, rule gr.io_forO)
    (auto split: prod.split intro!: any_rules fwRequest_any simp del: exec_whenM)

end

context controller_io
begin

lemma poll_ok:
  "K \<le> fuel \<Longrightarrow> 0 < fuel \<Longrightarrow>
   returns (clock_runs (fw_ticks E) K) (pollRegister E fuel reg val mask' FORCEWAKE_ACK_TIMEOUT_MS)"
  by (rule pollRegister_returns) (simp_all add: fw_ticks_def)

lemmas poll_keeps = pollRegister_grows [OF any_access, THEN grows_keeps_clock]

lemma fallbackPass_returns:
  assumes "K \<le> fuel" and "0 < fuel"
  shows "returns (clock_runs (fw_ticks E) K) (fallbackPass E fuel req ack val mask' pass)"
  unfolding fallbackPass_def
proof (rule returns_bindO [OF poll_ok [OF assms] poll_keeps [OF TrueI]], rule returns_bindO)
  show "returns (clock_runs (fw_ticks E) K)
     (do { fwWrite E req (fw_set FORCEWAKE_KERNEL_FALLBACK); IODelay (10 * pass);
       pollRegister E fuel ack FORCEWAKE_KERNEL_FALLBACK FORCEWAKE_KERNEL_FALLBACK FORCEWAKE_ACK_TIMEOUT_MS })"
    by (rule returns_after [OF fwWrite_any], rule returns_after [OF gr_primitives(2) [OF any_access]],
        rule poll_ok [OF assms])
  show "state_io_rel (keeps (clock_runs (fw_ticks E) K))
     (do { fwWrite E req (fw_set FORCEWAKE_KERNEL_FALLBACK); IODelay (10 * pass);
       pollRegister E fuel ack FORCEWAKE_KERNEL_FALLBACK FORCEWAKE_KERNEL_FALLBACK FORCEWAKE_ACK_TIMEOUT_MS })"
    by (rule grows_keeps_clock [where P = "\<lambda>_. True"]) (intro any_rules TrueI)
  show "returns (clock_runs (fw_ticks E) K) (do { rd \<leftarrow> fwRead E ack;
       fwWrite E req (fw_clear FORCEWAKE_KERNEL_FALLBACK); ret (Some (rd AND mask' = val)) })" for x :: bool
    by (rule returns_after [OF fwRead_quiet], rule returns_after [OF fwWrite_any], rule returns_ret)
qed

lemma fallbackLoop_returns:
  assumes "K \<le> fuel" and "0 < fuel"
  shows "returns (clock_runs (fw_ticks E) K) (fallbackLoop E fuel req ack val mask' pass)"
proof (induction "10 - pass" arbitrary: pass rule: less_induct)
  case less
  show ?case
    unfolding fallbackLoop.simps [of E fuel req ack val mask' pass]
    by (intro returns_bindO returns_if returns_ret fallbackPass_returns [OF assms]
        grows_keeps_clock [OF fallbackPass_any] less) linarith
qed

lemma fwRequest_returns:
  assumes "K \<le> fuel" and "0 < fuel"
  shows "returns (clock_runs (fw_ticks E) K) (fwRequest E fuel wr e mask' req ack)"
  unfolding fwRequest_def fwWaitAck_def forceWakeWaitAckFallback_def
  by (rule returns_after [OF fwWrite_any], rule returns_after [OF gr_primitives(3) [OF any_access]])
    (intro returns_bindO returns_if returns_ret poll_ok [OF assms] poll_keeps TrueI
      fallbackLoop_returns [OF assms] grows_keeps_clock [OF fallbackLoop_any])

lemma fwDomain_returns:
  assumes "K \<le> fuel" and "0 < fuel"
  shows "returns (clock_runs (fw_ticks E) K) (fwDomain E fuel doms wr e mask' d)"
proof -
  note rq = fwRequest_returns [OF assms] grows_keeps_clock [OF fwRequest_any]
  have "returns (clock_runs (fw_ticks E) K)
      (forO fwMediaEngines (\<lambda>(req, ack). bindO (fwRequest E fuel wr e mask' req ack) (\<lambda>_. ret (Some ()))))"
    by (rule returns_forO)
      (auto split: prod.split intro!: returns_bindO returns_ret rq inv.io_bindO inv.io_ret)
  moreover have "returns (clock_runs (fw_ticks E) K) (do {
       whenM (ok \<and> debugBuild E) (do { _ \<leftarrow> fwRead E (fwAckReg d); ret () }); ret (Some ()) })" for ok
    by (rule returns_after [where P = "\<lambda>_. True"]) (intro any_rules returns_ret)+
  ultimately show ?thesis
    unfolding fwDomain_def by (intro returns_if returns_ret returns_bindO rq)
qed

end


lemma hangcheckDump_any: "state_io_rel (grows (\<lambda>_. True)) hangcheckDump"
  unfolding hangcheckDump_def
  by (intro gr.io_rules gr_primitives [OF any_access] gr_reads [OF any_access] gr_writeReg32_any)

lemma fwBoundary_quiet: "state_io_rel (grows quiet_access) (fwBoundary b)"
  unfolding fwBoundary_def by (intro gr.io_rules gr_reads transparent_quiet)

lemma keeps_clock_counters:
  "state_io_rel (keeps (clock_runs D K)) (modify (\<lambda>s. s\<lparr>fwCallCount := f s\<rparr>))"
  "state_io_rel (keeps (clock_runs D K)) (modify (\<lambda>s. s\<lparr>hangcheckDumped := g s\<rparr>))"
  by (simp_all add: state_io_rel_exec keeps_def clock_runs_def)

context controller_io
begin

lemma forceWake_returns:
  assumes "K \<le> fuel" and "0 < fuel"
  shows "returns (clock_runs (fw_ticks E) K) (forceWake b E fuel on doms ctx)"
  unfolding forceWake_def
  by (intro returns_bind [OF grows_keeps_clock [OF fwBoundary_quiet]] returns_bind [OF keeps_clock_counters(1)]
      returns_bind [OF inv.io_gets] returns_bind [OF inv.io_whenM] inv.io_bind keeps_clock_counters
      grows_keeps_clock [OF hangcheckDump_any] returns_bindO returns_forO fwDomain_returns [OF assms]
      grows_keeps_clock [OF fwDomain_any] inv.io_forO returns_ret)

end

text \<open>The plugin's own accessors satisfy the contract.\<close>

definition own_env :: "'a fwenv" where
  "own_env = \<lparr>origRead = (\<lambda>_ reg. readReg32 (ucast reg)), origWrite = (\<lambda>_ reg v. store_dw (dw (ucast reg)) v),
     ticksPerMs = 1, debugBuild = False\<rparr>"

interpretation own: controller_io own_env
  by unfold_locales (simp_all add: own_env_def gr_reads transparent_quiet)

definition sample_fstate :: fstate where
  "sample_fstate = istate.extend sample_istate (fstate.fields 0 False)"

lemma sample_fstate_clock: "clock_runs 50 50 sample_fstate"
  by (simp add: clock_runs_def sample_fstate_def istate.defs fstate.defs sample_istate_bus)

text \<open>C15: A force wake request always returns, whatever the registers answer: when the clock
  advances by the acknowledge timeout within \<open>K\<close> bus accesses, \<open>K\<close> rounds of fuel are enough
  for every poll, every pass of the fallback and every domain.\<close>

theorem force_wake_returns:
  assumes "controller_io E" and "clock_runs (fw_ticks E) K s" and "K \<le> fuel" and "0 < fuel"
  shows "result (forceWake b E fuel on doms ctx) s = Some ()"
  using controller_io.forceWake_returns [OF assms(1,3,4)] assms(2) by (simp add: returns_def)

theorem force_wake_returns_witness:
  "result (forceWake boot_none own_env 50 True 7 1) sample_fstate = Some ()"
  by (rule force_wake_returns [OF own.controller_io_axioms, where K = 50])
    (simp_all add: fw_ticks_def FORCEWAKE_ACK_TIMEOUT_MS_def own_env_def sample_fstate_clock)


section \<open>What a request stores\<close>

text \<open>The request registers of a domain mask, in the order of the loop.\<close>

definition fwReqs :: "u32 \<Rightarrow> u32 list" where
  "fwReqs doms = (if doms AND DOM_RENDER \<noteq> 0 then [FORCEWAKE_RENDER_GEN9] else [])
     @ (if doms AND DOM_MEDIA \<noteq> 0 then map fst fwMediaEngines else [])
     @ (if doms AND DOM_BLITTER \<noteq> 0 then [FORCEWAKE_BLITTER_GEN9] else [])"

definition fw_access :: "u32 list \<Rightarrow> u32 \<Rightarrow> access \<Rightarrow> bool" where
  "fw_access regs wr a \<longleftrightarrow> quiet_access a \<or> (\<exists>r \<in> set regs. a = St (dw (ucast r)) wr
     \<or> a = St (dw (ucast r)) (fw_set FORCEWAKE_KERNEL_FALLBACK) \<or> a = St (dw (ucast r)) (fw_clear FORCEWAKE_KERNEL_FALLBACK))"

lemma fw_access_transparent: "transparent (fw_access regs wr)"
  by (simp add: transparent_def fw_access_def)

lemma fw_access_quiet: "quiet_access a \<Longrightarrow> fw_access regs wr a"
  by (simp add: fw_access_def)

text \<open>With the whole register range mapped, only the accesses of \<open>P\<close> are added.\<close>

definition bgrows :: "(access \<Rightarrow> bool) \<Rightarrow> 'a mmio_scheme \<Rightarrow> 'a mmio_scheme \<Rightarrow> bool" where
  "bgrows P s t \<longleftrightarrow> (big_bar s \<longrightarrow> grows P s t)"

lemma grows_big: "grows P s t \<Longrightarrow> big_bar t \<longleftrightarrow> big_bar s"
  by (auto simp: grows_def)

interpretation bg: step_order "bgrows P" for P
  by unfold_locales (auto simp: bgrows_def gr.step_refl grows_big intro: gr.step_trans)

lemma bgI: "state_io_rel (grows P) m \<Longrightarrow> state_io_rel (bgrows P) m"
  by (simp add: state_io_rel_exec bgrows_def)

lemma fwReqs_plain:
  assumes "r \<in> set (fwReqs 7)"
  shows "ucast r \<le> (0x1FFFFC :: u64)" and "\<not> looksLikePlaneSurf (ucast r)" and "\<not> isEmrReg (ucast r)"
  using assms by (auto simp: fwReqs_def DOM_RENDER_def DOM_MEDIA_def DOM_BLITTER_def fwMediaEngines_def
      looksLikePlaneSurf_def isEmrReg_def)

lemma fwReqs_all: "set (fwReqs doms) \<subseteq> set (fwReqs 7)"
  by (auto simp: fwReqs_def DOM_RENDER_def DOM_MEDIA_def DOM_BLITTER_def)

context controller_io
begin

lemma fwWrite_exec:
  assumes "r \<in> set (fwReqs 7)" and "big_bar s"
  shows "exec (fwWrite E r v) s = s\<lparr>hist := St (dw (ucast r)) v # hist s\<rparr>"
  using fwReqs_plain [OF assms(1)] big_bar_direct [OF assms(2)]
  by (simp add: fwWrite_def wrapWriteRegister32_def writeReg32_direct write_stores emrForce_def)

lemma fwWrite_req:
  assumes "r \<in> set (fwReqs 7)" and "P (St (dw (ucast r)) v)"
  shows "state_io_rel (bgrows P) (fwWrite E r v)"
  unfolding state_io_rel_exec bgrows_def grows_def
  by (auto simp: fwWrite_exec [OF assms(1)] assms(2) intro!: exI [of _ "[St (dw (ucast r)) v]"])

end


context controller_io
begin

lemmas bg_quiet = bgI [OF gr_mono [OF fwRead_quiet fw_access_quiet]]
  bgI [OF pollRegister_grows [OF fw_access_transparent fw_access_quiet]]
  bgI [OF gr_primitives(1) [OF fw_access_transparent]] bgI [OF gr_primitives(2) [OF fw_access_transparent]]
  bgI [OF gr_primitives(3) [OF fw_access_transparent]]

lemma fallbackLoop_stores:
  assumes "req \<in> set regs" and "set regs \<subseteq> set (fwReqs 7)"
  shows "state_io_rel (bgrows (fw_access regs wr)) (fallbackLoop E fuel req ack val mask' pass)"
proof -
  have r: "req \<in> set (fwReqs 7)"
    using assms by blast
  have w: "fw_access regs wr (St (dw (ucast req)) (fw_set FORCEWAKE_KERNEL_FALLBACK))"
    "fw_access regs wr (St (dw (ucast req)) (fw_clear FORCEWAKE_KERNEL_FALLBACK))"
    using assms(1) by (auto simp: fw_access_def)
  have p: "state_io_rel (bgrows (fw_access regs wr)) (fallbackPass E fuel req ack val mask' pass)" for pass
    unfolding fallbackPass_def by (intro bg.io_rules bg.io_bindO bg_quiet fwWrite_req [OF r] w)
  show ?thesis
  proof (induction "10 - pass" arbitrary: pass rule: less_induct)
    case less
    show ?case
      unfolding fallbackLoop.simps [of E fuel req ack val mask' pass]
      by (intro bg.io_bindO bg.io_if bg.io_ret p less) linarith
  qed
qed

lemma fwRequest_stores:
  assumes "req \<in> set regs" and "set regs \<subseteq> set (fwReqs 7)"
  shows "state_io_rel (bgrows (fw_access regs wr)) (fwRequest E fuel wr e mask' req ack)"
proof -
  have "fw_access regs wr (St (dw (ucast req)) wr)" and "req \<in> set (fwReqs 7)"
    using assms by (auto simp: fw_access_def)
  then show ?thesis
    unfolding fwRequest_def fwWaitAck_def forceWakeWaitAckFallback_def
    by (intro bg.io_rules bg.io_bindO bg_quiet fwWrite_req fallbackLoop_stores [OF assms])
qed

lemma fwDomain_stores:
  assumes "d \<in> {DOM_RENDER, DOM_MEDIA, DOM_BLITTER}"
  shows "state_io_rel (bgrows (fw_access (fwReqs doms) wr)) (fwDomain E fuel doms wr e mask' d)"
proof -
  have m: "req \<in> set (fwReqs doms)" if "doms AND DOM_MEDIA \<noteq> 0" "(req, ack) \<in> set fwMediaEngines" for req ack
    using that by (force simp: fwReqs_def)
  have r: "fwReqReg d \<in> set (fwReqs doms)" if "doms AND d \<noteq> 0" "d \<noteq> DOM_MEDIA"
    using assms that by (auto simp: fwReqs_def fwReqReg_def)
  show ?thesis
    unfolding fwDomain_def
    by (rule bg.io_if, rule bg.io_ret, rule bg.io_if, rule bg.io_forO)
      (auto split: prod.split intro!: bg.io_rules bg.io_bindO fwRequest_stores [OF _ fwReqs_all] m r bg_quiet
        simp del: exec_whenM)
qed

end

text \<open>A force wake call touches nothing but the domains it was asked for: every store of a call
  (other than to the index register of indirect reads) goes to a request register of a selected
  domain, with the request value or the fallback bit set or cleared. Outside the fifteenth call,
  which also dumps the state, nothing else changes but the call counter.\<close>

theorem force_wake_stores:
  fixes s :: "'a fstate_scheme"
  assumes "controller_io E" and "big_bar s" and "fwCallCount s \<noteq> 14"
  shows "\<exists>new. exec (forceWake b E fuel on doms ctx) s =
      s\<lparr>fwCallCount := Suc (fwCallCount s), hist := new @ hist s\<rparr>
    \<and> list_all (fw_access (fwReqs doms) (fw_wr on ctx)) new"
proof -
  define P where "P = fw_access (fwReqs doms) (fw_wr on ctx)"
  define body :: "('a fstate_scheme, unit option) state" where
    "body = bindO (forO [DOM_RENDER, DOM_MEDIA, DOM_BLITTER]
       (fwDomain E fuel doms (fw_wr on ctx) (fw_ack on ctx) (push_bit (unat ctx) 1))) (\<lambda>_. do { fwBoundary b; ret (Some ()) })"
  have bnd: "state_io_rel (grows P) (fwBoundary b :: ('a fstate_scheme, unit) state)"
    by (rule gr_mono [OF fwBoundary_quiet]) (simp add: P_def fw_access_quiet)
  have "state_io_rel (bgrows P) body"
    unfolding body_def P_def
    by (intro bg.io_bindO bg.io_forO controller_io.fwDomain_stores [OF assms(1)] bg.io_bind bg.io_ret
        bgI [OF bnd [unfolded P_def]]) simp
  then have body: "big_bar t \<Longrightarrow> grows P t (exec body t)" for t
    by (simp add: state_io_rel_exec bgrows_def)
  obtain n1 where n1: "exec (fwBoundary b) s = s\<lparr>hist := n1 @ hist s\<rparr>" "list_all P n1"
    by (rule gr_exec [OF bnd])
  let ?s1 = "s\<lparr>hist := n1 @ hist s, fwCallCount := Suc (fwCallCount s)\<rparr>"
  have "exec (forceWake b E fuel on doms ctx) s = exec body ?s1"
    using assms(3) by (simp add: forceWake_def body_def n1(1))
  moreover have "big_bar ?s1"
    using assms(2) by (simp add: big_bar_def mmioValid_def)
  then obtain n2 where "exec body ?s1 = ?s1\<lparr>hist := n2 @ hist ?s1\<rparr>" "list_all P n2"
    using body unfolding grows_def by blast
  ultimately show ?thesis
    using n1(2) unfolding P_def by (intro exI [of _ "n2 @ n1"]) simp
qed

section \<open>What a poll means\<close>

text \<open>The acknowledge register is read by one load, over the plugin's or the controller's mapping.\<close>

definition ack_reachable :: "u32 \<Rightarrow> 'a rstate_scheme \<Rightarrow> bool" where
  "ack_reachable reg s \<longleftrightarrow> direct s (ucast reg) \<and>
     (framecont s = 0 \<or> (let m = kmem s; mmioSize = rd32 m (framecont s + 0xC38) in
        rd64 m (framecont s + 0x9B8) \<noteq> 0 \<and> 4 \<le> mmioSize \<and> reg < mmioSize - 4))"

lemma ack_reachable_hist [simp]: "ack_reachable reg (s\<lparr>hist := h\<rparr>) \<longleftrightarrow> ack_reachable reg s"
  by (simp add: ack_reachable_def)

lemma fwRead_reachable:
  assumes "ack_reachable reg s"
  shows "result (fwRead E reg) s = dev_load s (hist s) (dw (ucast reg))"
    and "exec (fwRead E reg) s = s\<lparr>hist := Ld (dw (ucast reg)) (dev_load s (hist s) (dw (ucast reg))) # hist s\<rparr>"
  using assms by (auto simp: ack_reachable_def fwRead_def wrapReadRegister32_def Let_def readReg32_direct)

text \<open>
  The verdict of a poll with its accesses: success means that the newest access is a load of the
  register with the expected value under the mask, failure that every load of the register since
  the start missed it and that the clock was last seen at or past the deadline.
\<close>

definition poll_verdict :: "bool \<Rightarrow> nat \<Rightarrow> u64 \<Rightarrow> u32 \<Rightarrow> u32 \<Rightarrow> access list \<Rightarrow> bool" where
  "poll_verdict ok deadline i val mask' new \<longleftrightarrow>
     (if ok then \<exists>v rest. new = Ld i v # rest \<and> v AND mask' = val
      else (\<forall>v. Ld i v \<in> set new \<longrightarrow> v AND mask' \<noteq> val) \<and> (\<exists>now rest. new = Clk now # rest \<and> deadline \<le> now))"

lemma pollLoop_verdict:
  assumes "ack_reachable reg s" and "result (pollLoop E fuel deadline reg val mask') s = Some ok"
  shows "\<exists>new. exec (pollLoop E fuel deadline reg val mask') s = s\<lparr>hist := new @ hist s\<rparr>
    \<and> poll_verdict ok deadline (dw (ucast reg)) val mask' new"
  using assms
proof (induction fuel arbitrary: s)
  case 0
  then show ?case by simp
next
  case (Suc fuel)
  let ?i = "dw (ucast reg)"
  let ?now = "dev_clock s (hist s)"
  let ?s1 = "s\<lparr>hist := Clk ?now # hist s\<rparr>"
  let ?v = "dev_load s (Clk ?now # hist s) ?i"
  let ?s2 = "s\<lparr>hist := Ld ?i ?v # Clk ?now # hist s\<rparr>"
  have rd: "result (fwRead E reg) ?s1 = ?v" "exec (fwRead E reg) ?s1 = ?s2"
    using fwRead_reachable [of reg ?s1 E] Suc.prems(1) by simp_all
  consider (late) "\<not> ?now < deadline" | (hit) "?now < deadline" "?v AND mask' = val"
    | (miss) "?now < deadline" "?v AND mask' \<noteq> val"
    by blast
  then show ?case
  proof cases
    case late
    with Suc.prems(2) show ?thesis
      by (intro exI [of _ "[Clk ?now]"]) (simp add: poll_verdict_def)
  next
    case hit
    with Suc.prems(2) show ?thesis
      by (intro exI [of _ "[Ld ?i ?v, Clk ?now]"]) (auto simp: poll_verdict_def rd)
  next
    case miss
    with Suc.prems(2) have "result (pollLoop E fuel deadline reg val mask') ?s2 = Some ok"
      by (simp add: rd)
    then obtain new where new: "exec (pollLoop E fuel deadline reg val mask') ?s2 = ?s2\<lparr>hist := new @ hist ?s2\<rparr>"
        "poll_verdict ok deadline ?i val mask' new"
      using Suc.IH [of ?s2] Suc.prems(1) by auto
    have "poll_verdict ok deadline ?i val mask' (new @ [Ld ?i ?v, Clk ?now])"
      using new(2) miss(2) by (auto simp: poll_verdict_def split: if_splits)
    with miss new(1) show ?thesis
      by (intro exI [of _ "new @ [Ld ?i ?v, Clk ?now]"]) (simp add: rd)
  qed
qed

text \<open>C25: Polling a register is correct and ends: it returns within the fuel, success exactly with
  a last load that shows the expected value under the mask, failure only after the deadline and
  when no load of the register showed it.\<close>

theorem poll_register_correct:
  fixes s :: "'a fstate_scheme"
  assumes "controller_io E" and "clock_runs (timeout * ticksPerMs E) K s" and "K \<le> fuel" and "0 < fuel"
    and "ack_reachable reg s"
  shows "\<exists>ok new. run_state (pollRegister E fuel reg val mask' timeout) s = (Some ok, s\<lparr>hist := new @ hist s\<rparr>)
    \<and> poll_verdict ok (dev_clock s (hist s) + timeout * ticksPerMs E) (dw (ucast reg)) val mask' new"
proof -
  let ?d = "dev_clock s (hist s) + timeout * ticksPerMs E"
  let ?c = "Clk (dev_clock s (hist s))"
  let ?s1 = "s\<lparr>hist := ?c # hist s\<rparr>"
  obtain ok where ok: "result (pollRegister E fuel reg val mask' timeout) s = Some ok"
    using controller_io.pollRegister_returns [OF assms(1) refl assms(3,4)] assms(2) unfolding returns_def by blast
  then have "result (pollLoop E fuel ?d reg val mask') ?s1 = Some ok"
    by (simp add: pollRegister_def clock_interval_to_deadline_def)
  then obtain new where new: "exec (pollLoop E fuel ?d reg val mask') ?s1 = ?s1\<lparr>hist := new @ hist ?s1\<rparr>"
      "poll_verdict ok ?d (dw (ucast reg)) val mask' new"
    using pollLoop_verdict [of reg ?s1 E fuel ?d val mask' ok] assms(5) by auto
  have "poll_verdict ok ?d (dw (ucast reg)) val mask' (new @ [?c])"
    using new(2) by (auto simp: poll_verdict_def split: if_splits)
  moreover have "exec (pollRegister E fuel reg val mask' timeout) s = s\<lparr>hist := (new @ [?c]) @ hist s\<rparr>"
    using new(1) by (simp add: pollRegister_def clock_interval_to_deadline_def)
  ultimately show ?thesis
    using ok unfolding exec_def result_def by (metis prod.collapse)
qed

lemma sample_fstate_bus:
  "big_bar sample_fstate" "fwCallCount sample_fstate = 0" "hist sample_fstate = []" "framecont sample_fstate = 0"
  "dev_clock sample_fstate = length" "dev_load sample_fstate = regfile (\<lambda>_. 0)" "rmmio_len sample_fstate = 0x1000000"
  "mmioValid sample_fstate"
  using sample_istate_big
  by (simp_all add: big_bar_def mmioValid_def sample_fstate_def istate.defs fstate.defs sample_istate_bus)

theorem poll_register_correct_witness:
  "\<exists>ok new. run_state (pollRegister own_env 50 0xD84 1 1 50) sample_fstate = (Some ok, sample_fstate\<lparr>hist := new\<rparr>)
    \<and> poll_verdict ok 50 (dw 0xD84) 1 1 new"
proof -
  have "ack_reachable 0xD84 sample_fstate"
    by (simp add: ack_reachable_def direct_def sample_fstate_bus)
  moreover have "clock_runs (50 * ticksPerMs own_env) 50 sample_fstate"
    by (simp add: own_env_def sample_fstate_clock)
  ultimately show ?thesis
    using poll_register_correct [OF own.controller_io_axioms, of 50 50 sample_fstate 50 "0xD84" 1 1]
    by (simp add: own_env_def sample_fstate_bus)
qed


section \<open>The fallback\<close>

fun stores_to :: "u64 \<Rightarrow> access list \<Rightarrow> nat" where
  "stores_to i [] = 0"
| "stores_to i (a # h) = (case a of St j v \<Rightarrow> if j = i then 1 else 0 | _ \<Rightarrow> 0) + stores_to i h"

lemma stores_to_append [simp]: "stores_to i (g @ h) = stores_to i g + stores_to i h"
  by (induction g) simp_all

lemma stores_to_quiet: "list_all quiet_access h \<Longrightarrow> i \<noteq> mmPCIE_INDEX2 \<Longrightarrow> stores_to i h = 0"
  by (induction h) (auto split: access.split)

lemma fwReqs_not_index: "r \<in> set (fwReqs 7) \<Longrightarrow> dw (ucast r) \<noteq> mmPCIE_INDEX2"
  by (auto simp: fwReqs_def DOM_RENDER_def DOM_MEDIA_def DOM_BLITTER_def fwMediaEngines_def
      mmPCIE_INDEX2_def)

context controller_io
begin

lemma poll_run:
  assumes "clock_runs (fw_ticks E) K s" and "K \<le> fuel" and "0 < fuel"
  obtains ok new where "result (pollRegister E fuel reg val mask' FORCEWAKE_ACK_TIMEOUT_MS) s = Some ok"
    "exec (pollRegister E fuel reg val mask' FORCEWAKE_ACK_TIMEOUT_MS) s = s\<lparr>hist := new @ hist s\<rparr>"
    "list_all quiet_access new"
proof -
  obtain ok where "result (pollRegister E fuel reg val mask' FORCEWAKE_ACK_TIMEOUT_MS) s = Some ok"
    using poll_ok [OF assms(2,3)] assms(1) unfolding returns_def by blast
  moreover obtain new where "exec (pollRegister E fuel reg val mask' FORCEWAKE_ACK_TIMEOUT_MS) s = s\<lparr>hist := new @ hist s\<rparr>"
    "list_all quiet_access new"
    by (rule gr_exec [OF pollRegister_grows [OF transparent_quiet]]) assumption
  ultimately show thesis
    using that by blast
qed

lemma fallbackPass_run:
  assumes "clock_runs (fw_ticks E) K s" and "K \<le> fuel" and "0 < fuel" and "big_bar s" and "req \<in> set (fwReqs 7)"
  obtains ok rest where "result (fallbackPass E fuel req ack val mask' pass) s = Some ok"
    "exec (fallbackPass E fuel req ack val mask' pass) s =
       s\<lparr>hist := St (dw (ucast req)) (fw_clear FORCEWAKE_KERNEL_FALLBACK) # rest @ hist s\<rparr>"
    "stores_to (dw (ucast req)) rest = 1"
proof -
  let ?i = "dw (ucast req)" and ?w = "fw_set FORCEWAKE_KERNEL_FALLBACK" and ?F = FORCEWAKE_KERNEL_FALLBACK
  note w = fwWrite_exec [OF assms(5)]
  obtain o1 n1 where p1: "result (pollRegister E fuel ack 0 ?F FORCEWAKE_ACK_TIMEOUT_MS) s = Some o1"
      "exec (pollRegister E fuel ack 0 ?F FORCEWAKE_ACK_TIMEOUT_MS) s = s\<lparr>hist := n1 @ hist s\<rparr>" "list_all quiet_access n1"
    by (rule poll_run [OF assms(1-3)])
  let ?s2 = "s\<lparr>hist := Dly (1000 * (10 * pass)) # St ?i ?w # n1 @ hist s\<rparr>"
  obtain o2 n2 where p2: "result (pollRegister E fuel ack ?F ?F FORCEWAKE_ACK_TIMEOUT_MS) ?s2 = Some o2"
      "exec (pollRegister E fuel ack ?F ?F FORCEWAKE_ACK_TIMEOUT_MS) ?s2 = ?s2\<lparr>hist := n2 @ hist ?s2\<rparr>"
      "list_all quiet_access n2"
    by (rule poll_run [where s = ?s2]) (use assms(1-3) in simp_all)
  let ?s3 = "?s2\<lparr>hist := n2 @ hist ?s2\<rparr>"
  obtain n3 where p3: "exec (fwRead E ack) ?s3 = ?s3\<lparr>hist := n3 @ hist ?s3\<rparr>" "list_all quiet_access n3"
    by (rule gr_exec [OF fwRead_quiet, where s = ?s3])
  let ?rest = "n3 @ n2 @ Dly (1000 * (10 * pass)) # St ?i ?w # n1"
  have "stores_to ?i ?rest = 1"
    using p1(3) p2(3) p3(2) fwReqs_not_index [OF assms(5)] by (simp add: stores_to_quiet)
  moreover have "result (fallbackPass E fuel req ack val mask' pass) s = Some (result (fwRead E ack) ?s3 AND mask' = val)"
    "exec (fallbackPass E fuel req ack val mask' pass) s =
       s\<lparr>hist := St ?i (fw_clear ?F) # ?rest @ hist s\<rparr>"
    using p1(1,2) p2(1,2) p3(1) assms(4) by (simp_all add: fallbackPass_def bindO_def w)
  ultimately show thesis
    using that by blast
qed

lemma fallbackLoop_run:
  assumes "K \<le> fuel" and "0 < fuel" and "req \<in> set (fwReqs 7)" and "clock_runs (fw_ticks E) K s" and "big_bar s"
    and "1 \<le> pass" and "pass \<le> 10"
  shows "\<exists>ok rest. result (fallbackLoop E fuel req ack val mask' pass) s = Some ok
    \<and> exec (fallbackLoop E fuel req ack val mask' pass) s =
       s\<lparr>hist := St (dw (ucast req)) (fw_clear FORCEWAKE_KERNEL_FALLBACK) # rest @ hist s\<rparr>
    \<and> stores_to (dw (ucast req)) rest \<le> 2 * (10 - pass) + 1"
  using assms(4-)
proof (induction "10 - pass" arbitrary: pass s rule: less_induct)
  case less
  let ?a = "St (dw (ucast req)) (fw_clear FORCEWAKE_KERNEL_FALLBACK)"
  obtain ok rest where p: "result (fallbackPass E fuel req ack val mask' pass) s = Some ok"
    "exec (fallbackPass E fuel req ack val mask' pass) s = s\<lparr>hist := ?a # rest @ hist s\<rparr>"
    "stores_to (dw (ucast req)) rest = 1"
    by (rule fallbackPass_run [OF less.prems(1) assms(1,2) less.prems(2) assms(3)])
  show ?case
  proof (cases "\<not> ok \<and> pass < 10")
    case False
    then show ?thesis
      using p by (subst (1 2) fallbackLoop.simps) (auto simp: bindO_def)
  next
    case True
    let ?s1 = "s\<lparr>hist := ?a # rest @ hist s\<rparr>"
    have "\<exists>ok rest. result (fallbackLoop E fuel req ack val mask' (Suc pass)) ?s1 = Some ok
      \<and> exec (fallbackLoop E fuel req ack val mask' (Suc pass)) ?s1 = ?s1\<lparr>hist := ?a # rest @ hist ?s1\<rparr>
      \<and> stores_to (dw (ucast req)) rest \<le> 2 * (10 - Suc pass) + 1"
      by (rule less.hyps) (use less.prems True in \<open>simp_all, linarith\<close>)
    then obtain ok' rest' where q: "result (fallbackLoop E fuel req ack val mask' (Suc pass)) ?s1 = Some ok'"
      "exec (fallbackLoop E fuel req ack val mask' (Suc pass)) ?s1 = ?s1\<lparr>hist := ?a # rest' @ hist ?s1\<rparr>"
      "stores_to (dw (ucast req)) rest' \<le> 2 * (10 - Suc pass) + 1"
      by blast
    have "stores_to (dw (ucast req)) (rest' @ ?a # rest) \<le> 2 * (10 - pass) + 1"
      using q(3) p(3) True by (simp, linarith)
    then show ?thesis
      using p(1,2) q(1,2) True
      by (subst (1 2) fallbackLoop.simps) (auto simp: bindO_def intro!: exI [of _ "rest' @ ?a # rest"])
  qed
qed

end

text \<open>C5: The fallback returns, writes its request register at most twenty times (ten passes),
  and never leaves the reserve bit requested: its last access clears the bit again, whether or
  not the domain acknowledged.\<close>

theorem fallback_releases:
  fixes s :: "'a fstate_scheme"
  assumes "controller_io E" and "clock_runs (fw_ticks E) K s" and "K \<le> fuel" and "0 < fuel"
    and "big_bar s" and "req \<in> set (fwReqs 7)"
  shows "\<exists>ok rest. run_state (forceWakeWaitAckFallback E fuel req ack val mask') s =
      (Some ok, s\<lparr>hist := St (dw (ucast req)) (fw_clear FORCEWAKE_KERNEL_FALLBACK) # rest @ hist s\<rparr>)
    \<and> stores_to (dw (ucast req)) rest < 20"
proof -
  obtain ok rest where "result (fallbackLoop E fuel req ack val mask' 1) s = Some ok"
    "exec (fallbackLoop E fuel req ack val mask' 1) s =
       s\<lparr>hist := St (dw (ucast req)) (fw_clear FORCEWAKE_KERNEL_FALLBACK) # rest @ hist s\<rparr>"
    "stores_to (dw (ucast req)) rest \<le> 2 * (10 - 1) + 1"
    using controller_io.fallbackLoop_run [OF assms(1,3,4,6,2,5), of 1 ack val mask'] by auto
  then show ?thesis
    unfolding forceWakeWaitAckFallback_def exec_def result_def
    by (intro exI [of _ ok] exI [of _ rest]) (simp add: prod_eq_iff)
qed

theorem fallback_releases_witness:
  "\<exists>ok rest. run_state (forceWakeWaitAckFallback own_env 50 0xa188 0x130044 2 2) sample_fstate =
      (Some ok, sample_fstate\<lparr>hist := St (dw 0xa188) (fw_clear FORCEWAKE_KERNEL_FALLBACK) # rest\<rparr>)
    \<and> stores_to (dw 0xa188) rest < 20"
proof -
  have "clock_runs (fw_ticks own_env) 50 sample_fstate"
    by (simp add: own_env_def fw_ticks_def FORCEWAKE_ACK_TIMEOUT_MS_def sample_fstate_clock)
  then show ?thesis
    using fallback_releases [OF own.controller_io_axioms, of 50 sample_fstate 50 "0xa188" "0x130044" 2 2]
    by (simp add: sample_fstate_bus fwReqs_def DOM_RENDER_def DOM_MEDIA_def DOM_BLITTER_def)
qed


section \<open>Working hardware\<close>

text \<open>
  A domain works when its acknowledge register shows the expected value as soon as the request
  was stored, and the clock is prompt when two readings in a row lie within the timeout.
\<close>

definition fwPairs :: "u32 \<Rightarrow> (u32 \<times> u32) list" where
  "fwPairs doms = (if doms AND DOM_RENDER \<noteq> 0 then [(fwReqReg DOM_RENDER, fwAckReg DOM_RENDER)] else [])
     @ (if doms AND DOM_MEDIA \<noteq> 0 then fwMediaEngines else [])
     @ (if doms AND DOM_BLITTER \<noteq> 0 then [(fwReqReg DOM_BLITTER, fwAckReg DOM_BLITTER)] else [])"

definition acks :: "u32 \<Rightarrow> u32 \<Rightarrow> u32 \<Rightarrow> 'a rstate_scheme \<Rightarrow> u32 \<times> u32 \<Rightarrow> bool" where
  "acks wr ack_exp mask' s p \<longleftrightarrow> ack_reachable (snd p) s
     \<and> (\<forall>h. last_store h (dw (ucast (fst p))) = Some wr \<longrightarrow> dev_load s h (dw (ucast (snd p))) AND mask' = ack_exp)"

definition prompt :: "nat \<Rightarrow> 'a mmio_scheme \<Rightarrow> bool" where
  "prompt D s \<longleftrightarrow> (\<forall>h. dev_clock s (Clk (dev_clock s h) # h) < dev_clock s h + D)"

fun is_store :: "access \<Rightarrow> bool" where
  "is_store (St i v) = True"
| "is_store _ = False"

text \<open>The new accesses contain exactly these stores, newest first.\<close>

definition stores_exact :: "access list \<Rightarrow> 'a mmio_scheme \<Rightarrow> 'a mmio_scheme \<Rightarrow> bool" where
  "stores_exact L s t \<longleftrightarrow> (\<exists>new. t = s\<lparr>hist := new @ hist s\<rparr> \<and> filter is_store new = L)"

lemma stores_exact_refl: "stores_exact [] s s"
  unfolding stores_exact_def by (rule exI [of _ "[]"]) simp

lemma stores_exact_trans:
  assumes "stores_exact L s t" and "stores_exact M t u"
  shows "stores_exact (M @ L) s u"
proof -
  obtain m n where "t = s\<lparr>hist := m @ hist s\<rparr>" "u = t\<lparr>hist := n @ hist t\<rparr>" "filter is_store m = L" "filter is_store n = M"
    using assms unfolding stores_exact_def by blast
  then show ?thesis
    unfolding stores_exact_def by (intro exI [of _ "n @ m"]) simp
qed

lemma acks_hist [simp]: "acks wr e mask' (s\<lparr>hist := h\<rparr>) p \<longleftrightarrow> acks wr e mask' s p"
  and prompt_hist [simp]: "prompt D (s\<lparr>hist := h\<rparr>) \<longleftrightarrow> prompt D s"
  by (simp_all add: acks_def prompt_def)

lemma fwRead_stores: "ack_reachable reg s \<Longrightarrow> stores_exact [] s (exec (fwRead E reg) s)"
  unfolding stores_exact_def fwRead_reachable
  by (intro exI [of _ "[Ld (dw (ucast reg)) (dev_load s (hist s) (dw (ucast reg)))]"]) simp



context controller_io
begin

lemma fwRequest_healthy:
  assumes "acks wr e mask' s (req, ack)" and "prompt (fw_ticks E) s" and "big_bar s" and "req \<in> set (fwReqs 7)" and "0 < fuel"
  shows "result (fwRequest E fuel wr e mask' req ack) s = Some True
    \<and> stores_exact [St (dw (ucast req)) wr] s (exec (fwRequest E fuel wr e mask' req ack) s)"
proof -
  let ?h1 = "Dly 100 # St (dw (ucast req)) wr # hist s"
  let ?h2 = "Clk (dev_clock s ?h1) # ?h1"
  let ?h3 = "Clk (dev_clock s ?h2) # ?h2"
  let ?v = "dev_load s ?h3 (dw (ucast ack))"
  obtain n where n: "fuel = Suc n"
    using assms(5) by (cases fuel) simp_all
  have v: "?v AND mask' = e"
    using assms(1) by (simp add: acks_def)
  have t: "dev_clock s ?h2 < dev_clock s ?h1 + FORCEWAKE_ACK_TIMEOUT_MS * ticksPerMs E"
    using assms(2) by (simp add: prompt_def fw_ticks_def)
  have rd: "result (fwRead E ack) (s\<lparr>hist := ?h3\<rparr>) = ?v"
    "exec (fwRead E ack) (s\<lparr>hist := ?h3\<rparr>) = s\<lparr>hist := Ld (dw (ucast ack)) ?v # ?h3\<rparr>"
    using fwRead_reachable [of ack "s\<lparr>hist := ?h3\<rparr>" E] assms(1) by (simp_all add: acks_def)
  have "result (fwRequest E fuel wr e mask' req ack) s = Some True"
    "exec (fwRequest E fuel wr e mask' req ack) s = s\<lparr>hist := Ld (dw (ucast ack)) ?v # ?h3\<rparr>"
    using v t rd
    by (simp_all add: n fwRequest_def fwWrite_exec [OF assms(4,3)] fwWaitAck_def bindO_def pollRegister_def
        clock_interval_to_deadline_def)
  then show ?thesis
    unfolding stores_exact_def
    by (intro conjI exI [of _ "[Ld (dw (ucast ack)) ?v, Clk (dev_clock s ?h2), Clk (dev_clock s ?h1), Dly 100, St (dw (ucast req)) wr]"]) simp_all
qed

end


lemma stores_exact_hist:
  assumes "stores_exact L s t"
  obtains h where "t = s\<lparr>hist := h\<rparr>"
  using assms unfolding stores_exact_def by blast

lemma fwPairs_reqs: "map fst (fwPairs doms) = fwReqs doms"
  by (simp add: fwPairs_def fwReqs_def fwReqReg_def DOM_RENDER_def DOM_BLITTER_def)

definition healthy :: "'a fwenv \<Rightarrow> u32 \<Rightarrow> u32 \<Rightarrow> u32 \<Rightarrow> u32 \<Rightarrow> 'a fstate_scheme \<Rightarrow> bool" where
  "healthy E doms wr e mask' s \<longleftrightarrow>
     list_all (acks wr e mask' s) (fwPairs doms) \<and> prompt (fw_ticks E) s \<and> big_bar s"

lemma healthy_hist [simp]: "healthy E doms wr e mask' (s\<lparr>hist := h\<rparr>) \<longleftrightarrow> healthy E doms wr e mask' s"
  by (simp add: healthy_def list_all_iff)

lemma healthy_counter [simp]: "healthy E doms wr e mask' (s\<lparr>fwCallCount := n\<rparr>) \<longleftrightarrow> healthy E doms wr e mask' s"
  by (simp add: healthy_def list_all_iff acks_def ack_reachable_def direct_def big_bar_def mmioValid_def prompt_def)

definition req_stores :: "u32 \<Rightarrow> (u32 \<times> u32) list \<Rightarrow> access list" where
  "req_stores wr ps = rev (map (\<lambda>p. St (dw (ucast (fst p))) wr) ps)"

definition domPairs :: "u32 \<Rightarrow> u32 \<Rightarrow> (u32 \<times> u32) list" where
  "domPairs doms d = (if doms AND d = 0 then [] else if d = DOM_MEDIA then fwMediaEngines else [(fwReqReg d, fwAckReg d)])"

lemma domPairs_in: "d \<in> {DOM_RENDER, DOM_MEDIA, DOM_BLITTER} \<Longrightarrow> set (domPairs doms d) \<subseteq> set (fwPairs doms)"
  by (auto simp: domPairs_def fwPairs_def DOM_RENDER_def DOM_MEDIA_def DOM_BLITTER_def)

context controller_io
begin

lemma pair_healthy:
  assumes "healthy E doms wr e mask' s" and "p \<in> set (fwPairs doms)" and "0 < fuel"
  shows "result (fwRequest E fuel wr e mask' (fst p) (snd p)) s = Some True"
    and "stores_exact (req_stores wr [p]) s (exec (fwRequest E fuel wr e mask' (fst p) (snd p)) s)"
proof -
  have "fst p \<in> set (fwReqs doms)"
    unfolding fwPairs_reqs [symmetric] using assms(2) by simp
  then have "fst p \<in> set (fwReqs 7)"
    using fwReqs_all by blast
  moreover have "acks wr e mask' s (fst p, snd p)" "prompt (fw_ticks E) s" "big_bar s"
    using assms(1,2) by (simp_all add: healthy_def list_all_iff)
  ultimately show "result (fwRequest E fuel wr e mask' (fst p) (snd p)) s = Some True"
    "stores_exact (req_stores wr [p]) s (exec (fwRequest E fuel wr e mask' (fst p) (snd p)) s)"
    using fwRequest_healthy [of wr e mask' s "fst p" "snd p" fuel] assms(3) by (simp_all add: req_stores_def)
qed

lemma pairs_healthy:
  assumes "0 < fuel" and "healthy E doms wr e mask' s" and "set ps \<subseteq> set (fwPairs doms)"
  shows "result (forO ps (\<lambda>(req, ack). bindO (fwRequest E fuel wr e mask' req ack) (\<lambda>_. ret (Some ())))) s = Some ()
    \<and> stores_exact (req_stores wr ps) s
        (exec (forO ps (\<lambda>(req, ack). bindO (fwRequest E fuel wr e mask' req ack) (\<lambda>_. ret (Some ())))) s)"
  using assms(2,3)
proof (induction ps arbitrary: s)
  case Nil
  then show ?case by (simp add: req_stores_def stores_exact_refl)
next
  case (Cons p ps)
  let ?t = "exec (fwRequest E fuel wr e mask' (fst p) (snd p)) s"
  note p = pair_healthy [OF Cons.prems(1) _ assms(1), of p]
  have px: "stores_exact (req_stores wr [p]) s ?t"
    using p Cons.prems(2) by simp
  then obtain h where h: "?t = s\<lparr>hist := h\<rparr>"
    by (rule stores_exact_hist)
  have t: "healthy E doms wr e mask' ?t"
    using Cons.prems(1) by (simp add: h)
  have ap: "req_stores wr (p # ps) = req_stores wr ps @ req_stores wr [p]"
    by (simp add: req_stores_def)
  show ?case
    using p Cons.IH [OF t] Cons.prems(2) stores_exact_trans [OF px]
    by (simp add: bindO_def case_prod_beta ap split: prod.split)
qed

end


context controller_io
begin

lemma domain_healthy:
  assumes "0 < fuel" and "healthy E doms wr e mask' s" and "d \<in> {DOM_RENDER, DOM_MEDIA, DOM_BLITTER}"
  shows "result (fwDomain E fuel doms wr e mask' d) s = Some ()
    \<and> stores_exact (req_stores wr (domPairs doms d)) s (exec (fwDomain E fuel doms wr e mask' d) s)"
proof -
  consider (off) "doms AND d = 0" | (media) "doms AND d \<noteq> 0" "d = DOM_MEDIA" | (other) "doms AND d \<noteq> 0" "d \<noteq> DOM_MEDIA"
    by blast
  then show ?thesis
  proof cases
    case off
    then show ?thesis by (simp add: fwDomain_def domPairs_def req_stores_def stores_exact_refl)
  next
    case media
    then show ?thesis
      using pairs_healthy [OF assms(1,2) domPairs_in [OF assms(3)]] by (simp add: fwDomain_def domPairs_def)
  next
    case other
    let ?p = "(fwReqReg d, fwAckReg d)"
    let ?t = "exec (fwRequest E fuel wr e mask' (fwReqReg d) (fwAckReg d)) s"
    have "?p \<in> set (fwPairs doms)"
      using domPairs_in [OF assms(3), of doms] other by (simp add: domPairs_def)
    then have p: "result (fwRequest E fuel wr e mask' (fwReqReg d) (fwAckReg d)) s = Some True"
      "stores_exact (req_stores wr [?p]) s ?t" "ack_reachable (fwAckReg d) s"
      using pair_healthy [OF assms(2) _ assms(1), of ?p] assms(2) by (auto simp: healthy_def list_all_iff acks_def)
    obtain h where "?t = s\<lparr>hist := h\<rparr>"
      using p(2) by (rule stores_exact_hist)
    then have "stores_exact [] ?t (exec (fwRead E (fwAckReg d)) ?t)"
      using p(3) fwRead_stores [of "fwAckReg d" ?t E] by simp
    from stores_exact_trans [OF p(2) this] show ?thesis
      using p other by (simp add: fwDomain_def domPairs_def bindO_def)
  qed
qed

lemma domains_healthy:
  assumes "0 < fuel" and "healthy E doms wr e mask' s" and "set ds \<subseteq> {DOM_RENDER, DOM_MEDIA, DOM_BLITTER}"
  shows "result (forO ds (fwDomain E fuel doms wr e mask')) s = Some ()
    \<and> stores_exact (req_stores wr (concat (map (domPairs doms) ds))) s (exec (forO ds (fwDomain E fuel doms wr e mask')) s)"
  using assms(2,3)
proof (induction ds arbitrary: s)
  case Nil
  then show ?case by (simp add: req_stores_def stores_exact_refl)
next
  case (Cons d ds)
  let ?t = "exec (fwDomain E fuel doms wr e mask' d) s"
  have p: "result (fwDomain E fuel doms wr e mask' d) s = Some ()" "stores_exact (req_stores wr (domPairs doms d)) s ?t"
    using domain_healthy [OF assms(1) Cons.prems(1), of d] Cons.prems(2) by simp_all
  obtain h where h: "?t = s\<lparr>hist := h\<rparr>"
    using p(2) by (rule stores_exact_hist)
  have t: "healthy E doms wr e mask' ?t"
    using Cons.prems(1) by (simp add: h)
  have ap: "req_stores wr (domPairs doms d @ ps) = req_stores wr ps @ req_stores wr (domPairs doms d)" for ps
    by (simp add: req_stores_def)
  show ?case
    using p(1) Cons.IH [OF t] Cons.prems(2) stores_exact_trans [OF p(2)] by (simp add: bindO_def ap)
qed

end






section \<open>The tables\<close>

text \<open>The force wake tables of the header are consistent: the ranges are well formed, in
  ascending order and disjoint, all inside the addresses that need force wake; every domain of
  the enumeration but the combined media domain has its own request and its own acknowledge
  register, every domain of a range has one, and the two maps know the same domains.\<close>

theorem fw_tables_consistent:
  "list_all (\<lambda>r. fwr_start r \<le> fwr_end r) gen11_fw_ranges
   \<and> sorted_wrt (\<lambda>r q. fwr_end r < fwr_start q) gen11_fw_ranges
   \<and> list_all (\<lambda>r. NEEDS_FORCE_WAKE (fwr_start r) \<and> NEEDS_FORCE_WAKE (fwr_end r)) gen11_fw_ranges
   \<and> list_all (\<lambda>r. regForDom (forcewake_domains (fwr_domains r)) \<noteq> None) gen11_fw_ranges
   \<and> distinct (map (\<lambda>d. regForDom (forcewake_domains d)) forcewake_domain_ids)
   \<and> distinct (map (\<lambda>d. ackForDom (forcewake_domains d)) forcewake_domain_ids)
   \<and> (\<forall>d. regForDom d = None \<longleftrightarrow> ackForDom d = None)"
proof (intro conjI)
  show "list_all (\<lambda>r. fwr_start r \<le> fwr_end r) gen11_fw_ranges"
    "sorted_wrt (\<lambda>r q. fwr_end r < fwr_start q) gen11_fw_ranges"
    "list_all (\<lambda>r. NEEDS_FORCE_WAKE (fwr_start r) \<and> NEEDS_FORCE_WAKE (fwr_end r)) gen11_fw_ranges"
    by (simp_all add: gen11_fw_ranges_def GEN_FW_RANGE_def NEEDS_FORCE_WAKE_def)
  show "list_all (\<lambda>r. regForDom (forcewake_domains (fwr_domains r)) \<noteq> None) gen11_fw_ranges"
    by (simp add: gen11_fw_ranges_def GEN_FW_RANGE_def regForDom_def)
  show "distinct (map (\<lambda>d. regForDom (forcewake_domains d)) forcewake_domain_ids)"
    by (simp add: regForDom_def forcewake_domains_def forcewake_domain_ids_def)
  show "distinct (map (\<lambda>d. ackForDom (forcewake_domains d)) forcewake_domain_ids)"
    by (simp add: ackForDom_def forcewake_domains_def forcewake_domain_ids_def)
  show "\<forall>d. regForDom d = None \<longleftrightarrow> ackForDom d = None"
    by (simp add: regForDom_def ackForDom_def)
qed

end
