(* ===== verification/NG_Health.thy ===== *)
theory NG_Health
  imports NG_Forcewake
begin

text \<open>
  The timers that watch the accelerator after its start (\<open>iTGL/TGL.cpp\<close>): the delayed check of
  its children (\<open>v45DelayedChildCheck\<close>) and the health monitor (\<open>v60GpuHealthMonitor\<close>), which
  every two seconds clears errors, enforces interrupt enables, terminates display pipe clients,
  and, when enabled by boot arguments, makes the scanout plane linear and paints the scanout
  buffer page by page.

  The registry of I/O services belongs to the kernel. It is a parameter: \<open>svc_children\<close> and
  \<open>svc_info\<close> answer from the requests made so far, which are recorded in \<open>svc_reqs\<close>, newest
  first. A client iterator that cannot be made lists nothing. The clients listed are those the
  source keeps by its cast to a service. Physical pages are reached through descriptors and
  mappings, which may be refused (\<open>phys_desc\<close>, \<open>phys_map\<close>); the pages painted are recorded in
  \<open>phys_fills\<close>, newest first. Dumps of driver objects that are only printed are left out.
\<close>

section \<open>State\<close>

record svc =
  svc_name :: string
  svc_class :: string
  svc_state :: u64

datatype svc_req = RegisterService u64 | TerminateService u64

record hstate = fstate +
  svc_children :: "svc_req list \<Rightarrow> u64 list"
  svc_info :: "svc_req list \<Rightarrow> u64 \<Rightarrow> svc"
  svc_reqs :: "svc_req list"
  v60Count :: nat
  v60LastHead :: u32
  v60LastTail :: u32
  lastChildCount :: int
  lastAccelDevState :: u64
  phys_desc :: "u64 \<Rightarrow> bool"
  phys_map :: "u64 \<Rightarrow> bool"
  phys_fills :: "(u64 \<times> u32) list"
  v85PersistMap :: bool
  v85SurfAddr :: u32

definition getClients :: "('a hstate_scheme, u64 list) state" where
  "getClients = gets (\<lambda>s. svc_children s (svc_reqs s))"

definition svcInfo :: "u64 \<Rightarrow> ('a hstate_scheme, svc) state" where
  "svcInfo c = gets (\<lambda>s. svc_info s (svc_reqs s) c)"

definition request :: "svc_req \<Rightarrow> ('a hstate_scheme, unit) state" where
  "request r = modify (\<lambda>s. s\<lparr>svc_reqs := r # svc_reqs s\<rparr>)"

section \<open>The delayed check of the children\<close>

text \<open>The snapshot of the services that the check logs first is \<open>logServicePublishSnapshot\<close> of \<open>NG_Snapshot\<close>.\<close>

definition v45DelayedChildCheck :: "nat \<Rightarrow> ('a hstate_scheme, unit) state" where
  "v45DelayedChildCheck delayMs = do {
     cs \<leftarrow> getClients;
     forM cs (\<lambda>child. do {
       i \<leftarrow> svcInfo child;
       whenM (delayMs \<ge> 3000) (
         whenM (svc_name i = ''IGAccelDevice'' \<or> svc_name i = ''IGAccelSharedUserClient'') (
           whenM (svc_state i = 0) (do {
             request (RegisterService child);
             IODelay 500
           })))
     })
   }"

definition v45ScheduleDelayedCheck :: "nat \<Rightarrow> ('a istate_scheme, unit) state" where
  "v45ScheduleDelayedCheck delayMs = enterDelayed (DelayedChildCheck delayMs) delayMs"

section \<open>Children in the health monitor\<close>

definition ggttEntry :: "u32 \<Rightarrow> ('a mmio_scheme, unit) state" where
  "ggttEntry pg = readRegs [GGTT_PTE_LO pg, GGTT_PTE_HI pg]"

primrec scanChildren :: "u64 list \<Rightarrow> nat \<Rightarrow> u64 \<Rightarrow> ('a hstate_scheme, nat \<times> u64) state" where
  "scanChildren [] childCount accelDevState = ret (childCount, accelDevState)"
| "scanChildren (child # cs) childCount accelDevState = do {
     i \<leftarrow> svcInfo child;
     scanChildren cs (childCount + 1)
       (if svc_name i = ''IGAccelDevice'' then svc_state i else accelDevState)
   }"

definition v70Transition :: "nat \<Rightarrow> u64 \<Rightarrow> ('a hstate_scheme, unit) state" where
  "v70Transition childCount accelDevState = do {
     lastCount \<leftarrow> gets lastChildCount;
     lastDev \<leftarrow> gets lastAccelDevState;
     whenM (int childCount \<noteq> lastCount \<or> accelDevState \<noteq> lastDev) (do {
       whenM (accelDevState = 0xDEAD \<and> lastDev \<noteq> 0xDEAD \<and> lastDev \<noteq> 0xBEEF) (do {
         readRegs [ERROR_GEN6, GEN8_FAULT_TLB_DATA0, GEN8_FAULT_TLB_DATA1, GEN12_RING_FAULT_REG];
         forM [0..<4] (\<lambda>pg. ggttEntry (of_nat pg))
       });
       modify (\<lambda>s. s\<lparr>lastChildCount := int childCount, lastAccelDevState := accelDevState\<rparr>)
     })
   }"

definition v78KillDisplayPipes :: "boot \<Rightarrow> ('a hstate_scheme, unit) state" where
  "v78KillDisplayPipes b = do {
     n \<leftarrow> gets v60Count;
     let v77KillDelay = getV77KillDelayIterations b;
     whenM (\<not> (v77KillDelay > 0 \<and> int n \<le> v77KillDelay)) (do {
       cs \<leftarrow> getClients;
       forM cs (\<lambda>dpChild. do {
         i \<leftarrow> svcInfo dpChild;
         whenM (strstr (svc_class i) ''DisplayPipe'') (request (TerminateService dpChild))
       })
     })
   }"

section \<open>Errors, context status buffer and interrupts\<close>

definition v60SuppressErrors :: "u32 \<Rightarrow> u32 \<Rightarrow> ('a mmio_scheme, unit) state" where
  "v60SuppressErrors realErr emr = do {
     whenM (realErr \<noteq> 0) (writeReg32 ERROR_GEN6 0);
     whenM (emr \<noteq> 0xFFFFFFFF) (writeReg32 (RING_EMR RENDER_RING_BASE) 0xFFFFFFFF);
     readRegs [ERROR_GEN6, GEN11_GT_INTR_DW0, GEN11_RENDER_COPY_INTR_ENABLE];
     whenM (realErr \<noteq> 0) (readRegs [GEN8_FAULT_TLB_DATA0, GEN8_FAULT_TLB_DATA1])
   }"

definition v68EarlySchedClear :: "u64 \<Rightarrow> ('a kstate_scheme, unit) state" where
  "v68EarlySchedClear accel = do {
     m \<leftarrow> gets kmem;
     let schedPtr = rd64 m (accel + 0xe00);
     whenM (schedPtr \<noteq> 0 \<and> rd32 m (schedPtr + 0x0C) \<noteq> 0)
       (modify (\<lambda>s. s\<lparr>kmem := wr32 schedPtr 0 (wr32 (schedPtr + 0x0C) 0 (kmem s))\<rparr>))
   }"

definition v64FirstDump :: "u64 \<Rightarrow> ('a kstate_scheme, unit) state" where
  "v64FirstDump accel = do {
     forM [0..<6] (\<lambda>i. readRegs [RING_CONTEXT_STATUS_BUF_HI RENDER_RING_BASE i,
       RING_CONTEXT_STATUS_BUF RENDER_RING_BASE i]);
     readRegs [GEN11_RENDER_COPY_INTR_ENABLE, GEN11_RCS0_RSVD_INTR_MASK, GEN11_GT_INTR_DW0,
       GEN11_GFX_MSTR_IRQ, GEN11_INTR_IDENTITY_REG0, GEN11_INTR_IDENTITY_REG1];
     readRegs [GEN8_FAULT_TLB_DATA0, GEN8_FAULT_TLB_DATA1, 0xC000, RENDER_RING_BASE + 0xB0];
     v68EarlySchedClear accel;
     forM [0..<16] (\<lambda>pg. ggttEntry (of_nat pg));
     forM [0..<4] (\<lambda>i. ggttEntry (0x7FFE + of_nat i))
   }"

definition v64AdvanceCsb :: "('a mmio_scheme, unit) state" where
  "v64AdvanceCsb = do {
     csbPtrNow \<leftarrow> readReg32 (RING_CONTEXT_STATUS_PTR RENDER_RING_BASE);
     let writeIdx = drop_bit 8 csbPtrNow AND 7;
     let readIdx = csbPtrNow AND 7;
     whenM (writeIdx \<noteq> readIdx) (do {
       let newPtr = (csbPtrNow AND NOT 7) OR (writeIdx AND 7);
       writeReg32 (RING_CONTEXT_STATUS_PTR RENDER_RING_BASE) newPtr;
       readRegs [RING_CONTEXT_STATUS_PTR RENDER_RING_BASE]
     })
   }"

definition v65Enforce :: "nat \<Rightarrow> ('a mmio_scheme, unit) state" where
  "v65Enforce n = do {
     rcIntrEn \<leftarrow> readReg32 GEN11_RENDER_COPY_INTR_ENABLE;
     rcsMask \<leftarrow> readReg32 GEN11_RCS0_RSVD_INTR_MASK;
     whenM (rcIntrEn AND wantBits \<noteq> wantBits) (do {
       writeReg32 GEN11_RENDER_COPY_INTR_ENABLE (rcIntrEn OR wantBits);
       whenM (n \<le> 3) (readRegs [GEN11_RENDER_COPY_INTR_ENABLE])
     });
     let wantUnmasked = GT_CONTEXT_SWITCH_INTERRUPT OR GT_RENDER_USER_INTERRUPT;
     whenM (rcsMask AND wantUnmasked \<noteq> 0)
       (writeReg32 GEN11_RCS0_RSVD_INTR_MASK (rcsMask AND NOT wantUnmasked))
   }"

section \<open>Display: linear scanout and register dumps\<close>

definition v79Stride :: "u32 \<Rightarrow> u32 \<Rightarrow> u32" where
  "v79Stride tiling planStrd = (if tiling = 1 then planStrd * 8 else if tiling = 4 then planStrd * 16 else planStrd)"

definition v79Linearize :: "nat \<Rightarrow> ('a mmio_scheme, unit) state" where
  "v79Linearize n = whenM (n \<le> 5 \<or> n = 10 \<or> n = 20 \<or> n = 30) (do {
     planCtl \<leftarrow> readReg32 0x70180;
     planStrd \<leftarrow> readReg32 0x70188;
     let tiling = drop_bit 10 planCtl AND 7;
     whenM (tiling \<noteq> 0) (do {
       writeReg32 0x70180 (planCtl AND NOT (push_bit 10 7));
       writeReg32 0x70188 (v79Stride tiling planStrd);
       planSurf \<leftarrow> readReg32 0x7019C;
       writeReg32 0x7019C planSurf
     })
   })"

definition v79PlaneMonitor :: "boot \<Rightarrow> nat \<Rightarrow> ('a mmio_scheme, unit) state" where
  "v79PlaneMonitor b n =
     (if isExperimentalMonitorEnabled b then v79Linearize n
      else readRegs [0x70180, 0x70188, 0x7019C, 0x70190, 0x7018C, 0x70008])"

definition v75DisplayDump :: "nat \<Rightarrow> ('a mmio_scheme, unit) state" where
  "v75DisplayDump n = whenM (n = 3 \<or> n = 30)
     (readRegs [0x70008, 0x6001C, 0x70180, 0x70188, 0x7019C, 0x70190, 0x7018C, 0x70194, 0x60008, 0x60000,
        0x6000C, 0x60400, 0x60100, 0xC8250, 0xC8254, 0xC8254, 0x45400, 0x45504])"

definition v76GammaSample :: "('a mmio_scheme, unit) state" where
  "v76GammaSample = do {
     gammaIdx \<leftarrow> readReg32 0x4A400;
     writeReg32 0x4A400 0;
     readRegs [0x4A404];
     writeReg32 0x4A400 128;
     readRegs [0x4A404];
     writeReg32 0x4A400 255;
     readRegs [0x4A404];
     writeReg32 0x4A400 gammaIdx
   }"

definition v76DeepDump :: "nat \<Rightarrow> ('a mmio_scheme, unit) state" where
  "v76DeepDump n = whenM (n = 5) (do {
     surfAddr \<leftarrow> readReg32 0x7019C;
     let surfPage = drop_bit 12 surfAddr;
     ggttEntry surfPage;
     forM [1..<4] (\<lambda>i. ggttEntry (surfPage + of_nat i));
     readRegs [0x70240, 0x70244, 0x70268, 0x7026C, 0x70278, 0x64800, 0x64840, 0x60900];
     v76GammaSample
   })"

section \<open>Painting the scanout buffer\<close>

definition ptePhys :: "u32 \<Rightarrow> u32 \<Rightarrow> u64" where
  "ptePhys hi lo = (push_bit 32 (ucast hi) OR ucast lo) AND 0x0000FFFFFFFFF000"

definition v88Color :: "nat \<Rightarrow> u32" where
  "v88Color p = (if p < 1000 then 0xFFFF0000 else if p < 2000 then 0xFF00FF00
     else if p < 3000 then 0xFF0000FF else 0xFFFFFFFF)"

definition v88Page :: "u32 \<Rightarrow> nat \<Rightarrow> ('a hstate_scheme, bool) state" where
  "v88Page surfAddr p = do {
     let surfPage = drop_bit 12 surfAddr;
     lo \<leftarrow> readReg32 (GGTT_PTE_LO (surfPage + of_nat p));
     hi \<leftarrow> readReg32 (GGTT_PTE_HI (surfPage + of_nat p));
     let phys = ptePhys hi lo;
     if lo AND 1 = 0 \<or> phys = 0 then ret False
     else if phys < 0x40000000 then ret False
     else do {
       desc \<leftarrow> gets (\<lambda>s. phys_desc s phys);
       mapped \<leftarrow> gets (\<lambda>s. phys_map s phys);
       if \<not> desc then ret False
       else if \<not> mapped then ret False
       else do {
         whenM (p = 0) (do {
           s \<leftarrow> State_Monad.get;
           whenM (\<not> v85PersistMap s \<and> v60Count s \<ge> 3)
             (modify (\<lambda>s. s\<lparr>v85PersistMap := phys_map s phys, v85SurfAddr := surfAddr\<rparr>))
         });
         modify (\<lambda>s. s\<lparr>phys_fills := (phys, v88Color p) # phys_fills s\<rparr>);
         ret True
       }
     }
   }"

primrec v88Pages :: "u32 \<Rightarrow> nat list \<Rightarrow> nat \<Rightarrow> ('a hstate_scheme, nat) state" where
  "v88Pages surfAddr [] filled = ret filled"
| "v88Pages surfAddr (p # ps) filled = do {
     ok \<leftarrow> v88Page surfAddr p;
     v88Pages surfAddr ps (if ok then filled + 1 else filled)
   }"

primrec v88FlushWait :: "nat \<Rightarrow> ('a mmio_scheme, unit) state" where
  "v88FlushWait 0 = ret ()"
| "v88FlushWait (Suc k) = do {
     v \<leftarrow> readReg32 0x101008;
     if v AND 1 = 0 then ret () else v88FlushWait k
   }"

definition v88PlaneToggle :: "u32 \<Rightarrow> ('a mmio_scheme, unit) state" where
  "v88PlaneToggle surfAddr = do {
     planCtl \<leftarrow> readReg32 0x70180;
     writeReg32 0x70180 (planCtl AND NOT 0x80000000);
     writeReg32 0x7019C surfAddr;
     forM [0..<1000] (\<lambda>_. readRegs [0x70180]);
     writeReg32 0x70180 planCtl;
     writeReg32 0x7019C surfAddr
   }"

definition v88ScanoutFill :: "boot \<Rightarrow> nat \<Rightarrow> ('a hstate_scheme, unit) state" where
  "v88ScanoutFill b n =
     whenM (isExperimentalMonitorEnabled b \<and> isV88ScanoutFillEnabled b \<and> n \<ge> 1 \<and> n \<le> 30) (do {
       surfAddr \<leftarrow> readReg32 0x7019C;
       whenM (n \<le> 3) (readRegs [0x60008, 0x61008, 0x6F008, 0x60400, 0x6F400, 0x70024, 0x70840, 0x701CC,
         0x70194, 0x70198, 0x701A4, 0x701A0]);
       writeReg32 0x101008 1;
       v88FlushWait 100;
       filled \<leftarrow> v88Pages surfAddr [0..<4000] 0;
       whenM (filled > 0 \<and> surfAddr \<noteq> 0) (writeReg32 0x7019C surfAddr);
       whenM (n = 5 \<and> filled > 0 \<and> surfAddr \<noteq> 0) (v88PlaneToggle surfAddr)
     })"

definition v68FaultProbe :: "nat \<Rightarrow> ('a mmio_scheme, unit) state" where
  "v68FaultProbe n = whenM (n = 5)
     (readRegs [0x100000, 0x100004, 0x100008, 0x10000C, GEN8_FAULT_TLB_DATA0, GEN8_FAULT_TLB_DATA1, GEN12_RING_FAULT_REG])"

section \<open>One run of the monitor\<close>

definition v60Checks :: "boot \<Rightarrow> u64 \<Rightarrow> ('a hstate_scheme, unit) state" where
  "v60Checks b accel = do {
     n \<leftarrow> gets v60Count;
     realErr \<leftarrow> readReg32 ERROR_GEN6;
     rcsHead \<leftarrow> readReg32 (RING_HEAD RENDER_RING_BASE);
     rcsTail \<leftarrow> readReg32 (RING_TAIL RENDER_RING_BASE);
     readRegs [RING_CTL RENDER_RING_BASE];
     emr \<leftarrow> readReg32 (RING_EMR RENDER_RING_BASE);
     readRegs [RING_EXECLIST_STATUS RENDER_RING_BASE, RING_CONTEXT_STATUS_PTR RENDER_RING_BASE,
       RING_ACTHD RENDER_RING_BASE, RING_CCID RENDER_RING_BASE, GEN12_RING_FAULT_REG];
     cs \<leftarrow> getClients;
     (childCount, accelDevState) \<leftarrow> scanChildren cs 0 0xDEAD;
     v70Transition childCount accelDevState;
     v78KillDisplayPipes b;
     v60SuppressErrors realErr emr;
     whenM (n = 1) (v64FirstDump accel);
     whenM (n = 3) v64AdvanceCsb;
     v65Enforce n;
     v79PlaneMonitor b n;
     v75DisplayDump n;
     v76DeepDump n;
     v88ScanoutFill b n;
     v68FaultProbe n;
     modify (\<lambda>s. s\<lparr>v60LastHead := rcsHead, v60LastTail := rcsTail\<rparr>)
   }"

definition v60GpuHealthMonitor :: "boot \<Rightarrow> u64 \<Rightarrow> ('a hstate_scheme, unit) state" where
  "v60GpuHealthMonitor b accel = do {
     modify (\<lambda>s. s\<lparr>v60Count := v60Count s + 1\<rparr>);
     ready \<leftarrow> gets mmioValid;
     if \<not> ready then ret () else do {
       v60Checks b accel;
       n \<leftarrow> gets v60Count;
       whenM (n < 60) (enterDelayed HealthMonitor 2000)
     }
   }"

section \<open>Lemmas: blocks that only use the bus\<close>

lemma bo_ggttEntry: "state_io_rel bus_only (ggttEntry pg)"
  unfolding ggttEntry_def by (rule bo_readRegs)

lemma bo_v88FlushWait: "state_io_rel bus_only (v88FlushWait k)"
  by (induction k) (simp_all add: bo.io_ret, intro bo_rules)

lemma bo_monitor_blocks:
  "state_io_rel bus_only (v60SuppressErrors realErr emr)"
  "state_io_rel bus_only v64AdvanceCsb"
  "state_io_rel bus_only (v65Enforce n)"
  "state_io_rel bus_only (v79PlaneMonitor b n)"
  "state_io_rel bus_only (v75DisplayDump n)"
  "state_io_rel bus_only (v76DeepDump n)"
  "state_io_rel bus_only (v88PlaneToggle a)"
  "state_io_rel bus_only (v68FaultProbe n)"
  unfolding v60SuppressErrors_def v64AdvanceCsb_def v65Enforce_def v79PlaneMonitor_def v79Linearize_def
    v75DisplayDump_def v76DeepDump_def v76GammaSample_def v88PlaneToggle_def v68FaultProbe_def Let_def
  by (intro bo_rules bo_readRegs bo_ggttEntry)+

lemma surf_ggttEntry: "state_io_rel (keeps (surf_inv_at len)) (ggttEntry pg)"
  unfolding ggttEntry_def by (rule surf_readRegs)

lemma surf_v88FlushWait: "state_io_rel (keeps (surf_inv_at len)) (v88FlushWait k)"
  by (induction k) (simp_all add: inv.io_ret, intro surf_rules)

lemma surf_monitor_blocks:
  "state_io_rel (keeps (surf_inv_at len)) (v60SuppressErrors realErr emr)"
  "state_io_rel (keeps (surf_inv_at len)) v64AdvanceCsb"
  "state_io_rel (keeps (surf_inv_at len)) (v65Enforce n)"
  "state_io_rel (keeps (surf_inv_at len)) (v79PlaneMonitor b n)"
  "state_io_rel (keeps (surf_inv_at len)) (v75DisplayDump n)"
  "state_io_rel (keeps (surf_inv_at len)) (v76DeepDump n)"
  "state_io_rel (keeps (surf_inv_at len)) (v88PlaneToggle a)"
  "state_io_rel (keeps (surf_inv_at len)) (v68FaultProbe n)"
  unfolding v60SuppressErrors_def v64AdvanceCsb_def v65Enforce_def v79PlaneMonitor_def v79Linearize_def
    v75DisplayDump_def v76DeepDump_def v76GammaSample_def v88PlaneToggle_def v68FaultProbe_def Let_def
  by (intro surf_rules surf_readRegs surf_ggttEntry; simp)+

lemma surf_scanChildren: "state_io_rel (keeps (surf_inv_at len)) (scanChildren cs n d)"
  by (induction cs arbitrary: n d) (simp_all add: inv.io_ret svcInfo_def inv.io_bind inv.io_gets)

lemma surf_v88Page: "state_io_rel (keeps (surf_inv_at len)) (v88Page surfAddr p)"
  unfolding v88Page_def Let_def by (intro surf_rules surf_modify) simp_all

lemma surf_v88Pages: "state_io_rel (keeps (surf_inv_at len)) (v88Pages surfAddr ps n)"
  by (induction ps arbitrary: n) (simp_all add: inv.io_ret inv.io_bind surf_v88Page)

lemma surf_monitor_state_blocks:
  "state_io_rel (keeps (surf_inv_at len)) (v70Transition c d)"
  "state_io_rel (keeps (surf_inv_at len)) (v78KillDisplayPipes b)"
  "state_io_rel (keeps (surf_inv_at len)) (v64FirstDump accel)"
  "state_io_rel (keeps (surf_inv_at len)) (v88ScanoutFill b n)"
  "state_io_rel (keeps (surf_inv_at len)) (enterDelayed t ms)"
  unfolding v70Transition_def v78KillDisplayPipes_def v64FirstDump_def v68EarlySchedClear_def v88ScanoutFill_def
    enterDelayed_def Let_def getClients_def svcInfo_def request_def
  by (intro surf_rules surf_modify surf_readRegs surf_ggttEntry surf_v88FlushWait surf_v88Pages surf_monitor_blocks; simp)+

lemma surf_monitor: "state_io_rel (keeps (surf_inv_at len)) (v60GpuHealthMonitor b accel)"
  unfolding v60GpuHealthMonitor_def v60Checks_def case_prod_unfold getClients_def
  by (intro surf_rules surf_modify surf_readRegs surf_scanChildren surf_monitor_blocks surf_monitor_state_blocks) simp_all

section \<open>Lemmas: the registers the monitor stores to\<close>

definition monitor_stores :: "u64 set" where
  "monitor_stores = dw ` {ERROR_GEN6, RING_EMR RENDER_RING_BASE, RING_CONTEXT_STATUS_PTR RENDER_RING_BASE,
     GEN11_RENDER_COPY_INTR_ENABLE, GEN11_RCS0_RSVD_INTR_MASK, 0x70180, 0x70188, 0x7019C, 0x101008}"

lemma em_monitor_write:
  assumes "reg \<in> {ERROR_GEN6, RING_EMR RENDER_RING_BASE, RING_CONTEXT_STATUS_PTR RENDER_RING_BASE,
     GEN11_RENDER_COPY_INTR_ENABLE, GEN11_RCS0_RSVD_INTR_MASK, 0x70180, 0x70188, 0x7019C, 0x101008}"
  shows "state_io_rel (emits (stores_in monitor_stores)) (writeReg32 reg v)"
proof (rule em_writeReg32_any [OF transparent_stores_in])
  show "stores_in monitor_stores (St (dw reg) w)" for w
    unfolding stores_in_def monitor_stores_def using assms by blast
  show "stores_in monitor_stores (St mmPCIE_DATA2 w)" for w
    by (simp add: stores_in_def)
  show "looksLikePlaneSurf reg \<Longrightarrow> stores_in monitor_stores (St (dw (reg - 0x1C)) w)" for w
    using assms by (auto simp: stores_in_def monitor_stores_def looksLikePlaneSurf_def)
qed

lemmas em_stores_read = em_readReg32 [OF transparent_stores_in] em_readRegs [OF transparent_stores_in]

lemma em_ggttEntry: "state_io_rel (emits (stores_in I)) (ggttEntry pg)"
  unfolding ggttEntry_def by (rule em_stores_read)

lemma em_v88FlushWait: "state_io_rel (emits (stores_in I)) (v88FlushWait k)"
  by (induction k) (simp_all add: em.io_ret, intro em.io_rules em_stores_read)

lemma em_v76GammaSample: "state_io_rel (emits (stores_in {dw 0x4A400})) v76GammaSample"
  unfolding v76GammaSample_def
  by (intro em.io_rules em_stores_read em_writeReg32_any transparent_stores_in)
     (simp_all add: stores_in_def looksLikePlaneSurf_def)

lemma em_monitor_blocks:
  "state_io_rel (emits (stores_in monitor_stores)) (v60SuppressErrors realErr emr)"
  "state_io_rel (emits (stores_in monitor_stores)) v64AdvanceCsb"
  "state_io_rel (emits (stores_in monitor_stores)) (v65Enforce n)"
  "state_io_rel (emits (stores_in monitor_stores)) (v79PlaneMonitor b n)"
  "state_io_rel (emits (stores_in monitor_stores)) (v75DisplayDump n)"
  "state_io_rel (emits (stores_in monitor_stores)) (v88PlaneToggle a)"
  "state_io_rel (emits (stores_in monitor_stores)) (v68FaultProbe n)"
  unfolding v60SuppressErrors_def v64AdvanceCsb_def v65Enforce_def v79PlaneMonitor_def v79Linearize_def
    v75DisplayDump_def v88PlaneToggle_def v68FaultProbe_def Let_def
  by (intro em.io_rules em_stores_read em_monitor_write; blast)+

lemma em_scanChildren: "state_io_rel (emits P) (scanChildren cs n d)"
  by (induction cs arbitrary: n d) (simp_all add: em.io_ret svcInfo_def em.io_bind em.io_gets)

lemma em_v88Page: "state_io_rel (emits (stores_in I)) (v88Page surfAddr p)"
  unfolding v88Page_def Let_def by (intro em.io_rules em_stores_read em_modify) (simp_all add: same_bus_def)

lemma em_v88Pages: "state_io_rel (emits (stores_in I)) (v88Pages surfAddr ps n)"
  by (induction ps arbitrary: n) (simp_all add: em.io_ret em.io_bind em_v88Page)

lemma em_monitor_state_blocks:
  "state_io_rel (emits (stores_in monitor_stores)) (v70Transition c d)"
  "state_io_rel (emits (stores_in monitor_stores)) (v78KillDisplayPipes b)"
  "state_io_rel (emits (stores_in monitor_stores)) (v64FirstDump accel)"
  "state_io_rel (emits (stores_in monitor_stores)) (v88ScanoutFill b n)"
  "state_io_rel (emits (stores_in monitor_stores)) (enterDelayed t ms)"
  unfolding v70Transition_def v78KillDisplayPipes_def v64FirstDump_def v68EarlySchedClear_def v88ScanoutFill_def
    enterDelayed_def Let_def getClients_def svcInfo_def request_def
  by (intro em.io_rules em_modify em_stores_read em_ggttEntry em_v88FlushWait em_v88Pages em_monitor_blocks em_monitor_write;
      simp add: same_bus_def)+

section \<open>Lemmas: a register that is left as it was\<close>

definition holds_reg :: "u64 \<Rightarrow> 'a mmio_scheme \<Rightarrow> 'a mmio_scheme \<Rightarrow> bool" where
  "holds_reg r s t \<longleftrightarrow> same_bus s t \<and> (plain_reg s r \<and> big_bar s \<longrightarrow> peek t r = peek s r)"

interpretation hr: step_order "holds_reg r" for r
proof unfold_locales
  show "holds_reg r s s" for s :: "'a mmio_scheme"
    by (simp add: holds_reg_def same_bus_def)
  fix s t u :: "'a mmio_scheme"
  assume st: "holds_reg r s t" and tu: "holds_reg r t u"
  then have "same_bus s t" and "same_bus s u" by (auto simp: holds_reg_def same_bus_def)
  moreover have "plain_reg t r \<and> big_bar t" if "plain_reg s r" "big_bar s"
    using that plain_same_bus [OF \<open>same_bus s t\<close>] \<open>same_bus s t\<close>
    by (auto simp: same_bus_def big_bar_def mmioValid_def)
  ultimately show "holds_reg r s u"
    using st tu by (auto simp: holds_reg_def)
qed

lemma hr_emits:
  assumes "state_io_rel (emits (stores_in I)) m" and "dw r \<notin> I" and "dw r \<noteq> mmPCIE_INDEX2" and "dw r \<noteq> mmPCIE_DATA2"
  shows "state_io_rel (holds_reg r) m"
  unfolding state_io_rel_exec holds_reg_def
proof (intro allI conjI impI)
  fix s
  have e: "emits (stores_in I) s (exec m s)" using assms(1) by (simp add: state_io_rel_exec)
  then show "same_bus s (exec m s)" by (simp add: emits_def)
  show "peek (exec m s) r = peek s r" if "plain_reg s r \<and> big_bar s"
    using that e assms(2-4) by (blast intro: peek_frame)
qed

lemma hr_gamma: "state_io_rel (holds_reg 0x4A400) v76GammaSample"
  unfolding state_io_rel_exec holds_reg_def
proof (intro allI conjI impI)
  fix s :: "'a mmio_scheme"
  have e: "emits (stores_in {dw 0x4A400}) s (exec v76GammaSample s)"
    by (rule em_v76GammaSample [unfolded state_io_rel_exec, rule_format])
  then show sb: "same_bus s (exec v76GammaSample s)" by (simp add: emits_def)
  assume a: "plain_reg s 0x4A400 \<and> big_bar s"
  have d: "direct s 0x4A400" "direct s 0x4A404"
    using a by (auto intro: big_bar_direct)
  have "last_store (hist (exec v76GammaSample s)) (dw 0x4A400) = Some (peek s 0x4A400)"
    using d by (simp add: v76GammaSample_def readRegs_def readReg32_direct writeReg32_direct looksLikePlaneSurf_def peek_def)
  then show "peek (exec v76GammaSample s) 0x4A400 = peek s 0x4A400"
    using a plain_same_bus [OF sb] by (blast intro: peek_stored)
qed

lemma gamma_not_stored: "dw 0x4A400 \<notin> monitor_stores" "dw 0x4A400 \<noteq> mmPCIE_INDEX2" "dw 0x4A400 \<noteq> mmPCIE_DATA2"
  by (simp_all add: monitor_stores_def reg_defs)

lemma hr_monitor_blocks:
  assumes "state_io_rel (emits (stores_in monitor_stores)) m"
  shows "state_io_rel (holds_reg 0x4A400) m"
  by (rule hr_emits [OF assms gamma_not_stored])

lemma hr_v76: "state_io_rel (holds_reg 0x4A400) (v76DeepDump n)"
  unfolding v76DeepDump_def Let_def
  by (intro hr.io_rules hr_gamma hr_monitor_blocks em_stores_read em_ggttEntry)

lemma hr_modify:
  assumes "\<And>s. same_bus s (f s) \<and> hist (f s) = hist s"
  shows "state_io_rel (holds_reg r) (modify f)"
  by (rule hr.io_modify) (use assms in \<open>simp add: holds_reg_def peek_def same_bus_def\<close>)

lemma hr_monitor: "state_io_rel (holds_reg 0x4A400) (v60GpuHealthMonitor b accel)"
  unfolding v60GpuHealthMonitor_def v60Checks_def case_prod_unfold getClients_def
  by (intro hr.io_rules hr_modify hr_v76 hr_monitor_blocks em_stores_read em_scanChildren em_monitor_blocks
      em_monitor_state_blocks) (simp_all add: same_bus_def)

section \<open>Lemmas: the pages that are painted\<close>

text \<open>
  The accesses of one read of a register, newest first: a load in the mapped range, the index and
  data pair beyond it.
\<close>

definition readAccesses :: "u64 \<Rightarrow> u64 \<Rightarrow> u32 \<Rightarrow> access list" where
  "readAccesses len reg v =
     (if reg + 4 \<le> len then [Ld (dw reg) v] else [Ld mmPCIE_DATA2 v, St mmPCIE_INDEX2 (ucast reg)])"

text \<open>
  The plane shows \<open>surf\<close>: its surface register was read with that value and not stored to since.
  A page was painted rightly when, with the surface shown then, the two halves of the page table
  entry of one of its first 4000 pages were read one after the other, the low half with the valid
  bit set, their address is the painted one and at least one gigabyte, and the colour is that of
  the page.
\<close>

definition surface_shown :: "u64 \<Rightarrow> access list \<Rightarrow> u32 \<Rightarrow> bool" where
  "surface_shown len h surf \<longleftrightarrow>
     (\<exists>mid older. h = mid @ readAccesses len 0x7019C surf @ older \<and> (\<forall>v. St (dw 0x7019C) v \<notin> set mid))"

definition fill_ok :: "u64 \<Rightarrow> access list \<Rightarrow> u64 \<times> u32 \<Rightarrow> bool" where
  "fill_ok len h f \<longleftrightarrow> (\<exists>surf p lo hi newer older. p < 4000 \<and> surface_shown len older surf
     \<and> h = newer @ readAccesses len (GGTT_PTE_HI (drop_bit 12 surf + of_nat p)) hi
         @ readAccesses len (GGTT_PTE_LO (drop_bit 12 surf + of_nat p)) lo @ older
     \<and> lo AND 1 \<noteq> 0 \<and> 0x40000000 \<le> ptePhys hi lo \<and> f = (ptePhys hi lo, v88Color p))"

definition fills_ok :: "'a hstate_scheme \<Rightarrow> bool" where
  "fills_ok s \<longleftrightarrow> (\<forall>f \<in> set (phys_fills s). fill_ok (rmmio_len s) (hist s) f)"

lemma fill_ok_later: "fill_ok len h f \<Longrightarrow> fill_ok len (new @ h) f"
  unfolding fill_ok_def by (metis append.assoc)

lemma readReg32_accesses:
  assumes "mmioValid s"
  shows "exec (readReg32 r) s = s\<lparr>hist := readAccesses (rmmio_len s) r (result (readReg32 r) s) @ hist s\<rparr>"
  using assms by (simp add: readReg32_def mmioValid_def readAccesses_def)

lemma keeps_fills_emits:
  assumes "state_io_rel (emits P) m" and "\<And>s. phys_fills (exec m s) = phys_fills s"
  shows "state_io_rel (keeps fills_ok) m"
  using assms unfolding state_io_rel_exec keeps_def fills_ok_def emits_def same_bus_def
  by (metis fill_ok_later)

lemma readReg32_fields:
  fixes s :: "'a hstate_scheme"
  shows "phys_fills (exec (readReg32 r) s) = phys_fills s" "mmioValid (exec (readReg32 r) s) = mmioValid s"
proof -
  obtain h where "exec (readReg32 r) s = s\<lparr>hist := h\<rparr>"
    using bus_only_exec [OF bo_readReg32] by blast
  then show "phys_fills (exec (readReg32 r) s) = phys_fills s" "mmioValid (exec (readReg32 r) s) = mmioValid s"
    by (simp_all add: mmioValid_def)
qed

text \<open>While the pages are painted, the surface they belong to is the one shown.\<close>

definition painting :: "u32 \<Rightarrow> 'a hstate_scheme \<Rightarrow> bool" where
  "painting surf s \<longleftrightarrow> fills_ok s \<and> (mmioValid s \<longrightarrow> surface_shown (rmmio_len s) (hist s) surf)"

lemma surface_shown_later:
  assumes "surface_shown len h surf" and "list_all (stores_in I) new" and "dw 0x7019C \<notin> I"
  shows "surface_shown len (new @ h) surf"
proof -
  have n: "St (dw 0x7019C) v \<notin> set new" for v
    using assms(2,3) by (auto simp: list_all_iff stores_in_def reg_defs)
  obtain mid older where h: "h = mid @ readAccesses len 0x7019C surf @ older" "\<forall>v. St (dw 0x7019C) v \<notin> set mid"
    using assms(1) unfolding surface_shown_def by blast
  have "new @ h = (new @ mid) @ readAccesses len 0x7019C surf @ older" using h(1) by simp
  moreover have "\<forall>v. St (dw 0x7019C) v \<notin> set (new @ mid)" using n h(2) by simp
  ultimately show ?thesis unfolding surface_shown_def by blast
qed

lemma keeps_painting:
  fixes m :: "('a hstate_scheme, 'x) state"
  assumes "state_io_rel (keeps fills_ok) m" and "state_io_rel (emits (stores_in I)) m" and "dw 0x7019C \<notin> I"
  shows "state_io_rel (keeps (painting surf)) m"
  unfolding state_io_rel_exec keeps_def painting_def
proof (intro allI impI, elim conjE)
  fix s :: "'a hstate_scheme" assume f: "fills_ok s" and p: "mmioValid s \<longrightarrow> surface_shown (rmmio_len s) (hist s) surf"
  have "emits (stores_in I) s (exec m s)" by (rule relD [OF assms(2)])
  then obtain new where b: "same_bus s (exec m s)" and n: "hist (exec m s) = new @ hist s" "list_all (stores_in I) new"
    by (auto simp: emits_def)
  have "fills_ok (exec m s)" by (rule invD [OF assms(1) f])
  moreover have "surface_shown (rmmio_len (exec m s)) (hist (exec m s)) surf" if "mmioValid (exec m s)"
    using that b p surface_shown_later [OF _ n(2) assms(3)] by (simp add: n(1) same_bus_def mmioValid_def)
  ultimately show "fills_ok (exec m s) \<and> (mmioValid (exec m s) \<longrightarrow> surface_shown (rmmio_len (exec m s)) (hist (exec m s)) surf)"
    by blast
qed

lemma painting_page:
  assumes "p < 4000"
  shows "state_io_rel (keeps (painting surf)) (v88Page surf p)"
  unfolding state_io_rel_exec keeps_def
proof (intro allI impI)
  fix s :: "'a hstate_scheme"
  assume ok: "painting surf s"
  define r1 where "r1 = GGTT_PTE_LO (drop_bit 12 surf + of_nat p)"
  define r2 where "r2 = GGTT_PTE_HI (drop_bit 12 surf + of_nat p)"
  define s1 where "s1 = exec (readReg32 r1) s"
  define s2 where "s2 = exec (readReg32 r2) s1"
  define lo where "lo = result (readReg32 r1) s"
  define hi where "hi = result (readReg32 r2) s1"
  define phys where "phys = ptePhys hi lo"
  let ?t = "exec (v88Page surf p) s"
  have same: "phys_fills s2 = phys_fills s" by (simp add: s2_def s1_def readReg32_fields)
  have t: "hist ?t = hist s2 \<and> rmmio_len ?t = rmmio_len s2 \<and>
      (phys_fills ?t = phys_fills s2
       \<or> lo AND 1 \<noteq> 0 \<and> \<not> phys < 0x40000000 \<and> phys_fills ?t = (phys, v88Color p) # phys_fills s2)"
    by (simp add: v88Page_def Let_def r1_def [symmetric] r2_def [symmetric] s1_def [symmetric] s2_def [symmetric]
        lo_def [symmetric] hi_def [symmetric] phys_def [symmetric])
  have "emits (stores_in {}) s ?t" by (rule relD [OF em_v88Page])
  moreover have "fills_ok ?t"
  proof (cases "mmioValid s")
    case True
    have h: "hist s2 = readAccesses (rmmio_len s) r2 hi @ readAccesses (rmmio_len s) r1 lo @ hist s" "rmmio_len s2 = rmmio_len s"
    proof -
      have a: "s1 = s\<lparr>hist := readAccesses (rmmio_len s) r1 lo @ hist s\<rparr>"
        unfolding s1_def lo_def by (rule readReg32_accesses [OF True])
      have "mmioValid s1" using True by (simp add: a mmioValid_def)
      then have "s2 = s1\<lparr>hist := readAccesses (rmmio_len s1) r2 hi @ hist s1\<rparr>"
        unfolding s2_def hi_def by (rule readReg32_accesses)
      then show "hist s2 = readAccesses (rmmio_len s) r2 hi @ readAccesses (rmmio_len s) r1 lo @ hist s"
        and "rmmio_len s2 = rmmio_len s"
        by (simp_all add: a)
    qed
    have "fill_ok (rmmio_len s) (hist s2) (phys, v88Color p)" if "lo AND 1 \<noteq> 0" "\<not> phys < 0x40000000"
      unfolding fill_ok_def
      using assms ok True that h(1)
      by (intro exI [of _ surf] exI [of _ p] exI [of _ lo] exI [of _ hi] exI [of _ "[]"] exI [of _ "hist s"])
         (simp add: painting_def phys_def r1_def r2_def not_less)
    moreover have "fill_ok (rmmio_len s) (hist s2) f" if "f \<in> set (phys_fills s)" for f
      using ok that fill_ok_later [of "rmmio_len s" "hist s" f "readAccesses (rmmio_len s) r2 hi @ readAccesses (rmmio_len s) r1 lo"]
      by (simp add: painting_def fills_ok_def h(1))
    ultimately show ?thesis
      using t unfolding fills_ok_def by (auto simp: same h(2))
  next
    case False
    then have z: "lo = 0" "s2 = s" by (simp_all add: lo_def s2_def s1_def readReg32_unmapped)
    then show ?thesis using t ok by (simp add: fills_ok_def painting_def)
  qed
  ultimately show "painting surf ?t"
    using ok surface_shown_later [of "rmmio_len s" "hist s" surf "{}"]
    by (auto simp: painting_def emits_def same_bus_def mmioValid_def)
qed

section \<open>Lemmas: fields that do not change\<close>

text \<open>The count and the pending timers, which only the end of a run touches.\<close>

definition run_fields :: "'a hstate_scheme \<Rightarrow> nat \<times> (timer \<times> nat) list \<times> bool" where
  "run_fields s = (v60Count s, timers s, mmioValid s)"

lemma run_fields_bus [simp]: "run_fields (s\<lparr>hist := h\<rparr>) = run_fields s"
  by (simp add: run_fields_def mmioValid_def)

lemma un_scanChildren: "state_io_rel (unchanged f) (scanChildren cs n d)"
  by (induction cs arbitrary: n d) (simp_all add: un.io_ret svcInfo_def un.io_bind un.io_gets)

lemma un_page:
  assumes "\<And>s h. f (s\<lparr>hist := h\<rparr>) = f s" and "\<And>s x. f (s\<lparr>phys_fills := x\<rparr>) = f s"
    and "\<And>s x y. f (s\<lparr>v85PersistMap := x, v85SurfAddr := y\<rparr>) = f s"
  shows "state_io_rel (unchanged f) (v88Pages a ps n)"
proof -
  have "state_io_rel (unchanged f) (v88Page a p)" for p
    unfolding v88Page_def Let_def by (intro un.io_rules un_bus [OF bo_readReg32] un_modify assms)
  then show ?thesis
    by (induction ps arbitrary: n) (simp_all add: un.io_ret un.io_bind)
qed

lemmas un_monitor_bus = bo_readReg32 bo_readRegs bo_writeReg32 bo_monitor_blocks bo_ggttEntry bo_v88FlushWait

lemma un_run_blocks:
  "state_io_rel (unchanged run_fields) (v70Transition c d)"
  "state_io_rel (unchanged run_fields) (v78KillDisplayPipes b)"
  "state_io_rel (unchanged run_fields) (v64FirstDump accel)"
  "state_io_rel (unchanged run_fields) (v88ScanoutFill b n)"
  unfolding v70Transition_def v78KillDisplayPipes_def v64FirstDump_def v68EarlySchedClear_def v88ScanoutFill_def
    Let_def getClients_def svcInfo_def request_def
  by (intro un.io_rules un_modify un_page un_bus un_monitor_bus; simp add: run_fields_def mmioValid_def)+

lemma un_v60Checks: "state_io_rel (unchanged run_fields) (v60Checks b accel)"
  unfolding v60Checks_def case_prod_unfold getClients_def
  by (intro un.io_rules un_modify un_scanChildren un_run_blocks un_bus un_monitor_bus)
     (simp_all add: run_fields_def mmioValid_def)

lemma monitor_run:
  shows "v60Count (exec (v60GpuHealthMonitor b accel) s) = v60Count s + 1"
    and "timers (exec (v60GpuHealthMonitor b accel) s) =
      timers s @ (if mmioValid s \<and> v60Count s + 1 < 60 then [(HealthMonitor, 2000)] else [])"
    and "mmioValid (exec (v60GpuHealthMonitor b accel) s) = mmioValid s"
proof -
  define u where "u = s\<lparr>v60Count := v60Count s + 1\<rparr>"
  define w where "w = exec (v60Checks b accel) u"
  have "run_fields w = run_fields u"
    using un_v60Checks unfolding w_def state_io_rel_exec unchanged_def by blast
  then have f: "v60Count w = v60Count s + 1" "timers w = timers s" "mmioValid w = mmioValid s"
    by (simp_all add: run_fields_def u_def mmioValid_def)
  have e: "exec (v60GpuHealthMonitor b accel) s = (if mmioValid s then
      (if v60Count w < 60 then w\<lparr>timers := timers w @ [(HealthMonitor, 2000)]\<rparr> else w) else u)"
    by (simp add: v60GpuHealthMonitor_def w_def u_def enterDelayed_def mmioValid_def)
  show "v60Count (exec (v60GpuHealthMonitor b accel) s) = v60Count s + 1"
    and "timers (exec (v60GpuHealthMonitor b accel) s) =
      timers s @ (if mmioValid s \<and> v60Count s + 1 < 60 then [(HealthMonitor, 2000)] else [])"
    and "mmioValid (exec (v60GpuHealthMonitor b accel) s) = mmioValid s"
    unfolding e using f by (auto simp: u_def mmioValid_def)
qed

text \<open>The pages painted and the requests made.\<close>

lemma keeps_fills_bus:
  assumes "state_io_rel bus_only m" and "state_io_rel (emits P) m"
  shows "state_io_rel (keeps fills_ok) m"
proof (rule keeps_fills_emits [OF assms(2)])
  fix s
  obtain h where "exec m s = s\<lparr>hist := h\<rparr>"
    using bus_only_exec [OF assms(1)] by blast
  then show "phys_fills (exec m s) = phys_fills s" by simp
qed

lemma keeps_fills_unchanged:
  assumes "state_io_rel (unchanged phys_fills) m" and "state_io_rel (emits P) m"
  shows "state_io_rel (keeps fills_ok) m"
  using keeps_fills_emits [OF assms(2)] assms(1) by (simp add: state_io_rel_exec unchanged_def)

lemma un_fills_blocks:
  "state_io_rel (unchanged phys_fills) (v70Transition c d)"
  "state_io_rel (unchanged phys_fills) (v78KillDisplayPipes b)"
  "state_io_rel (unchanged phys_fills) (v64FirstDump accel)"
  "state_io_rel (unchanged phys_fills) (enterDelayed tm ms)"
  unfolding v70Transition_def v78KillDisplayPipes_def v64FirstDump_def v68EarlySchedClear_def
    enterDelayed_def Let_def getClients_def svcInfo_def request_def
  by (intro un.io_rules un_modify un_bus un_monitor_bus; simp)+

lemma painting_pages: "\<forall>p \<in> set ps. p < 4000 \<Longrightarrow> state_io_rel (keeps (painting surf)) (v88Pages surf ps n)"
  by (induction ps arbitrary: n) (simp_all add: inv.io_ret inv.io_bind painting_page)

lemmas keeps_fills_reads =
  keeps_fills_bus [OF bo_readReg32 em_stores_read(1)] keeps_fills_bus [OF bo_readRegs em_stores_read(2)]

lemma painting_read:
  assumes "fills_ok s"
  shows "painting (result (readReg32 0x7019C) s) (exec (readReg32 0x7019C) s)"
proof -
  have "fills_ok (exec (readReg32 0x7019C) s)"
    by (rule invD [OF keeps_fills_reads(1) assms])
  moreover have "surface_shown (rmmio_len s) (hist (exec (readReg32 0x7019C) s)) (result (readReg32 0x7019C) s)"
    if "mmioValid s"
    unfolding surface_shown_def using readReg32_accesses [OF that, of "0x7019C"]
    by (intro exI [of _ "[]"] exI [of _ "hist s"]) simp
  moreover have "rmmio_len (exec (readReg32 0x7019C) s) = rmmio_len s"
    by (rule keepsD, intro un_bus bo_readReg32, simp)
  ultimately show ?thesis by (simp add: painting_def readReg32_fields)
qed

lemma painting_flush:
  "state_io_rel (keeps (painting surf)) (whenM c (readRegs rs))"
  "state_io_rel (keeps (painting surf)) (writeReg32 0x101008 1)"
  "state_io_rel (keeps (painting surf)) (v88FlushWait k)"
proof -
  have e: "state_io_rel (emits (stores_in {dw 0x101008})) (writeReg32 0x101008 1)"
    by (intro em_writeReg32_any transparent_stores_in) (simp_all add: stores_in_def looksLikePlaneSurf_def)
  show "state_io_rel (keeps (painting surf)) (whenM c (readRegs rs))"
    by (rule inv.io_whenM, rule keeps_painting [OF keeps_fills_reads(2) em_stores_read(2) [where I = "{}"]]) simp
  show "state_io_rel (keeps (painting surf)) (writeReg32 0x101008 1)"
    by (rule keeps_painting [OF keeps_fills_bus [OF bo_writeReg32 e] e]) (simp add: reg_defs)
  show "state_io_rel (keeps (painting surf)) (v88FlushWait k)"
    by (rule keeps_painting [OF keeps_fills_bus [OF bo_v88FlushWait em_v88FlushWait] em_v88FlushWait [where I = "{}"]]) simp
qed

lemma keeps_fills_rearm:
  "state_io_rel (keeps fills_ok) (do {
     whenM (filled > 0 \<and> surf \<noteq> 0) (writeReg32 0x7019C surf);
     whenM (n = 5 \<and> filled > 0 \<and> surf \<noteq> 0) (v88PlaneToggle surf) })"
  by (intro inv.io_rules keeps_fills_bus [OF bo_writeReg32 em_monitor_write]
      keeps_fills_bus [OF bo_monitor_blocks(7) em_monitor_blocks(6)]) simp_all

lemma painting_paint:
  "state_io_rel (keeps (painting surf)) (do {
     whenM c (readRegs rs); writeReg32 0x101008 1; v88FlushWait k; v88Pages surf [0..<4000] 0 })"
  by (intro inv.io_bind painting_flush painting_pages) simp

lemma keeps_fills_scanout: "state_io_rel (keeps fills_ok) (v88ScanoutFill b n)"
  unfolding v88ScanoutFill_def
proof (rule inv.io_whenM, unfold state_io_rel_exec keeps_def, intro allI impI, goal_cases)
  case (1 s)
  define surf where "surf = result (readReg32 0x7019C) s"
  define t where "t = exec (readReg32 0x7019C) s"
  have t: "painting surf t" unfolding surf_def t_def by (rule painting_read [OF 1(2)])
  note u = painting_paint [where c = "n \<le> 3" and k = 100 and surf = surf and
      rs = "[0x60008, 0x61008, 0x6F008, 0x60400, 0x6F400, 0x70024, 0x70840, 0x701CC, 0x70194, 0x70198, 0x701A4, 0x701A0]", THEN invD, OF t]
  show ?case
    using invD [OF keeps_fills_rearm u [unfolded painting_def, THEN conjunct1]]
    unfolding surf_def t_def by (simp only: run_simps)
qed

lemma em_v76: "state_io_rel (emits (stores_in {dw 0x4A400})) (v76DeepDump n)"
  unfolding v76DeepDump_def Let_def
  by (intro em.io_rules em_v76GammaSample em_stores_read em_ggttEntry)

lemma fills_modify:
  assumes "\<And>s. hist (f s) = hist s \<and> phys_fills (f s) = phys_fills s \<and> rmmio_len (f s) = rmmio_len s"
  shows "state_io_rel (keeps fills_ok) (modify f)"
  by (rule inv.io_modify) (simp add: keeps_def fills_ok_def assms)

lemma keeps_fills_checks: "state_io_rel (keeps fills_ok) (v60Checks b accel)"
  unfolding v60Checks_def case_prod_unfold getClients_def
  by (intro inv.io_rules keeps_fills_reads keeps_fills_scanout fills_modify
      keeps_fills_unchanged [OF un_scanChildren em_scanChildren]
      keeps_fills_unchanged [OF un_fills_blocks(1) em_monitor_state_blocks(1)]
      keeps_fills_unchanged [OF un_fills_blocks(2) em_monitor_state_blocks(2)]
      keeps_fills_unchanged [OF un_fills_blocks(3) em_monitor_state_blocks(3)]
      keeps_fills_bus [OF bo_monitor_blocks(1) em_monitor_blocks(1)]
      keeps_fills_bus [OF bo_monitor_blocks(2) em_monitor_blocks(2)]
      keeps_fills_bus [OF bo_monitor_blocks(3) em_monitor_blocks(3)]
      keeps_fills_bus [OF bo_monitor_blocks(4) em_monitor_blocks(4)]
      keeps_fills_bus [OF bo_monitor_blocks(5) em_monitor_blocks(5)]
      keeps_fills_bus [OF bo_monitor_blocks(6) em_v76]
      keeps_fills_bus [OF bo_monitor_blocks(8) em_monitor_blocks(7)]) simp_all

lemma keeps_fills_monitor: "state_io_rel (keeps fills_ok) (v60GpuHealthMonitor b accel)"
  unfolding v60GpuHealthMonitor_def
  by (intro inv.io_rules keeps_fills_checks fills_modify
      keeps_fills_unchanged [OF un_fills_blocks(4) em_monitor_state_blocks(5)]) simp_all

lemma un_scanout_off:
  assumes "\<not> (isExperimentalMonitorEnabled b \<and> isV88ScanoutFillEnabled b)"
  shows "state_io_rel (unchanged phys_fills) (v88ScanoutFill b n)"
  unfolding v88ScanoutFill_def by (rule un.io_whenM) (use assms in simp)

lemma un_fills_off:
  assumes "\<not> (isExperimentalMonitorEnabled b \<and> isV88ScanoutFillEnabled b)"
  shows "state_io_rel (unchanged phys_fills) (v60GpuHealthMonitor b accel)"
  unfolding v60GpuHealthMonitor_def v60Checks_def case_prod_unfold getClients_def
  by (intro un.io_rules un_modify un_scanChildren un_fills_blocks un_scanout_off [OF assms] un_bus un_monitor_bus; simp)

text \<open>While the kill is delayed, no request is made.\<close>

definition calm :: "boot \<Rightarrow> 'a hstate_scheme \<Rightarrow> 'a hstate_scheme \<Rightarrow> bool" where
  "calm b s t \<longleftrightarrow> v60Count t = v60Count s \<and>
     (0 < v60Count s \<and> int (v60Count s) \<le> getV77KillDelayIterations b \<longrightarrow> svc_reqs t = svc_reqs s)"

interpretation ca: step_order "calm b" for b
  by unfold_locales (auto simp: calm_def)

lemma ca_unchanged:
  "state_io_rel (unchanged (\<lambda>s. (v60Count s, svc_reqs s))) m \<Longrightarrow> state_io_rel (calm b) m"
  by (simp add: state_io_rel_exec unchanged_def calm_def)

lemma un_calm_blocks:
  "state_io_rel (unchanged (\<lambda>s. (v60Count s, svc_reqs s))) (v70Transition c d)"
  "state_io_rel (unchanged (\<lambda>s. (v60Count s, svc_reqs s))) (v64FirstDump accel)"
  "state_io_rel (unchanged (\<lambda>s. (v60Count s, svc_reqs s))) (v88ScanoutFill b n)"
  unfolding v70Transition_def v64FirstDump_def v68EarlySchedClear_def v88ScanoutFill_def
    Let_def getClients_def svcInfo_def request_def
  by (intro un.io_rules un_modify un_page un_bus un_monitor_bus; simp)+

lemma ca_kill: "state_io_rel (calm b) (v78KillDisplayPipes b)"
proof -
  have "v60Count (exec (v78KillDisplayPipes b) s) = v60Count s" for s :: "'a hstate_scheme"
  proof -
    have "run_fields (exec (v78KillDisplayPipes b) s) = run_fields s"
      by (rule un_run_blocks(2) [unfolded state_io_rel_exec unchanged_def, rule_format])
    then show ?thesis by (simp add: run_fields_def)
  qed
  then show ?thesis
    unfolding state_io_rel_exec calm_def by (simp add: v78KillDisplayPipes_def Let_def)
qed

lemma ca_checks: "state_io_rel (calm b) (v60Checks b accel)"
  unfolding v60Checks_def case_prod_unfold getClients_def
  by (intro ca.io_rules ca_kill ca_unchanged un_modify un_scanChildren un_calm_blocks un_bus un_monitor_bus; simp)

lemma monitor_delayed:
  assumes "int (v60Count s + 1) \<le> getV77KillDelayIterations b"
  shows "svc_reqs (exec (v60GpuHealthMonitor b accel) s) = svc_reqs s"
proof -
  define u where "u = s\<lparr>v60Count := v60Count s + 1\<rparr>"
  have "calm b u (exec (v60Checks b accel) u)"
    by (rule ca_checks [unfolded state_io_rel_exec, rule_format])
  then have "svc_reqs (exec (v60Checks b accel) u) = svc_reqs s"
    using assms by (simp add: calm_def u_def)
  then show ?thesis
    by (simp add: v60GpuHealthMonitor_def enterDelayed_def u_def)
qed

interpretation hm: bounded_timer "v60GpuHealthMonitor b accel" v60Count mmioValid "(HealthMonitor, 2000)" 60
  for b :: boot and accel :: u64
proof unfold_locales
  show "mmioValid (s\<lparr>timers := ts\<rparr>) = mmioValid s" for s :: "'a hstate_scheme" and ts
    by (simp add: mmioValid_def)
qed (simp_all add: monitor_run)

section \<open>A sample state\<close>

text \<open>
  The register file of the other samples, with a display pipe client and an accelerator device
  that was never registered.
\<close>

definition sample_svc :: "svc_req list \<Rightarrow> u64 \<Rightarrow> svc" where
  "sample_svc rs c = (if c = 1 then \<lparr>svc_name = ''pipe'', svc_class = ''IOAccelDisplayPipeUserClient2'', svc_state = 0x1e\<rparr>
     else \<lparr>svc_name = ''IGAccelDevice'', svc_class = ''IGAccelDevice'', svc_state = (if RegisterService c \<in> set rs then 2 else 0)\<rparr>)"

definition sample_hstate :: hstate where
  "sample_hstate = fstate.extend sample_fstate (hstate.fields (\<lambda>_. [1, 2]) sample_svc [] 0 0xDEAD 0xDEAD (-1) 0xBEEF
     (\<lambda>_. True) (\<lambda>_. True) [] False 0)"

lemma sample_hstate_fields:
  "big_bar sample_hstate" "mmioValid sample_hstate" "hist sample_hstate = []" "dev_load sample_hstate = regfile (\<lambda>_. 0)"
  "v60Count sample_hstate = 0" "phys_fills sample_hstate = []" "svc_reqs sample_hstate = []"
  "timers sample_hstate = [(IrqWatchdog, 2000)]" "svc_children sample_hstate = (\<lambda>_. [1, 2])" "svc_info sample_hstate = sample_svc"
  using sample_fstate_bus
  by (simp_all add: sample_hstate_def fstate.defs hstate.defs sample_fstate_def istate.defs sample_istate_bus big_bar_def mmioValid_def)

lemma csb_bits:
  fixes p m :: u32
  assumes "\<And>n. bit m n \<longleftrightarrow> n < 3"
  defines "q \<equiv> (p AND NOT m) OR (drop_bit 8 p AND m)"
  shows "q AND m = drop_bit 8 p AND m" and "drop_bit 8 q AND m = drop_bit 8 p AND m" and "q AND NOT m = p AND NOT m"
  unfolding q_def by (rule bit_word_eqI; auto simp: bit_simps assms(1))+

lemma bit_seven: "bit (7 :: u32) n \<longleftrightarrow> n < 3"
proof -
  have "(7 :: u32) = mask 3" by (simp add: mask_eq_exp_minus_1)
  then show ?thesis by (simp only: bit_mask_iff) auto
qed

subsection \<open>A run that paints\<close>

text \<open>Hardware that answers every load with the same word, a valid page table entry among others.\<close>

definition answering :: "'a hstate_scheme \<Rightarrow> bool" where
  "answering s \<longleftrightarrow> mmioValid s \<and> dev_load s = (\<lambda>_ _. 0x80000001) \<and> phys_desc s = (\<lambda>_. True) \<and> phys_map s = (\<lambda>_. True)"

definition paint_fields :: "'a hstate_scheme \<Rightarrow> bool \<times> nat \<times> nat" where
  "paint_fields s = (answering s, v60Count s, length (phys_fills s))"

lemma paint_fields_bus [simp]: "paint_fields (s\<lparr>hist := h\<rparr>) = paint_fields s"
  by (simp add: paint_fields_def answering_def mmioValid_def)

lemma un_paint_blocks:
  "state_io_rel (unchanged paint_fields) (v70Transition c d)"
  "state_io_rel (unchanged paint_fields) (v78KillDisplayPipes b)"
  "state_io_rel (unchanged paint_fields) (v64FirstDump accel)"
  "state_io_rel (unchanged paint_fields) (enterDelayed tm ms)"
  unfolding v70Transition_def v78KillDisplayPipes_def v64FirstDump_def v68EarlySchedClear_def
    enterDelayed_def Let_def getClients_def svcInfo_def request_def
  by (intro un.io_rules un_modify un_bus un_monitor_bus; simp add: paint_fields_def answering_def mmioValid_def)+

lemma answering_read: "answering s \<Longrightarrow> result (readReg32 r) s = 0x80000001"
  by (simp add: answering_def readReg32_def mmioValid_def)

lemma page_paints:
  assumes "answering s"
  shows "paint_fields (exec (v88Page a p) s) = (True, v60Count s, Suc (length (phys_fills s)))"
proof -
  define s1 where "s1 = exec (readReg32 (GGTT_PTE_LO (drop_bit 12 a + of_nat p))) s"
  define s2 where "s2 = exec (readReg32 (GGTT_PTE_HI (drop_bit 12 a + of_nat p))) s1"
  have f1: "paint_fields s1 = paint_fields s" and f2: "paint_fields s2 = paint_fields s1"
    unfolding s1_def s2_def by (rule keepsD, intro un_bus bo_readReg32, simp)+
  have l: "result (readReg32 (GGTT_PTE_LO (drop_bit 12 a + of_nat p))) s = 0x80000001"
    and h: "result (readReg32 (GGTT_PTE_HI (drop_bit 12 a + of_nat p))) s1 = 0x80000001"
    using assms f1 by (auto simp: paint_fields_def intro!: answering_read)
  have "ptePhys 0x80000001 0x80000001 = 0x180000000" by (simp add: ptePhys_def)
  moreover have "phys_desc s2 x" "phys_map s2 x" for x
    using assms f1 f2 by (simp_all add: paint_fields_def answering_def)
  ultimately show ?thesis
    using assms f1 f2 unfolding v88Page_def Let_def
    by (simp add: s1_def [symmetric] l h s2_def [symmetric])
       (auto simp: paint_fields_def answering_def mmioValid_def)
qed

lemma pages_paint:
  "answering s \<Longrightarrow> paint_fields (exec (v88Pages a ps n) s) = (True, v60Count s, length ps + length (phys_fills s))"
proof (induction ps arbitrary: s n)
  case Nil
  then show ?case by (simp add: paint_fields_def)
next
  case (Cons p ps)
  have "answering (exec (v88Page a p) s)" "v60Count (exec (v88Page a p) s) = v60Count s"
      "length (phys_fills (exec (v88Page a p) s)) = Suc (length (phys_fills s))"
    using page_paints [OF Cons.prems, of a p] by (simp_all add: paint_fields_def)
  then show ?case using Cons.IH by simp
qed

lemma un_paint_bus: "state_io_rel bus_only m \<Longrightarrow> paint_fields (exec m s) = paint_fields s"
  by (rule keepsD, rule un_bus) simp_all

lemma scanout_paints:
  assumes "answering s" and "isExperimentalMonitorEnabled b" "isV88ScanoutFillEnabled b" "1 \<le> n" "n \<le> 30"
  shows "paint_fields (exec (v88ScanoutFill b n) s) = (True, v60Count s, 4000 + length (phys_fills s))"
proof -
  define surf where "surf = result (readReg32 0x7019C) s"
  define before :: "('a hstate_scheme, unit) state" where "before = do {
     _ \<leftarrow> readReg32 0x7019C;
     whenM (n \<le> 3) (readRegs [0x60008, 0x61008, 0x6F008, 0x60400, 0x6F400, 0x70024, 0x70840, 0x701CC,
         0x70194, 0x70198, 0x701A4, 0x701A0]);
     writeReg32 0x101008 1;
     v88FlushWait 100 }"
  define u where "u = exec before s"
  define t where "t = exec (v88Pages surf [0..<4000] 0) u"
  define filled where "filled = result (v88Pages surf [0..<4000] 0) u"
  define after :: "('a hstate_scheme, unit) state" where "after = do {
     whenM (filled > 0 \<and> surf \<noteq> 0) (writeReg32 0x7019C surf);
     whenM (n = 5 \<and> filled > 0 \<and> surf \<noteq> 0) (v88PlaneToggle surf) }"
  have u: "paint_fields u = paint_fields s"
    unfolding u_def before_def by (rule un_paint_bus) (intro bo_rules bo_readRegs bo_v88FlushWait)
  have "exec (v88ScanoutFill b n) s = exec after t"
    using assms(2-5)
    by (simp only: v88ScanoutFill_def after_def t_def u_def before_def filled_def surf_def run_simps simp_thms if_True)
  also have "paint_fields (exec after t) = paint_fields t"
    unfolding after_def by (rule un_paint_bus) (intro bo_rules bo_monitor_blocks(7))
  also have "paint_fields t = (True, v60Count u, length [0..<4000] + length (phys_fills u))"
    unfolding t_def by (rule pages_paint) (use u assms(1) in \<open>simp add: paint_fields_def\<close>)
  also have "\<dots> = (True, v60Count s, 4000 + length (phys_fills s))"
    using u by (simp add: paint_fields_def)
  finally show ?thesis .
qed

lemma checks_paint:
  fixes s :: "'a hstate_scheme"
  assumes "answering s" and "isExperimentalMonitorEnabled b" "isV88ScanoutFillEnabled b" "1 \<le> v60Count s" "v60Count s \<le> 30"
  shows "length (phys_fills (exec (v60Checks b accel) s)) = 4000 + length (phys_fills s)"
proof -
  define n where "n = v60Count s"
  define before :: "('a hstate_scheme, unit) state" where "before = do {
     realErr \<leftarrow> readReg32 ERROR_GEN6;
     rcsHead \<leftarrow> readReg32 (RING_HEAD RENDER_RING_BASE);
     rcsTail \<leftarrow> readReg32 (RING_TAIL RENDER_RING_BASE);
     readRegs [RING_CTL RENDER_RING_BASE];
     emr \<leftarrow> readReg32 (RING_EMR RENDER_RING_BASE);
     readRegs [RING_EXECLIST_STATUS RENDER_RING_BASE, RING_CONTEXT_STATUS_PTR RENDER_RING_BASE,
       RING_ACTHD RENDER_RING_BASE, RING_CCID RENDER_RING_BASE, GEN12_RING_FAULT_REG];
     cs \<leftarrow> getClients;
     c \<leftarrow> scanChildren cs 0 0xDEAD;
     v70Transition (fst c) (snd c);
     v78KillDisplayPipes b;
     v60SuppressErrors realErr emr;
     whenM (n = 1) (v64FirstDump accel);
     whenM (n = 3) v64AdvanceCsb;
     v65Enforce n;
     v79PlaneMonitor b n;
     v75DisplayDump n;
     v76DeepDump n }"
  define u where "u = exec before s"
  have "\<exists>hd tl. exec (v60Checks b accel) s =
      (exec (v68FaultProbe n) (exec (v88ScanoutFill b n) u))\<lparr>v60LastHead := hd, v60LastTail := tl\<rparr>"
    unfolding v60Checks_def u_def before_def n_def by (simp only: run_simps case_prod_unfold) blast
  then have "length (phys_fills (exec (v60Checks b accel) s)) = length (phys_fills (exec (v68FaultProbe n) (exec (v88ScanoutFill b n) u)))"
    by auto
  also have "\<dots> = length (phys_fills (exec (v88ScanoutFill b n) u))"
    using un_paint_bus [OF bo_monitor_blocks(8), of n "exec (v88ScanoutFill b n) u"] by (simp add: paint_fields_def)
  also have "\<dots> = 4000 + length (phys_fills s)"
  proof -
    have "state_io_rel (unchanged paint_fields) before"
      unfolding before_def getClients_def
      by (intro un.io_rules un_scanChildren un_paint_blocks un_bus un_monitor_bus; simp)
    then have u: "paint_fields u = paint_fields s" unfolding u_def by (rule keepsD)
    have "paint_fields (exec (v88ScanoutFill b n) u) = (True, v60Count u, 4000 + length (phys_fills u))"
      by (rule scanout_paints) (use assms u in \<open>simp_all add: paint_fields_def n_def\<close>)
    then show ?thesis using u by (simp add: paint_fields_def)
  qed
  finally show ?thesis .
qed

definition boot_v88 :: boot where
  "boot_v88 = \<lparr>boot_int = (\<lambda>_. None), boot_flag = (\<lambda>f. f = ''-ngreenexp'' \<or> f = ''-ngreenv88'')\<rparr>"

definition answering_hstate :: hstate where
  "answering_hstate = sample_hstate\<lparr>dev_load := (\<lambda>_ _. 0x80000001)\<rparr>"

lemma answering_sample:
  "answering (answering_hstate\<lparr>v60Count := n\<rparr>)" "v60Count answering_hstate = 0" "phys_fills answering_hstate = []"
  "mmioValid answering_hstate"
  using sample_hstate_fields
  by (simp_all add: answering_def answering_hstate_def mmioValid_def sample_hstate_def hstate.defs fstate.defs)

section \<open>Properties\<close>

text \<open>C10: The scanout fill paints pages of the shown surface only, and none of the firmware's: whatever the
  hardware answers and whatever the page table holds, every page a run of the health monitor paints
  has the physical address of a page table entry of the surface the plane shows, one of its first
  4000 pages, whose two halves were just read, the low one with the valid bit set; the address is at
  least one gigabyte, and the colour is that of the page's quarter. Without both boot arguments
  nothing is painted.\<close>

theorem monitor_fill_safe:
  assumes "fills_ok s"
  shows "fills_ok (exec (v60GpuHealthMonitor b accel) s)
    \<and> (\<not> (isExperimentalMonitorEnabled b \<and> isV88ScanoutFillEnabled b) \<longrightarrow>
       phys_fills (exec (v60GpuHealthMonitor b accel) s) = phys_fills s)"
proof (intro conjI impI)
  show "fills_ok (exec (v60GpuHealthMonitor b accel) s)"
    using keeps_fills_monitor [unfolded state_io_rel_exec keeps_def, rule_format] assms by blast
  show "phys_fills (exec (v60GpuHealthMonitor b accel) s) = phys_fills s"
    if "\<not> (isExperimentalMonitorEnabled b \<and> isV88ScanoutFillEnabled b)"
    by (rule un_fills_off [OF that, unfolded state_io_rel_exec unchanged_def, rule_format])
qed

theorem monitor_fill_safe_witness:
  "length (phys_fills (exec (v60GpuHealthMonitor boot_v88 0) answering_hstate)) = 4000
   \<and> fills_ok (exec (v60GpuHealthMonitor boot_v88 0) answering_hstate)"
proof -
  define u where "u = answering_hstate\<lparr>v60Count := 1\<rparr>"
  have "length (phys_fills (exec (v60Checks boot_v88 0) u)) = 4000 + length (phys_fills u)"
    unfolding u_def
    by (rule checks_paint [OF answering_sample(1)])
       (simp_all add: isExperimentalMonitorEnabled_def isV88ScanoutFillEnabled_def int_or_flag_def boot_v88_def)
  then have "length (phys_fills (exec (v60GpuHealthMonitor boot_v88 0) answering_hstate)) = 4000"
    using answering_sample(2-4) by (simp add: v60GpuHealthMonitor_def enterDelayed_def u_def mmioValid_def)
  moreover have "fills_ok answering_hstate" by (simp add: fills_ok_def answering_sample(3))
  then have "fills_ok (exec (v60GpuHealthMonitor boot_v88 0) answering_hstate)"
    using monitor_fill_safe by blast
  ultimately show ?thesis by blast
qed

text \<open>The health monitor keeps the zero-surface rule through its whole run, the linearization of
  the plane, the fill of the scanout buffer and the plane toggle included: it never arms an enabled
  plane with a zero surface address, on any hardware and any boot arguments.\<close>

theorem monitor_surf_safe:
  assumes "surf_inv s"
  shows "surf_inv (exec (v60GpuHealthMonitor b accel) s)"
  by (rule surf_inv_exec [OF surf_monitor assms])

text \<open>The health monitor ends: armed once, and with the registers mapped, it runs exactly
  sixty times (two minutes) however often pending calls are fired, and then none is pending.\<close>

theorem health_monitor_terminates:
  assumes "mmioValid s" and "v60Count s = 0" and "count_list (timers s) (HealthMonitor, 2000) = 1" and "60 \<le> n"
  shows "v60Count (exec (forM [0..<n] (\<lambda>_. fireTimer (HealthMonitor, 2000) (v60GpuHealthMonitor b accel))) s) = 60
    \<and> (HealthMonitor, 2000) \<notin>
        set (timers (exec (forM [0..<n] (\<lambda>_. fireTimer (HealthMonitor, 2000) (v60GpuHealthMonitor b accel))) s))"
  by (rule hm.stops [OF assms])

text \<open>Without the boot argument \<open>ngreenV77DelayKill\<close> the health monitor never terminates a
  display pipe client, nor makes any other request to the service registry, in any of its runs:
  the default delay spans all sixty iterations.\<close>

theorem default_never_kills:
  assumes "boot_int b ''ngreenV77DelayKill'' = None"
    and "mmioValid s" and "v60Count s = 0" and "count_list (timers s) (HealthMonitor, 2000) = 1"
  shows "svc_reqs (exec (forM [0..<n] (\<lambda>_. fireTimer (HealthMonitor, 2000) (v60GpuHealthMonitor b accel))) s) = svc_reqs s"
proof (induction n)
  case (Suc n)
  define t where "t = exec (forM [0..<n] (\<lambda>_. fireTimer (HealthMonitor, 2000) (v60GpuHealthMonitor b accel))) s"
  define u where "u = t\<lparr>timers := remove1 (HealthMonitor, 2000) (timers t)\<rparr>"
  have k: "v60Count t = min n 60" "count_list (timers t) (HealthMonitor, 2000) = (if n < 60 then 1 else 0)"
    using hm.fire_many [OF assms(2-4), where n = n] by (simp_all add: t_def)
  have "svc_reqs (exec (v60GpuHealthMonitor b accel) u) = svc_reqs u" if "n < 60"
    using that k(1) assms(1) by (intro monitor_delayed) (simp add: u_def getV77KillDelayIterations_def)
  moreover have "n < 60" if "(HealthMonitor, 2000) \<in> set (timers t)"
    using that k(2) by (auto simp: count_list_0_iff split: if_splits)
  ultimately show ?case
    using Suc unfolding forM_upt_Suc t_def [symmetric] by (simp add: fireTimer_def u_def)
qed simp

text \<open>The gamma sampling is transparent: when the palette index register holds what is stored to
  it, a run of the health monitor leaves it at the value it had, although at iteration five it
  is stored to four times.\<close>

theorem gamma_index_restored:
  assumes "big_bar s" and "plain_reg s 0x4A400"
  shows "peek (exec (v60GpuHealthMonitor b accel) s) 0x4A400 = peek s 0x4A400"
  using hr_monitor [unfolded state_io_rel_exec holds_reg_def, rule_format] assms by blast

text \<open>The advance of the context status buffer leaves the read index equal to the write index and
  every other bit of the pointer register as it was, when the register holds what is stored to
  it.\<close>

theorem csb_pointers_matched:
  assumes "big_bar s" and "plain_reg s (RING_CONTEXT_STATUS_PTR RENDER_RING_BASE)"
  defines "p \<equiv> peek s (RING_CONTEXT_STATUS_PTR RENDER_RING_BASE)"
    and "q \<equiv> peek (exec v64AdvanceCsb s) (RING_CONTEXT_STATUS_PTR RENDER_RING_BASE)"
  shows "q AND 7 = drop_bit 8 q AND 7 \<and> q AND NOT 7 = p AND NOT 7"
proof -
  define n where "n = (p AND NOT 7) OR (drop_bit 8 p AND 7)"
  have d: "direct s 0x23A0" using assms(1) by (rule big_bar_direct) simp
  have ls: "\<not> looksLikePlaneSurf 0x23A0" by (simp add: looksLikePlaneSurf_def)
  have plain: "dev_load s h (dw 0x23A0) = (case last_store h (dw 0x23A0) of Some v \<Rightarrow> v | None \<Rightarrow> dev_load s [] (dw 0x23A0))" for h
    using assms(2) by (simp add: plain_reg_def)
  have "q = (if drop_bit 8 p AND 7 \<noteq> p AND 7 then n else p)"
    using d ls plain unfolding q_def p_def n_def peek_def
    by (simp add: v64AdvanceCsb_def Let_def readRegs_def readReg32_direct writeReg32_direct and.assoc)
  moreover have "n AND 7 = drop_bit 8 p AND 7" "drop_bit 8 n AND 7 = drop_bit 8 p AND 7" "n AND NOT 7 = p AND NOT 7"
    unfolding n_def by (rule csb_bits [OF bit_seven])+
  ultimately show ?thesis by auto
qed

end
