(* ===== verification/NG_Start.thy ===== *)
theory NG_Start
  imports NG_Health
begin

text \<open>
  The start of the accelerator (\<open>iTGL/TGL.cpp\<close>, \<open>Gen11::start\<close>): the choice of the scheduler and
  the properties published for it, the preparation of the engines before Apple's \<open>start\<close> is
  called, the repair of interrupts and errors after it, the timers that are armed, and the
  display pipe policy and backing the start applies. Also the probe of the accelerator and the
  frequency notification.

  Apple's routines are parameters of the record \<open>senv\<close>; a routine whose address was not resolved
  is \<open>None\<close>. Allocations of numbers, strings, dictionaries and timers are taken to succeed.
  Reading the values that are only printed of driver objects and of the service registry is left
  out. The wait for the force wake acknowledgement is bounded only by the clock and takes fuel.
\<close>

section \<open>State and environment\<close>

record gstate = hstate +
  accelInstance :: u64
  freq_max :: u32
  tglHWLoaded :: bool
  released :: "u64 list"

record 'a senv =
  accel_entry :: nat
  param_entry :: "nat option"
  prov_entry :: "nat option"
  pci_provider :: "u64 option"
  getOSDataValue :: "osdict \<Rightarrow> string \<Rightarrow> u32 option"
  is_osobject :: "u64 \<Rightarrow> bool"
  startTicksPerMs :: nat
  ostart :: "('a gstate_scheme, bool) state"
  oNewDisplayMachine :: "(u64 \<Rightarrow> ('a gstate_scheme, u64) state) option"
  oDisplayMachineInit :: "(u64 \<Rightarrow> u64 \<Rightarrow> ('a gstate_scheme, bool) state) option"
  oDisplayMachineStart :: "(u64 \<Rightarrow> u64 \<Rightarrow> ('a gstate_scheme, bool) state) option"
  oDisplayMachineProbeDisplayPipes :: "(u64 \<Rightarrow> ('a gstate_scheme, unit) state) option"

section \<open>Display pipe policy\<close>

definition createDisplayPipeCapabilityDict :: "bool \<Rightarrow> osdict" where
  "createDisplayPipeCapabilityDict enabled =
     setObject ''TransactionsSupported'' (OBool enabled) (setObject ''DisplayPipeSupported'' (OBool enabled) [])"

definition applyDisplayPipePolicy :: "boot \<Rightarrow> nat option \<Rightarrow> ('a ngreen_scheme, unit) state" where
  "applyDisplayPipePolicy b entry = (case entry of
     None \<Rightarrow> ret ()
   | Some e \<Rightarrow> setProp e ''IOAccelDisplayPipeCapabilities''
       (ODict (createDisplayPipeCapabilityDict (\<not> isDisplayPipeForceDisabled b))))"

definition publishBootDisplayProperties :: "nat option \<Rightarrow> u32 \<Rightarrow> ('a ngreen_scheme, unit) state" where
  "publishBootDisplayProperties framebuffer framebufferIndex = (case framebuffer of
     None \<Rightarrow> ret ()
   | Some e \<Rightarrow> do {
       setProp e ''AAPL,DisplayPipe'' (ONumber (ucast framebufferIndex));
       whenM (framebufferIndex = 0) (setProp e ''AAPL,boot-display'' (OBool True))
     })"

definition publishFramebufferTriageResources :: "('a ngreen_scheme, unit) state" where
  "publishFramebufferTriageResources = do {
     r \<leftarrow> gets ioregs;
     case resolve r ''/IOResources'' of
       None \<Rightarrow> ret ()
     | Some resources \<Rightarrow> do {
         whenM (\<not> hasKey (props r resources) ''FB_Triage'')
           (setProp resources ''FB_Triage'' (OString ''FB Driver Info :  56 0 ff 51 54 52 54 53''));
         whenM (\<not> hasKey (props r resources) ''Triage'')
           (setProp resources ''Triage'' (OString ''3D Debug Info: 1 223''))
       }
   }"

section \<open>Display pipe backing\<close>

definition rescueDisplayMachine :: "'a senv \<Rightarrow> u64 \<Rightarrow> ('a gstate_scheme, u64) state" where
  "rescueDisplayMachine E that = (case (oNewDisplayMachine E, oDisplayMachineInit E) of
     (Some newDM, Some initDM) \<Rightarrow> do {
       displayMachine \<leftarrow> newDM that;
       if displayMachine = 0 then ret 0 else do {
         initOk \<leftarrow> initDM displayMachine that;
         if initOk then do {
           modify (\<lambda>s. s\<lparr>kmem := wr64 (that + 0x378) displayMachine (kmem s)\<rparr>);
           ret displayMachine
         } else do {
           whenM (is_osobject E displayMachine) (modify (\<lambda>s. s\<lparr>released := displayMachine # released s\<rparr>));
           ret 0
         }
       }
     }
   | _ \<Rightarrow> ret 0)"

definition bringUpDisplayMachine :: "'a senv \<Rightarrow> u64 \<Rightarrow> ('a gstate_scheme, unit) state" where
  "bringUpDisplayMachine E displayMachine = do {
     (case (pci_provider E, oDisplayMachineStart E) of
        (Some p, Some startDM) \<Rightarrow> do { _ \<leftarrow> startDM displayMachine p; ret () }
      | _ \<Rightarrow> ret ());
     gate \<leftarrow> gets gateExternalDisplays;
     if gate then setProp (accel_entry E) ''NGreenExternalGateActive'' (OBool True)
     else case oDisplayMachineProbeDisplayPipes E of
       Some probeDP \<Rightarrow> probeDP displayMachine
     | None \<Rightarrow> ret ()
   }"

definition ensureDisplayPipeBacking :: "'a senv \<Rightarrow> u64 \<Rightarrow> ('a gstate_scheme, unit) state" where
  "ensureDisplayPipeBacking E that = whenM (that \<noteq> 0) (do {
     dm0 \<leftarrow> gets (\<lambda>s. rd64 (kmem s) (that + 0x378));
     displayMachine \<leftarrow> (if dm0 = 0 then rescueDisplayMachine E that else ret dm0);
     whenM (displayMachine \<noteq> 0) (bringUpDisplayMachine E displayMachine)
   })"

section \<open>Choice of the scheduler\<close>

definition readDeviceIdFromService :: "'a senv \<Rightarrow> ('a gstate_scheme, u16) state" where
  "readDeviceIdFromService E = gets (\<lambda>s.
     case getOSDataValue E (props (ioregs s) (accel_entry E)) ''device-id'' of
       Some did \<Rightarrow> ucast (did AND 0xFFFF)
     | None \<Rightarrow> (case prov_entry E of
         None \<Rightarrow> 0
       | Some e \<Rightarrow> (case getOSDataValue E (props (ioregs s) e) ''device-id'' of
           Some did \<Rightarrow> ucast (did AND 0xFFFF)
         | None \<Rightarrow> 0)))"

definition bootSched :: "boot \<Rightarrow> int option" where
  "bootSched b = (case boot_int b ''ngreenSched'' of
     Some v \<Rightarrow> if v \<ge> 3 \<and> v \<le> 5 then Some v else None | None \<Rightarrow> None)"

definition plistSched :: "osdict option \<Rightarrow> int option" where
  "plistSched d = (case d of None \<Rightarrow> None | Some ps \<Rightarrow> (case getObject ps ''SchedulerType'' of
     Some (ONumber n) \<Rightarrow> Some (sint (ucast n :: u32)) | _ \<Rightarrow> None))"

definition chooseScheduler :: "boot \<Rightarrow> bool \<Rightarrow> bool \<Rightarrow> osdict option \<Rightarrow> int" where
  "chooseScheduler b realTGL safe plist =
     (let schedType = (if realTGL then 3 else 5)
      in case bootSched b of
           Some v \<Rightarrow> if safe \<and> v \<noteq> 5 then 5 else v
         | None \<Rightarrow> (case plistSched plist of
             Some val \<Rightarrow> if safe \<and> val \<noteq> 5 then 5 else if val \<ge> 3 \<and> val \<le> 5 then val else schedType
           | None \<Rightarrow> schedType))"

definition publishScheduler :: "boot \<Rightarrow> 'a senv \<Rightarrow> ('a gstate_scheme, int) state" where
  "publishScheduler b E = do {
     s \<leftarrow> State_Monad.get;
     let safe = shouldUseSpoofedSafeSchedulerPolicy s;
     let schedType = chooseScheduler b (isRealTGL s) safe (map_option (props (ioregs s)) (param_entry E));
     setProp (accel_entry E) ''GraphicsSchedulerSelect'' (ONumber (of_int schedType));
     setProp (accel_entry E) ''NGreenSchedulerPolicySafe'' (OBool safe);
     setProp (accel_entry E) ''NGreenExternalGateActive'' (OBool (gateExternalDisplays s));
     dev \<leftarrow> gets (\<lambda>s. getObject (props (ioregs s) (accel_entry E)) ''Development'');
     (case dev of
        Some (ODict d) \<Rightarrow> setProp (accel_entry E) ''Development''
          (ODict (setObject ''SchedulerFallbackOnFirmwareFail'' (ONumber 1)
             (setObject ''GraphicsSchedulerSelect'' (ONumber (of_int schedType)) d)))
      | _ \<Rightarrow> ret ());
     ret schedType
   }"

definition recordScheduler :: "boot \<Rightarrow> 'a senv \<Rightarrow> int \<Rightarrow> ('a gstate_scheme, unit) state" where
  "recordScheduler b E schedType = whenM (isTglTraceEnabled b) (do {
     dev \<leftarrow> readDeviceIdFromService E;
     modify (\<lambda>s. s\<lparr>gTglGpuBringupState := (gTglGpuBringupState s)
       \<lparr>schedulerType := schedType, isTgl9A49 := (dev = 0x9A49), gucRequested := (schedType = 3)\<rparr>\<rparr>);
     dumpTglGpuBringupState b (Some ''IntelAccelerator::start PRE'')
   })"

definition injectMultiForceWake :: "'a senv \<Rightarrow> ('a gstate_scheme, unit) state" where
  "injectMultiForceWake E = do {
     realTGL \<leftarrow> gets isRealTGL;
     whenM (\<not> realTGL) (do {
       dev \<leftarrow> gets (\<lambda>s. getObject (props (ioregs s) (accel_entry E)) ''Development'');
       (case dev of
          Some (ODict d) \<Rightarrow> setProp (accel_entry E) ''Development'' (ODict (setObject ''MultiForceWakeSelect'' (ONumber 1) d))
        | _ \<Rightarrow> setProp (accel_entry E) ''Development'' (ODict (setObject ''MultiForceWakeSelect'' (ONumber 1) [])))
     })
   }"

section \<open>Before Apple's start\<close>

definition fw_get :: u32 where "fw_get = push_bit 16 1 OR 1"
definition fw_put :: u32 where "fw_put = push_bit 16 1 OR 0"

primrec preStartAckWait :: "nat \<Rightarrow> nat \<Rightarrow> ('a mmio_scheme, unit option) state" where
  "preStartAckWait 0 fwDeadline = ret None"
| "preStartAckWait (Suc fuel) fwDeadline = do {
     fwNow \<leftarrow> clock_get_uptime;
     if fwNow < fwDeadline then do {
       fwAck \<leftarrow> readReg32 FORCEWAKE_ACK_RENDER_GEN9;
       if fwAck AND 1 \<noteq> 0 then ret (Some ()) else preStartAckWait fuel fwDeadline
     } else ret (Some ())
   }"

definition preStartForceWake :: "nat \<Rightarrow> nat \<Rightarrow> ('a mmio_scheme, unit option) state" where
  "preStartForceWake ticks fuel = do {
     writeReg32 FORCEWAKE_RENDER_GEN9 fw_get;
     IODelay 1000;
     now \<leftarrow> clock_get_uptime;
     preStartAckWait fuel (now + 50 * ticks)
   }"

definition preStartDump :: "('a mmio_scheme, unit) state" where
  "preStartDump = do {
     forM [0..<4] (\<lambda>i. readRegs [GGTT_PTE_HI (of_nat i), GGTT_PTE_LO (of_nat i)]);
     forM [0x100..<0x104] (\<lambda>i. readRegs [GGTT_PTE_HI (of_nat i), GGTT_PTE_LO (of_nat i)]);
     readRegs [RING_CTX_SIZE RENDER_RING_BASE, RING_CCID RENDER_RING_BASE, RING_CTX_CTRL RENDER_RING_BASE];
     readRegs [RING_MI_MODE RENDER_RING_BASE, RING_MODE RENDER_RING_BASE]
   }"

text \<open>A register whose set bits are cleared by writing them back.\<close>

definition writeBack :: "u64 \<Rightarrow> u32 \<Rightarrow> ('a mmio_scheme, unit) state" where
  "writeBack reg v = whenM (v \<noteq> 0) (writeReg32 reg v)"

definition v55PreStartErrors :: "('a mmio_scheme, unit) state" where
  "v55PreStartErrors = do {
     errPreStart \<leftarrow> readReg32 ERROR_GEN6;
     whenM (errPreStart \<noteq> 0) (do {
       writeReg32 ERROR_GEN6 errPreStart;
       IODelay 100;
       rcsEir \<leftarrow> readReg32 (RING_EIR RENDER_RING_BASE);
       bcsEir \<leftarrow> readReg32 (RING_EIR BLT_RING_BASE);
       writeBack (RING_EIR RENDER_RING_BASE) rcsEir;
       writeBack (RING_EIR BLT_RING_BASE) bcsEir;
       readRegs [ERROR_GEN6]
     })
   }"

definition startWorkarounds :: "('a mmio_scheme, unit) state" where
  "startWorkarounds = do {
     misccpctl \<leftarrow> readReg32 GEN7_MISCCPCTL;
     writeReg32 GEN7_MISCCPCTL (misccpctl AND NOT GEN12_DOP_CLOCK_GATE_RENDER_ENABLE);
     wa_write_or (VDBOX_CGCTL3F10 RENDER_RING_BASE) IECPUNIT_CLKGATE_DIS;
     wa_write_or (VDBOX_CGCTL3F10 BLT_RING_BASE) IECPUNIT_CLKGATE_DIS;
     wa_write_or (VDBOX_CGCTL3F10 GEN11_VEBOX_RING_BASE) IECPUNIT_CLKGATE_DIS;
     wa_mcr_write_or GEN10_DFR_RATIO_EN_AND_CHICKEN DFR_DISABLE;
     wa_masked_en GEN11_COMMON_SLICE_CHICKEN3 GEN12_DISABLE_CPS_AWARE_COLOR_PIPE;
     wa_masked_field_set GEN8_CS_CHICKEN1 GEN9_PREEMPT_GPGPU_LEVEL_MASK GEN9_PREEMPT_GPGPU_THREAD_GROUP_LEVEL;
     wa_write_clr_set GEN8_MCR_SELECTOR (GEN8_MCR_SLICE 3 OR GEN8_MCR_SUBSLICE 3)
       (GEN8_MCR_SLICE 0 OR GEN8_MCR_SUBSLICE 0);
     wa_masked_en GEN7_FF_SLICE_CS_CHICKEN1 GEN9_FFSC_PERCTX_PREEMPT_CTRL
   }"

definition v65Route :: "('a mmio_scheme, unit) state" where
  "v65Route = do {
     rcIntr \<leftarrow> readReg32 GEN11_RENDER_COPY_INTR_ENABLE;
     writeReg32 GEN11_RENDER_COPY_INTR_ENABLE (rcIntr OR wantBits);
     rcsMask \<leftarrow> readReg32 GEN11_RCS0_RSVD_INTR_MASK;
     let wantUnmasked = GT_CONTEXT_SWITCH_INTERRUPT OR GT_RENDER_USER_INTERRUPT;
     writeReg32 GEN11_RCS0_RSVD_INTR_MASK (rcsMask AND NOT wantUnmasked)
   }"

definition v65ErrorAndVerify :: "('a mmio_scheme, unit) state" where
  "v65ErrorAndVerify = do {
     err \<leftarrow> readReg32 ERROR_GEN6;
     whenM (err \<noteq> 0) (writeReg32 ERROR_GEN6 0);
     readRegs [GEN11_RENDER_COPY_INTR_ENABLE, GEN11_RCS0_RSVD_INTR_MASK]
   }"

definition v54PreEnable :: "('a mmio_scheme, unit) state" where
  "v54PreEnable = do {
     writeReg32 GEN11_GFX_MSTR_IRQ GEN11_MASTER_IRQ;
     IODelay 100;
     readRegs [GEN11_GFX_MSTR_IRQ];
     v65Route;
     v65ErrorAndVerify
   }"

section \<open>After Apple's start\<close>

definition v65PostStart :: "('a mmio_scheme, unit) state" where
  "v65PostStart = do {
     v65Route;
     writeReg32 GEN11_GFX_MSTR_IRQ GEN11_MASTER_IRQ;
     v65ErrorAndVerify
   }"

definition ringState :: "u64 \<Rightarrow> u64 list" where
  "ringState base = [RING_ACTHD_UDW base, RING_ACTHD base, RING_IPEHR base, RING_IPEIR base]"

definition ptePair :: "u32 \<Rightarrow> u64 list" where
  "ptePair pg = [GGTT_PTE_HI pg, GGTT_PTE_LO pg]"

definition postStartRcs :: "('a mmio_scheme, unit) state" where
  "postStartRcs = do {
     readRegs [RING_HEAD RENDER_RING_BASE, RING_TAIL RENDER_RING_BASE, RING_CTL RENDER_RING_BASE];
     rcsStart \<leftarrow> readReg32 (RING_START RENDER_RING_BASE);
     rcsHws \<leftarrow> readReg32 (RING_HWS_PGA RENDER_RING_BASE);
     readRegs (RING_HWSTAM RENDER_RING_BASE # ringState RENDER_RING_BASE);
     readRegs [RING_INSTDONE RENDER_RING_BASE, RING_INSTPM RENDER_RING_BASE, RING_DMA_FADD_UDW RENDER_RING_BASE,
       RING_DMA_FADD RENDER_RING_BASE, RING_EXECLIST_STATUS RENDER_RING_BASE, RING_CONTEXT_STATUS_PTR RENDER_RING_BASE];
     readRegs [RING_EIR RENDER_RING_BASE, RING_ESR RENDER_RING_BASE, RING_EMR RENDER_RING_BASE, RING_FAULT_REG RENDER_RING_BASE];
     readRegs [ERROR_GEN6, GEN12_RING_FAULT_REG, GEN8_FAULT_TLB_DATA0, GEN8_FAULT_TLB_DATA1, GEN11_GT_INTR_DW0, GEN11_GT_INTR_DW1];
     readRegs [RING_CTX_SIZE RENDER_RING_BASE, RING_CCID RENDER_RING_BASE, RING_CTX_CTRL RENDER_RING_BASE,
       RING_MI_MODE RENDER_RING_BASE, RING_MODE RENDER_RING_BASE];
     whenM (rcsHws \<noteq> 0) (readRegs (ptePair (drop_bit 12 rcsHws) @ ptePair (drop_bit 12 rcsHws + 1)));
     whenM (rcsStart \<noteq> 0) (readRegs (ptePair (drop_bit 12 rcsStart)));
     readRegs [RING_CONTEXT_STATUS_PTR RENDER_RING_BASE];
     forM [0..<6] (\<lambda>i. readRegs [RING_CONTEXT_STATUS_BUF_HI RENDER_RING_BASE i, RING_CONTEXT_STATUS_BUF RENDER_RING_BASE i])
   }"

definition postStartBcs :: "('a mmio_scheme, unit) state" where
  "postStartBcs = do {
     readRegs [FORCEWAKE_ACK_RENDER_GEN9, FORCEWAKE_ACK_BLITTER_GEN9];
     readRegs [RING_HEAD BLT_RING_BASE, RING_TAIL BLT_RING_BASE, RING_CTL BLT_RING_BASE, RING_START BLT_RING_BASE,
       RING_HWS_PGA BLT_RING_BASE, RING_MI_MODE BLT_RING_BASE];
     readRegs (ringState BLT_RING_BASE);
     readRegs [RING_INSTDONE BLT_RING_BASE, RING_EIR BLT_RING_BASE, RING_ESR BLT_RING_BASE, RING_EMR BLT_RING_BASE,
       RING_EXECLIST_STATUS BLT_RING_BASE, RING_CONTEXT_STATUS_PTR BLT_RING_BASE];
     readRegs [GEN11_GFX_MSTR_IRQ, GEN11_DISPLAY_INT_CTL, GEN11_RENDER_COPY_INTR_ENABLE, GEN11_VCS_VECS_INTR_ENABLE,
       GEN11_RCS0_RSVD_INTR_MASK, GEN11_BCS_RSVD_INTR_MASK];
     gt0 \<leftarrow> readReg32 0x190018;
     writeBack 0x190018 gt0
   }"

definition metal_props :: "bool \<Rightarrow> (string \<times> osobj) list" where
  "metal_props useTglNames =
    [(''MetalPluginName'', OString (if useTglNames then ''AppleIntelTGLGraphicsMTLDriver'' else ''AppleIntelICLGraphicsMTLDriver'')),
     (''IOGLBundleName'', OString (if useTglNames then ''AppleIntelTGLGraphicsGLDriver'' else ''AppleIntelICLGraphicsGLDriver'')),
     (''IODVDBundleName'', OString (if useTglNames then ''AppleIntelTGLGraphicsVADriver'' else ''AppleIntelICLGraphicsVADriver'')),
     (''IOGVACodec'', OString ''Gen10''), (''IOGVAScaler'', OString ''Gen10''), (''IOGVABGRAEnc'', OString ''Gen10''),
     (''IOSourceVersion'', OString ''0.0.0.0.0''), (''IOVARendererID'', ONumber 17301568)]"

definition v45MetalProperties :: "boot \<Rightarrow> 'a senv \<Rightarrow> ('a gstate_scheme, unit) state" where
  "v45MetalProperties b E = do {
     hasMetal \<leftarrow> gets (\<lambda>s. hasKey (props (ioregs s) (accel_entry E)) ''MetalPluginName'');
     whenM (\<not> hasMetal) (do {
       useTglNames \<leftarrow> gets tglHWLoaded;
       forM (metal_props useTglNames) (\<lambda>(k, v). setProp (accel_entry E) k v);
       applyDisplayPipePolicy b (Some (accel_entry E));
       setProp (accel_entry E) ''IOCFPlugInTypes''
         (ODict (setObject ''ACCF0000-0000-0000-0000-000a2789904e'' (OString ''IOAccelerator2D.plugin'') []))
     });
     applyDisplayPipePolicy b (Some (accel_entry E))
   }"

definition displayPipeMmio :: "('a mmio_scheme, unit) state" where
  "displayPipeMmio = readRegs [RING_HEAD RENDER_RING_BASE, RING_TAIL RENDER_RING_BASE, RING_CTL RENDER_RING_BASE, ERROR_GEN6,
     FORCEWAKE_RENDER_GEN9, FORCEWAKE_ACK_RENDER_GEN9, FORCEWAKE_BLITTER_GEN9, FORCEWAKE_ACK_BLITTER_GEN9]"

definition child_check_delays :: "nat list" where
  "child_check_delays = [3000, 10000, 15000, 20000, 30000, 60000, 120000]"

definition armStartTimers :: "boot \<Rightarrow> ('a istate_scheme, unit) state" where
  "armStartTimers b = do {
     forM child_check_delays v45ScheduleDelayedCheck;
     enterDelayed EmrEnforcer 50;
     whenM (isExperimentalMonitorEnabled b) (enterDelayed HealthMonitor 2000)
   }"

section \<open>Clearing errors\<close>

primrec v51ClearLoop :: "nat \<Rightarrow> u32 \<Rightarrow> ('a mmio_scheme, unit) state" where
  "v51ClearLoop 0 err = ret ()"
| "v51ClearLoop (Suc k) err = do {
     writeReg32 ERROR_GEN6 err;
     IODelay 200;
     err' \<leftarrow> readReg32 ERROR_GEN6;
     if err' = 0 then ret () else v51ClearLoop k err'
   }"

definition v51ClearErrors :: "('a mmio_scheme, unit) state" where
  "v51ClearErrors = do {
     errPre \<leftarrow> readReg32 ERROR_GEN6;
     whenM (errPre \<noteq> 0) (v51ClearLoop 3 errPre);
     rcsEir \<leftarrow> readReg32 (RING_EIR RENDER_RING_BASE);
     bcsEir \<leftarrow> readReg32 (RING_EIR BLT_RING_BASE);
     rcsEsr \<leftarrow> readReg32 (RING_ESR RENDER_RING_BASE);
     bcsEsr \<leftarrow> readReg32 (RING_ESR BLT_RING_BASE);
     writeBack (RING_EIR RENDER_RING_BASE) rcsEir;
     writeBack (RING_EIR BLT_RING_BASE) bcsEir;
     writeBack (RING_ESR RENDER_RING_BASE) rcsEsr;
     writeBack (RING_ESR BLT_RING_BASE) bcsEsr;
     ringFault \<leftarrow> readReg32 GEN12_RING_FAULT_REG;
     whenM (ringFault \<noteq> 0) (writeReg32 GEN12_RING_FAULT_REG 0);
     tlb0 \<leftarrow> readReg32 GEN8_FAULT_TLB_DATA0;
     tlb1 \<leftarrow> readReg32 GEN8_FAULT_TLB_DATA1;
     whenM (tlb0 \<noteq> 0 \<or> tlb1 \<noteq> 0) (do {
       writeReg32 GEN8_FAULT_TLB_DATA0 0;
       writeReg32 GEN8_FAULT_TLB_DATA1 0
     });
     gtIntr0 \<leftarrow> readReg32 GEN11_GT_INTR_DW0;
     gtIntr1 \<leftarrow> readReg32 GEN11_GT_INTR_DW1;
     writeBack GEN11_GT_INTR_DW0 gtIntr0;
     writeBack GEN11_GT_INTR_DW1 gtIntr1
   }"

definition v51BcsStop :: "('a mmio_scheme, unit) state" where
  "v51BcsStop = do {
     bcsCtlNow \<leftarrow> readReg32 (RING_CTL BLT_RING_BASE);
     whenM (bcsCtlNow = 0) (do {
       writeReg32 (RING_MI_MODE BLT_RING_BASE) (STOP_RING OR push_bit 16 STOP_RING);
       IODelay 500;
       writeReg32 (RING_MI_MODE BLT_RING_BASE) (push_bit 16 STOP_RING);
       IODelay 100;
       writeReg32 (RING_HEAD BLT_RING_BASE) 0;
       writeReg32 (RING_TAIL BLT_RING_BASE) 0;
       readRegs [RING_CTL BLT_RING_BASE, RING_EXECLIST_STATUS BLT_RING_BASE]
     })
   }"

primrec v55ClearLoop :: "nat \<Rightarrow> u32 \<Rightarrow> ('a mmio_scheme, unit) state" where
  "v55ClearLoop 0 errLoop = ret ()"
| "v55ClearLoop (Suc k) errLoop = whenM (errLoop \<noteq> 0) (do {
     writeReg32 ERROR_GEN6 errLoop;
     IODelay 200;
     err' \<leftarrow> readReg32 ERROR_GEN6;
     v55ClearLoop k err'
   })"

definition v55TlbFlush :: "('a mmio_scheme, unit) state" where
  "v55TlbFlush = do {
     writeReg32 0xcee8 1;
     IODelay 500;
     writeReg32 0xcee8 4;
     IODelay 500;
     errLoop \<leftarrow> readReg32 ERROR_GEN6;
     v55ClearLoop 5 errLoop;
     readRegs [0xceec]
   }"

definition v57ClearError :: "('a mmio_scheme, unit) state" where
  "v57ClearError = do {
     preErr57 \<leftarrow> readReg32 ERROR_GEN6;
     readRegs [RING_EMR RENDER_RING_BASE, RING_EIR RENDER_RING_BASE, RING_ESR RENDER_RING_BASE];
     writeReg32 ERROR_GEN6 0;
     IODelay 100;
     afterZero \<leftarrow> readReg32 ERROR_GEN6;
     whenM (afterZero = preErr57 \<and> preErr57 \<noteq> 0) (do {
       writeReg32 ERROR_GEN6 preErr57;
       IODelay 100;
       readRegs [ERROR_GEN6]
     })
   }"

definition v57ClearEir :: "('a mmio_scheme, unit) state" where
  "v57ClearEir = do {
     IODelay 100;
     readRegs [RING_EMR RENDER_RING_BASE, RING_EMR BLT_RING_BASE];
     rcsEir \<leftarrow> readReg32 (RING_EIR RENDER_RING_BASE);
     whenM (rcsEir \<noteq> 0) (do {
       writeReg32 (RING_EIR RENDER_RING_BASE) rcsEir;
       IODelay 50;
       readRegs [RING_EIR RENDER_RING_BASE]
     });
     readRegs [RING_HEAD RENDER_RING_BASE, RING_TAIL RENDER_RING_BASE, RING_CTL RENDER_RING_BASE,
       RING_IPEIR RENDER_RING_BASE, RING_IPEHR RENDER_RING_BASE, RING_INSTDONE RENDER_RING_BASE, ERROR_GEN6]
   }"

definition v57MaskErrors :: "('a mmio_scheme, unit) state" where
  "v57MaskErrors = do {
     v57ClearError;
     writeReg32 (RING_EMR RENDER_RING_BASE) 0xFFFFFFFF;
     writeReg32 (RING_EMR BLT_RING_BASE) 0xFFFFFFFF;
     v57ClearEir
   }"

section \<open>The start\<close>

definition beforeStart :: "boot \<Rightarrow> 'a senv \<Rightarrow> nat \<Rightarrow> u64 \<Rightarrow> ('a gstate_scheme, unit option) state" where
  "beforeStart b E fuel that = do {
     schedType \<leftarrow> publishScheduler b E;
     recordScheduler b E schedType;
     injectMultiForceWake E;
     bindO (preStartForceWake (startTicksPerMs E) fuel) (\<lambda>_. do {
       preStartDump;
       v55PreStartErrors;
       startWorkarounds;
       writeReg32 FORCEWAKE_RENDER_GEN9 fw_put;
       modify (\<lambda>s. s\<lparr>accelInstance := that\<rparr>);
       v54PreEnable;
       enterDelayed IrqWatchdog 2000;
       ret (Some ())
     })
   }"

definition clearAfterStart :: "('a ngreen_scheme, unit) state" where
  "clearAfterStart = do {
     v54MasterIrq;
     readRegs [RENDER_RING_BASE + 0x358, BLT_RING_BASE + 0x358];
     v51ClearErrors;
     realTGL \<leftarrow> gets isRealTGL;
     whenM (\<not> realTGL) v51BcsStop;
     whenM (\<not> realTGL) (do { v55TlbFlush; v57MaskErrors })
   }"

definition repairAfterStart :: "('a ngreen_scheme, unit) state" where
  "repairAfterStart = do {
     clearAfterStart;
     writeReg32 FORCEWAKE_RENDER_GEN9 fw_put;
     writeReg32 FORCEWAKE_BLITTER_GEN9 fw_put
   }"

definition afterStart :: "boot \<Rightarrow> 'a senv \<Rightarrow> u64 \<Rightarrow> ('a gstate_scheme, unit) state" where
  "afterStart b E that = do {
     ensureDisplayPipeBacking E that;
     dumpTglGpuBringupState b (Some ''IntelAccelerator::start POST'');
     v65PostStart;
     writeReg32 FORCEWAKE_RENDER_GEN9 fw_get;
     writeReg32 FORCEWAKE_BLITTER_GEN9 fw_get;
     IODelay 1000;
     postStartRcs;
     postStartBcs;
     v45MetalProperties b E;
     displayPipeMmio;
     request (RegisterService that);
     displayPipeMmio;
     armStartTimers b;
     repairAfterStart
   }"

definition start :: "boot \<Rightarrow> 'a senv \<Rightarrow> nat \<Rightarrow> u64 \<Rightarrow> ('a gstate_scheme, bool option) state" where
  "start b E fuel that = bindO (beforeStart b E fuel that) (\<lambda>_. do {
     r \<leftarrow> ostart E;
     afterStart b E that;
     ret (Some r)
   })"

section \<open>Probe and frequency\<close>

text \<open>
  \<open>pci\<close> is the configuration space of the provider when it is a PCI device, given as the answers
  to 32-bit and 8-bit reads. The result is the service that drives the device, \<open>None\<close> for none.
\<close>

definition accel_probe ::
  "u64 \<Rightarrow> ((u64 \<Rightarrow> u32) \<times> (u64 \<Rightarrow> u8)) option \<Rightarrow> ('a kstate_scheme, u64 option \<times> int option) state \<Rightarrow> bool \<Rightarrow>
   ('a kstate_scheme, u64 option \<times> int option) state" where
  "accel_probe that pci orig score = (case pci of
     None \<Rightarrow> orig
   | Some (config32, config8) \<Rightarrow>
       let idPair = config32 0;
           vendor = ucast (idPair AND 0xFFFF) :: u16;
           device = ucast (drop_bit 16 idPair) :: u16
       in if vendor = 0x8086 \<and> device = 0x9A49 then do {
            modify (\<lambda>s. s\<lparr>kmem := wr32 (that + 4384) 2 (wr32 (that + 4376) idPair
              (wr32 (that + 4372) (ucast (config8 0x1F)) (wr32 (that + 4368) (ucast (config8 8)) (kmem s))))\<rparr>);
            ret (Some that, if score then Some 1000 else None)
          } else orig)"

definition GEN6_RP_STATE_CAP :: u32 where [simp]: "GEN6_RP_STATE_CAP = 0x140000 + 0x5998"
definition GEN9_FREQUENCY_SHIFT :: nat where [simp]: "GEN9_FREQUENCY_SHIFT = 23"
definition GEN9_FREQ_SCALER :: u32 where [simp]: "GEN9_FREQ_SCALER = 3"

definition wrapPmNotifyWrapper ::
  "(u64 \<Rightarrow> u32 \<Rightarrow> ('a gstate_scheme, u32) state) \<Rightarrow> ('a gstate_scheme, unit) state \<Rightarrow> ('a gstate_scheme, u32) state" where
  "wrapPmNotifyWrapper oread orig = do {
     orig;
     f0 \<leftarrow> gets freq_max;
     whenM (f0 = 0) (do {
       fc \<leftarrow> gets framecont;
       v \<leftarrow> wrapReadRegister32 oread fc GEN6_RP_STATE_CAP;
       modify (\<lambda>s. s\<lparr>freq_max := v AND 0xFF\<rparr>)
     });
     f \<leftarrow> gets freq_max;
     ret (push_bit GEN9_FREQUENCY_SHIFT GEN9_FREQ_SCALER * f)
   }"

section \<open>Lemmas: what the parts keep\<close>

text \<open>The registers stay reachable and no pending timer is lost.\<close>

definition carries :: "'a istate_scheme \<Rightarrow> 'a istate_scheme \<Rightarrow> bool" where
  "carries s t \<longleftrightarrow> (big_bar s \<longrightarrow> big_bar t) \<and> set (timers s) \<subseteq> set (timers t)"

interpretation cr: step_order carries
  by unfold_locales (auto simp: carries_def)

lemma cr_bus: "state_io_rel bus_only m \<Longrightarrow> state_io_rel carries m"
  unfolding state_io_rel_exec
proof (rule allI)
  fix s :: "'a istate_scheme"
  assume "\<forall>s. bus_only s (exec m s)"
  then obtain h where "exec m s = s\<lparr>hist := h\<rparr>" by (auto simp: bus_only_def)
  then show "carries s (exec m s)" by (simp add: carries_def)
qed

lemma cr_modify:
  assumes "\<And>s. timers (f s) = timers s \<and> same_bus s (f s)"
  shows "state_io_rel carries (modify f)"
  by (rule cr.io_modify) (use assms in \<open>auto simp: carries_def same_bus_def big_bar_def mmioValid_def\<close>)

lemma cr_enterDelayed: "state_io_rel carries (enterDelayed t ms)"
  unfolding enterDelayed_def by (rule cr.io_modify) (auto simp: carries_def big_bar_def mmioValid_def)

lemma cr_setProp: "state_io_rel carries (setProp e k v)"
  unfolding state_io_rel_exec carries_def by (simp add: big_bar_def mmioValid_def)

lemma cr_dump: "state_io_rel carries (dumpTglGpuBringupState b stage)"
  unfolding state_io_rel_exec
proof (rule allI)
  fix s :: "'a istate_scheme"
  obtain h g r where "exec (dumpTglGpuBringupState b stage) s = s\<lparr>hist := h, gTglGpuBringupState := g, gRcsTransitionState := r\<rparr>"
    by (rule traced_exec [OF tr_dumpTglGpuBringupState])
  then show "carries s (exec (dumpTglGpuBringupState b stage) s)"
    by (simp add: carries_def big_bar_def mmioValid_def)
qed

lemma bo_preStartAckWait: "state_io_rel bus_only (preStartAckWait fuel d)"
  by (induction fuel) (simp_all add: bo.io_ret, intro bo_rules)

lemma bo_v51ClearLoop: "state_io_rel bus_only (v51ClearLoop k err)"
  by (induction k arbitrary: err) (simp_all add: bo.io_ret, intro bo_rules)

lemma bo_v55ClearLoop: "state_io_rel bus_only (v55ClearLoop k err)"
  by (induction k arbitrary: err) (simp_all add: bo.io_ret, intro bo_rules)

lemma bo_writeBack: "state_io_rel bus_only (writeBack r v)"
  unfolding writeBack_def by (intro bo_rules)

lemma bo_v54MasterIrq: "state_io_rel bus_only v54MasterIrq"
  unfolding v54MasterIrq_def by (intro bo_rules bo_readRegs)

lemma bo_v65: "state_io_rel bus_only v65Route" "state_io_rel bus_only v65ErrorAndVerify"
  unfolding v65Route_def v65ErrorAndVerify_def Let_def by (intro bo_rules bo_readRegs)+

lemma bo_start_blocks:
  "state_io_rel bus_only (preStartForceWake ticks fuel)"
  "state_io_rel bus_only preStartDump"
  "state_io_rel bus_only v55PreStartErrors"
  "state_io_rel bus_only startWorkarounds"
  "state_io_rel bus_only v54PreEnable"
  "state_io_rel bus_only v65PostStart"
  "state_io_rel bus_only postStartRcs"
  "state_io_rel bus_only postStartBcs"
  "state_io_rel bus_only displayPipeMmio"
  "state_io_rel bus_only v51ClearErrors"
  "state_io_rel bus_only v51BcsStop"
  "state_io_rel bus_only v55TlbFlush"
  "state_io_rel bus_only v57MaskErrors"
  unfolding preStartForceWake_def preStartDump_def v55PreStartErrors_def startWorkarounds_def v54PreEnable_def
    v65PostStart_def postStartRcs_def postStartBcs_def displayPipeMmio_def v51ClearErrors_def v51BcsStop_def
    v55TlbFlush_def v57MaskErrors_def v57ClearError_def v57ClearEir_def wa_write_or_def wa_mcr_write_or_def wa_mcr_write_clr_set_def wa_mcr_add_def
    wa_masked_en_def wa_masked_field_set_def wa_write_clr_set_def Let_def
  by (intro bo_rules bo_readRegs bo_writeBack bo_preStartAckWait bo_v51ClearLoop bo_v55ClearLoop bo_v65)+

lemma bo_repairAfterStart:
  "state_io_rel bus_only clearAfterStart" "state_io_rel bus_only repairAfterStart"
  unfolding repairAfterStart_def clearAfterStart_def by (intro bo_rules bo_readRegs bo_v54MasterIrq bo_start_blocks)+

lemma em_v57ClearEir: "state_io_rel (emits (stores_in {dw (RING_EIR RENDER_RING_BASE)})) v57ClearEir"
  unfolding v57ClearEir_def
  by (intro em.io_rules em_stores_read em_delay em_writeReg32_any transparent_stores_in)
     (simp_all add: stores_in_def looksLikePlaneSurf_def)

lemma v57_masks:
  assumes "big_bar s"
  shows "last_store (hist (exec v57MaskErrors s)) (dw (RING_EMR RENDER_RING_BASE)) = Some 0xFFFFFFFF
    \<and> last_store (hist (exec v57MaskErrors s)) (dw (RING_EMR BLT_RING_BASE)) = Some 0xFFFFFFFF"
proof -
  have "state_io_rel bus_only (v57ClearError :: ('a mmio_scheme, unit) state)"
    unfolding v57ClearError_def by (intro bo_rules bo_readRegs)
  then obtain h where h: "exec v57ClearError s = s\<lparr>hist := h\<rparr>"
    using bus_only_exec by blast
  define u where "u = s\<lparr>hist := St (dw (RING_EMR BLT_RING_BASE)) 0xFFFFFFFF # St (dw (RING_EMR RENDER_RING_BASE)) 0xFFFFFFFF # h\<rparr>"
  have d: "direct s 0x20b4" "direct s 0x220b4"
    by (rule big_bar_direct [OF assms], simp)+
  have e: "exec v57MaskErrors s = exec v57ClearEir u"
    using d by (simp add: v57MaskErrors_def h u_def writeReg32_direct looksLikePlaneSurf_def)
  have fr: "last_store (hist (exec v57ClearEir u)) i = last_store (hist u) i"
    if "i \<noteq> dw (RING_EIR RENDER_RING_BASE)" "i \<noteq> mmPCIE_INDEX2" "i \<noteq> mmPCIE_DATA2" for i
    using em_v57ClearEir [unfolded state_io_rel_exec, rule_format, of u] that by (intro last_store_frame) auto
  show ?thesis unfolding e by (subst (1 2) fr) (simp_all add: u_def reg_defs)
qed

lemma repair_exec:
  assumes "big_bar s"
  obtains h where "exec repairAfterStart s = s\<lparr>hist := St (dw FORCEWAKE_BLITTER_GEN9) fw_put # St (dw FORCEWAKE_RENDER_GEN9) fw_put # h\<rparr>"
    and "\<not> isRealTGL s \<Longrightarrow> last_store h (dw (RING_EMR RENDER_RING_BASE)) = Some 0xFFFFFFFF
       \<and> last_store h (dw (RING_EMR BLT_RING_BASE)) = Some 0xFFFFFFFF"
proof -
  obtain h where h: "exec clearAfterStart s = s\<lparr>hist := h\<rparr>"
    using bus_only_exec [OF bo_repairAfterStart(1)] by blast
  have d: "direct s FORCEWAKE_RENDER_GEN9" "direct s FORCEWAKE_BLITTER_GEN9"
    by (rule big_bar_direct [OF assms], simp)+
  have e: "exec repairAfterStart s = s\<lparr>hist := St (dw FORCEWAKE_BLITTER_GEN9) fw_put # St (dw FORCEWAKE_RENDER_GEN9) fw_put # h\<rparr>"
    using d by (simp add: repairAfterStart_def h writeReg32_direct looksLikePlaneSurf_def)
  have "last_store h (dw (RING_EMR RENDER_RING_BASE)) = Some 0xFFFFFFFF
       \<and> last_store h (dw (RING_EMR BLT_RING_BASE)) = Some 0xFFFFFFFF" if real: "\<not> isRealTGL s"
  proof -
    define u where "u = exec (do { v54MasterIrq; readRegs [RENDER_RING_BASE + 0x358, BLT_RING_BASE + 0x358]; v51ClearErrors }) s"
    define w where "w = exec (do { v51BcsStop; v55TlbFlush }) u"
    have "\<exists>h. u = s\<lparr>hist := h\<rparr>"
      unfolding u_def by (rule bus_only_exec) (intro bo_rules bo_readRegs bo_v54MasterIrq bo_start_blocks)
    then have u: "\<not> isRealTGL u" "big_bar u" using real assms by auto
    have "\<exists>h. w = u\<lparr>hist := h\<rparr>"
      unfolding w_def by (rule bus_only_exec) (intro bo_rules bo_start_blocks)
    then have "big_bar w" using u(2) by auto
    moreover have "exec clearAfterStart s = exec v57MaskErrors w"
      using u(1) by (simp add: clearAfterStart_def w_def u_def)
    moreover from this have "h = hist (exec v57MaskErrors w)"
      using arg_cong [OF h, of hist] by simp
    ultimately show ?thesis using v57_masks [of w] by simp
  qed
  then show thesis using that e by blast
qed

section \<open>Lemmas: the routines of Apple's driver\<close>

text \<open>
  What is asked of Apple's routines: they leave the registers mapped and do not cancel the timers
  of the plugin.
\<close>

definition polite :: "'a senv \<Rightarrow> bool" where
  "polite E \<longleftrightarrow> state_io_rel carries (ostart E)
     \<and> (\<forall>f a. oNewDisplayMachine E = Some f \<longrightarrow> state_io_rel carries (f a))
     \<and> (\<forall>f a c. oDisplayMachineInit E = Some f \<longrightarrow> state_io_rel carries (f a c))
     \<and> (\<forall>f a c. oDisplayMachineStart E = Some f \<longrightarrow> state_io_rel carries (f a c))
     \<and> (\<forall>f a. oDisplayMachineProbeDisplayPipes E = Some f \<longrightarrow> state_io_rel carries (f a))"

lemma cr_ensureDisplayPipeBacking:
  assumes "polite E"
  shows "state_io_rel carries (ensureDisplayPipeBacking E that)"
proof -
  have "state_io_rel carries (rescueDisplayMachine E that)"
    unfolding rescueDisplayMachine_def using assms
    by (auto simp: polite_def same_bus_def split: option.split intro!: cr.io_rules cr_modify)
  then show ?thesis
    unfolding ensureDisplayPipeBacking_def bringUpDisplayMachine_def using assms
    by (auto simp: polite_def split: option.split intro!: cr.io_rules cr_setProp)
qed

lemma cr_v45MetalProperties: "state_io_rel carries (v45MetalProperties b E)"
  unfolding v45MetalProperties_def applyDisplayPipePolicy_def
  by (auto intro!: cr.io_rules cr_setProp split: prod.split)

lemma v45_props:
  shows "hasKey (props (ioregs (exec (v45MetalProperties b E) s)) (accel_entry E)) ''MetalPluginName''"
    and "getObject (props (ioregs (exec (v45MetalProperties b E) s)) (accel_entry E)) ''IOAccelDisplayPipeCapabilities''
      = Some (ODict (createDisplayPipeCapabilityDict (\<not> isDisplayPipeForceDisabled b)))"
  by (simp_all add: v45MetalProperties_def applyDisplayPipePolicy_def metal_props_def)

lemma armStartTimers_exec:
  "exec (armStartTimers b) s = s\<lparr>timers := timers s @ map (\<lambda>d. (DelayedChildCheck d, d)) child_check_delays @
     (EmrEnforcer, 50) # (if isExperimentalMonitorEnabled b then [(HealthMonitor, 2000)] else [])\<rparr>"
  by (simp add: armStartTimers_def child_check_delays_def v45ScheduleDelayedCheck_def enterDelayed_def)

text \<open>The state after the start, from the state in which Apple's routine returned.\<close>

lemma afterStart_exec:
  assumes "polite E" and "big_bar s"
  obtains u h where "carries s u"
    and "exec (afterStart b E that) s =
      (let w = exec (v45MetalProperties b E) u in
       w\<lparr>hist := St (dw FORCEWAKE_BLITTER_GEN9) fw_put # St (dw FORCEWAKE_RENDER_GEN9) fw_put # h,
         svc_reqs := RegisterService that # svc_reqs w, timers := timers (exec (armStartTimers b) w)\<rparr>)"
    and "\<not> isRealTGL (exec (v45MetalProperties b E) u) \<Longrightarrow> last_store h (dw (RING_EMR RENDER_RING_BASE)) = Some 0xFFFFFFFF
       \<and> last_store h (dw (RING_EMR BLT_RING_BASE)) = Some 0xFFFFFFFF"
proof -
  define pre where "pre = (do {
     ensureDisplayPipeBacking E that;
     dumpTglGpuBringupState b (Some ''IntelAccelerator::start POST'');
     v65PostStart;
     writeReg32 FORCEWAKE_RENDER_GEN9 fw_get;
     writeReg32 FORCEWAKE_BLITTER_GEN9 fw_get;
     IODelay 1000;
     postStartRcs;
     postStartBcs })"
  define u where "u = exec pre s"
  define w where "w = exec (v45MetalProperties b E) u"
  have "state_io_rel carries pre"
    unfolding pre_def by (intro cr.io_rules cr_ensureDisplayPipeBacking [OF assms(1)] cr_dump cr_bus bo_rules bo_start_blocks)
  then have cu: "carries s u" unfolding u_def state_io_rel_exec by blast
  moreover have "carries u w"
    unfolding w_def by (rule cr_v45MetalProperties [unfolded state_io_rel_exec, rule_format])
  ultimately have bw: "big_bar w" using assms(2) by (simp add: carries_def)
  obtain h1 where h1: "exec displayPipeMmio w = w\<lparr>hist := h1\<rparr>"
    using bus_only_exec [OF bo_start_blocks(9)] by blast
  obtain h2 where "exec displayPipeMmio (w\<lparr>hist := h1, svc_reqs := RegisterService that # svc_reqs w\<rparr>)
      = (w\<lparr>hist := h1, svc_reqs := RegisterService that # svc_reqs w\<rparr>)\<lparr>hist := h2\<rparr>"
    using bus_only_exec [OF bo_start_blocks(9)] by blast
  then have h2: "exec displayPipeMmio (w\<lparr>hist := h1, svc_reqs := RegisterService that # svc_reqs w\<rparr>)
      = w\<lparr>hist := h2, svc_reqs := RegisterService that # svc_reqs w\<rparr>" by simp
  define x where "x = w\<lparr>hist := h2, svc_reqs := RegisterService that # svc_reqs w, timers := timers (exec (armStartTimers b) w)\<rparr>"
  have "big_bar x" using bw by (simp add: x_def big_bar_def mmioValid_def)
  then obtain h where h: "exec repairAfterStart x = x\<lparr>hist := St (dw FORCEWAKE_BLITTER_GEN9) fw_put # St (dw FORCEWAKE_RENDER_GEN9) fw_put # h\<rparr>"
    and m: "\<not> isRealTGL x \<Longrightarrow> last_store h (dw (RING_EMR RENDER_RING_BASE)) = Some 0xFFFFFFFF
       \<and> last_store h (dw (RING_EMR BLT_RING_BASE)) = Some 0xFFFFFFFF"
    by (rule repair_exec) blast
  have "exec (afterStart b E that) s = exec repairAfterStart x"
    using h1 h2 by (simp add: afterStart_def request_def armStartTimers_exec x_def w_def u_def pre_def)
  then show thesis
    using that [OF cu, of h] h m by (simp add: x_def w_def Let_def)
qed

section \<open>Lemmas: the wait before the start ends\<close>

lemma preStartAckWait_returns:
  assumes "clock_runs D K s" and "hist s = new @ h0" and "deadline \<le> dev_clock s h0 + D"
    and "K < fuel + length new" and "0 < fuel"
  shows "result (preStartAckWait fuel deadline) s \<noteq> None"
  using assms
proof (induction fuel arbitrary: s new)
  case 0
  then show ?case by simp
next
  case (Suc fuel)
  let ?now = "dev_clock s (hist s)"
  let ?s1 = "s\<lparr>hist := Clk ?now # hist s\<rparr>"
  show ?case
  proof (cases "?now < deadline")
    case False
    then show ?thesis by simp
  next
    case True
    have "\<not> K \<le> length new"
      using Suc.prems(1-3) True unfolding clock_runs_def by (metis leD le_trans)
    then have fuel: "0 < fuel" using Suc.prems(4) by simp
    obtain n2 where n2: "exec (readReg32 FORCEWAKE_ACK_RENDER_GEN9) ?s1 = ?s1\<lparr>hist := n2 @ hist ?s1\<rparr>"
      by (rule gr_exec [OF gr_reads(1) [OF transparent_quiet], where s = ?s1])
    have "result (preStartAckWait fuel deadline) (?s1\<lparr>hist := n2 @ hist ?s1\<rparr>) \<noteq> None"
      by (rule Suc.IH [where new = "n2 @ Clk ?now # new"]) (use Suc.prems fuel in simp_all)
    then have "result (preStartAckWait fuel deadline) (exec (readReg32 FORCEWAKE_ACK_RENDER_GEN9) ?s1) \<noteq> None"
      unfolding n2 .
    then show ?thesis using True by auto
  qed
qed

lemma preStartForceWake_returns:
  assumes "clock_runs (50 * ticks) K s" and "K \<le> fuel" and "0 < fuel"
  shows "result (preStartForceWake ticks fuel) s = Some ()"
proof -
  have "state_io_rel bus_only (do { writeReg32 FORCEWAKE_RENDER_GEN9 fw_get; IODelay 1000 } :: ('a mmio_scheme, unit) state)"
    by (intro bo_rules)
  then obtain h where h: "exec (do { writeReg32 FORCEWAKE_RENDER_GEN9 fw_get; IODelay 1000 }) s = s\<lparr>hist := h\<rparr>"
    using bus_only_exec by blast
  let ?s1 = "s\<lparr>hist := Clk (dev_clock s h) # h\<rparr>"
  have "result (preStartAckWait fuel (dev_clock s h + 50 * ticks)) ?s1 \<noteq> None"
    by (rule preStartAckWait_returns [where D = "50 * ticks" and K = K and new = "[Clk (dev_clock s h)]" and ?h0.0 = h])
       (use assms in simp_all)
  moreover have "result (preStartForceWake ticks fuel) s = result (preStartAckWait fuel (dev_clock s h + 50 * ticks)) ?s1"
    using h by (simp add: preStartForceWake_def)
  ultimately show ?thesis by auto
qed

text \<open>The steps before the wait leave the clock as it is.\<close>

definition prep :: "boot \<Rightarrow> 'a senv \<Rightarrow> ('a gstate_scheme, unit) state" where
  "prep b E = do { schedType \<leftarrow> publishScheduler b E; recordScheduler b E schedType; injectMultiForceWake E }"

definition bus_carries :: "'a istate_scheme \<Rightarrow> 'a istate_scheme \<Rightarrow> bool" where
  "bus_carries s t \<longleftrightarrow> same_bus s t \<and> set (timers s) \<subseteq> set (timers t)"

interpretation bc: step_order bus_carries
  by unfold_locales (auto simp: bus_carries_def same_bus_def)

lemma bc_dump: "state_io_rel bus_carries (dumpTglGpuBringupState b stage)"
  unfolding state_io_rel_exec
proof (rule allI)
  fix s :: "'a istate_scheme"
  obtain h g r where "exec (dumpTglGpuBringupState b stage) s = s\<lparr>hist := h, gTglGpuBringupState := g, gRcsTransitionState := r\<rparr>"
    by (rule traced_exec [OF tr_dumpTglGpuBringupState])
  then show "bus_carries s (exec (dumpTglGpuBringupState b stage) s)"
    by (simp add: bus_carries_def same_bus_def)
qed

lemma bc_modify: "(\<And>s. timers (f s) = timers s \<and> same_bus s (f s)) \<Longrightarrow> state_io_rel bus_carries (modify f)"
  by (rule bc.io_modify) (simp add: bus_carries_def)

lemma bc_setProp: "state_io_rel bus_carries (setProp e k v)"
  unfolding state_io_rel_exec bus_carries_def by (simp add: same_bus_def)

lemma bc_prep: "state_io_rel bus_carries (prep b E)"
  unfolding prep_def publishScheduler_def recordScheduler_def injectMultiForceWake_def readDeviceIdFromService_def Let_def
  by (auto intro!: bc.io_rules bc_setProp bc_dump bc_modify split: option.split osobj.split simp: same_bus_def)

text \<open>The state in which Apple's routine is entered.\<close>

lemma beforeStart_exec:
  assumes "clock_runs (50 * startTicksPerMs E) K s" and "K \<le> fuel" and "0 < fuel"
  shows "result (beforeStart b E fuel that) s = Some ()"
    and "big_bar s \<longrightarrow> big_bar (exec (beforeStart b E fuel that) s)"
    and "(IrqWatchdog, 2000) \<in> set (timers (exec (beforeStart b E fuel that) s))"
proof -
  define u where "u = exec (prep b E) s"
  define rest where "rest = (do {
       preStartDump; v55PreStartErrors; startWorkarounds; writeReg32 FORCEWAKE_RENDER_GEN9 fw_put;
       modify (\<lambda>s. s\<lparr>accelInstance := that\<rparr>); v54PreEnable } :: ('a gstate_scheme, unit) state)"
  have bu: "bus_carries s u"
    unfolding u_def by (rule bc_prep [unfolded state_io_rel_exec, rule_format])
  then have "clock_runs (50 * startTicksPerMs E) K u"
    using assms(1) by (simp add: bus_carries_def same_bus_def clock_runs_def)
  then have r: "result (preStartForceWake (startTicksPerMs E) fuel) u = Some ()"
    by (rule preStartForceWake_returns [OF _ assms(2,3)])
  have e: "result (beforeStart b E fuel that) s = Some ()"
    and x: "exec (beforeStart b E fuel that) s = exec (enterDelayed IrqWatchdog 2000) (exec rest (exec (preStartForceWake (startTicksPerMs E) fuel) u))"
    using r by (simp_all add: beforeStart_def prep_def bindO_def u_def rest_def)
  show "result (beforeStart b E fuel that) s = Some ()" by (rule e)
  have "state_io_rel carries (do { _ \<leftarrow> preStartForceWake (startTicksPerMs E) fuel; rest })"
    unfolding rest_def by (intro cr.io_rules cr_modify cr_bus bo_rules bo_start_blocks) (simp_all add: same_bus_def)
  then have "carries u (exec rest (exec (preStartForceWake (startTicksPerMs E) fuel) u))"
    unfolding state_io_rel_exec by simp
  then show "big_bar s \<longrightarrow> big_bar (exec (beforeStart b E fuel that) s)"
    unfolding x enterDelayed_def using bu
    by (simp add: carries_def bus_carries_def same_bus_def big_bar_def mmioValid_def)
  show "(IrqWatchdog, 2000) \<in> set (timers (exec (beforeStart b E fuel that) s))"
    unfolding x enterDelayed_def by simp
qed

section \<open>A sample state\<close>

definition sample_gstate :: gstate where
  "sample_gstate = hstate.extend sample_hstate (gstate.fields 0 0 True [])"

definition sample_senv :: "unit senv" where
  "sample_senv = \<lparr>accel_entry = 7, param_entry = None, prov_entry = None, pci_provider = Some 5,
     getOSDataValue = (\<lambda>_ _. None), is_osobject = (\<lambda>_. True), startTicksPerMs = 1,
     ostart = do { writeReg32 (RING_EMR RENDER_RING_BASE) 0; ret True },
     oNewDisplayMachine = None, oDisplayMachineInit = None, oDisplayMachineStart = None,
     oDisplayMachineProbeDisplayPipes = None\<rparr>"

lemma sample_polite: "polite sample_senv"
  unfolding polite_def sample_senv_def by (simp, intro cr.io_rules cr_bus bo_rules)

lemma sample_gstate_fields:
  "big_bar sample_gstate" "clock_runs 50 50 sample_gstate" "isRealTGL sample_gstate = isRealTGL sample_hstate"
  using sample_hstate_fields(1) sample_fstate_clock
  by (simp_all add: sample_gstate_def hstate.defs gstate.defs sample_hstate_def fstate.defs big_bar_def mmioValid_def clock_runs_def)

section \<open>Properties\<close>

text \<open>C17: The scheduler that the start publishes is always one of the three types the driver knows;
  a boot argument in range wins over the property list and the default; under the policy for
  spoofed devices it is always type five; and the service and its development dictionary are
  given the same value.\<close>

theorem scheduler_published:
  fixes s :: "'a gstate_scheme" and b :: boot and E :: "'a senv"
  defines "t \<equiv> exec (publishScheduler b E) s" and "n \<equiv> result (publishScheduler b E) s"
  shows "n \<in> {3, 4, 5}
    \<and> (shouldUseSpoofedSafeSchedulerPolicy s \<longrightarrow> n = 5)
    \<and> (\<not> shouldUseSpoofedSafeSchedulerPolicy s \<longrightarrow> bootSched b \<noteq> None \<longrightarrow> bootSched b = Some n)
    \<and> getObject (props (ioregs t) (accel_entry E)) ''GraphicsSchedulerSelect'' = Some (ONumber (of_int n))
    \<and> (\<forall>d. getObject (props (ioregs t) (accel_entry E)) ''Development'' = Some (ODict d) \<longrightarrow>
         getObject d ''GraphicsSchedulerSelect'' = Some (ONumber (of_int n)))"
proof -
  define plist where "plist = map_option (props (ioregs s)) (param_entry E)"
  have n: "n = chooseScheduler b (isRealTGL s) (shouldUseSpoofedSafeSchedulerPolicy s) plist"
    by (auto simp: n_def plist_def publishScheduler_def Let_def split: option.split osobj.split)
  have range: "bootSched b = Some v \<Longrightarrow> 3 \<le> v \<and> v \<le> 5" for v
    by (auto simp: bootSched_def split: option.splits if_splits)
  have "n \<in> {3, 4, 5}"
    unfolding n chooseScheduler_def Let_def using range by (auto split: option.split)
  moreover have "shouldUseSpoofedSafeSchedulerPolicy s \<longrightarrow> n = 5"
    unfolding n chooseScheduler_def Let_def by (auto simp: shouldUseSpoofedSafeSchedulerPolicy_def split: option.split)
  moreover have "\<not> shouldUseSpoofedSafeSchedulerPolicy s \<longrightarrow> bootSched b \<noteq> None \<longrightarrow> bootSched b = Some n"
    unfolding n chooseScheduler_def Let_def by (auto split: option.split)
  moreover have "getObject (props (ioregs t) (accel_entry E)) ''GraphicsSchedulerSelect'' = Some (ONumber (of_int n))"
    unfolding t_def n plist_def by (auto simp: publishScheduler_def Let_def split: option.split osobj.split)
  moreover have "getObject d ''GraphicsSchedulerSelect'' = Some (ONumber (of_int n))"
    if "getObject (props (ioregs t) (accel_entry E)) ''Development'' = Some (ODict d)" for d
    using that unfolding t_def n plist_def
    by (auto simp: publishScheduler_def Let_def split: option.splits osobj.splits)
  ultimately show ?thesis by blast
qed

theorem scheduler_published_witness:
  "result (publishScheduler (boot_none\<lparr>boot_int := (\<lambda>k. if k = ''ngreenSched'' then Some 4 else None)\<rparr>) sample_senv)
     (sample_gstate\<lparr>isRealTGL := True\<rparr>) = 4"
  using scheduler_published [of "boot_none\<lparr>boot_int := (\<lambda>k. if k = ''ngreenSched'' then Some 4 else None)\<rparr>" sample_senv
      "sample_gstate\<lparr>isRealTGL := True\<rparr>"]
  by (simp add: shouldUseSpoofedSafeSchedulerPolicy_def bootSched_def)

text \<open>C3: The start of the accelerator runs to its end and hands on the result of Apple's routine,
  when fifty milliseconds pass within \<open>K\<close> bus accesses and \<open>K\<close> rounds of fuel are given, whatever
  the registers answer and whatever Apple's routines store. At its end both force wake requests
  are released, the accelerator has been registered, the interrupt watchdog, the seven delayed
  checks and the error-mask enforcer are pending, the health monitor as well when it is enabled,
  the driver bundles and the display pipe capabilities are published, and on spoofed devices the
  last store to both error mask registers is all ones.\<close>

theorem start_completes:
  fixes s :: "'a gstate_scheme" and b :: boot and E :: "'a senv" and that :: u64
  assumes "polite E" and "big_bar s" and "clock_runs (50 * startTicksPerMs E) K s" and "K \<le> fuel" and "0 < fuel"
  defines "t \<equiv> exec (start b E fuel that) s"
  shows "result (start b E fuel that) s = Some (result (ostart E) (exec (beforeStart b E fuel that) s))
    \<and> last_store (hist t) (dw FORCEWAKE_RENDER_GEN9) = Some 0x10000
    \<and> last_store (hist t) (dw FORCEWAKE_BLITTER_GEN9) = Some 0x10000
    \<and> hd (svc_reqs t) = RegisterService that
    \<and> {(IrqWatchdog, 2000), (EmrEnforcer, 50)} \<union> {(DelayedChildCheck d, d) |d. d \<in> set child_check_delays} \<subseteq> set (timers t)
    \<and> (isExperimentalMonitorEnabled b \<longrightarrow> (HealthMonitor, 2000) \<in> set (timers t))
    \<and> hasKey (props (ioregs t) (accel_entry E)) ''MetalPluginName''
    \<and> getObject (props (ioregs t) (accel_entry E)) ''IOAccelDisplayPipeCapabilities''
       = Some (ODict (createDisplayPipeCapabilityDict (\<not> isDisplayPipeForceDisabled b)))
    \<and> (\<not> isRealTGL t \<longrightarrow> last_store (hist t) (dw (RING_EMR RENDER_RING_BASE)) = Some 0xFFFFFFFF
       \<and> last_store (hist t) (dw (RING_EMR BLT_RING_BASE)) = Some 0xFFFFFFFF)"
proof -
  define s1 where "s1 = exec (beforeStart b E fuel that) s"
  define s2 where "s2 = exec (ostart E) s1"
  note before = beforeStart_exec [OF assms(3-5), of b that]
  have "carries s1 s2" using assms(1) unfolding s2_def polite_def state_io_rel_exec by blast
  then have b2: "big_bar s2" "(IrqWatchdog, 2000) \<in> set (timers s2)"
    using before assms(2) by (auto simp: carries_def s1_def)
  have run: "result (start b E fuel that) s = Some (result (ostart E) s1)" "t = exec (afterStart b E that) s2"
    using before(1) by (simp_all add: start_def bindO_def t_def s1_def s2_def)
  obtain u h where u: "carries s2 u"
    and t: "t = (let w = exec (v45MetalProperties b E) u in
       w\<lparr>hist := St (dw FORCEWAKE_BLITTER_GEN9) fw_put # St (dw FORCEWAKE_RENDER_GEN9) fw_put # h,
         svc_reqs := RegisterService that # svc_reqs w, timers := timers (exec (armStartTimers b) w)\<rparr>)"
    and m: "\<not> isRealTGL (exec (v45MetalProperties b E) u) \<Longrightarrow> last_store h (dw (RING_EMR RENDER_RING_BASE)) = Some 0xFFFFFFFF
       \<and> last_store h (dw (RING_EMR BLT_RING_BASE)) = Some 0xFFFFFFFF"
    unfolding run(2) by (rule afterStart_exec [OF assms(1) b2(1), of b that]) blast
  have "carries u (exec (v45MetalProperties b E) u)"
    by (rule cr_v45MetalProperties [unfolded state_io_rel_exec, rule_format])
  then have w: "(IrqWatchdog, 2000) \<in> set (timers (exec (v45MetalProperties b E) u))"
    using u b2(2) by (auto simp: carries_def)
  then have tm: "{(IrqWatchdog, 2000), (EmrEnforcer, 50)} \<union> {(DelayedChildCheck d, d) |d. d \<in> set child_check_delays} \<subseteq> set (timers t)"
    "isExperimentalMonitorEnabled b \<longrightarrow> (HealthMonitor, 2000) \<in> set (timers t)"
    unfolding t armStartTimers_exec by (auto simp: Let_def)
  show ?thesis
    using run(1) tm m v45_props [where s = u and b = b and E = E]
    by (simp add: s1_def t Let_def fw_put_def)
qed

theorem start_completes_witness:
  "result (start boot_none sample_senv 50 9) sample_gstate = Some True
   \<and> last_store (hist (exec (start boot_none sample_senv 50 9) sample_gstate)) (dw FORCEWAKE_RENDER_GEN9) = Some 0x10000"
proof -
  have "clock_runs (50 * startTicksPerMs sample_senv) 50 sample_gstate"
    by (simp add: sample_senv_def sample_gstate_fields)
  from start_completes [OF sample_polite sample_gstate_fields(1) this, of 50 boot_none 9]
  show ?thesis by (simp add: sample_senv_def)
qed

text \<open>With the gate for external displays closed, the display pipes are never probed.\<close>

lemma gated_never_probes:
  fixes E :: "'a senv" and s :: "'a gstate_scheme"
  assumes "gateExternalDisplays s"
    and "\<And>f a. oNewDisplayMachine E = Some f \<Longrightarrow> state_io_rel (unchanged gateExternalDisplays) (f a)"
    and "\<And>f a c. oDisplayMachineInit E = Some f \<Longrightarrow> state_io_rel (unchanged gateExternalDisplays) (f a c)"
    and "\<And>f a c. oDisplayMachineStart E = Some f \<Longrightarrow> state_io_rel (unchanged gateExternalDisplays) (f a c)"
  shows "exec (ensureDisplayPipeBacking E that) s =
    exec (ensureDisplayPipeBacking (E\<lparr>oDisplayMachineProbeDisplayPipes := None\<rparr>) that) s"
proof -
  have r: "rescueDisplayMachine (E\<lparr>oDisplayMachineProbeDisplayPipes := None\<rparr>) that = rescueDisplayMachine E that"
    by (simp add: rescueDisplayMachine_def split: option.split cong: if_cong)
  have g: "gateExternalDisplays (exec (rescueDisplayMachine E that) s)"
  proof -
    have "state_io_rel (unchanged gateExternalDisplays) (rescueDisplayMachine E that)"
      unfolding rescueDisplayMachine_def using assms(2,3)
      by (auto split: option.split intro!: un.io_rules un_modify)
    then show ?thesis using assms(1) by (simp add: state_io_rel_exec unchanged_def)
  qed
  have st: "gateExternalDisplays (exec (f a c) u)" if "oDisplayMachineStart E = Some f" "gateExternalDisplays u" for f a c u
    using assms(4) [OF that(1), of a c] that(2) by (simp add: state_io_rel_exec unchanged_def)
  have bring: "exec (bringUpDisplayMachine (E\<lparr>oDisplayMachineProbeDisplayPipes := None\<rparr>) dm) u = exec (bringUpDisplayMachine E dm) u"
    if "gateExternalDisplays u" for dm u
    using that st by (simp add: bringUpDisplayMachine_def split: option.split)
  show ?thesis
    using assms(1) g by (simp add: ensureDisplayPipeBacking_def r bring)
qed

text \<open>The request in the frequency field is three times the capability, cut to the nine bits of the
  field: exact for capabilities up to 170.\<close>

lemma pm_frequency_field:
  assumes "unat f \<le> 170"
  shows "unat (push_bit 23 3 * f :: u32) = 3 * unat f * 2 ^ 23"
proof -
  have "unat (push_bit 23 3 * f :: u32) = (25165824 * unat f) mod 2 ^ 32"
    by (simp add: unat_word_ariths)
  also have "\<dots> = 25165824 * unat f" using assms by (intro mod_less) simp
  finally show ?thesis by simp
qed

end
