(* ===== verification/NG_GuC.thy ===== *)
theory NG_GuC
  imports NG_Start
begin

text \<open>
  Firmware loading and the description of the graphics unit (\<open>iTGL/TGL.cpp\<close>): the topology
  overrides in \<open>getGPUInfo\<close> and \<open>getGPUInfoICL\<close>, the asynchronous slice count, the settings of the
  firmware's memory, the decision whether GuC firmware is loaded, and the exchange of the
  firmware buffer during a load. Apple's routines, buffer allocation and the switch that makes
  kernel memory writable are parameters.
\<close>

section \<open>State\<close>

record ustate = gstate +
  performingFirmwareLoad :: bool
  firmwareSizePointer :: u64
  signaturePointer :: u64
  dummyFirmwareBuffer :: u64
  realFirmwareBuffer :: u64
  realBinarySize :: u32
  freedBuffers :: "u64 list"
  ccont :: u64

definition setMember32 :: "u64 \<Rightarrow> u64 \<Rightarrow> u32 \<Rightarrow> ('a kstate_scheme, unit) state" where
  "setMember32 that off v = modify (\<lambda>s. s\<lparr>kmem := wr32 (that + off) v (kmem s)\<rparr>)"

definition setMember64 :: "u64 \<Rightarrow> u64 \<Rightarrow> u64 \<Rightarrow> ('a kstate_scheme, unit) state" where
  "setMember64 that off v = modify (\<lambda>s. s\<lparr>kmem := wr64 (that + off) v (kmem s)\<rparr>)"

definition setBringup :: "boot \<Rightarrow> (TglGpuBringupState \<Rightarrow> TglGpuBringupState) \<Rightarrow> ('a tstate_scheme, unit) state" where
  "setBringup b f = whenM (isTglTraceEnabled b) (modify (\<lambda>s. s\<lparr>gTglGpuBringupState := f (gTglGpuBringupState s)\<rparr>))"

section \<open>Slice count\<close>

text \<open>\<open>None\<close> is a panic.\<close>

definition sliceField :: "u32 \<Rightarrow> u32 option" where
  "sliceField sliceCount = (if sliceCount = 1 then Some 1 else if sliceCount = 2 then Some 2 else None)"

definition subsliceField :: "u32 \<Rightarrow> u32 option" where
  "subsliceField subsliceCount =
     (if subsliceCount = 2 then Some 0x20 else if subsliceCount = 4 then Some 0x40
      else if subsliceCount = 5 then Some 0x50 else if subsliceCount = 6 then Some 0x60
      else if subsliceCount = 8 then Some 0x80 else if subsliceCount = 10 then Some 0xA0 else None)"

definition euField :: "u32 \<Rightarrow> u32 option" where
  "euField euCount =
     (if euCount = 1 then Some 0x100 else if euCount = 2 then Some 0x200 else if euCount = 3 then Some 0x300
      else if euCount = 4 then Some 0x400 else if euCount = 5 then Some 0x500 else if euCount = 6 then Some 0x600
      else if euCount = 8 then Some 0x800 else None)"

definition hwSliceValue :: "u32 \<Rightarrow> u32 option" where
  "hwSliceValue configRaw =
     (case sliceField (configRaw AND 0xFF) of None \<Rightarrow> None
      | Some a \<Rightarrow> (case subsliceField (drop_bit 8 configRaw AND 0xFF) of None \<Rightarrow> None
      | Some c \<Rightarrow> (case euField (drop_bit 16 configRaw AND 0xFF) of None \<Rightarrow> None
      | Some e \<Rightarrow> Some (a OR c OR e))))"

definition setAsyncSliceCount :: "u64 \<Rightarrow> u32 \<Rightarrow> ('a kstate_scheme, unit option) state" where
  "setAsyncSliceCount that configRaw = (case hwSliceValue configRaw of
     None \<Rightarrow> ret None
   | Some hwRegisterValue \<Rightarrow> do {
       setMember32 that 0x12a0 configRaw;
       store_dw (dw 0xa204) hwRegisterValue;
       ret (Some ())
     })"

section \<open>Topology\<close>

definition tgl_topology :: "(u64 \<times> u32) list" where
  "tgl_topology = (let numSlices = 1; numSubSlices = 10; maxEUPerSubSlice = 8; totalEU = maxEUPerSubSlice * numSubSlices
     in [(0x115c, numSlices), (0x1158, numSubSlices), (0x116c, maxEUPerSubSlice), (0x1124, totalEU),
         (0x0dd8, numSlices), (0x0ddc, numSubSlices), (0x1164, 8)])"

definition getGPUInfo :: "boot \<Rightarrow> u64 \<Rightarrow> ('a ustate_scheme, bool) state \<Rightarrow> ('a ustate_scheme, bool) state" where
  "getGPUInfo b that orig = do {
     r \<leftarrow> orig;
     realTGL \<leftarrow> gets isRealTGL;
     setBringup b (\<lambda>g. g\<lparr>topologyOk := r\<rparr>);
     forM tgl_topology (\<lambda>(off, v). setMember32 that off v);
     setMember64 that 0x1150 0x1C2000003E8;
     if \<not> realTGL \<and> shouldForceFullMetalPath b \<and> \<not> r then do {
       setBringup b (\<lambda>g. g\<lparr>topologyOk := True\<rparr>);
       dumpTglGpuBringupState b (Some ''getGPUInfo POST forced-success'');
       ret True
     } else do {
       dumpTglGpuBringupState b (Some ''getGPUInfo POST'');
       ret r
     }
   }"

definition icl_topology :: "(u64 \<times> u32) list" where
  "icl_topology = (let numSlices = 1; numSubSlices = 8; maxEUPerSubSlice = 8; totalEU = maxEUPerSubSlice * numSubSlices
     in [(0x1190, numSlices), (0x1188, numSubSlices), (0x11a0, maxEUPerSubSlice), (0x1154, totalEU),
         (0x12cc, numSlices), (0x12d0, numSubSlices), (0x1198, 8)])"

definition getGPUInfoICL :: "u64 \<Rightarrow> ('a kstate_scheme, bool) state \<Rightarrow> ('a kstate_scheme, bool) state" where
  "getGPUInfoICL that orig = do {
     r \<leftarrow> orig;
     forM icl_topology (\<lambda>(off, v). setMember32 that off v);
     ret r
   }"

section \<open>Firmware memory and sessions\<close>

definition GUC_WOPCM_OFFSET :: u64 where "GUC_WOPCM_OFFSET = 1 * 1024 * 1024"
definition GUC_WOPCM_SIZE :: u64 where "GUC_WOPCM_SIZE = 1 * 1024 * 1024"

definition checkWOPCMSettings :: "boot \<Rightarrow> ('a ustate_scheme, unit) state option \<Rightarrow> u64 \<Rightarrow> ('a ustate_scheme, unit) state" where
  "checkWOPCMSettings b orig wopcm_range = do {
     dumpTglGpuBringupState b (Some ''checkWOPCMSettings PRE'');
     (case orig of
        Some f \<Rightarrow> f
      | None \<Rightarrow> whenM (wopcm_range \<noteq> 0) (do {
          setMember64 wopcm_range 0 GUC_WOPCM_OFFSET;
          setMember64 wopcm_range 8 GUC_WOPCM_SIZE
        }));
     setBringup b (\<lambda>g. g\<lparr>gucWopcmProgrammed := True\<rparr>);
     dumpTglGpuBringupState b (Some ''checkWOPCMSettings POST'')
   }"

definition kIOReturnSuccess :: u32 where "kIOReturnSuccess = 0"
definition kIOReturnUnsupported :: u32 where "kIOReturnUnsupported = 0xE00002C7"

definition wrapPavpSessionCallback :: "u64 \<Rightarrow> int \<Rightarrow> ('a ustate_scheme, u32) state \<Rightarrow> ('a ustate_scheme, u32) state" where
  "wrapPavpSessionCallback intelAccelerator sessionCommand orig = do {
     c \<leftarrow> gets ccont;
     setMember64 intelAccelerator 0x90 c;
     if sessionCommand = 4 then ret kIOReturnSuccess else orig
   }"

definition wrapFBClientDoAttribute :: "u32 \<Rightarrow> ('a ustate_scheme, u32) state \<Rightarrow> ('a ustate_scheme, u32) state" where
  "wrapFBClientDoAttribute attribute orig = (if attribute = 0x923 then ret kIOReturnUnsupported else orig)"

section \<open>Hardware capabilities\<close>

definition initHardwareCaps :: "u64 \<Rightarrow> ('a ustate_scheme, bool) state option \<Rightarrow> ('a ustate_scheme, bool) state" where
  "initHardwareCaps this_ptr orig = do {
     m \<leftarrow> gets kmem;
     let gpuSku = rd32 m (this_ptr + 0x1120);
     let numSubslices = rd32 m (this_ptr + 0x1158);
     let needSkuFix = (gpuSku = 2 \<and> numSubslices \<le> 10);
     whenM needSkuFix (setMember32 this_ptr 0x1120 1);
     r \<leftarrow> (case orig of None \<Rightarrow> ret False | Some f \<Rightarrow> f);
     whenM needSkuFix (setMember32 this_ptr 0x1120 gpuSku);
     ret r
   }"

section \<open>The decision to load firmware\<close>

definition loadGuCBinary :: "boot \<Rightarrow> ('a ustate_scheme, u64) state option \<Rightarrow> ('a ustate_scheme, u64) state" where
  "loadGuCBinary b orig = do {
     whenM (isRcsEngineTraceEnabled b) (dumpRcsEngineActivationState b);
     dumpTglGpuBringupState b (Some ''loadGuCBinary PRE'');
     s \<leftarrow> State_Monad.get;
     if isRealTGL s \<or> tryGuC s then do {
       r \<leftarrow> (case orig of None \<Rightarrow> ret 0 | Some f \<Rightarrow> f);
       setBringup b (\<lambda>g. g\<lparr>gucRequested := True, gucFirmwareLoaded := (r \<noteq> 0)\<rparr>);
       whenM (isRcsEngineTraceEnabled b) (dumpRcsEngineActivationState b);
       dumpTglGpuBringupState b (Some ''loadGuCBinary POST'');
       ret r
     } else do {
       setBringup b (\<lambda>g. g\<lparr>gucRequested := False, gucFirmwareLoaded := False\<rparr>);
       whenM (isRcsEngineTraceEnabled b) (dumpRcsEngineActivationState b);
       dumpTglGpuBringupState b (Some ''loadGuCBinary POST stub'');
       ret 1
     }
   }"

definition canLoadFirmware :: "boot \<Rightarrow> ('a ustate_scheme, bool) state option \<Rightarrow> ('a ustate_scheme, bool) state" where
  "canLoadFirmware b orig = do {
     dumpTglGpuBringupState b (Some ''canLoadFirmware PRE'');
     (case orig of
        Some f \<Rightarrow> do {
          r \<leftarrow> f;
          if \<not> r then do {
            dumpTglGpuBringupState b (Some ''canLoadFirmware FORCED OK'');
            ret True
          } else do {
            dumpTglGpuBringupState b (Some ''canLoadFirmware OK'');
            ret r
          }
        }
      | None \<Rightarrow> do {
          dumpTglGpuBringupState b (Some ''canLoadFirmware NO-ORIG OK'');
          ret True
        })
   }"

section \<open>The firmware buffer\<close>

record 'a fwbufs =
  bufCreate :: "u64 \<Rightarrow> u64"
  kernelWritable :: bool
  orgIgBufferWithOptions :: "u64 \<Rightarrow> ('a ustate_scheme, u64) state"
  orgIgBufferGetGpuVirtualAddress :: "u64 \<Rightarrow> ('a ustate_scheme, u64) state"
  orgLoadFirmware :: "u64 \<Rightarrow> ('a ustate_scheme, bool) state"
  is_hardware_guc :: "u64 \<Rightarrow> bool"

definition wrapLoadGuCBinary :: "('a ustate_scheme, u8) state \<Rightarrow> ('a ustate_scheme, u8) state" where
  "wrapLoadGuCBinary orig = do {
     p \<leftarrow> gets firmwareSizePointer;
     whenM (p \<noteq> 0) (modify (\<lambda>s. s\<lparr>performingFirmwareLoad := True\<rparr>));
     r \<leftarrow> orig;
     modify (\<lambda>s. s\<lparr>performingFirmwareLoad := False\<rparr>);
     ret r
   }"

definition wrapLoadFirmware :: "'a fwbufs \<Rightarrow> u64 \<Rightarrow> ('a ustate_scheme, bool) state" where
  "wrapLoadFirmware B that = orgLoadFirmware B that"

definition wrapSystemWillSleep :: "u64 \<Rightarrow> ('a ustate_scheme, unit) state" where
  "wrapSystemWillSleep that = ret ()"

definition wrapSystemDidWake :: "'a fwbufs \<Rightarrow> u64 \<Rightarrow> ('a ustate_scheme, unit) state" where
  "wrapSystemDidWake B that = do {
     guc \<leftarrow> gets (\<lambda>s. rd64 (kmem s) (that + 76 * 8));
     whenM (guc \<noteq> 0 \<and> is_hardware_guc B guc) (do {
       modify (\<lambda>s. s\<lparr>released := guc # released s\<rparr>);
       setMember64 that (76 * 8) 0
     });
     _ \<leftarrow> orgLoadFirmware B that;
     ret ()
   }"

definition wrapInitSchedControl :: "('a ustate_scheme, bool) state \<Rightarrow> ('a ustate_scheme, bool) state" where
  "wrapInitSchedControl orig = do {
     safe \<leftarrow> gets shouldUseSpoofedSafeSchedulerPolicy;
     if safe then ret True else do {
       perfLoad \<leftarrow> gets performingFirmwareLoad;
       modify (\<lambda>s. s\<lparr>performingFirmwareLoad := False\<rparr>);
       r \<leftarrow> orig;
       modify (\<lambda>s. s\<lparr>performingFirmwareLoad := perfLoad\<rparr>);
       ret r
     }
   }"

text \<open>
  The sources of firmware and signature are null with size zero in the present code, so the two
  copies copy nothing. In the firmware branch the size is passed by value where the other branch
  passes the pointer.
\<close>

definition fwsize :: u64 where "fwsize = 0"

definition swapFirmwareBuffer :: "u64 \<Rightarrow> ('a ustate_scheme, unit) state" where
  "swapFirmwareBuffer r = modify (\<lambda>s. s\<lparr>
     realFirmwareBuffer := rd64 (kmem s) (r + 7 * 8),
     realBinarySize := ucast fwsize,
     kmem := wr32 (firmwareSizePointer s) (ucast fwsize) (wr64 (r + 7 * 8) (dummyFirmwareBuffer s) (kmem s))\<rparr>)"

definition freeDummy :: "('a ustate_scheme, unit) state" where
  "freeDummy = modify (\<lambda>s. s\<lparr>freedBuffers := dummyFirmwareBuffer s # freedBuffers s, dummyFirmwareBuffer := 0\<rparr>)"

definition wrapIgBufferWithOptions :: "'a fwbufs \<Rightarrow> u64 \<Rightarrow> ('a ustate_scheme, u64) state" where
  "wrapIgBufferWithOptions B sizePtr = do {
     loading \<leftarrow> gets performingFirmwareLoad;
     if loading then do {
       sz \<leftarrow> gets (\<lambda>s. rd64 (kmem s) sizePtr);
       modify (\<lambda>s. s\<lparr>dummyFirmwareBuffer := bufCreate B sz\<rparr>);
       let newsize = (if fwsize > sz then (fwsize + 0xFFFF) AND NOT 0xFFFF else sz);
       r \<leftarrow> orgIgBufferWithOptions B newsize;
       dummy \<leftarrow> gets dummyFirmwareBuffer;
       (if r \<noteq> 0 \<and> dummy \<noteq> 0 then whenM (kernelWritable B) (swapFirmwareBuffer r)
        else whenM (dummy \<noteq> 0) freeDummy);
       ret r
     } else orgIgBufferWithOptions B sizePtr
   }"

definition wrapIgBufferGetGpuVirtualAddress :: "'a fwbufs \<Rightarrow> u64 \<Rightarrow> ('a ustate_scheme, u64) state" where
  "wrapIgBufferGetGpuVirtualAddress B that = do {
     s \<leftarrow> State_Monad.get;
     whenM (performingFirmwareLoad s \<and> realFirmwareBuffer s \<noteq> 0) (do {
       setMember64 that (7 * 8) (realFirmwareBuffer s);
       modify (\<lambda>s. s\<lparr>realFirmwareBuffer := 0\<rparr>);
       freeDummy
     });
     orgIgBufferGetGpuVirtualAddress B that
   }"

section \<open>Lemmas\<close>

lemma exec_setMember32 [simp]: "exec (setMember32 that off v) s = s\<lparr>kmem := wr32 (that + off) v (kmem s)\<rparr>"
  by (simp add: setMember32_def)

lemma exec_setMember64 [simp]: "exec (setMember64 that off v) s = s\<lparr>kmem := wr64 (that + off) v (kmem s)\<rparr>"
  by (simp add: setMember64_def)

lemma exec_setMembers:
  "exec (forM ws (\<lambda>(off, v). setMember32 that off v)) s = s\<lparr>kmem := fold (\<lambda>(off, v). wr32 (that + off) v) ws (kmem s)\<rparr>"
  by (induction ws arbitrary: s) auto

text \<open>A list of member writes at offsets that are apart leaves each member at its value.\<close>

lemma rd32_fold_apart:
  assumes "\<forall>w \<in> set ws. apart4 x (fst w)"
  shows "rd32 (fold (\<lambda>(off, v). wr32 (p + off) v) ws m) (p + x) = rd32 m (p + x)"
  using assms by (induction ws arbitrary: m) (auto simp: rd32_wr32_apart)

primrec members_apart :: "(u64 \<times> u32) list \<Rightarrow> bool" where
  "members_apart [] \<longleftrightarrow> True"
| "members_apart (w # ws) \<longleftrightarrow> list_all (\<lambda>a. apart4 (fst w) (fst a)) ws \<and> members_apart ws"

lemma rd32_fold_members:
  assumes "members_apart ws" and "(x, v) \<in> set ws"
  shows "rd32 (fold (\<lambda>(off, v). wr32 (p + off) v) ws m) (p + x) = v"
  using assms
proof (induction ws arbitrary: m)
  case (Cons w ws)
  then consider "w = (x, v)" | "(x, v) \<in> set ws" by auto
  then show ?case
  proof cases
    case 1
    then have "\<forall>a \<in> set ws. apart4 x (fst a)"
      using Cons.prems(1) by (auto simp: list_all_iff)
    then show ?thesis using 1 by (simp add: rd32_fold_apart)
  next
    case 2
    then show ?thesis using Cons by (auto simp: case_prod_beta)
  qed
qed simp

lemma tgl_topology_apart: "members_apart tgl_topology"
  by (simp add: tgl_topology_def Let_def apart4_def)

lemma dump_kmem:
  fixes s :: "'a tstate_scheme"
  shows "kmem (exec (dumpTglGpuBringupState b st) s) = kmem s"
proof -
  obtain h g r where "exec (dumpTglGpuBringupState b st) s = s\<lparr>hist := h, gTglGpuBringupState := g, gRcsTransitionState := r\<rparr>"
    by (rule traced_exec [OF tr_dumpTglGpuBringupState])
  then show ?thesis by simp
qed

lemma setBringup_kmem: "kmem (exec (setBringup b f) s) = kmem s"
  by (simp add: setBringup_def)

section \<open>Properties\<close>

text \<open>The value written for an asynchronous slice count is the three counts of the request packed
  into their fields (slices in bits 0 to 3, sub-slices in bits 4 to 7, execution units from
  bit 8), so the counts can be read back from it; a count outside the supported sets panics
  before anything is stored.\<close>

theorem async_slice_encoding:
  fixes configRaw :: u32
  defines "a \<equiv> configRaw AND 0xFF" and "c \<equiv> drop_bit 8 configRaw AND 0xFF" and "e \<equiv> drop_bit 16 configRaw AND 0xFF"
  shows "hwSliceValue configRaw =
    (if a \<in> {1, 2} \<and> c \<in> {2, 4, 5, 6, 8, 10} \<and> e \<in> {1, 2, 3, 4, 5, 6, 8} then Some (a + 16 * c + 256 * e) else None)
   \<and> (\<forall>v. hwSliceValue configRaw = Some v \<longrightarrow> v AND 0xF = a \<and> drop_bit 4 v AND 0xF = c \<and> drop_bit 8 v = e)
   \<and> (hwSliceValue configRaw = None \<longrightarrow> run_state (setAsyncSliceCount that configRaw) s = (None, s))"
proof -
  have v: "hwSliceValue configRaw =
    (if a \<in> {1, 2} \<and> c \<in> {2, 4, 5, 6, 8, 10} \<and> e \<in> {1, 2, 3, 4, 5, 6, 8} then Some (a + 16 * c + 256 * e) else None)"
    unfolding hwSliceValue_def a_def [symmetric] c_def [symmetric] e_def [symmetric]
    by (auto simp: sliceField_def subsliceField_def euField_def)
  moreover have "w AND 0xF = a \<and> drop_bit 4 w AND 0xF = c \<and> drop_bit 8 w = e" if "hwSliceValue configRaw = Some w" for w
    using that unfolding v by (auto split: if_splits)
  moreover have "run_state (setAsyncSliceCount that configRaw) s = (None, s)" if "hwSliceValue configRaw = None"
    using that by (simp add: setAsyncSliceCount_def)
  ultimately show ?thesis by blast
qed

text \<open>After the topology override every member of the driver object holds the value of the
  table, in particular the number of execution units is the product of sub-slices and units per
  sub-slice and the mirrors agree, whatever the original routine stored; and the result is that
  of the original routine, except that a failure on a spoofed device under the full-Metal
  argument is turned into success.\<close>

theorem gpu_topology_consistent:
  fixes s :: "'a ustate_scheme" and orig :: "('a ustate_scheme, bool) state" and b :: boot and that :: u64
  defines "t \<equiv> exec (getGPUInfo b that orig) s"
  shows "(\<forall>(off, v) \<in> set tgl_topology. rd32 (kmem t) (that + off) = v)
    \<and> rd32 (kmem t) (that + 0x1124) = rd32 (kmem t) (that + 0x116c) * rd32 (kmem t) (that + 0x1158)
    \<and> result (getGPUInfo b that orig) s =
        (result orig s \<or> \<not> isRealTGL (exec orig s) \<and> shouldForceFullMetalPath b)"
proof -
  have k: "kmem t = wr64 (that + 0x1150) 0x1C2000003E8 (fold (\<lambda>(off, v). wr32 (that + off) v) tgl_topology (kmem (exec orig s)))"
    by (simp add: t_def getGPUInfo_def exec_setMembers dump_kmem setBringup_kmem)
  have off: "apart4 off 0x1150 \<and> apart4 off 0x1154" if "(off, v) \<in> set tgl_topology" for off v
    using that by (auto simp: tgl_topology_def Let_def apart4_def)
  have m: "rd32 (kmem t) (that + off) = v" if "(off, v) \<in> set tgl_topology" for off v
    unfolding k using that off [OF that] tgl_topology_apart
    by (subst rd32_wr64_apart) (auto intro: rd32_fold_members)
  have "(0x1124, 80) \<in> set tgl_topology" "(0x116c, 8) \<in> set tgl_topology" "(0x1158, 10) \<in> set tgl_topology"
    by (simp_all add: tgl_topology_def Let_def)
  then have "rd32 (kmem t) (that + 0x1124) = rd32 (kmem t) (that + 0x116c) * rd32 (kmem t) (that + 0x1158)"
    using m by simp
  moreover have "result (getGPUInfo b that orig) s = (result orig s \<or> \<not> isRealTGL (exec orig s) \<and> shouldForceFullMetalPath b)"
    by (auto simp: getGPUInfo_def)
  ultimately show ?thesis using m by blast
qed

definition sample_ustate :: ustate where
  "sample_ustate = gstate.extend sample_gstate (ustate.fields False 0x5000 0x6000 0 0 0 [] 0)"

text \<open>C11: The exchange of the firmware buffer is undone: when the buffer a firmware load allocates is
  exchanged for the dummy, and the driver then asks for its address (\<open>between\<close> stands for what it
  does in the meantime, which leaves the exchange alone), the original routine finds the
  buffer's own memory again, the dummy has been freed exactly once, and no exchange is pending.\<close>

theorem firmware_buffer_roundtrip:
  fixes B :: "'a fwbufs" and s :: "'a ustate_scheme" and sizePtr :: u64
  assumes loading: "performingFirmwareLoad s" and writable: "kernelWritable B"
    and keep: "\<And>n u. performingFirmwareLoad (exec (orgIgBufferWithOptions B n) u) = performingFirmwareLoad u
      \<and> dummyFirmwareBuffer (exec (orgIgBufferWithOptions B n) u) = dummyFirmwareBuffer u
      \<and> freedBuffers (exec (orgIgBufferWithOptions B n) u) = freedBuffers u"
    and between: "state_io_rel (unchanged (\<lambda>u. (performingFirmwareLoad u, realFirmwareBuffer u, dummyFirmwareBuffer u, freedBuffers u))) between"
  defines "sz \<equiv> rd64 (kmem s) sizePtr"
  defines "u \<equiv> exec (orgIgBufferWithOptions B sz) (s\<lparr>dummyFirmwareBuffer := bufCreate B sz\<rparr>)"
    and "r \<equiv> result (orgIgBufferWithOptions B sz) (s\<lparr>dummyFirmwareBuffer := bufCreate B sz\<rparr>)"
  assumes ok: "r \<noteq> 0" "bufCreate B sz \<noteq> 0" "rd64 (kmem u) (r + 7 * 8) \<noteq> 0"
  defines "v \<equiv> exec (do { _ \<leftarrow> wrapIgBufferWithOptions B sizePtr; between }) s"
  shows "\<exists>w. exec (wrapIgBufferGetGpuVirtualAddress B r) v = exec (orgIgBufferGetGpuVirtualAddress B r) w
    \<and> rd64 (kmem w) (r + 7 * 8) = rd64 (kmem u) (r + 7 * 8)
    \<and> realFirmwareBuffer w = 0 \<and> dummyFirmwareBuffer w = 0 \<and> freedBuffers w = bufCreate B sz # freedBuffers s"
proof -
  have us: "performingFirmwareLoad u" "dummyFirmwareBuffer u = bufCreate B sz" "freedBuffers u = freedBuffers s"
    using keep loading by (simp_all add: u_def)
  define x where "x = exec (swapFirmwareBuffer r) u"
  have "exec (wrapIgBufferWithOptions B sizePtr) s = x"
    using loading writable ok(1,2) us(2)
    by (simp add: wrapIgBufferWithOptions_def fwsize_def Let_def x_def u_def r_def sz_def)
  then have v: "v = exec between x" by (simp add: v_def)
  have "performingFirmwareLoad x" "realFirmwareBuffer x = rd64 (kmem u) (r + 7 * 8)"
    "dummyFirmwareBuffer x = bufCreate B sz" "freedBuffers x = freedBuffers s"
    using us by (simp_all add: x_def swapFirmwareBuffer_def)
  then have vs: "performingFirmwareLoad v" "realFirmwareBuffer v = rd64 (kmem u) (r + 7 * 8)"
    "dummyFirmwareBuffer v = bufCreate B sz" "freedBuffers v = freedBuffers s"
    using between unfolding v state_io_rel_exec unchanged_def by auto
  define w where "w = v\<lparr>kmem := wr64 (r + 7 * 8) (realFirmwareBuffer v) (kmem v), realFirmwareBuffer := 0,
      freedBuffers := dummyFirmwareBuffer v # freedBuffers v, dummyFirmwareBuffer := 0\<rparr>"
  have "exec (wrapIgBufferGetGpuVirtualAddress B r) v = exec (orgIgBufferGetGpuVirtualAddress B r) w"
    using vs ok(3) by (simp add: wrapIgBufferGetGpuVirtualAddress_def freeDummy_def w_def)
  then show ?thesis
    using vs by (intro exI [of _ w]) (simp add: w_def)
qed

definition sample_fwbufs :: "unit fwbufs" where
  "sample_fwbufs = \<lparr>bufCreate = (\<lambda>_. 0x9000), kernelWritable = True,
     orgIgBufferWithOptions = (\<lambda>_. do { setMember64 0x7000 56 0xABC; ret 0x7000 }),
     orgIgBufferGetGpuVirtualAddress = (\<lambda>r. gets (\<lambda>s. rd64 (kmem s) (r + 56))),
     orgLoadFirmware = (\<lambda>_. ret True), is_hardware_guc = (\<lambda>_. True)\<rparr>"

theorem firmware_buffer_roundtrip_witness:
  "realFirmwareBuffer (exec (wrapIgBufferGetGpuVirtualAddress sample_fwbufs 0x7000)
     (exec (wrapIgBufferWithOptions sample_fwbufs 0x100) (sample_ustate\<lparr>performingFirmwareLoad := True\<rparr>))) = 0"
proof -
  let ?s = "sample_ustate\<lparr>performingFirmwareLoad := True\<rparr>"
  have "state_io_rel (unchanged (\<lambda>u. (performingFirmwareLoad u, realFirmwareBuffer u, dummyFirmwareBuffer u, freedBuffers u)))
      (ret () :: (ustate, unit) state)"
    by (rule un.io_ret)
  from firmware_buffer_roundtrip [where B = sample_fwbufs and s = ?s and sizePtr = "0x100", OF _ _ _ this]
  show ?thesis
    by (simp add: sample_fwbufs_def)
qed

end
