(* ===== verification/NG_Display.thy ===== *)
theory NG_Display
  imports NG_GuC
begin

text \<open>
  The display hooks of \<open>iTGL/TGL.cpp\<close>: the capability reads over the AUX channel and the lane
  count derived from them, the core display clock, the start of the framebuffer controller, the
  gate that keeps external displays down, the panel power hooks, the display microcontroller
  firmware, the display buffer set-up and the 3D blitter's context. Apple's routines are
  parameters, as are the two firmware images and the registry entry of a driver object.
\<close>

section \<open>State\<close>

record dstate = ustate +
  dpcdRevision :: u8
  dpcdMaxLinkRate :: u8
  dpcdMaxLaneCountRaw :: u8
  dpcdBacklightCaps :: u8
  dpcdCapsValid :: bool
  dpcdBacklightCapsValid :: bool
  inpwell :: bool
  hw :: bool

section \<open>Sink capabilities\<close>

definition lane_ok :: "u8 \<Rightarrow> bool" where
  "lane_ok l \<longleftrightarrow> l = 1 \<or> l = 2 \<or> l = 4"

definition sanitizeDpcdLaneCount :: "u8 \<Rightarrow> u32" where
  "sanitizeDpcdLaneCount rawLaneCount =
     (if lane_ok (rawLaneCount AND 0x1F) then ucast (rawLaneCount AND 0x1F) else 0)"

text \<open>The first two bytes of a read at 0x100 are the link rate and the lane count in use.\<close>

definition clampLinkConfig :: "'a dstate_scheme \<Rightarrow> u8 list \<Rightarrow> u8 list" where
  "clampLinkConfig s raw =
     (let raw1 = (if raw ! 0 > 0x14 then raw[0 := 0x14] else raw);
          cachedLaneCount = dpcdMaxLaneCountRaw s AND 0x1F
      in if length raw \<ge> 2 \<and> dpcdCapsValid s \<and> lane_ok cachedLaneCount
         then raw1[1 := (raw1 ! 1 AND 0xE0) OR cachedLaneCount] else raw1)"

text \<open>Bytes 0, 1 and 2 of the capabilities are the revision, the link rate and the lane count.\<close>

definition capCaps :: "bool \<Rightarrow> u8 list \<Rightarrow> u8 list" where
  "capCaps realTGL caps =
     (let caps1 = (if realTGL then caps else
            let c = (if caps ! 1 > 0x14 then caps[1 := 0x14] else caps);
                l = caps ! 2 AND 0x1F;
                laneCount = (if lane_ok l then l else 2)
            in c[2 := (c ! 2 AND 0xE0) OR laneCount])
      in if caps1 ! 0 < 0x03 then caps1[1 := 0] else caps1)"

text \<open>The buffer is the list of its bytes, \<open>None\<close> a null pointer; its length is that of the
  request.\<close>

definition wrapICLReadAUX ::
  "('a dstate_scheme, u32 \<times> u8 list option) state \<Rightarrow> u32 \<Rightarrow> ('a dstate_scheme, u32 \<times> u8 list option) state" where
  "wrapICLReadAUX orig address = do {
     (retVal, buffer) \<leftarrow> orig;
     if retVal \<noteq> kIOReturnSuccess then ret (retVal, buffer) else do {
       s \<leftarrow> State_Monad.get;
       (case buffer of
          None \<Rightarrow> ret (retVal, None)
        | Some raw0 \<Rightarrow> do {
            let raw = (if \<not> isRealTGL s \<and> address = 0x0100 \<and> length raw0 \<ge> 1 then clampLinkConfig s raw0 else raw0);
            if address = 0x0700 \<and> length raw \<ge> 1 then do {
              modify (\<lambda>s. s\<lparr>dpcdBacklightCaps := raw ! 0, dpcdBacklightCapsValid := True\<rparr>);
              ret (retVal, Some raw)
            } else if address \<noteq> 0x0000 \<and> address \<noteq> 0x2200 then ret (retVal, Some raw)
            else if length raw < 16 then ret (retVal, Some raw)
            else do {
              modify (\<lambda>s. s\<lparr>dpcdRevision := raw ! 0, dpcdMaxLinkRate := raw ! 1, dpcdMaxLaneCountRaw := raw ! 2,
                dpcdCapsValid := True\<rparr>);
              ret (retVal, Some (capCaps (isRealTGL s) raw))
            }
          })
     }
   }"

text \<open>The lane count written through the pointer argument, \<open>None\<close> where the pointer is null.\<close>

definition computeLaneCount ::
  "boot \<Rightarrow> bool \<Rightarrow> ('a dstate_scheme, u32) state \<Rightarrow> ('a dstate_scheme, u32 option) state" where
  "computeLaneCount b hasPointer orig = (if \<not> hasPointer then ret None else do {
     s \<leftarrow> State_Monad.get;
     if \<not> isRealTGL s then do {
       let lanesOverride = getConfiguredLaneCountOverride b;
       let dpcdLaneCount = (if dpcdCapsValid s then sanitizeDpcdLaneCount (dpcdMaxLaneCountRaw s) else 0);
       ret (Some (if lanesOverride \<noteq> 0 then lanesOverride
                  else if dpcdLaneCount \<noteq> 0 then dpcdLaneCount else 2))
     } else do { l \<leftarrow> orig; ret (Some l) }
   })"

section \<open>Core display clock\<close>

text \<open>The reference clock selects the clock and the frequency of its phase-locked loop.\<close>

definition cdclkTarget :: "u32 \<Rightarrow> (u32 \<times> u32) option" where
  "cdclkTarget referenceFrequency =
     (if referenceFrequency = 0x1 then Some (0x518, 19200000 * 68)
      else if referenceFrequency = 0x0 then Some (0x50E, 24000000 * 54)
      else if referenceFrequency = 0x2 then Some (0x518, 38400000 * 34)
      else None)"

record 'a cdenv =
  orgDisableCDClock :: "('a dstate_scheme, unit) state option"
  odisableCDClock :: "('a dstate_scheme, unit) state"
  orgSetCDClockFrequency :: "u32 \<Rightarrow> ('a dstate_scheme, unit) state"
  orgProbeCDClockFrequency :: "('a dstate_scheme, u32) state"

definition sanitizeCDClockFrequency :: "'a cdenv \<Rightarrow> ('a dstate_scheme, unit) state" where
  "sanitizeCDClockFrequency E = do {
     dssm \<leftarrow> readReg32 0x51004;
     (case cdclkTarget (drop_bit 29 dssm) of
        None \<Rightarrow> ret ()
      | Some (newCdclkFrequency, newPLLFrequency) \<Rightarrow> do {
          (case orgDisableCDClock E of Some f \<Rightarrow> f | None \<Rightarrow> odisableCDClock E);
          orgSetCDClockFrequency E newPLLFrequency
        })
   }"

definition wrapProbeCDClockFrequency :: "'a cdenv \<Rightarrow> ('a dstate_scheme, u32) state" where
  "wrapProbeCDClockFrequency E = do {
     squash \<leftarrow> readReg32 0x46070;
     whenM (squash AND push_bit 31 1 = 0) (writeReg32 0x46070 (squash OR push_bit 31 1));
     ctl \<leftarrow> readReg32 0x46000;
     whenM (ctl AND 0x7ff < 0x50E) (sanitizeCDClockFrequency E);
     orgProbeCDClockFrequency E
   }"

section \<open>Gate of the external displays\<close>

definition isBuiltInFramebufferObject :: "u64 \<Rightarrow> ('a kstate_scheme, bool) state" where
  "isBuiltInFramebufferObject framebuffer = gets (\<lambda>s. framebuffer \<noteq> 0 \<and> rd32 (kmem s) (framebuffer + 0x1dc) = 0)"

definition framebufferKindString :: "bool \<Rightarrow> string" where
  "framebufferKindString builtIn = (if builtIn then ''BuiltInEDP'' else ''External'')"

definition setFramebufferGateState :: "u64 \<Rightarrow> bool \<Rightarrow> ('a kstate_scheme, unit) state" where
  "setFramebufferGateState framebuffer connected = whenM (framebuffer \<noteq> 0)
     (modify (\<lambda>s. s\<lparr>kmem := wr8 (framebuffer + 0x1e0) (if connected then 1 else 0) (kmem s)\<rparr>))"

record 'a fbenv =
  fb_service :: "u64 \<Rightarrow> nat option"
  oenableController :: "u64 \<Rightarrow> ('a dstate_scheme, u8) state"
  osetDisplayMode :: "u64 \<Rightarrow> int \<Rightarrow> int \<Rightarrow> ('a dstate_scheme, u8) state"
  oconnectionChanged :: "u64 \<Rightarrow> ('a dstate_scheme, u8) state"
  ogetOnlineInfo :: "u64 \<Rightarrow> ('a dstate_scheme, u8 option \<times> u8 option) state"

definition publishConnector :: "'a fbenv \<Rightarrow> u64 \<Rightarrow> string \<Rightarrow> string \<Rightarrow> ('a dstate_scheme, unit) state" where
  "publishConnector E that kind phase = (case fb_service E that of
     None \<Rightarrow> ret ()
   | Some e \<Rightarrow> do {
       setProp e ''NGreenConnectorKind'' (OString kind);
       setProp e ''NGreenBringupPhase'' (OString phase)
     })"

definition publishReady :: "'a fbenv \<Rightarrow> u64 \<Rightarrow> ('a dstate_scheme, unit) state" where
  "publishReady E that = do {
     builtIn \<leftarrow> isBuiltInFramebufferObject that;
     gate \<leftarrow> gets gateExternalDisplays;
     publishConnector E that (framebufferKindString builtIn) (if gate then ''InternalReady'' else ''ExternalReady'')
   }"

definition blockExternal :: "'a fbenv \<Rightarrow> u64 \<Rightarrow> ('a dstate_scheme, unit) state" where
  "blockExternal E that = do {
     setFramebufferGateState that False;
     publishConnector E that ''External'' ''FBOnly''
   }"

definition gatedExternal :: "u64 \<Rightarrow> ('a kstate_scheme, bool) state" where
  "gatedExternal that = do {
     gate \<leftarrow> gets gateExternalDisplays;
     builtIn \<leftarrow> isBuiltInFramebufferObject that;
     ret (gate \<and> \<not> builtIn)
   }"

definition enableController :: "'a fbenv \<Rightarrow> u64 \<Rightarrow> ('a dstate_scheme, u8) state" where
  "enableController E that = do {
     gated \<leftarrow> gatedExternal that;
     if gated then do { blockExternal E that; ret 0 }
     else do {
       builtIn \<leftarrow> isBuiltInFramebufferObject that;
       whenM builtIn (setFramebufferGateState that True);
       publishReady E that;
       oenableController E that
     }
   }"

definition setDisplayMode :: "'a fbenv \<Rightarrow> u64 \<Rightarrow> int \<Rightarrow> int \<Rightarrow> ('a dstate_scheme, u8) state" where
  "setDisplayMode E that param_1 param_2 = do {
     gated \<leftarrow> gatedExternal that;
     if gated then do { blockExternal E that; ret 0 }
     else do {
       builtIn \<leftarrow> isBuiltInFramebufferObject that;
       whenM builtIn (setFramebufferGateState that True);
       publishReady E that;
       osetDisplayMode E that param_1 param_2
     }
   }"

definition connectionChanged :: "'a fbenv \<Rightarrow> u64 \<Rightarrow> ('a dstate_scheme, u8) state" where
  "connectionChanged E that = do {
     gated \<leftarrow> gatedExternal that;
     if gated then do { blockExternal E that; ret 0 }
     else do {
       r \<leftarrow> oconnectionChanged E that;
       builtIn \<leftarrow> isBuiltInFramebufferObject that;
       whenM (r \<noteq> 0 \<and> builtIn) (setFramebufferGateState that True);
       publishReady E that;
       ret r
     }
   }"

text \<open>The two output bytes are \<open>None\<close> where their pointers are null.\<close>

definition getOnlineInfo :: "'a fbenv \<Rightarrow> u64 \<Rightarrow> ('a dstate_scheme, u8 option \<times> u8 option) state" where
  "getOnlineInfo E that = do {
     (online, changed) \<leftarrow> ogetOnlineInfo E that;
     gated \<leftarrow> gatedExternal that;
     if gated then do {
       blockExternal E that;
       ret (map_option (\<lambda>_. 0) online, map_option (\<lambda>_. 0) changed)
     } else do {
       setFramebufferGateState that True;
       publishReady E that;
       ret (map_option (\<lambda>_. 1) online, changed)
     }
   }"

section \<open>Panel power\<close>

abbreviation PCH_PP_STATUS :: u64 where "PCH_PP_STATUS \<equiv> 0xC7200"
abbreviation PCH_PP_CONTROL :: u64 where "PCH_PP_CONTROL \<equiv> 0xC7204"

definition readPanelPowerStatusBits :: "('a mmio_scheme, u8) state" where
  "readPanelPowerStatusBits = do {
     ready \<leftarrow> tmmioReady;
     if \<not> ready then ret 0 else do {
       status \<leftarrow> readReg32 PCH_PP_STATUS;
       ret ((if status AND push_bit 31 1 \<noteq> 0 then 1 else 0) OR (if status AND push_bit 30 1 \<noteq> 0 then 2 else 0))
     }
   }"

definition isPanelPowerOn :: "('a mmio_scheme, u8) state" where
  "isPanelPowerOn = do {
     statusBits \<leftarrow> readPanelPowerStatusBits;
     ready \<leftarrow> tmmioReady;
     whenM ready (readRegs [PCH_PP_STATUS, PCH_PP_CONTROL]);
     ret (if statusBits AND 1 \<noteq> 0 then 1 else 0)
   }"

abbreviation lcdPowerState :: string where "lcdPowerState \<equiv> ''AAPL,LCD-PowerState-ON''"

text \<open>The comparison is of unsigned values: -1 is the largest one.\<close>

definition disableVDDForAux ::
  "(u64 \<Rightarrow> u64 \<Rightarrow> ('a dstate_scheme, u32) state) \<Rightarrow> (u64 \<Rightarrow> nat) \<Rightarrow> ('a dstate_scheme, u8) state \<Rightarrow> u64 \<Rightarrow> ('a dstate_scheme, u8) state" where
  "disableVDDForAux oread entry orig that = do {
     c \<leftarrow> gets ccont;
     iVar3 \<leftarrow> raReadRegister32 oread c 0xc7200;
     whenM ((-1 :: u32) < iVar3) (do {
       r \<leftarrow> gets (\<lambda>s. rd64 (kmem s) (that + 0xd60));
       setProp (entry r) lcdPowerState (OBool False)
     });
     orig
   }"

definition prepareToEnterWake :: "(u64 \<Rightarrow> nat) \<Rightarrow> ('a dstate_scheme, unit) state \<Rightarrow> u64 \<Rightarrow> ('a dstate_scheme, unit) state" where
  "prepareToEnterWake entry orig that = do {
     v \<leftarrow> isPanelPowerOn;
     whenM (v \<noteq> 0) (setProp (entry that) lcdPowerState (OBool True));
     orig
   }"

definition setPanelPowerState ::
  "(u64 \<Rightarrow> nat) \<Rightarrow> (bool \<Rightarrow> ('a dstate_scheme, unit) state) \<Rightarrow> u64 \<Rightarrow> bool \<Rightarrow> ('a dstate_scheme, unit) state" where
  "setPanelPowerState entry orig that param_1 = do {
     orig param_1;
     r \<leftarrow> gets (\<lambda>s. rd64 (kmem s) (that + 0xd60));
     setProp (entry r) lcdPowerState (OBool param_1)
   }"

section \<open>Power wells\<close>

definition PowerWellinit :: "('a dstate_scheme, unit) state \<Rightarrow> ('a dstate_scheme, unit) state" where
  "PowerWellinit orig = do {
     modify (\<lambda>s. s\<lparr>inpwell := True\<rparr>);
     orig;
     modify (\<lambda>s. s\<lparr>inpwell := False\<rparr>)
   }"

definition getPortByDDI ::
  "(u32 \<Rightarrow> ('a dstate_scheme, u64) state) \<Rightarrow> (u64 \<Rightarrow> u32 \<Rightarrow> ('a dstate_scheme, u8) state) \<Rightarrow> u32 \<Rightarrow> ('a dstate_scheme, u64) state" where
  "getPortByDDI orig osetPortMode param_1 = do {
     r \<leftarrow> orig param_1;
     w \<leftarrow> gets inpwell;
     whenM w (do { _ \<leftarrow> osetPortMode r 1; ret () });
     ret r
   }"

definition AppleIntelPowerWellinit :: "('a dstate_scheme, unit) state \<Rightarrow> u64 \<Rightarrow> ('a dstate_scheme, unit) state" where
  "AppleIntelPowerWellinit orig param_1 = do {
     modify (\<lambda>s. s\<lparr>ccont := rd64 (kmem s) (param_1 + 0xc40)\<rparr>);
     orig
   }"

text \<open>The hooks that store the controller into their object before Apple's routine runs, with the
  offset of the member.\<close>

datatype plane_hook =
    DisableScaler | ProgramPipeScaler | EnablePlane | ScalerUpdateRegisterCache | PlaneUpdateRegisterCache
  | EnableDisplayEngine | DisableDisplayEngine | DisablePowerWellPG | EnablePowerWellPG
  | HwSetPowerWellStatePG | HwSetPowerWellStateDDI | HwSetPowerWellStateAux

fun controller_member :: "plane_hook \<Rightarrow> u64" where
  "controller_member DisableScaler = 0x28"
| "controller_member ProgramPipeScaler = 0x28"
| "controller_member EnablePlane = 0x90"
| "controller_member ScalerUpdateRegisterCache = 0x28"
| "controller_member PlaneUpdateRegisterCache = 0x90"
| "controller_member EnableDisplayEngine = 0x78"
| "controller_member DisableDisplayEngine = 0x78"
| "controller_member DisablePowerWellPG = 0x78"
| "controller_member EnablePowerWellPG = 0x78"
| "controller_member HwSetPowerWellStatePG = 0x78"
| "controller_member HwSetPowerWellStateDDI = 0x78"
| "controller_member HwSetPowerWellStateAux = 0x78"

definition planeHook :: "plane_hook \<Rightarrow> u64 \<Rightarrow> ('a dstate_scheme, unit) state \<Rightarrow> ('a dstate_scheme, unit) state" where
  "planeHook h that orig = do {
     c \<leftarrow> gets ccont;
     setMember64 that (controller_member h) c;
     orig
   }"

section \<open>Framebuffer controller\<close>

definition hexUpper :: "nat \<Rightarrow> char" where
  "hexUpper n = (if n < 10 then char_of (48 + n) else char_of (55 + n))"

definition hex4 :: "u16 \<Rightarrow> string" where
  "hex4 x = [hexUpper (unat x div 4096), hexUpper (unat x div 256 mod 16), hexUpper (unat x div 16 mod 16), hexUpper (unat x mod 16)]"

text \<open>Device and vendor of the provider, if it is a PCI device.\<close>

definition pciPrimaryMatch :: "(u16 \<times> u16) option \<Rightarrow> string" where
  "pciPrimaryMatch provider = (case provider of
     None \<Rightarrow> ''0x9A498086'' | Some (device, vendor) \<Rightarrow> ''0x'' @ hex4 device @ hex4 vendor)"

definition acceleratorPersonality :: "bool \<Rightarrow> string \<Rightarrow> bool \<Rightarrow> osdict" where
  "acceleratorPersonality useTglNames pciMatch dpEnabled =
     (let name = (\<lambda>tgl icl. OString (if useTglNames then tgl else icl))
      in fold (\<lambda>(k, v). setObject k v)
       [(''CFBundleIdentifier'', name ''com.xxxxx.driver.AppleIntelTGLGraphics'' ''com.apple.driver.AppleIntelICLGraphics''),
        (''IOClass'', OString ''IntelAccelerator''),
        (''IOMatchCategory'', OString ''IOAccelerator''),
        (''IOProviderClass'', OString ''IOPCIDevice''),
        (''IOPCIClassMatch'', OString ''0x03000000&0xff000000''),
        (''IOPCIPrimaryMatch'', OString pciMatch),
        (''IOProbeScore'', ONumber 1000),
        (''MetalPluginName'', name ''AppleIntelTGLGraphicsMTLDriver'' ''AppleIntelICLGraphicsMTLDriver''),
        (''IOGLBundleName'', name ''AppleIntelTGLGraphicsGLDriver'' ''AppleIntelICLGraphicsGLDriver''),
        (''IODVDBundleName'', name ''AppleIntelTGLGraphicsVADriver'' ''AppleIntelICLGraphicsVADriver''),
        (''IOSourceVersion'', OString ''0.0.0.0.0''),
        (''IOGVACodec'', OString ''Gen10''),
        (''IOGVAScaler'', OString ''Gen10''),
        (''IOGVABGRAEnc'', OString ''Gen10''),
        (''IOVARendererID'', ONumber 17301568),
        (''IOCFPlugInTypes'', ODict (setObject ''ACCF0000-0000-0000-0000-000a2789904e'' (OString ''IOAccelerator2D.plugin'') [])),
        (''IOAccelDisplayPipeCapabilities'', ODict (createDisplayPipeCapabilityDict dpEnabled))] [])"

text \<open>Register, bits cleared, bits set.\<close>

definition display_wa :: "(u32 \<times> u32 \<times> u32) list" where
  "display_wa =
    [(0xc2020, 0, push_bit 15 1),
     (0x46408, push_bit 4 1, push_bit 4 1),
     (0x46434, 0, push_bit 24 1 OR push_bit 25 1 OR push_bit 26 1 OR push_bit 27 1),
     (0x46530, 0, push_bit 27 1),
     (0x101038, push_bit 1 1, 0)]"

definition rmw :: "u32 \<Rightarrow> u32 \<Rightarrow> u32 \<Rightarrow> ('a mmio_scheme, unit) state" where
  "rmw reg clear setv = do { _ \<leftarrow> intel_de_rmw reg clear setv; ret () }"

definition publishController :: "boot \<Rightarrow> nat \<Rightarrow> (u16 \<times> u16) option \<Rightarrow> u64 \<Rightarrow> ('a dstate_scheme, unit) state" where
  "publishController b service provider that = do {
     useTglNames \<leftarrow> gets tglHWLoaded;
     modify (\<lambda>s. s\<lparr>catalogue := catalogue s @
       [acceleratorPersonality useTglNames (pciPrimaryMatch provider) (\<not> isDisplayPipeForceDisabled b)]\<rparr>);
     applyDisplayPipePolicy b (Some service);
     displayPipeMmio;
     errGen6 \<leftarrow> readReg32 ERROR_GEN6;
     whenM (errGen6 \<noteq> 0) (writeReg32 ERROR_GEN6 0);
     request (RegisterService that);
     displayPipeMmio
   }"

definition AppleIntelBaseControllerstart ::
  "boot \<Rightarrow> ('a dstate_scheme, bool) state \<Rightarrow> nat option \<Rightarrow> (u16 \<times> u16) option \<Rightarrow> u64 \<Rightarrow> ('a dstate_scheme, bool) state" where
  "AppleIntelBaseControllerstart b orig service provider that = do {
     writeReg32 0x45504 0;
     forM display_wa (\<lambda>(reg, clear, setv). rmw reg clear setv);
     r \<leftarrow> orig;
     (case service of
        Some e \<Rightarrow> whenM r (publishController b e provider that)
      | None \<Rightarrow> ret ());
     ret r
   }"

definition AppleIntelFramebufferinit ::
  "('a dstate_scheme, bool) state \<Rightarrow> nat option \<Rightarrow> u64 \<Rightarrow> u32 \<Rightarrow> ('a dstate_scheme, bool) state" where
  "AppleIntelFramebufferinit orig fbService frame param_2 = do {
     r \<leftarrow> orig;
     c \<leftarrow> gets ccont;
     setMember64 frame 0x4a40 c;
     whenM (fbService \<noteq> None) (do {
       publishFramebufferTriageResources;
       publishBootDisplayProperties fbService param_2;
       displayPipeMmio
     });
     ret r
   }"

section \<open>Display microcontroller\<close>

record 'a dmcenv =
  ohwInitializeCState :: "u64 \<Rightarrow> ('a dstate_scheme, unit) state"
  ohwConfigureCustomAUX :: "(u64 \<Rightarrow> bool \<Rightarrow> ('a dstate_scheme, unit) state) option"
  oFastWriteRegister32 :: "u64 \<Rightarrow> u64 \<Rightarrow> u32 \<Rightarrow> ('a dstate_scheme, unit) state"
  tgl_dmc_ver2_12_bin :: "u32 list"
  adlp_dmc_ver2_16_bin :: "u32 list"

definition hwConfigureCustomAUX :: "'a dmcenv \<Rightarrow> u64 \<Rightarrow> bool \<Rightarrow> ('a dstate_scheme, unit) state" where
  "hwConfigureCustomAUX E that param_1 = (case ohwConfigureCustomAUX E of Some f \<Rightarrow> f that param_1 | None \<Rightarrow> ret ())"

text \<open>The blob is a list of double words, the one at byte offset \<open>4 * i\<close> being the \<open>i\<close>-th.\<close>

definition uploadDmc :: "(u64 \<Rightarrow> u64 \<Rightarrow> u32 \<Rightarrow> ('a dstate_scheme, unit) state) \<Rightarrow> u32 list \<Rightarrow> ('a dstate_scheme, unit) state" where
  "uploadDmc orig blob =
     forM [0..<length blob] (\<lambda>i. do {
       c \<leftarrow> gets ccont;
       FastWriteRegister32 orig c (4 * of_nat i + 0x80000) (blob ! i)
     })"

definition tgl_de_regs :: "(u64 \<times> u32) list" where
  "tgl_de_regs = [(0x8F074, 0x00006FC0), (0x8F004, 0x00A40088), (0x8F034, 0xC003B400), (0x45520, 2)]"

definition adlp_de_regs :: "(u64 \<times> u32) list" where
  "adlp_de_regs =
    [(0x8F074, 0x00086FC0), (0x8F034, 0xC003B400), (0x8F004, 0x01240108), (0x8F008, 0x512050D4),
     (0x8F03C, 0xC003B300), (0x8F00C, 0x584C57FC),
     (0x5F074, 0x00096FC0), (0x5F034, 0xC003DF00), (0x5F004, 0x214C2114), (0x5F038, 0xC003E000),
     (0x5F008, 0x22402208), (0x5F03C, 0xC0032C00), (0x5F00C, 0x241422FC), (0x5F040, 0xC0033100),
     (0x5F010, 0x26F826CC), (0x5F474, 0x0009EFC0), (0x5F434, 0xC003DF00), (0x5F404, 0xA968A930),
     (0x5F438, 0xC003E000), (0x5F408, 0xAA5CAA24), (0x5F43C, 0xC0032C00), (0x5F40C, 0xAC30AB18),
     (0x5F440, 0xC0033100), (0x5F410, 0xAF14AEE8), (0x5F874, 0x00053FC0), (0x5F83C, 0xC0032C00),
     (0x5F80C, 0x25202408), (0x5F840, 0xC0033100), (0x5F810, 0x280427D8), (0x5FC3C, 0xC0032C00),
     (0x5FC0C, 0x95209408), (0x5FC40, 0xC0033100), (0x5FC10, 0x980497D8),
     (0x60400, 0x8A000006), (0x60000, 0x0A9F09FF), (0x60004, 0x0A9F09FF), (0x60008, 0x0A4F0A2F),
     (0x6000C, 0x06D5063F), (0x60010, 0x06D50000), (0x60014, 0x06480642), (0x60028, 0x00000000),
     (0x60030, 0x7E5D159E), (0x60034, 0x00800000), (0x60040, 0x0007C1CD), (0x60044, 0x00080000),
     (0x61204, 0x00000067), (0x61208, 0x07D00001),
     (0x46140, 0x10000000), (0x45400, 0x00000401), (0x45404, 0x00000C03), (0x45408, 0x40000000),
     (0x4540C, 0x00000401), (0x45520, 2)]"

text \<open>Apple's routine with its own firmware load suppressed, then the given blob.\<close>

definition loadDmc :: "'a dmcenv \<Rightarrow> u32 list \<Rightarrow> (u64 \<times> u32) list \<Rightarrow> u64 \<Rightarrow> ('a dstate_scheme, unit) state" where
  "loadDmc E blob regs that = do {
     origB48 \<leftarrow> gets (\<lambda>s. rd32 (kmem s) (that + 0xB48));
     setMember32 that 0xB48 0;
     ohwInitializeCState E that;
     setMember32 that 0xB48 origB48;
     uploadDmc (oFastWriteRegister32 E) blob;
     forM regs (\<lambda>(reg, v). writeReg32 reg v)
   }"

text \<open>The text of the boot argument, empty where it is not given.\<close>

definition hwInitializeCState :: "'a dmcenv \<Rightarrow> string \<Rightarrow> u64 \<Rightarrow> ('a dstate_scheme, unit) state" where
  "hwInitializeCState E dmcArg that = do {
     (case dmcArg of
        [] \<Rightarrow> ohwInitializeCState E that
      | c # _ \<Rightarrow>
          if c = CHR ''t'' \<or> c = CHR ''T'' then loadDmc E (tgl_dmc_ver2_12_bin E) tgl_de_regs that
          else if c = CHR ''a'' \<or> c = CHR ''A'' then loadDmc E (adlp_dmc_ver2_16_bin E) adlp_de_regs that
          else ohwInitializeCState E that);
     hwConfigureCustomAUX E that True
   }"

section \<open>Display buffer\<close>

text \<open>The index of the lowest set bit, for a nonzero value.\<close>

definition ctz :: "u64 \<Rightarrow> nat" where
  "ctz v = length (takeWhile (\<lambda>i. \<not> bit v i) [0..<64])"

definition find_first_bit :: "u64 \<Rightarrow> nat \<Rightarrow> nat" where
  "find_first_bit val sz = (if val = 0 \<or> sz = 0 then sz else ctz val)"

definition find_next_bit :: "u64 \<Rightarrow> nat \<Rightarrow> nat \<Rightarrow> nat" where
  "find_next_bit val sz offset = (if offset \<ge> sz then sz else
     let v = val AND push_bit offset (-1) in if v = 0 then sz else ctz v)"

lemma takeWhile_stops: "x \<in> set xs \<Longrightarrow> \<not> P x \<Longrightarrow> length (takeWhile P xs) < length xs"
  by (induction xs) auto

lemma ctz_nth:
  assumes "v \<noteq> 0"
  shows "ctz v < 64" and "bit v (ctz v)" and "\<And>i. i < ctz v \<Longrightarrow> \<not> bit v i"
proof -
  let ?P = "\<lambda>i. \<not> bit v i"
  have "\<exists>n < 64. bit v n"
  proof (rule ccontr)
    assume "\<not> (\<exists>n < 64. bit v n)"
    then have "v = 0" by (intro bit_word_eqI) simp
    then show False using assms by simp
  qed
  then obtain n where n: "bit v n" "n < 64" by blast
  have "length (takeWhile ?P [0..<64]) < length [0..<64::nat]"
    by (rule takeWhile_stops [of n]) (use n in simp_all)
  then show l: "ctz v < 64" by (simp add: ctz_def)
  have "\<not> ?P ([0..<64] ! ctz v)"
    unfolding ctz_def using l by (intro nth_length_takeWhile) (simp add: ctz_def)
  then show "bit v (ctz v)" using l by simp
  show "\<not> bit v i" if "i < ctz v" for i
  proof -
    have "takeWhile ?P [0..<64] ! i = [0..<64] ! i"
      using that by (simp add: ctz_def takeWhile_nth)
    moreover have "?P (takeWhile ?P [0..<64] ! i)"
      using that nth_mem [of i "takeWhile ?P [0..<64]"] set_takeWhileD by (fastforce simp: ctz_def)
    ultimately show ?thesis using that l by simp
  qed
qed

lemma find_next_bit_ge: "offset \<le> sz \<Longrightarrow> offset \<le> find_next_bit val sz offset"
proof -
  have "offset \<le> ctz (val AND push_bit offset (-1))" if "val AND push_bit offset (-1) \<noteq> 0"
    using ctz_nth(2) [OF that] by (auto simp: bit_simps not_less)
  then show "offset \<le> sz \<Longrightarrow> ?thesis" by (auto simp: find_next_bit_def Let_def)
qed

text \<open>The indices the loop runs over.\<close>

function set_bits_from :: "u64 \<Rightarrow> nat \<Rightarrow> nat \<Rightarrow> nat list" where
  "set_bits_from val sz b = (if b < sz then b # set_bits_from val sz (find_next_bit val sz (Suc b)) else [])"
  by auto
termination
proof (relation "measure (\<lambda>(val, sz, b). sz - b)")
  fix val sz b assume "(b :: nat) < sz"
  then show "((val, sz, find_next_bit val sz (Suc b)), val, sz, b) \<in> measure (\<lambda>(val, sz, b). sz - b)"
    using find_next_bit_ge [of "Suc b" sz val] by simp
qed simp

declare set_bits_from.simps [simp del]

definition for_each_set_bit :: "u64 \<Rightarrow> nat \<Rightarrow> nat list" where
  "for_each_set_bit val sz = set_bits_from val sz (find_first_bit val sz)"

lemma next_bit_skips:
  assumes "offset < sz" and "sz \<le> 64"
  shows "filter (bit val) [offset..<sz] =
    (let n = find_next_bit val sz offset in if n < sz then n # filter (bit val) [Suc n..<sz] else [])"
proof -
  define v where "v = val AND push_bit offset (-1)"
  have b: "bit v i \<longleftrightarrow> bit val i" if "offset \<le> i" "i < sz" for i
    using that assms(2) by (simp add: v_def bit_simps)
  show ?thesis
  proof (cases "v = 0")
    case True
    then have "filter (bit val) [offset..<sz] = []"
      using b by (fastforce simp: filter_empty_conv)
    then show ?thesis using True assms by (simp add: find_next_bit_def v_def)
  next
    case False
    define n where "n = ctz v"
    have fn: "find_next_bit val sz offset = n" using False assms by (simp add: find_next_bit_def v_def n_def)
    have on: "offset \<le> n" using find_next_bit_ge [of offset sz val] assms fn by simp
    have low: "\<not> bit val i" if "offset \<le> i" "i < n" "i < sz" for i
      using ctz_nth(3) [OF False, of i] b that by (simp add: n_def)
    show ?thesis
    proof (cases "n < sz")
      case True
      have "[offset..<sz] = [offset..<n] @ n # [Suc n..<sz]"
        using on True upt_add_eq_append [of offset n "sz - n"] by (simp add: upt_conv_Cons)
      moreover have "filter (bit val) [offset..<n] = []"
        using low True by (auto simp: filter_empty_conv)
      moreover have "bit val n" using ctz_nth(2) [OF False] b [of n] on True by (simp add: n_def)
      ultimately show ?thesis using True by (simp add: fn)
    next
      case False
      then have "filter (bit val) [offset..<sz] = []" using low by (auto simp: filter_empty_conv)
      then show ?thesis using False by (simp add: fn)
    qed
  qed
qed

lemma set_bits_from_filter:
  "sz \<le> 64 \<Longrightarrow> offset \<le> sz \<Longrightarrow> set_bits_from val sz (find_next_bit val sz offset) = filter (bit val) [offset..<sz]"
proof (induction "sz - offset" arbitrary: offset rule: less_induct)
  case less
  define n where "n = find_next_bit val sz offset"
  show ?case
  proof (cases "offset < sz")
    case True
    have f: "filter (bit val) [offset..<sz] = (if n < sz then n # filter (bit val) [Suc n..<sz] else [])"
      using next_bit_skips [OF True less.prems(1), of val] by (simp add: n_def Let_def)
    have on: "offset \<le> n" using find_next_bit_ge less.prems(2) by (simp add: n_def)
    show ?thesis
    proof (cases "n < sz")
      case True
      then have "set_bits_from val sz (find_next_bit val sz (Suc n)) = filter (bit val) [Suc n..<sz]"
        using less.hyps [of "Suc n"] less.prems on \<open>offset < sz\<close> by simp
      then show ?thesis using True f by (simp add: n_def [symmetric] set_bits_from.simps [of _ _ n])
    next
      case False
      then show ?thesis using f by (simp add: n_def [symmetric] set_bits_from.simps [of _ _ n])
    qed
  next
    case False
    then show ?thesis by (simp add: find_next_bit_def set_bits_from.simps)
  qed
qed

datatype intel_dram_type =
    INTEL_DRAM_UNKNOWN | INTEL_DRAM_DDR3 | INTEL_DRAM_DDR4 | INTEL_DRAM_LPDDR3 | INTEL_DRAM_LPDDR4
  | INTEL_DRAM_DDR5 | INTEL_DRAM_LPDDR5 | INTEL_DRAM_GDDR

record buddy_page_mask =
  num_channels :: nat
  dram :: intel_dram_type
  page_mask :: u32

text \<open>The last entry, all zero, ends the table.\<close>

definition tgl_buddy_page_masks :: "buddy_page_mask list" where
  "tgl_buddy_page_masks =
    [\<lparr>num_channels = 1, dram = INTEL_DRAM_DDR4, page_mask = 0xF\<rparr>,
     \<lparr>num_channels = 1, dram = INTEL_DRAM_DDR5, page_mask = 0xF\<rparr>,
     \<lparr>num_channels = 2, dram = INTEL_DRAM_LPDDR4, page_mask = 0x1C\<rparr>,
     \<lparr>num_channels = 2, dram = INTEL_DRAM_LPDDR5, page_mask = 0x1C\<rparr>,
     \<lparr>num_channels = 2, dram = INTEL_DRAM_DDR4, page_mask = 0x1F\<rparr>,
     \<lparr>num_channels = 2, dram = INTEL_DRAM_DDR5, page_mask = 0x1E\<rparr>,
     \<lparr>num_channels = 4, dram = INTEL_DRAM_LPDDR4, page_mask = 0x38\<rparr>,
     \<lparr>num_channels = 4, dram = INTEL_DRAM_LPDDR5, page_mask = 0x38\<rparr>,
     \<lparr>num_channels = 0, dram = INTEL_DRAM_UNKNOWN, page_mask = 0\<rparr>]"

fun buddyConfig :: "buddy_page_mask list \<Rightarrow> nat \<Rightarrow> intel_dram_type \<Rightarrow> u32" where
  "buddyConfig [] channels ty = 0"
| "buddyConfig (e # es) channels ty =
     (if page_mask e = 0 then 0
      else if num_channels e = channels \<and> dram e = ty then page_mask e
      else buddyConfig es channels ty)"

definition PICK_EVEN :: "u32 \<Rightarrow> u32 \<Rightarrow> u32 \<Rightarrow> u32" where
  "PICK_EVEN index a b = a + index * (b - a)"

text \<open>The macro for two ranges takes the second range whatever the index.\<close>

definition PICK_EVEN_2RANGES :: "u32 \<Rightarrow> u32 \<Rightarrow> u32 \<Rightarrow> u32 \<Rightarrow> u32 \<Rightarrow> u32 \<Rightarrow> u32" where
  "PICK_EVEN_2RANGES index c_index a b c d = PICK_EVEN (index - c_index) c d"

definition MBUS_ABOX_CTL :: "u32 \<Rightarrow> u32" where
  "MBUS_ABOX_CTL x = PICK_EVEN_2RANGES x 2 0x45038 0x45048 0x4504C 0x4504C"

definition BW_BUDDY_CTL :: "u32 \<Rightarrow> u32" where
  "BW_BUDDY_CTL x = PICK_EVEN x 0x45130 0x45140"

definition BW_BUDDY_PAGE_MASK :: "u32 \<Rightarrow> u32" where
  "BW_BUDDY_PAGE_MASK x = PICK_EVEN x 0x45134 0x45144"

definition dbufSlice :: "u32 \<Rightarrow> ('a mmio_scheme, unit) state" where
  "dbufSlice reg = do {
     rmw reg (push_bit 31 1) (push_bit 31 1);
     _ \<leftarrow> readReg32 (ucast reg);
     IODelay 10
   }"

definition abox_mask :: u64 where "abox_mask = 6"

definition mbusInit :: "('a mmio_scheme, unit) state" where
  "mbusInit = forM (for_each_set_bit abox_mask 8) (\<lambda>i.
     rmw (MBUS_ABOX_CTL (of_nat i)) (0x1F OR push_bit 8 0x1F OR push_bit 16 0xF OR push_bit 20 3)
       (16 OR push_bit 8 16 OR push_bit 16 1 OR push_bit 20 1))"

definition buddyInit :: "('a mmio_scheme, unit) state" where
  "buddyInit = forM (for_each_set_bit abox_mask 8) (\<lambda>i. do {
     writeReg32 (ucast (BW_BUDDY_PAGE_MASK (of_nat i))) (buddyConfig tgl_buddy_page_masks 2 INTEL_DRAM_DDR4);
     rmw (BW_BUDDY_CTL (of_nat i)) 0x3F0000 (push_bit 16 8 AND 0x3F0000)
   })"

definition allocateDisplayResources :: "('a mmio_scheme, u64) state \<Rightarrow> ('a mmio_scheme, u64) state" where
  "allocateDisplayResources orig = do {
     r \<leftarrow> orig;
     writeReg32 0x45504 0;
     rmw 0xc2020 0 (push_bit 15 1);
     rmw 0x46408 (push_bit 4 1) (push_bit 4 1);
     rmw 0x44FE8 0xF80000 (push_bit 19 8 AND 0xF80000);
     rmw 0x44300 0xF80000 (push_bit 19 8 AND 0xF80000);
     dbufSlice 0x44FE8;
     dbufSlice 0x44300;
     mbusInit;
     buddyInit;
     rmw 0x101038 (push_bit 1 1) 0;
     ret r
   }"

section \<open>Blitter context and client attributes\<close>

definition blitSkip :: "u64 \<Rightarrow> ('a kstate_scheme, unit) state" where
  "blitSkip that = do {
     setMember64 that 0xe8 0;
     setMember64 that 0xf0 0;
     setMember64 that 0x100 0;
     setMember64 that 0xf8 0;
     setMember64 that 0x108 0;
     setMember32 that 0x110 0
   }"

definition IGHardwareBlit3DContextinitialize ::
  "boot \<Rightarrow> (u64 \<Rightarrow> ('a dstate_scheme, unit) state) \<Rightarrow> u64 \<Rightarrow> ('a dstate_scheme, unit) state" where
  "IGHardwareBlit3DContextinitialize b orig that = whenM (that \<noteq> 0) (do {
     s \<leftarrow> State_Monad.get;
     if isRealTGL s then orig that
     else do {
       let mappedBufPtr = rd64 (kmem s) (that + 0xd8);
       let gpuBufBase = (if mappedBufPtr \<noteq> 0 then rd64 (kmem s) (mappedBufPtr + 0x18) else 0);
       let gpuBufSize = (if mappedBufPtr \<noteq> 0 then rd64 (kmem s) (mappedBufPtr + 0x20) else 0);
       let safeForOriginal = (mappedBufPtr \<noteq> 0 \<and> gpuBufBase \<noteq> 0 \<and> gpuBufSize \<ge> 0xD040);
       if boot_flag b ''-ngreenV69AllowOriginal'' \<and> safeForOriginal then orig that else blitSkip that
     }
   })"

text \<open>The statements after the first \<open>return\<close> are unreachable.\<close>

definition IGHardwareExtendedContextinitWithOptions :: "('a dstate_scheme, u8) state \<Rightarrow> u64 \<Rightarrow> ('a dstate_scheme, u8) state" where
  "IGHardwareExtendedContextinitWithOptions orig that = do {
     r \<leftarrow> orig;
     engine \<leftarrow> gets (\<lambda>s. getTrackedEngineFromContext (kmem s) that);
     markTrackedEngineContextSeen engine;
     ret r
   }"

text \<open>The members of the vendor record: the version at 0, the vendor string at 4, the vendor at
  0x24 and the class at 0x28.\<close>

definition IntelFBClientControldoAttribute ::
  "('a dstate_scheme, u32) state \<Rightarrow> u32 \<Rightarrow> u64 \<Rightarrow> u64 \<Rightarrow> ('a dstate_scheme, u32) state" where
  "IntelFBClientControldoAttribute orig param_1 param_4 param_5 = do {
     r \<leftarrow> orig;
     sz \<leftarrow> gets (\<lambda>s. rd64 (kmem s) param_5);
     if param_1 = 1 \<and> param_5 \<noteq> 0 \<and> 0x2b < sz then do {
       setMember32 param_4 0 0;
       setMember32 param_4 0x24 0x8086;
       modify (\<lambda>s. s\<lparr>kmem := wr8 (param_4 + 4) (of_char (CHR ''I'')) (kmem s)\<rparr>);
       setMember32 param_4 0x28 1;
       ret 0
     } else ret r
   }"

definition hwSetMode :: "('a dstate_scheme, int) state \<Rightarrow> ('a dstate_scheme, unit) state \<Rightarrow> ('a dstate_scheme, int) state" where
  "hwSetMode orig oenablePipe = do {
     r \<leftarrow> orig;
     h \<leftarrow> gets hw;
     whenM h oenablePipe;
     modify (\<lambda>s. s\<lparr>hw := False\<rparr>);
     ret r
   }"

section \<open>Lemmas\<close>

lemma lane_bits:
  fixes x l :: u8
  assumes "lane_ok l"
  shows "((x AND 0xE0) OR l) AND 0x1F = l" and "((x AND 0xE0) OR l) AND 0xE0 = x AND 0xE0"
proof -
  have "l AND 0x1F = l" "l AND 0xE0 = 0" "(x AND 0xE0) AND 0x1F = 0" "(x AND 0xE0) AND 0xE0 = x AND 0xE0"
    using assms by (auto simp: lane_ok_def and.assoc)
  then show "((x AND 0xE0) OR l) AND 0x1F = l" and "((x AND 0xE0) OR l) AND 0xE0 = x AND 0xE0"
    by (simp_all add: bit.conj_disj_distrib2)
qed

definition chosen_lane :: "u8 \<Rightarrow> u8" where
  "chosen_lane raw = (if lane_ok (raw AND 0x1F) then raw AND 0x1F else 2)"

lemma chosen_lane_ok: "lane_ok (chosen_lane raw)"
  by (simp add: chosen_lane_def lane_ok_def)

lemma capCaps_spoofed:
  assumes "16 \<le> length caps"
  shows "capCaps False caps ! 1 \<le> 0x14" and "capCaps False caps ! 2 = (caps ! 2 AND 0xE0) OR chosen_lane (caps ! 2)"
    and "\<And>i. i \<noteq> 1 \<Longrightarrow> i \<noteq> 2 \<Longrightarrow> capCaps False caps ! i = caps ! i"
proof -
  define c where "c = (if caps ! 1 > 0x14 then caps[1 := 0x14] else caps)"
  have l: "length c = length caps" "c ! 1 \<le> 0x14" "c ! 2 = caps ! 2" and i: "\<And>i. i \<noteq> 1 \<Longrightarrow> c ! i = caps ! i"
    using assms by (auto simp: c_def)
  define d where "d = c[2 := (c ! 2 AND 0xE0) OR chosen_lane (caps ! 2)]"
  have e: "capCaps False caps = (if d ! 0 < 0x03 then d[1 := 0] else d)"
    by (simp add: capCaps_def d_def c_def chosen_lane_def Let_def cong: if_cong)
  show "capCaps False caps ! 1 \<le> 0x14" and "capCaps False caps ! 2 = (caps ! 2 AND 0xE0) OR chosen_lane (caps ! 2)"
    and "\<And>i. i \<noteq> 1 \<Longrightarrow> i \<noteq> 2 \<Longrightarrow> capCaps False caps ! i = caps ! i"
    using assms l i by (simp_all add: e d_def)
qed

lemma sanitized_lane:
  "(if sanitizeDpcdLaneCount raw \<noteq> 0 then sanitizeDpcdLaneCount raw else 2) = ucast (chosen_lane raw)"
  by (auto simp: sanitizeDpcdLaneCount_def chosen_lane_def lane_ok_def)

lemma wrapICLReadAUX_caps:
  assumes "address = 0 \<or> address = 0x2200" and "16 \<le> length caps"
    and "result orig s = (kIOReturnSuccess, Some caps)"
  shows "result (wrapICLReadAUX orig address) s = (kIOReturnSuccess, Some (capCaps (isRealTGL (exec orig s)) caps))"
    and "exec (wrapICLReadAUX orig address) s = (exec orig s)\<lparr>dpcdRevision := caps ! 0, dpcdMaxLinkRate := caps ! 1,
      dpcdMaxLaneCountRaw := caps ! 2, dpcdCapsValid := True\<rparr>"
proof -
  have a: "address \<noteq> 0x0100" "address \<noteq> 0x0700" "\<not> (address \<noteq> 0 \<and> address \<noteq> 0x2200)" "\<not> length caps < 16"
    using assms(1,2) by auto
  show "result (wrapICLReadAUX orig address) s = (kIOReturnSuccess, Some (capCaps (isRealTGL (exec orig s)) caps))"
    and "exec (wrapICLReadAUX orig address) s = (exec orig s)\<lparr>dpcdRevision := caps ! 0, dpcdMaxLinkRate := caps ! 1,
      dpcdMaxLaneCountRaw := caps ! 2, dpcdCapsValid := True\<rparr>"
    unfolding wrapICLReadAUX_def by (simp_all only: a run_simps assms(3) Let_def option.case prod.case if_True if_False simp_thms)
qed

lemma blocked_exec:
  "kmem (exec (blockExternal E that) s) = (if that = 0 then kmem s else wr8 (that + 0x1e0) 0 (kmem s))"
  "gateExternalDisplays (exec (blockExternal E that) s) = gateExternalDisplays s"
  by (auto simp: blockExternal_def setFramebufferGateState_def publishConnector_def split: option.split)

lemma fast_write_passes:
  "param_1 \<notin> {0x20b4, 0x220b4, 0x70188, 0x70180} \<Longrightarrow> FastWriteRegister32 orig that param_1 v = orig that param_1 v"
  by (simp add: FastWriteRegister32_def emrForce_def isEmrReg_def)

text \<open>The calls the windowing system makes on a framebuffer, in any order.\<close>

datatype fb_op = EnableController | SetDisplayMode int int | ConnectionChanged | GetOnlineInfo

fun fbStep :: "'a fbenv \<Rightarrow> u64 \<Rightarrow> fb_op \<Rightarrow> ('a dstate_scheme, unit) state" where
  "fbStep E that EnableController = do { _ \<leftarrow> enableController E that; ret () }"
| "fbStep E that (SetDisplayMode m d) = do { _ \<leftarrow> setDisplayMode E that m d; ret () }"
| "fbStep E that ConnectionChanged = do { _ \<leftarrow> connectionChanged E that; ret () }"
| "fbStep E that GetOnlineInfo = do { _ \<leftarrow> getOnlineInfo E that; ret () }"

definition external_gated :: "u64 \<Rightarrow> 'a dstate_scheme \<Rightarrow> bool" where
  "external_gated that s \<longleftrightarrow> gateExternalDisplays s \<and> that \<noteq> 0 \<and> rd32 (kmem s) (that + 0x1dc) \<noteq> 0"

lemma rd32_gate_byte: "rd32 (wr8 (p + 0x1e0) v m) (p + 0x1dc) = rd32 m (p + 0x1dc)"
  by (simp add: rd32_def wr8_def add.assoc)

lemma gatedExternal_result: "external_gated that s \<Longrightarrow> result (gatedExternal that) s"
  and gatedExternal_exec [simp]: "exec (gatedExternal that) s = s"
  by (simp_all add: gatedExternal_def isBuiltInFramebufferObject_def external_gated_def)

lemma blocked_gated:
  assumes "external_gated that s"
  shows "external_gated that (exec (blockExternal E that) s)" and "kmem (exec (blockExternal E that) s) (that + 0x1e0) = 0"
  using assms by (simp_all add: external_gated_def blocked_exec rd32_gate_byte) (simp add: wr8_def)

lemma blockExternal_service:
  "fb_service E' = fb_service E \<Longrightarrow> blockExternal E' that = blockExternal E that"
  by (simp add: blockExternal_def publishConnector_def)

text \<open>The state a call leaves behind when it is blocked.\<close>

definition before_block :: "'a fbenv \<Rightarrow> u64 \<Rightarrow> fb_op \<Rightarrow> 'a dstate_scheme \<Rightarrow> 'a dstate_scheme" where
  "before_block E that op s = (if op = GetOnlineInfo then exec (ogetOnlineInfo E that) s else s)"

lemma fbStep_blocked:
  assumes "external_gated that s" and "external_gated that (exec (ogetOnlineInfo E that) s)"
  shows "exec (fbStep E that op) s = exec (blockExternal E that) (before_block E that op s)"
  using assms
  by (cases op) (simp_all add: before_block_def enableController_def setDisplayMode_def connectionChanged_def
    getOnlineInfo_def gatedExternal_result split: prod.split)

lemma before_block_gated:
  "external_gated that s \<Longrightarrow> external_gated that (exec (ogetOnlineInfo E that) s)
    \<Longrightarrow> external_gated that (before_block E that op s)"
  by (simp add: before_block_def)

lemma gated_run:
  assumes "\<And>s. external_gated that s \<Longrightarrow> external_gated that (exec (ogetOnlineInfo E that) s)"
    and "fb_service E' = fb_service E" and "ogetOnlineInfo E' = ogetOnlineInfo E"
  shows "external_gated that s \<Longrightarrow> external_gated that (exec (forM ops (fbStep E that)) s)
    \<and> (ops \<noteq> [] \<longrightarrow> kmem (exec (forM ops (fbStep E that)) s) (that + 0x1e0) = 0)
    \<and> exec (forM ops (fbStep E' that)) s = exec (forM ops (fbStep E that)) s"
proof (induction ops arbitrary: s)
  case (Cons op ops)
  let ?t = "before_block E that op s" and ?u = "exec (blockExternal E that) (before_block E that op s)"
  have g: "external_gated that ?t" by (rule before_block_gated [OF Cons.prems assms(1) [OF Cons.prems]])
  have e: "exec (fbStep E that op) s = ?u" by (rule fbStep_blocked [OF Cons.prems assms(1) [OF Cons.prems]])
  have e': "exec (fbStep E' that op) s = ?u"
    using fbStep_blocked [of that s E' op] Cons.prems assms(1) [OF Cons.prems] assms(2,3)
    by (simp add: blockExternal_service [OF assms(2)] before_block_def)
  have IH: "external_gated that (exec (forM ops (fbStep E that)) ?u)
    \<and> (ops \<noteq> [] \<longrightarrow> kmem (exec (forM ops (fbStep E that)) ?u) (that + 0x1e0) = 0)
    \<and> exec (forM ops (fbStep E' that)) ?u = exec (forM ops (fbStep E that)) ?u"
    by (rule Cons.IH [OF blocked_gated(1) [OF g]])
  show ?case using IH e e' blocked_gated(2) [OF g, of E] by (cases ops) simp_all
qed simp

text \<open>Routines that leave the register that enables the clock's phase-locked loop alone.\<close>

definition spares_pll :: "('a dstate_scheme, 'x) state \<Rightarrow> bool" where
  "spares_pll m \<longleftrightarrow> state_io_rel (emits (stores_in (- {dw 0x46070}))) m"

lemma spares_read: "spares_pll (readReg32 r)"
  unfolding spares_pll_def by (rule em_readReg32 [OF transparent_stores_in])

lemma spares_peek:
  assumes "spares_pll m" and "plain_reg s 0x46070"
  shows "peek (exec m s) 0x46070 = peek s 0x46070" and "plain_reg (exec m s) 0x46070"
proof -
  have e: "emits (stores_in (- {dw 0x46070})) s (exec m s)"
    using assms(1) unfolding spares_pll_def state_io_rel_exec by blast
  show "peek (exec m s) 0x46070 = peek s 0x46070"
    by (rule peek_frame [OF assms(2) e]) (simp_all add: reg_defs)
  show "plain_reg (exec m s) 0x46070"
    using e assms(2) by (auto simp: emits_def intro: plain_same_bus)
qed

text \<open>The accesses by which the plugin switches the loop on, newest first, and what they leave.\<close>

definition pllEnable :: "u32 \<Rightarrow> access list" where
  "pllEnable v = (if v AND push_bit 31 1 = 0 then [St (dw 0x46070) (v OR push_bit 31 1)] else []) @ [Ld (dw 0x46070) v]"

lemma pll_enable_step:
  assumes "direct s 0x46070" and "plain_reg s 0x46070"
  defines "t \<equiv> exec (do { squash \<leftarrow> readReg32 0x46070; whenM (squash AND push_bit 31 1 = 0) (writeReg32 0x46070 (squash OR push_bit 31 1)) }) s"
  shows "t = s\<lparr>hist := pllEnable (peek s 0x46070) @ hist s\<rparr>"
    and "peek t 0x46070 AND push_bit 31 1 \<noteq> 0" and "plain_reg t 0x46070"
proof -
  define v where "v = dev_load s (hist s) (dw 0x46070)"
  have n: "\<not> looksLikePlaneSurf 0x46070" by (simp add: looksLikePlaneSurf_def)
  show t: "t = s\<lparr>hist := pllEnable (peek s 0x46070) @ hist s\<rparr>"
    using n by (simp add: t_def readReg32_direct [OF assms(1)] writeReg32_direct assms(1) pllEnable_def peek_def)
  have pv: "peek s 0x46070 = v" by (simp add: peek_def v_def)
  show "plain_reg t 0x46070" by (rule plain_same_bus [OF _ assms(2)]) (simp add: t same_bus_def)
  have q: "dev_load s h (dw 0x46070) = (case last_store h (dw 0x46070) of Some v \<Rightarrow> v | None \<Rightarrow> dev_load s [] (dw 0x46070))" for h
    using assms(2) unfolding plain_reg_def by blast
  have same: "dev_load s (Ld (dw 0x46070) v # hist s) (dw 0x46070) = v"
    using q [of "Ld (dw 0x46070) v # hist s"] q [of "hist s"] by (simp add: v_def)
  have stored: "dev_load s (St (dw 0x46070) w # h) (dw 0x46070) = w" for w h
    using q [of "St (dw 0x46070) w # h"] by simp
  have "(v OR push_bit 31 1) AND push_bit 31 1 = push_bit 31 1" by (simp add: bit.conj_disj_distrib2)
  then show "peek t 0x46070 AND push_bit 31 1 \<noteq> 0"
    using same stored [of "v OR push_bit 31 1"] unfolding t pv pllEnable_def by (simp add: peek_def)
qed

lemma for_each_filter: "sz \<le> 64 \<Longrightarrow> for_each_set_bit val sz = filter (bit val) [0..<sz]"
proof -
  have "find_first_bit val sz = find_next_bit val sz 0"
    by (auto simp: find_first_bit_def find_next_bit_def)
  then show "sz \<le> 64 \<Longrightarrow> ?thesis"
    using set_bits_from_filter [of sz 0 val] by (simp add: for_each_set_bit_def)
qed

lemma abox_bits: "for_each_set_bit abox_mask 8 = [1, 2]"
  by (simp add: for_each_filter abox_mask_def upt_rec bit_numeral_rec)

text \<open>What a routine that only touches the given registers stores.\<close>

lemma em_plain_write:
  assumes "\<not> looksLikePlaneSurf reg" and "dw reg \<in> I"
  shows "state_io_rel (emits (stores_in I)) (writeReg32 reg v)"
  by (rule em_writeReg32_any [OF transparent_stores_in]) (use assms in \<open>simp_all add: stores_in_def\<close>)

lemma em_rmw:
  assumes "\<not> looksLikePlaneSurf (ucast reg)" and "dw (ucast reg) \<in> I"
  shows "state_io_rel (emits (stores_in I)) (rmw reg clear setv)"
  unfolding rmw_def intel_de_rmw_def Let_def
  by (intro em.io_rules em_stores_read em_plain_write assms)

lemma em_dbufSlice:
  assumes "\<not> looksLikePlaneSurf (ucast reg)" and "dw (ucast reg) \<in> I"
  shows "state_io_rel (emits (stores_in I)) (dbufSlice reg)"
  unfolding dbufSlice_def
  by (intro em.io_rules em_stores_read em_rmw em_delay transparent_stores_in assms)

lemma em_display_buffer:
  "state_io_rel (emits (stores_in (- {dw 0x45048}))) mbusInit"
  "state_io_rel (emits (stores_in (- {dw 0x45048}))) buddyInit"
  unfolding mbusInit_def buddyInit_def abox_bits
  by (intro em.io_rules em_rmw em_plain_write;
      auto simp: MBUS_ABOX_CTL_def PICK_EVEN_2RANGES_def PICK_EVEN_def BW_BUDDY_PAGE_MASK_def BW_BUDDY_CTL_def looksLikePlaneSurf_def)+

lemma buddy_mask_ddr4: "buddyConfig tgl_buddy_page_masks 2 INTEL_DRAM_DDR4 = 0x1F"
  by (simp add: tgl_buddy_page_masks_def)

text \<open>The unsigned comparison never holds.\<close>

lemma vdd_never_published:
  "exec (disableVDDForAux oread entry orig that) s = exec orig (exec (raReadRegister32 oread (ccont s) 0xc7200) s)"
  by (simp add: disableVDDForAux_def)

lemma panel_power_published:
  "getObject (props (ioregs (exec (setPanelPowerState entry orig that on) s))
     (entry (rd64 (kmem (exec (orig on) s)) (that + 0xd60)))) lcdPowerState = Some (OBool on)"
  by (simp add: setPanelPowerState_def)

lemma powerwell_flag: "\<not> inpwell (exec (PowerWellinit orig) s)"
  by (simp add: PowerWellinit_def)

lemma pipe_enabled_once:
  "\<not> hw (exec (hwSetMode orig en) s)"
  "\<not> hw (exec orig s) \<Longrightarrow> exec (hwSetMode orig en) s = (exec orig s)\<lparr>hw := False\<rparr>"
  by (simp_all add: hwSetMode_def)

text \<open>Apple's initializer of the 3D blitter's context runs on a spoofed device only where the boot
  argument asks for it and a buffer of at least 0xD040 bytes is mapped.\<close>

lemma blit_original_guarded:
  assumes "\<not> isRealTGL s" and "that \<noteq> 0"
  defines "buf \<equiv> rd64 (kmem s) (that + 0xd8)"
  shows "exec (IGHardwareBlit3DContextinitialize b orig that) s =
      (if boot_flag b ''-ngreenV69AllowOriginal'' \<and> buf \<noteq> 0 \<and> rd64 (kmem s) (buf + 0x18) \<noteq> 0 \<and> 0xD040 \<le> rd64 (kmem s) (buf + 0x20)
       then exec (orig that) s else exec (blitSkip that) s)"
  using assms(1,2) by (simp add: IGHardwareBlit3DContextinitialize_def Let_def buf_def)

lemma native_match: "pciPrimaryMatch (Some (0x9A49, 0x8086)) = pciPrimaryMatch None"
  by (simp add: pciPrimaryMatch_def hex4_def hexUpper_def char_of_def bit_numeral_rec bit_0)

section \<open>Properties\<close>

text \<open>C7: On a spoofed device the lane count reported to Apple's driver in the sink's capabilities
  and the lane count the link is trained with agree: after a successful read of the
  capabilities, whatever the sink answered, the reported count is one, two or four, it is the
  count \<open>computeLaneCount\<close> returns when no boot argument overrides it, the link rate is at most
  that of HBR2, and every other byte and the flags above the count are those of the sink.\<close>

theorem lanes_agree:
  assumes "address = 0 \<or> address = 0x2200" and "16 \<le> length caps"
    and "result orig s = (kIOReturnSuccess, Some caps)" and "\<not> isRealTGL (exec orig s)"
    and "getConfiguredLaneCountOverride b = 0"
  shows "\<exists>caps'. result (wrapICLReadAUX orig address) s = (kIOReturnSuccess, Some caps')
    \<and> lane_ok (caps' ! 2 AND 0x1F) \<and> caps' ! 1 \<le> 0x14 \<and> caps' ! 2 AND 0xE0 = caps ! 2 AND 0xE0
    \<and> (\<forall>i. i \<noteq> 1 \<and> i \<noteq> 2 \<longrightarrow> caps' ! i = caps ! i)
    \<and> result (computeLaneCount b True ocompute) (exec (wrapICLReadAUX orig address) s) = Some (ucast (caps' ! 2 AND 0x1F))"
proof -
  note c = capCaps_spoofed [OF assms(2)] and l = lane_bits [OF chosen_lane_ok [of "caps ! 2"], of "caps ! 2"]
  have "result (computeLaneCount b True ocompute) (exec (wrapICLReadAUX orig address) s) = Some (ucast (chosen_lane (caps ! 2)))"
    by (simp add: wrapICLReadAUX_caps [OF assms(1-3)] computeLaneCount_def assms(4,5) Let_def sanitized_lane)
  then show ?thesis
    using c l chosen_lane_ok [of "caps ! 2"] by (simp add: wrapICLReadAUX_caps(1) [OF assms(1-3)] assms(4))
qed

text \<open>C6: While external displays are gated, no sequence of calls on an external framebuffer
  brings it up: its connected byte is zero after the first call, Apple's routines to enable the
  controller, to set a mode and to handle a connection change are never reached, so that any
  other routines in their place give the same state, and the framebuffer is reported offline.
  The only routine of Apple's that runs is the query of the connector, which is taken to leave
  the framebuffer's index alone.\<close>

theorem external_gate_closed:
  assumes "external_gated that s" and "ops \<noteq> []"
    and "\<And>s. external_gated that s \<Longrightarrow> external_gated that (exec (ogetOnlineInfo E that) s)"
    and "fb_service E' = fb_service E" and "ogetOnlineInfo E' = ogetOnlineInfo E"
  defines "t \<equiv> exec (forM ops (fbStep E that)) s"
  shows "kmem t (that + 0x1e0) = 0 \<and> exec (forM ops (fbStep E' that)) s = t
    \<and> fst (result (getOnlineInfo E that) t) \<in> {None, Some 0}"
proof -
  have g: "external_gated that t" and r: "kmem t (that + 0x1e0) = 0" "exec (forM ops (fbStep E' that)) s = t"
    using gated_run [OF assms(3-5) assms(1), of ops] assms(2) by (simp_all add: t_def)
  have "result (gatedExternal that) (exec (ogetOnlineInfo E that) t)"
    by (rule gatedExternal_result [OF assms(3) [OF g]])
  then have "fst (result (getOnlineInfo E that) t) \<in> {None, Some 0}"
    by (cases "result (ogetOnlineInfo E that) t"; cases "fst (result (ogetOnlineInfo E that) t)") (simp_all add: getOnlineInfo_def)
  then show ?thesis using r by simp
qed

text \<open>C26: The upload of the display microcontroller's firmware is verbatim: although it goes
  through the hooked register write, which rewrites some values, each double word of the blob
  reaches Apple's write unchanged, for the controller of the moment, at its own offset from 0x80000
  and in order.\<close>

theorem dmc_upload_verbatim:
  assumes "length blob \<le> 0x10000"
  shows "exec (uploadDmc orig blob) s =
    exec (forM (zip [0..<length blob] blob) (\<lambda>(i, v). do { c \<leftarrow> gets ccont; orig c (0x80000 + of_nat (4 * i)) v })) s"
proof -
  have a: "FastWriteRegister32 orig c (4 * of_nat i + 0x80000) v = orig c (0x80000 + of_nat (4 * i)) v"
    if "i < 0x10000" for i c v
  proof -
    define n where "n = 4 * i"
    have "unat (of_nat (0x80000 + n) :: u64) = 0x80000 + n"
      using that by (simp add: n_def unat_of_nat del: of_nat_add of_nat_mult)
    moreover have "w \<notin> {0x20b4, 0x220b4, 0x70188, 0x70180}" if "unat w = 0x80000 + n" for w :: u64 using that by auto
    ultimately have "(of_nat (0x80000 + n) :: u64) \<notin> {0x20b4, 0x220b4, 0x70188, 0x70180}" by blast
    then have "FastWriteRegister32 orig c (of_nat (0x80000 + n)) v = orig c (of_nat (0x80000 + n)) v"
      by (rule fast_write_passes)
    then show ?thesis by (simp add: n_def add.commute)
  qed
  have "exec (forM is (\<lambda>i. do { c \<leftarrow> gets ccont; FastWriteRegister32 orig c (4 * of_nat i + 0x80000) (blob ! i) })) t =
    exec (forM (map (\<lambda>i. (i, blob ! i)) is) (\<lambda>(i, v). do { c \<leftarrow> gets ccont; orig c (0x80000 + of_nat (4 * i)) v })) t"
    if "\<forall>i \<in> set is. i < 0x10000" for "is" t
    using that by (induction "is" arbitrary: t) (simp_all add: a del: of_nat_mult)
  moreover have "map (\<lambda>i. (i, blob ! i)) [0..<length blob] = zip [0..<length blob] blob"
    by (rule nth_equalityI) simp_all
  ultimately show ?thesis
    using assms by (simp add: uploadDmc_def del: of_nat_mult)
qed

definition sample_dstate :: dstate where
  "sample_dstate = (ustate.extend sample_ustate (dstate.fields 0 0 0 0 False False False True))
     \<lparr>isRealTGL := False, gateExternalDisplays := True, kmem := (\<lambda>_. 1)\<rparr>"

theorem lanes_agree_witness:
  "\<exists>caps'. result (wrapICLReadAUX (ret (kIOReturnSuccess, Some (0x12 # 0x1E # 0xC3 # replicate 13 0))) 0) sample_dstate
      = (kIOReturnSuccess, Some caps')
    \<and> result (computeLaneCount boot_none True (ret 0))
        (exec (wrapICLReadAUX (ret (kIOReturnSuccess, Some (0x12 # 0x1E # 0xC3 # replicate 13 0))) 0) sample_dstate)
      = Some (ucast (caps' ! 2 AND 0x1F))"
proof -
  have r: "\<not> isRealTGL (exec (ret (kIOReturnSuccess, Some (0x12 # 0x1E # 0xC3 # replicate 13 (0 :: u8)))) sample_dstate)"
    by (simp add: sample_dstate_def)
  have o: "getConfiguredLaneCountOverride boot_none = 0"
    by (simp add: getConfiguredLaneCountOverride_def boot_none_def)
  show ?thesis
    using lanes_agree [where address = 0 and caps = "0x12 # 0x1E # 0xC3 # replicate 13 0" and ocompute = "ret 0", OF _ _ _ r o]
    by auto
qed

definition sample_fbenv :: "u8 \<Rightarrow> unit fbenv" where
  "sample_fbenv x = \<lparr>fb_service = (\<lambda>_. None), oenableController = (\<lambda>_. ret x), osetDisplayMode = (\<lambda>_ _ _. ret x),
     oconnectionChanged = (\<lambda>p. do { modify (\<lambda>s. s\<lparr>kmem := wr8 (p + 0x1e0) x (kmem s)\<rparr>); ret x }),
     ogetOnlineInfo = (\<lambda>_. ret (Some 1, None))\<rparr>"

theorem external_gate_closed_witness:
  "kmem (exec (forM [ConnectionChanged, EnableController, GetOnlineInfo] (fbStep (sample_fbenv 1) 0x1000)) sample_dstate) 0x11e0 = 0"
proof -
  have "external_gated 0x1000 sample_dstate"
    by (simp add: external_gated_def sample_dstate_def rd32_def)
  from external_gate_closed [where ops = "[ConnectionChanged, EnableController, GetOnlineInfo]" and E = "sample_fbenv 1"
      and E' = "sample_fbenv 2", OF this] show ?thesis
    by (simp add: sample_fbenv_def)
qed

theorem dmc_upload_verbatim_witness:
  "exec (uploadDmc (\<lambda>_ r v. writeReg32 r v) [0x40403E2C, 7]) sample_dstate =
   exec (forM (zip [0..<2] [0x40403E2C, 7]) (\<lambda>(i, v). writeReg32 (0x80000 + of_nat (4 * i)) v)) sample_dstate"
  using dmc_upload_verbatim [of "[0x40403E2C, 7]" "\<lambda>_ r v. writeReg32 r v" sample_dstate] by (simp add: numeral_2_eq_2)

text \<open>C28: The hooked probe of the core display clock switches the phase-locked loop on before anything of
  Apple's runs, whatever the register held and whatever Apple's routines do. With a clock that is
  fast enough, or a reserved reference clock, Apple's probe is entered right then, with the enable
  bit set over whose absence it would panic. With a slower clock the loop is on when Apple's disable
  routine is entered, followed by Apple's set routine with the loop frequency for the reference
  clock and by the probe, nothing of the plugin's in between: what the probe then finds is what
  Apple's set routine leaves, which the hook does not check again.\<close>

theorem probe_finds_pll_enabled:
  fixes s :: "'a dstate_scheme"
  assumes "direct s 0x51004" and "plain_reg s 0x46070"
  shows "\<exists>h ctl dssm. peek (s\<lparr>hist := h\<rparr>) 0x46070 AND push_bit 31 1 \<noteq> 0
    \<and> (h = Ld (dw 0x46000) ctl # pllEnable (peek s 0x46070) @ hist s \<and> 0x50E \<le> ctl AND 0x7ff
         \<and> run_state (wrapProbeCDClockFrequency E) s = run_state (orgProbeCDClockFrequency E) (s\<lparr>hist := h\<rparr>)
      \<or> h = Ld (dw 0x51004) dssm # Ld (dw 0x46000) ctl # pllEnable (peek s 0x46070) @ hist s \<and> ctl AND 0x7ff < 0x50E
         \<and> run_state (wrapProbeCDClockFrequency E) s =
           run_state (case cdclkTarget (drop_bit 29 dssm) of
               None \<Rightarrow> orgProbeCDClockFrequency E
             | Some (cdclk, pll) \<Rightarrow> do {
                 (case orgDisableCDClock E of Some f \<Rightarrow> f | None \<Rightarrow> odisableCDClock E);
                 orgSetCDClockFrequency E pll;
                 orgProbeCDClockFrequency E }) (s\<lparr>hist := h\<rparr>))"
proof -
  have d: "direct s 0x46070" and d2: "direct (s\<lparr>hist := h\<rparr>) 0x46000" "direct (s\<lparr>hist := h\<rparr>) 0x51004" for h
    using assms(1) by (auto simp: direct_def mmioValid_def word_le_nat_alt)
  define t where "t = exec (do { squash \<leftarrow> readReg32 0x46070; whenM (squash AND push_bit 31 1 = 0) (writeReg32 0x46070 (squash OR push_bit 31 1)) }) s"
  note t = pll_enable_step [OF d assms(2), folded t_def]
  define ctl where "ctl = result (readReg32 0x46000) t"
  define u where "u = exec (readReg32 0x46000) t"
  note u = spares_peek [OF spares_read t(3), of "0x46000", folded u_def]
  define dssm where "dssm = result (readReg32 0x51004) u"
  define w where "w = exec (readReg32 0x51004) u"
  note w = spares_peek [OF spares_read u(2), of "0x51004", folded w_def]
  have hu: "u = s\<lparr>hist := Ld (dw 0x46000) ctl # pllEnable (peek s 0x46070) @ hist s\<rparr>"
    unfolding u_def ctl_def t(1) by (simp add: readReg32_direct [OF d2(1)])
  have hw: "w = s\<lparr>hist := Ld (dw 0x51004) dssm # Ld (dw 0x46000) ctl # pllEnable (peek s 0x46070) @ hist s\<rparr>"
    unfolding w_def dssm_def hu by (simp add: readReg32_direct [OF d2(2)])
  have run: "run_state (wrapProbeCDClockFrequency E) s =
      run_state (do { whenM (ctl AND 0x7ff < 0x50E) (sanitizeCDClockFrequency E); orgProbeCDClockFrequency E }) u"
    unfolding wrapProbeCDClockFrequency_def u_def ctl_def t_def by (simp only: run_pair run_simps)
  show ?thesis
  proof (cases "ctl AND 0x7ff < 0x50E")
    case False
    then have "run_state (wrapProbeCDClockFrequency E) s = run_state (orgProbeCDClockFrequency E) u"
      using run by (simp add: run_pair)
    then show ?thesis
      using False t(2) u(1) hu by (intro exI [of _ "hist u"] exI [of _ ctl]) (simp add: not_less)
  next
    case True
    have "run_state (wrapProbeCDClockFrequency E) s = run_state (case cdclkTarget (drop_bit 29 dssm) of
               None \<Rightarrow> orgProbeCDClockFrequency E
             | Some (cdclk, pll) \<Rightarrow> do {
                 (case orgDisableCDClock E of Some f \<Rightarrow> f | None \<Rightarrow> odisableCDClock E);
                 orgSetCDClockFrequency E pll;
                 orgProbeCDClockFrequency E }) w"
      using True unfolding run unfolding sanitizeCDClockFrequency_def run_pair
      by (simp add: w_def dssm_def split: option.split prod.split)
    then show ?thesis
      using True t(2) u(1) w(1) hw by (intro exI [of _ "hist w"] exI [of _ ctl] exI [of _ dssm]) simp
  qed
qed

lemma sample_dstate_bus: "big_bar sample_dstate" "dev_load sample_dstate = regfile (\<lambda>_. 0)"
  using sample_gstate_fields(1) sample_hstate_fields(4)
  by (simp_all add: sample_dstate_def ustate.defs dstate.defs sample_ustate_def gstate.defs sample_gstate_def hstate.defs
    big_bar_def mmioValid_def)

text \<open>Routines that switch the loop off and on again, as a change of frequency does.\<close>

definition sample_cdenv :: "unit cdenv" where
  "sample_cdenv = \<lparr>orgDisableCDClock = None, odisableCDClock = writeReg32 0x46070 0,
     orgSetCDClockFrequency = (\<lambda>f. do { writeReg32 0x46000 0x50E; writeReg32 0x46070 (push_bit 31 1) }),
     orgProbeCDClockFrequency = do { v \<leftarrow> readReg32 0x46070; ret (if v AND push_bit 31 1 = 0 then 0 else 648000000) }\<rparr>"

theorem probe_finds_pll_enabled_witness:
  "\<exists>h ctl dssm. peek (sample_dstate\<lparr>hist := h\<rparr>) 0x46070 AND push_bit 31 1 \<noteq> 0
    \<and> (h = Ld (dw 0x46000) ctl # pllEnable (peek sample_dstate 0x46070) @ hist sample_dstate \<and> 0x50E \<le> ctl AND 0x7ff
         \<and> run_state (wrapProbeCDClockFrequency sample_cdenv) sample_dstate =
           run_state (orgProbeCDClockFrequency sample_cdenv) (sample_dstate\<lparr>hist := h\<rparr>)
      \<or> h = Ld (dw 0x51004) dssm # Ld (dw 0x46000) ctl # pllEnable (peek sample_dstate 0x46070) @ hist sample_dstate
         \<and> ctl AND 0x7ff < 0x50E
         \<and> run_state (wrapProbeCDClockFrequency sample_cdenv) sample_dstate =
           run_state (case cdclkTarget (drop_bit 29 dssm) of
               None \<Rightarrow> orgProbeCDClockFrequency sample_cdenv
             | Some (cdclk, pll) \<Rightarrow> do {
                 (case orgDisableCDClock sample_cdenv of Some f \<Rightarrow> f | None \<Rightarrow> odisableCDClock sample_cdenv);
                 orgSetCDClockFrequency sample_cdenv pll;
                 orgProbeCDClockFrequency sample_cdenv }) (sample_dstate\<lparr>hist := h\<rparr>))"
proof (rule probe_finds_pll_enabled)
  show "direct sample_dstate 0x51004" by (rule big_bar_direct [OF sample_dstate_bus(1)]) simp
  show "plain_reg sample_dstate 0x46070"
    by (simp add: plain_reg_def sample_dstate_bus(2) regfile_def split: option.split)
qed

text \<open>The display buffer set-up never programs the arbiter box 1: the macro that should select
  its control register yields that of box 2 for both boxes, so that box 2 is written twice and
  the register of box 1 keeps whatever was stored to it before.\<close>

theorem abox1_never_programmed:
  fixes s :: "'a mmio_scheme"
  shows "MBUS_ABOX_CTL 1 = MBUS_ABOX_CTL 2
   \<and> last_store (hist (exec (allocateDisplayResources orig) s)) (dw 0x45048) = last_store (hist (exec orig s)) (dw 0x45048)"
proof
  show "MBUS_ABOX_CTL 1 = MBUS_ABOX_CTL 2"
    by (simp add: MBUS_ABOX_CTL_def PICK_EVEN_2RANGES_def PICK_EVEN_def)
  define rest :: "('a mmio_scheme, unit) state" where "rest = do {
     writeReg32 0x45504 0; rmw 0xc2020 0 (push_bit 15 1); rmw 0x46408 (push_bit 4 1) (push_bit 4 1);
     rmw 0x44FE8 0xF80000 (push_bit 19 8 AND 0xF80000); rmw 0x44300 0xF80000 (push_bit 19 8 AND 0xF80000);
     dbufSlice 0x44FE8; dbufSlice 0x44300; mbusInit; buddyInit; rmw 0x101038 (push_bit 1 1) 0 }"
  have "state_io_rel (emits (stores_in (- {dw 0x45048}))) rest"
    unfolding rest_def
    by (intro em.io_rules em_rmw em_plain_write em_dbufSlice em_display_buffer; simp add: looksLikePlaneSurf_def)
  then have "emits (stores_in (- {dw 0x45048})) (exec orig s) (exec rest (exec orig s))"
    by (simp add: state_io_rel_exec)
  then have "last_store (hist (exec rest (exec orig s))) (dw 0x45048) = last_store (hist (exec orig s)) (dw 0x45048)"
    by (rule last_store_frame) (simp_all add: reg_defs)
  then show "last_store (hist (exec (allocateDisplayResources orig) s)) (dw 0x45048) = last_store (hist (exec orig s)) (dw 0x45048)"
    unfolding allocateDisplayResources_def rest_def by (simp only: run_simps)
qed

end
