(* ===== verification/NG_Kext.thy ===== *)
theory NG_Kext
  imports NG_Display
begin

text \<open>
  The installation of the hooks: \<open>Utilities/PatcherPlus.cpp\<close> and the two \<open>processKext\<close> routines
  (\<open>NGreen.cpp\<close>, \<open>iTGL/TGL.cpp\<close>) with their tables of symbols and byte patches, and the registration
  by \<open>init\<close>. Lilu's patcher is a parameter, a record of transitions of its own state
  \<open>pst\<close>, which holds its error code and the kernel extension being patched. A hook is named by the
  routine of the source. The ghost field \<open>installed\<close> lists the routes Lilu accepted; the addresses
  of the originals, which Lilu stores, are left out. \<open>None\<close> is a kernel panic.
\<close>

section \<open>State and environment\<close>

record 'p kxstate = dstate +
  pst :: 'p
  members :: "string \<Rightarrow> u64"
  installed :: "(string \<times> string) list"
  tglFBLoaded :: bool

record LookupPatchPlus =
  find_bytes :: "u8 list"
  findMask :: "u8 list option"
  replace_bytes :: "u8 list"
  replaceMask :: "u8 list option"
  patch_count :: nat
  skip :: nat

definition plainPatch :: "u8 list \<Rightarrow> u8 list \<Rightarrow> nat \<Rightarrow> LookupPatchPlus" where
  "plainPatch f r n = \<lparr>find_bytes = f, findMask = None, replace_bytes = r, replaceMask = None, patch_count = n, skip = 0\<rparr>"

definition maskedPatch :: "u8 list \<Rightarrow> u8 list \<Rightarrow> u8 list \<Rightarrow> u8 list \<Rightarrow> nat \<Rightarrow> LookupPatchPlus" where
  "maskedPatch f fm r rm n =
     \<lparr>find_bytes = f, findMask = Some fm, replace_bytes = r, replaceMask = Some rm, patch_count = n, skip = 0\<rparr>"

text \<open>Where a solved address goes: nowhere, to a local variable, or to a member.\<close>

datatype dest = Null | Local | Member string

record SolveRequestPlus =
  solve_symbol :: string
  solve_dest :: dest
  solve_pattern :: "(u8 list \<times> u8 list option) option"

record RouteRequestPlus =
  route_symbol :: string
  route_to :: string
  route_pattern :: "(u8 list \<times> u8 list option) option"

record 'p lilu =
  solveSymbol :: "string \<Rightarrow> 'p \<Rightarrow> u64 \<times> 'p"
  solveSymbolIn :: "string \<Rightarrow> 'p \<Rightarrow> u64 \<times> 'p"
  routeMultiple :: "(string \<times> string) list \<Rightarrow> 'p \<Rightarrow> bool \<times> 'p"
  routeFunction :: "u64 \<Rightarrow> string \<Rightarrow> 'p \<Rightarrow> u64 \<times> 'p"
  clearError :: "'p \<Rightarrow> unit \<times> 'p"
  noError :: "'p \<Rightarrow> bool \<times> 'p"
  findPattern :: "u8 list \<times> u8 list option \<Rightarrow> 'p \<Rightarrow> nat option \<times> 'p"
  applyLookupPatch :: "LookupPatchPlus \<Rightarrow> 'p \<Rightarrow> unit \<times> 'p"
  findAndReplaceWithMask :: "LookupPatchPlus \<Rightarrow> 'p \<Rightarrow> bool \<times> 'p"
  kext_address :: u64

definition patcher :: "('p \<Rightarrow> 'x \<times> 'p) \<Rightarrow> (('p, 'a) kxstate_scheme, 'x) state" where
  "patcher f = do {
     p \<leftarrow> gets pst;
     modify (\<lambda>s. s\<lparr>pst := snd (f p)\<rparr>);
     ret (fst (f p))
   }"

section \<open>PatcherPlus\<close>

definition usable :: "(u8 list \<times> u8 list option) option \<Rightarrow> (u8 list \<times> u8 list option) option" where
  "usable pat = (case pat of Some (p, m) \<Rightarrow> if p = [] then None else Some (p, m) | None \<Rightarrow> None)"

definition store_dest :: "dest \<Rightarrow> u64 \<Rightarrow> (('p, 'a) kxstate_scheme, unit) state" where
  "store_dest d a = (case d of Member x \<Rightarrow> modify (\<lambda>s. s\<lparr>members := (members s)(x := a)\<rparr>) | _ \<Rightarrow> ret ())"

definition solve :: "'p lilu \<Rightarrow> SolveRequestPlus \<Rightarrow> (('p, 'a) kxstate_scheme, bool) state" where
  "solve L r = (if solve_dest r = Null then ret False else do {
     a \<leftarrow> patcher (solveSymbol L (solve_symbol r));
     store_dest (solve_dest r) a;
     if a \<noteq> 0 then ret True else do {
       patcher (clearError L);
       case usable (solve_pattern r) of
         None \<Rightarrow> ret False
       | Some pat \<Rightarrow> do {
           offset \<leftarrow> patcher (findPattern L pat);
           case offset of
             Some (Suc k) \<Rightarrow> do { store_dest (solve_dest r) (kext_address L + of_nat (Suc k)); ret True }
           | _ \<Rightarrow> ret False
         }
     }
   })"

definition accepted :: "(string \<times> string) list \<Rightarrow> (('p, 'a) kxstate_scheme, unit) state" where
  "accepted rs = modify (\<lambda>s. s\<lparr>installed := installed s @ rs\<rparr>)"

definition route :: "'p lilu \<Rightarrow> RouteRequestPlus \<Rightarrow> (('p, 'a) kxstate_scheme, bool) state" where
  "route L r = do {
     ok \<leftarrow> patcher (routeMultiple L [(route_symbol r, route_to r)]);
     if ok then do { accepted [(route_symbol r, route_to r)]; ret True } else do {
       patcher (clearError L);
       case usable (route_pattern r) of
         None \<Rightarrow> ret False
       | Some pat \<Rightarrow> do {
           offset \<leftarrow> patcher (findPattern L pat);
           case offset of
             Some (Suc k) \<Rightarrow> do {
               org \<leftarrow> patcher (routeFunction L (kext_address L + of_nat (Suc k)) (route_to r));
               if org = 0 then ret False else do { accepted [(route_symbol r, route_to r)]; ret True }
             }
           | _ \<Rightarrow> ret False
         }
     }
   }"

definition applyPatch :: "'p lilu \<Rightarrow> LookupPatchPlus \<Rightarrow> (('p, 'a) kxstate_scheme, bool) state" where
  "applyPatch L p = (if findMask p = None \<and> replaceMask p = None \<and> skip p = 0
     then do { patcher (applyLookupPatch L p); patcher (noError L) }
     else patcher (findAndReplaceWithMask L p))"

text \<open>The loops of \<open>solveAll\<close>, \<open>routeAll\<close> and \<open>applyAll\<close>, which stop at the first failure.\<close>

primrec allM :: "('x \<Rightarrow> ('s, bool) state) \<Rightarrow> 'x list \<Rightarrow> ('s, bool) state" where
  "allM f [] = ret True"
| "allM f (x # xs) = do { ok \<leftarrow> f x; if ok then allM f xs else ret False }"

definition solveAll :: "'p lilu \<Rightarrow> (string \<times> string) list \<Rightarrow> (('p, 'a) kxstate_scheme, bool) state" where
  "solveAll L rs = allM (\<lambda>(sym, m). solve L \<lparr>solve_symbol = sym, solve_dest = Member m, solve_pattern = None\<rparr>) rs"

definition routeAll :: "'p lilu \<Rightarrow> (string \<times> string) list \<Rightarrow> (('p, 'a) kxstate_scheme, bool) state" where
  "routeAll L rs = allM (\<lambda>(sym, hook). route L \<lparr>route_symbol = sym, route_to = hook, route_pattern = None\<rparr>) rs"

definition applyAll :: "'p lilu \<Rightarrow> LookupPatchPlus list \<Rightarrow> (('p, 'a) kxstate_scheme, bool) state" where
  "applyAll L ps = allM (applyPatch L) ps"

section \<open>Tables\<close>

definition fbRoutes :: "(string \<times> string) list" where
  "fbRoutes =
    [(''__ZN24AppleIntelBaseController17registerWithAICPMEPv'', ''alwaysReturnSuccess''),
     (''__ZN19AppleIntelPowerWell21hwSetPowerWellStatePGEbj.cold.1'', ''releaseDoorbell''),
     (''__ZN19AppleIntelPowerWell21hwSetPowerWellStatePGEbj.cold.2'', ''releaseDoorbell''),
     (''__ZN19AppleIntelPowerWell21hwSetPowerWellStatePGEbj.cold.3'', ''releaseDoorbell''),
     (''__ZN19AppleIntelPowerWell21hwSetPowerWellStatePGEbj.cold.4'', ''releaseDoorbell''),
     (''__ZN19AppleIntelPowerWell21hwSetPowerWellStatePGEbj.cold.5'', ''releaseDoorbell''),
     (''__ZN19AppleIntelPowerWell21hwSetPowerWellStatePGEbj.cold.6'', ''releaseDoorbell''),
     (''__ZN19AppleIntelPowerWell21hwSetPowerWellStatePGEbj.cold.7'', ''releaseDoorbell''),
     (''__ZN19AppleIntelPowerWell21hwSetPowerWellStatePGEbj.cold.8'', ''releaseDoorbell''),
     (''__ZN19AppleIntelPowerWell21hwSetPowerWellStatePGEbj.cold.9'', ''releaseDoorbell''),
     (''__ZN19AppleIntelPowerWell21hwSetPowerWellStatePGEbj.cold.10'', ''releaseDoorbell''),
     (''__ZN19AppleIntelPowerWell21hwSetPowerWellStatePGEbj.cold.11'', ''releaseDoorbell''),
     (''__ZN19AppleIntelPowerWell21hwSetPowerWellStatePGEbj.cold.12'', ''releaseDoorbell''),
     (''__ZN19AppleIntelPowerWell22hwSetPowerWellStateAuxEbj.cold.1'', ''releaseDoorbell''),
     (''__ZN16AppleIntelScaler13disableScalerEb'', ''disableScaler''),
     (''__ZN15AppleIntelPlane11enablePlaneEb'', ''enablePlane''),
     (''__ZN16AppleIntelScaler17programPipeScalerEP21AppleIntelDisplayPath'', ''programPipeScaler''),
     (''__ZN15AppleIntelPlane19updateRegisterCacheEv'', ''AppleIntelPlaneupdateRegisterCache''),
     (''__ZN16AppleIntelScaler19updateRegisterCacheEv'', ''AppleIntelScalerupdateRegisterCache''),
     (''__ZN19AppleIntelPowerWell20disableDisplayEngineEv'', ''disableDisplayEngine''),
     (''__ZN19AppleIntelPowerWell19enableDisplayEngineEv'', ''enableDisplayEngine''),
     (''__ZN14AppleIntelPort16computeLaneCountEPK29IODetailedTimingInformationV2jjPj'', ''computeLaneCount''),
     (''__ZN14AppleIntelPort7readAUXEjPvj'', ''wrapICLReadAUX''),
     (''__ZN21AppleIntelFramebuffer13getOnlineInfoEP21AppleIntelDisplayPathPhS2_'', ''getOnlineInfo''),
     (''__ZN21AppleIntelFramebuffer16enableControllerEv'', ''enableController''),
     (''__ZN21AppleIntelFramebuffer14setDisplayModeEii'', ''setDisplayMode''),
     (''__ZN21AppleIntelFramebuffer17connectionChangedEv'', ''connectionChanged''),
     (''__ZN19AppleIntelPowerWell21hwSetPowerWellStatePGEbj'', ''releaseDoorbell''),
     (''__ZN19AppleIntelPowerWell22hwSetPowerWellStateAuxEbj'', ''hwSetPowerWellStateAux''),
     (''__ZN19AppleIntelPowerWell22hwSetPowerWellStateDDIEbj'', ''hwSetPowerWellStateDDI''),
     (''__ZN31AppleIntelRegisterAccessManager19FastWriteRegister32Emj'', ''FastWriteRegister32''),
     (''__ZN31AppleIntelRegisterAccessManager15WriteRegister32Emj'', ''raWriteRegister32''),
     (''__ZN31AppleIntelRegisterAccessManager15WriteRegister32EPVvmj'', ''raWriteRegister32b''),
     (''__ZN21AppleIntelFramebuffer17prepareToExitWakeEv'', ''releaseDoorbell''),
     (''__ZN21AppleIntelFramebuffer18prepareToEnterWakeEv'', ''releaseDoorbell''),
     (''__ZN21AppleIntelFramebuffer18prepareToExitSleepEv'', ''releaseDoorbell''),
     (''__ZN21AppleIntelFramebuffer19prepareToEnterSleepEv'', ''releaseDoorbell''),
     (''__ZN24AppleIntelBaseController15enableVDDForAuxEP14AppleIntelPort'', ''releaseDoorbell'')]"

definition fbProdRoutes :: "(string \<times> string) list" where
  "fbProdRoutes =
    [(''__ZN21AppleIntelFramebuffer4initEP31AppleIntelFramebufferControllerj'', ''AppleIntelFramebufferinit''),
     (''__ZN31AppleIntelFramebufferController10hwShutdownEP21AppleIntelFramebuffer'', ''handleLinkIntegrityCheck''),
     (''__ZN31AppleIntelFramebufferController18hwInitializeCStateEv'', ''hwInitializeCState''),
     (''__ZN31AppleIntelFramebufferController20hwConfigureCustomAUXEb'', ''hwConfigureCustomAUX''),
     (''__ZN19AppleIntelPowerWell4initEP31AppleIntelFramebufferController'', ''AppleIntelPowerWellinit''),
     (''__ZN31AppleIntelFramebufferController5startEP9IOService'', ''AppleIntelBaseControllerstart''),
     (''__ZN31AppleIntelFramebufferController21probeCDClockFrequencyEv'', ''wrapProbeCDClockFrequency''),
     (''__ZN31AppleIntelFramebufferController11initCDClockEv'', ''initCDClock''),
     (''__ZN31AppleIntelFramebufferController28setCDClockFrequencyOnHotplugEv'', ''setCDClockFrequencyOnHotplug''),
     (''__ZN31AppleIntelFramebufferController14disableCDClockEv'', ''disableCDClock''),
     (''__ZN31AppleIntelFramebufferController23initPlatformWorkaroundsEv'', ''initPlatformWorkarounds''),
     (''__ZN31AppleIntelFramebufferController16getOSInformationEv'', ''getOSInformation''),
     (''__ZN31AppleIntelFramebufferController16hwRegsNeedUpdateEP21AppleIntelFramebufferP21AppleIntelDisplayPathP10CRTCParamsPK29IODetailedTimingInformationV2PN16AppleIntelScaler12SCALERPARAMSE'', ''hwRegsNeedUpdate'')]"

definition fbDebugRoutes :: "(string \<times> string) list" where
  "fbDebugRoutes =
    [(''__ZN21AppleIntelFramebuffer4initEP24AppleIntelBaseControllerj'', ''AppleIntelFramebufferinit''),
     (''__ZN24AppleIntelBaseController10hwShutdownEP21AppleIntelFramebuffer'', ''handleLinkIntegrityCheck''),
     (''__ZN24AppleIntelBaseController18hwInitializeCStateEv'', ''hwInitializeCState''),
     (''__ZN24AppleIntelBaseController20hwConfigureCustomAUXEb'', ''hwConfigureCustomAUX''),
     (''__ZN19AppleIntelPowerWell4initEP24AppleIntelBaseController'', ''AppleIntelPowerWellinit''),
     (''__ZN24AppleIntelBaseController5startEP9IOService'', ''AppleIntelBaseControllerstart''),
     (''__ZN24AppleIntelBaseController21probeCDClockFrequencyEv'', ''wrapProbeCDClockFrequency''),
     (''__ZN24AppleIntelBaseController11initCDClockEv'', ''initCDClock''),
     (''__ZN24AppleIntelBaseController28setCDClockFrequencyOnHotplugEv'', ''setCDClockFrequencyOnHotplug''),
     (''__ZN24AppleIntelBaseController14disableCDClockEv'', ''disableCDClock''),
     (''__ZN24AppleIntelBaseController23initPlatformWorkaroundsEv'', ''initPlatformWorkarounds''),
     (''__ZN24AppleIntelBaseController16getOSInformationEv'', ''getOSInformation''),
     (''__ZN24AppleIntelBaseController16hwRegsNeedUpdateEP21AppleIntelFramebufferP21AppleIntelDisplayPathP10CRTCParamsPK29IODetailedTimingInformationV2PN16AppleIntelScaler12SCALERPARAMSE'', ''hwRegsNeedUpdate'')]"

definition hwRoutes :: "(string \<times> string) list" where
  "hwRoutes =
    [(''__ZN16IntelAccelerator20_PAVPCommandCallbackEP8OSObject22PAVPSessionCommandID_tjPj'', ''wrapPavpSessionCallback''),
     (''__ZN20IGHardwareRingBuffer19resetGraphicsEngineEP17IGHardwareContext'', ''resetGraphicsEngine''),
     (''__ZN16IntelAccelerator5startEP9IOService'', ''start''),
     (''__ZN16IntelAccelerator5probeEP9IOServicePi'', ''probe''),
     (''__ZN23IGHardwareBlit3DContext10initializeEv'', ''IGHardwareBlit3DContextinitialize'')]"

definition firmwareRoutes :: "(string \<times> string) list" where
  "firmwareRoutes =
    [(''__ZN13IGHardwareGuC13loadGuCBinaryEv'', ''loadGuCBinary''),
     (''__ZN13IGHardwareGuC16initSchedControlEv'', ''wrapInitSchedControl''),
     (''__ZN5IGGuC15canLoadFirmwareEP22IOGraphicsAccelerator2'', ''canLoadFirmware'')]"

definition policyRoutes :: "(string \<times> string) list" where
  "policyRoutes =
    [(''__ZN25IGHardwareExtendedContext15initWithOptionsEP11IGAccelTaskRK31IGHardwareExtendedContextParams'', ''IGHardwareExtendedContextinitWithOptions''),
     (''__ZN17IGHardwareContext25initRingGPUVirtualAddressEv'', ''IGHardwareContextinitRingGPUVirtualAddress''),
     (''__ZN17IGHardwareContext17initRingRegistersEv'', ''IGHardwareContextinitRingRegisters''),
     (''__ZN17IGHardwareContext15initRingControlEb'', ''IGHardwareContextinitRingControl''),
     (''__ZN17IGHardwareContext13resetRingHeadEv'', ''IGHardwareContextresetRingHead''),
     (''__ZN17IGHardwareContext14updateRingTailEj'', ''IGHardwareContextupdateRingTail''),
     (''__ZN20IGHardwareRingBuffer4initEP17IGHardwareContext'', ''IGHardwareRingBufferinit''),
     (''__ZN20IGHardwareRingBuffer12submitToRingEv'', ''IGHardwareRingBuffersubmitToRing''),
     (''__ZN26IGHardwareCommandStreamer514submitExecListEj'', ''IGHardwareCommandStreamersubmitExecList''),
     (''__ZN26IGHardwareCommandStreamer516resumeSchedulingEv'', ''IGHardwareCommandStreamerresumeScheduling''),
     (''__ZN26IGHardwareCommandStreamer524prepareExecListAndSubmitEjjPKj'', ''IGHardwareCommandStreamerprepareExecListAndSubmit'')]"

definition schedulerPolicyRoutes :: "(string \<times> string) list" where
  "schedulerPolicyRoutes =
    [(''__ZN12IGScheduler519initWithAcceleratorEP22IOGraphicsAccelerator2'', ''IGScheduler5initWithAccelerator''),
     (''__ZN12IGScheduler56resumeEv'', ''IGScheduler5resume''),
     (''__ZN12IGScheduler54pushEP17IGHardwareContextjjbb'', ''IGScheduler5push''),
     (''__ZN12IGScheduler56notifyE10IGHwCsType'', ''IGScheduler5notify''),
     (''__ZN12IGScheduler520enableStampInterruptEi'', ''IGScheduler5enableStampInterrupt''),
     (''__ZN12IGScheduler529enableContextSwitchInterruptsEv'', ''IGScheduler5enableContextSwitchInterrupts''),
     (''__ZN12IGScheduler516checkForProgressE10IGHwCsType'', ''IGScheduler5checkForProgress'')]"

definition fbPatchesProd :: "LookupPatchPlus list" where
  "fbPatchesProd =
    [plainPatch [0xE8, 0x66, 0xB0, 0xFE, 0xFF, 0x89, 0x45, 0xC8, 0x3D, 0xFF, 0xFF, 0, 0, 0x74, 0x45]
       [0xE8, 0x66, 0xB0, 0xFE, 0xFF, 0x89, 0x45, 0xC8, 0x3D, 0xFF, 0xFF, 0, 0, 0xEB, 0x45] 1,
     plainPatch [0xC7, 0x05, 0x57, 0xE5, 0x0B, 0, 0x01, 0x03, 0x09, 0x03]
       [0xC7, 0x05, 0x57, 0xE5, 0x0B, 0, 0x01, 0x04, 0x03, 0x02] 1,
     plainPatch [0xB8, 0, 0, 0x10, 0, 0xBA, 0, 0, 0x80, 0, 0x0F, 0x44, 0xD0, 0x0F, 0x94, 0xC1, 0x48, 0x01, 0x0D, 0xA2,
        0xD0, 0x09, 0]
       [0xB8, 0, 0, 0x10, 0, 0xBA, 0, 0, 0x40, 0, 0x0F, 0x44, 0xD0, 0x0F, 0x94, 0xC1, 0x48, 0x01, 0x0D, 0xA2, 0xD0,
        0x09, 0] 1,
     plainPatch [0, 0, 0, 0, 0, 0, 0, 0, 0, 0, 0, 0, 0, 0, 0, 0, 0x02, 0, 0, 0, 0x18, 0, 0, 0, 0x01, 0, 0, 0, 0x02, 0, 0,
        0, 0x01, 0, 0, 0, 0, 0, 0, 0, 0, 0x04, 0, 0, 0x01, 0x02, 0, 0, 0x02, 0, 0, 0, 0x03, 0, 0, 0, 0x01, 0, 0, 0,
        0, 0, 0, 0, 0, 0x04, 0, 0, 0x01, 0x02, 0, 0, 0x03, 0, 0, 0, 0x09, 0, 0, 0, 0x01, 0, 0, 0, 0x01, 0, 0, 0, 0,
        0x04, 0, 0, 0x01, 0x02, 0, 0, 0x04, 0, 0, 0, 0x0A, 0, 0, 0, 0x01, 0, 0, 0, 0x01, 0, 0, 0, 0, 0x04, 0, 0,
        0x01, 0x02, 0, 0, 0x05, 0, 0, 0, 0x0B, 0, 0, 0, 0x01, 0, 0, 0, 0x01, 0, 0, 0, 0, 0x04, 0, 0, 0x01, 0x02, 0,
        0, 0x06, 0, 0, 0, 0x0C, 0, 0, 0, 0x01, 0, 0, 0, 0x01, 0, 0, 0, 0, 0x04, 0, 0, 0x01, 0x02, 0, 0, 0x07, 0, 0,
        0, 0x0D, 0, 0, 0, 0x01, 0, 0, 0, 0x01, 0, 0, 0, 0, 0x04, 0, 0, 0x01, 0x02, 0, 0, 0x08, 0, 0, 0, 0x0E, 0, 0,
        0, 0x01, 0, 0, 0, 0x01, 0, 0, 0, 0, 0x04, 0, 0, 0x01, 0x02, 0, 0]
       [0, 0, 0, 0, 0, 0, 0, 0, 0x01, 0, 0, 0, 0x01, 0, 0, 0, 0x02, 0, 0, 0, 0x18, 0, 0, 0, 0x01, 0, 0, 0, 0x02, 0,
        0, 0, 0x01, 0, 0, 0, 0, 0, 0, 0, 0, 0x04, 0, 0, 0x01, 0x02, 0, 0, 0x02, 0, 0, 0, 0x03, 0, 0, 0, 0x01, 0, 0,
        0, 0, 0, 0, 0, 0, 0x08, 0, 0, 0x01, 0x02, 0, 0, 0, 0, 0, 0, 0, 0, 0, 0, 0, 0, 0, 0, 0, 0, 0, 0, 0, 0, 0, 0,
        0, 0, 0, 0, 0, 0, 0, 0, 0, 0, 0, 0, 0, 0, 0, 0, 0, 0, 0, 0, 0, 0, 0, 0, 0, 0, 0, 0, 0, 0, 0, 0, 0, 0, 0, 0,
        0, 0, 0, 0, 0, 0, 0, 0, 0, 0, 0, 0, 0, 0, 0, 0, 0, 0, 0, 0, 0, 0, 0, 0, 0, 0, 0, 0, 0, 0, 0, 0, 0, 0, 0, 0,
        0, 0, 0, 0, 0, 0, 0, 0, 0, 0, 0, 0, 0, 0, 0, 0, 0, 0, 0, 0, 0, 0, 0, 0, 0, 0, 0, 0, 0, 0, 0, 0, 0, 0, 0, 0,
        0, 0, 0, 0, 0, 0, 0, 0, 0, 0, 0, 0, 0, 0, 0, 0] 1,
     plainPatch [0, 0x72, 0x0C, 0]
       [0, 0x12, 0x06, 0] 11,
     plainPatch [0x04, 0x72, 0x0C, 0]
       [0x04, 0x12, 0x06, 0] 11,
     plainPatch [0x08, 0x72, 0x0C, 0]
       [0x08, 0x12, 0x06, 0] 2,
     plainPatch [0x0C, 0x72, 0x0C, 0]
       [0x0C, 0x12, 0x06, 0] 2,
     plainPatch [0x83, 0xC0, 0xFC, 0x48, 0x39, 0xF0, 0x76, 0x11, 0x48, 0x8B, 0x47, 0x50, 0x48, 0xFF, 0x05, 0x84, 0x40,
        0x08, 0]
       [0x83, 0xC0, 0xF8, 0x48, 0x39, 0xF0, 0x76, 0x11, 0x48, 0x8B, 0x47, 0x50, 0x48, 0xFF, 0x05, 0x84, 0x40, 0x08,
        0] 1,
     plainPatch [0xE8, 0x9E, 0xF3, 0xFF, 0xFF, 0x84, 0xC0, 0x74, 0x3D]
       [0xE8, 0x9E, 0xF3, 0xFF, 0xFF, 0x84, 0xC0, 0xEB, 0x3D] 1,
     plainPatch [0xBE, 0x70, 0x44, 0x04, 0]
       [0xBE, 0xA0, 0x38, 0x16, 0] 1,
     plainPatch [0xFF, 0x90, 0xF8, 0x09, 0, 0, 0x41, 0x89, 0xC6, 0x48, 0x85, 0xDB, 0x74, 0x17]
       [0x90, 0x90, 0x90, 0x90, 0x90, 0x90, 0x90, 0x90, 0x90, 0x48, 0x85, 0xDB, 0x74, 0x17] 1]"

definition fbPatchesDebug :: "LookupPatchPlus list" where
  "fbPatchesDebug =
    [plainPatch [0xE8, 0x99, 0x9F, 0xFD, 0xFF, 0x89, 0x45, 0xC8, 0x3D, 0xFF, 0xFF, 0, 0, 0x74, 0x78]
       [0xE8, 0x99, 0x9F, 0xFD, 0xFF, 0x89, 0x45, 0xC8, 0x3D, 0xFF, 0xFF, 0, 0, 0xEB, 0x78] 1,
     plainPatch [0x0F, 0x94, 0xC0, 0xB9, 0, 0, 0x10, 0, 0xBA, 0, 0, 0x80, 0]
       [0x0F, 0x94, 0xC0, 0xB9, 0, 0, 0x10, 0, 0xBA, 0, 0, 0x40, 0] 1,
     plainPatch [0, 0, 0, 0, 0, 0, 0, 0, 0, 0, 0, 0, 0, 0, 0, 0, 0x02, 0, 0, 0, 0x18, 0, 0, 0, 0x01, 0, 0, 0, 0x02, 0, 0,
        0, 0x01, 0, 0, 0, 0, 0, 0, 0, 0, 0x04, 0, 0, 0x01, 0x02, 0, 0, 0x02, 0, 0, 0, 0x03, 0, 0, 0, 0x01, 0, 0, 0,
        0, 0, 0, 0, 0, 0x04, 0, 0, 0x01, 0x02, 0, 0, 0x03, 0, 0, 0, 0x09, 0, 0, 0, 0x01, 0, 0, 0, 0x01, 0, 0, 0, 0,
        0x04, 0, 0, 0x01, 0x02, 0, 0, 0x04, 0, 0, 0, 0x0A, 0, 0, 0, 0x01, 0, 0, 0, 0x01, 0, 0, 0, 0, 0x04, 0, 0,
        0x01, 0x02, 0, 0, 0x05, 0, 0, 0, 0x0B, 0, 0, 0, 0x01, 0, 0, 0, 0x01, 0, 0, 0, 0, 0x04, 0, 0, 0x01, 0x02, 0,
        0, 0x06, 0, 0, 0, 0x0C, 0, 0, 0, 0x01, 0, 0, 0, 0x01, 0, 0, 0, 0, 0x04, 0, 0, 0x01, 0x02, 0, 0, 0x07, 0, 0,
        0, 0x0D, 0, 0, 0, 0x01, 0, 0, 0, 0x01, 0, 0, 0, 0, 0x04, 0, 0, 0x01, 0x02, 0, 0, 0x08, 0, 0, 0, 0x0E, 0, 0,
        0, 0x01, 0, 0, 0, 0x01, 0, 0, 0, 0, 0x04, 0, 0, 0x01, 0x02, 0, 0]
       [0, 0, 0, 0, 0, 0, 0, 0, 0x01, 0, 0, 0, 0x01, 0, 0, 0, 0x02, 0, 0, 0, 0x18, 0, 0, 0, 0x01, 0, 0, 0, 0x02, 0,
        0, 0, 0x01, 0, 0, 0, 0, 0, 0, 0, 0, 0x04, 0, 0, 0x01, 0x02, 0, 0, 0x02, 0, 0, 0, 0x03, 0, 0, 0, 0x01, 0, 0,
        0, 0, 0, 0, 0, 0, 0x08, 0, 0, 0x01, 0x02, 0, 0, 0, 0, 0, 0, 0, 0, 0, 0, 0, 0, 0, 0, 0, 0, 0, 0, 0, 0, 0, 0,
        0, 0, 0, 0, 0, 0, 0, 0, 0, 0, 0, 0, 0, 0, 0, 0, 0, 0, 0, 0, 0, 0, 0, 0, 0, 0, 0, 0, 0, 0, 0, 0, 0, 0, 0, 0,
        0, 0, 0, 0, 0, 0, 0, 0, 0, 0, 0, 0, 0, 0, 0, 0, 0, 0, 0, 0, 0, 0, 0, 0, 0, 0, 0, 0, 0, 0, 0, 0, 0, 0, 0, 0,
        0, 0, 0, 0, 0, 0, 0, 0, 0, 0, 0, 0, 0, 0, 0, 0, 0, 0, 0, 0, 0, 0, 0, 0, 0, 0, 0, 0, 0, 0, 0, 0, 0, 0, 0, 0,
        0, 0, 0, 0, 0, 0, 0, 0, 0, 0, 0, 0, 0, 0, 0, 0] 1,
     plainPatch [0, 0x72, 0x0C, 0]
       [0, 0x12, 0x06, 0] 12,
     plainPatch [0x04, 0x72, 0x0C, 0]
       [0x04, 0x12, 0x06, 0] 11,
     plainPatch [0x08, 0x72, 0x0C, 0]
       [0x08, 0x12, 0x06, 0] 2,
     plainPatch [0x0C, 0x72, 0x0C, 0]
       [0x0C, 0x12, 0x06, 0] 2,
     plainPatch [0x83, 0xC0, 0xFC, 0x48, 0x39, 0xF0, 0x76, 0x11, 0x48, 0x8B, 0x47, 0x50, 0x48, 0xFF, 0x05, 0xCA, 0xF5,
        0x0C, 0]
       [0x83, 0xC0, 0xF8, 0x48, 0x39, 0xF0, 0x76, 0x11, 0x48, 0x8B, 0x47, 0x50, 0x48, 0xFF, 0x05, 0xCA, 0xF5, 0x0C,
        0] 1,
     plainPatch [0xE8, 0xAF, 0xE2, 0xFF, 0xFF, 0x84, 0xC0, 0x74, 0x5B]
       [0xE8, 0xAF, 0xE2, 0xFF, 0xFF, 0x84, 0xC0, 0xEB, 0x5B] 1,
     plainPatch [0xFF, 0x91, 0x90, 0x01, 0, 0, 0x83, 0xF8, 0x02, 0x0F, 0x84, 0xEC, 0, 0, 0]
       [0x90, 0x90, 0x90, 0x90, 0x90, 0x90, 0x90, 0x90, 0x90, 0x90, 0x90, 0x90, 0x90, 0x90, 0x90] 1,
     plainPatch [0xFF, 0x90, 0x90, 0x01, 0, 0, 0x49, 0x8B, 0x0E, 0x4C, 0x89, 0xF7, 0x89, 0xC6, 0xFF, 0x91, 0x38, 0x01, 0,
        0]
       [0xC7, 0xC0, 0x01, 0, 0, 0, 0x49, 0x8B, 0x0E, 0x4C, 0x89, 0xF7, 0x89, 0xC6, 0xFF, 0x91, 0x38, 0x01, 0, 0] 1]"

definition probeF2Patch :: "LookupPatchPlus list" where
  "probeF2Patch =
    [plainPatch [0xC7, 0x05, 0x07, 0x81, 0x10, 0, 0x01, 0x03, 0x09, 0x03, 0xB8, 0, 0, 0, 0x04]
       [0xC7, 0x05, 0x07, 0x81, 0x10, 0, 0x01, 0x04, 0x03, 0x02, 0xB8, 0, 0, 0, 0x04] 1]"

definition hwPatchesAlways :: "LookupPatchPlus list" where
  "hwPatchesAlways =
    [plainPatch [0x8B, 0x3E, 0x81, 0xFF, 0xEE, 0xBE, 0xAF, 0xDE, 0x7F, 0x15, 0x81, 0xFF, 0x86, 0x80, 0x40, 0x9A, 0x74,
        0x2D]
       [0x8B, 0x3E, 0x81, 0xFF, 0xEE, 0xBE, 0xAF, 0xDE, 0x90, 0x90, 0x81, 0xFF, 0x86, 0x80, 0x40, 0x9A, 0xEB, 0x2D] 1]"

definition hwPatchesRPL :: "LookupPatchPlus list" where
  "hwPatchesRPL =
    [plainPatch [0x74, 0x23, 0x83, 0xF9, 0x02, 0x0F, 0x85, 0x89, 0x01, 0, 0, 0x83, 0xFE, 0x01, 0x75, 0x59, 0x83, 0xFA,
        0x0C, 0x75, 0x54, 0x41, 0xC7, 0x87, 0x64, 0x11, 0, 0, 0x08, 0, 0, 0]
       [0x90, 0x90, 0x83, 0xF9, 0x02, 0x90, 0x90, 0x90, 0x90, 0x90, 0x90, 0x83, 0xFE, 0x01, 0x90, 0x90, 0x83, 0xFA,
        0x0C, 0x90, 0x90, 0x41, 0xC7, 0x87, 0x64, 0x11, 0, 0, 0x08, 0, 0, 0] 1,
     plainPatch [0xBE, 0x08, 0, 0, 0, 0x29, 0xDE, 0x41, 0x89, 0xB7, 0x6C, 0x11, 0, 0, 0x41, 0x8B, 0x8F, 0x58, 0x11, 0, 0]
       [0xBE, 0x08, 0, 0, 0, 0x90, 0x90, 0x41, 0x89, 0xB7, 0x6C, 0x11, 0, 0, 0x41, 0x8B, 0x8F, 0x58, 0x11, 0, 0] 1,
     plainPatch [0x8B, 0x5D, 0xD0, 0xF3, 0x0F, 0xB8, 0xF3, 0x01, 0xF6, 0x41, 0x89, 0xB7, 0x58, 0x11, 0, 0]
       [0x8B, 0x5D, 0xD0, 0xBE, 0x0A, 0, 0, 0, 0x90, 0x41, 0x89, 0xB7, 0x58, 0x11, 0, 0] 1,
     maskedPatch [0xFF, 0x90, 0x70, 0x09, 0, 0, 0x84, 0xC0, 0x74, 0, 0x48, 0x8D, 0]
       [0xFF, 0xFF, 0xFF, 0xFF, 0xFF, 0xFF, 0xFF, 0xFF, 0xFF, 0, 0xFF, 0xFF, 0]
       [0xFF, 0x90, 0x70, 0x09, 0, 0, 0x84, 0xC0, 0x90, 0x90, 0x48, 0x8D, 0]
       [0, 0, 0, 0, 0, 0, 0, 0, 0xFF, 0xFF, 0, 0, 0] 1]"

definition patchRPLDevstartLong :: LookupPatchPlus where
  "patchRPLDevstartLong =
     maskedPatch [0xFF, 0x90, 0x70, 0x09, 0, 0, 0x84, 0xC0, 0x0F, 0x84, 0, 0, 0, 0]
       [0xFF, 0xFF, 0xFF, 0xFF, 0xFF, 0xFF, 0xFF, 0xFF, 0xFF, 0xFF, 0, 0, 0, 0]
       [0xFF, 0x90, 0x70, 0x09, 0, 0, 0x84, 0xC0, 0x90, 0x90, 0x90, 0x90, 0x90, 0x90]
       [0, 0, 0, 0, 0, 0, 0, 0, 0xFF, 0xFF, 0xFF, 0xFF, 0xFF, 0xFF] 1"

definition traceSymbols :: "string list" where
  "traceSymbols =
    [''__ZN20IGHardwareRingBuffer19resetGraphicsEngineEP17IGHardwareContext'',
     ''__ZN12IGScheduler519initWithAcceleratorEP22IOGraphicsAccelerator2'',
     ''__ZN12IGScheduler56resumeEv'',
     ''__ZN12IGScheduler54pushEP17IGHardwareContextjjbb'',
     ''__ZN12IGScheduler56notifyE10IGHwCsType'',
     ''__ZN12IGScheduler516checkForProgressE10IGHwCsType'',
     ''__ZN12IGScheduler520enableStampInterruptEi'',
     ''__ZN12IGScheduler529enableContextSwitchInterruptsEv'',
     ''__ZN17IGHardwareContext25initRingGPUVirtualAddressEv'',
     ''__ZN17IGHardwareContext17initRingRegistersEv'',
     ''__ZN17IGHardwareContext15initRingControlEb'',
     ''__ZN17IGHardwareContext13resetRingHeadEv'',
     ''__ZN17IGHardwareContext14updateRingTailEj'',
     ''__ZN20IGHardwareRingBuffer4initEP17IGHardwareContext'',
     ''__ZN20IGHardwareRingBuffer12submitToRingEv'',
     ''__ZN26IGHardwareCommandStreamer514submitExecListEj'',
     ''__ZN26IGHardwareCommandStreamer516resumeSchedulingEv'',
     ''__ZN26IGHardwareCommandStreamer524prepareExecListAndSubmitEjjPKj'',
     ''__ZN26IGHardwareCommandStreamer526processContextStatusBufferEj'',
     ''__ZN32IGHardwareRenderCommandStreamer54initEP22IOGraphicsAccelerator2P10IOWorkLoopP12IGScheduler5'',
     ''__ZNK20IGSharedMappedBuffer17getVirtualAddressEv'',
     ''__ZNK14IGMappedBuffer20getGPUVirtualAddressEv'',
     ''__ZL11kIGHwCsDesc'',
     ''__ZTV14IGMappedBuffer'',
     ''__ZTV20IGSharedMappedBuffer'']"

section \<open>Gen11::processKext\<close>

definition must :: "('s, bool) state \<Rightarrow> ('s, unit option) state" where
  "must m = do { ok \<leftarrow> m; ret (if ok then Some () else None) }"

definition optional :: "('s, 'x) state \<Rightarrow> ('s, unit option) state" where
  "optional m = do { _ \<leftarrow> m; ret (Some ()) }"

definition steps :: "('s, unit option) state list \<Rightarrow> ('s, bool option) state" where
  "steps ms = do { r \<leftarrow> forO ms (\<lambda>m. m); ret (map_option (\<lambda>_. True) r) }"

text \<open>The steps of the framebuffer's part, in order; the last one is the reference probe.\<close>

definition fbSteps :: "'p lilu \<Rightarrow> bool \<Rightarrow> bool \<Rightarrow> (('p, 'a) kxstate_scheme, unit option) state list" where
  "fbSteps L isprod probeF2 =
     [must (solveAll L [(if isprod then ''__ZN31AppleIntelFramebufferController19setCDClockFrequencyEy''
          else ''__ZN24AppleIntelBaseController19setCDClockFrequencyEy'', ''orgSetCDClockFrequency'')]),
      must (routeAll L fbRoutes),
      must (routeAll L (if isprod then fbProdRoutes else fbDebugRoutes)),
      must (applyAll L (if isprod then fbPatchesProd else fbPatchesDebug))]
     @ (if \<not> isprod \<and> probeF2 then [must (applyAll L probeF2Patch)] else [])"

text \<open>A failed mapping of the registers is dereferenced.\<close>

definition processFB :: "'p lilu \<Rightarrow> boot \<Rightarrow> u64 option \<Rightarrow> (('p, 'a) kxstate_scheme, bool option) state" where
  "processFB L b bar0 = do {
     modify (\<lambda>s. s\<lparr>tglFBLoaded := True\<rparr>);
     mapped \<leftarrow> setRMMIOIfNecessary bar0;
     if \<not> mapped then ret None else do {
       prod \<leftarrow> patcher (solveSymbolIn L ''__ZN24AppleIntelBaseController5startEP9IOService'');
       realTGL \<leftarrow> gets isRealTGL;
       steps (fbSteps L (prod = 0) (isReferenceF2ProbeEnabled b \<and> \<not> realTGL))
     }
   }"

definition hwSolve :: "(string \<times> string) list" where
  "hwSolve =
    [(''__ZN16IntelAccelerator17newDisplayMachineEv'', ''oNewDisplayMachine''),
     (''__ZN21IGAccelDisplayMachine4initEP22IOGraphicsAccelerator2'', ''oDisplayMachineInit''),
     (''__ZN21IGAccelDisplayMachine5startEP11IOPCIDevice'', ''oDisplayMachineStart''),
     (''__ZN21IGAccelDisplayMachine17probeDisplayPipesEv'', ''oDisplayMachineProbeDisplayPipes'')]"

definition lowerTraceRoutes :: "(string \<times> string) list" where
  "lowerTraceRoutes =
    [(''__ZN32IGHardwareRenderCommandStreamer54initEP22IOGraphicsAccelerator2P10IOWorkLoopP12IGScheduler5'',
      ''IGHardwareRenderCommandStreamerinit''),
     (''__ZN26IGHardwareCommandStreamer516resumeSchedulingEv'', ''IGHardwareCommandStreamerresumeScheduling'')]"

definition bringupTraceRoutes :: "(string \<times> string) list" where
  "bringupTraceRoutes = [(''__ZN13IGHardwareGuC18checkWOPCMSettingsEmR14IOVirtualRange'', ''checkWOPCMSettings'')]"

definition coexistOffRoutes :: "(string \<times> string) list" where
  "coexistOffRoutes = [(''__ZN16IntelAccelerator26SafeForceWakeMultithreadedEbjj'', ''forceWake'')]"

definition gpuInfoRoute :: "(string \<times> string) list" where
  "gpuInfoRoute =
    [(''__ZN16IntelAccelerator10getGPUInfoEv'', ''getGPUInfo''),
     (''__ZN16IntelAccelerator16initHardwareCapsEv'', ''initHardwareCaps'')]"

text \<open>The entries of the trace table are copies: the address is stored into the copy.\<close>

definition traceSolve :: "'p lilu \<Rightarrow> (('p, 'a) kxstate_scheme, unit) state" where
  "traceSolve L = forM traceSymbols (\<lambda>sym. do {
     _ \<leftarrow> solve L \<lparr>solve_symbol = sym, solve_dest = Local, solve_pattern = None\<rparr>; ret () })"

text \<open>
  The steps of the accelerator's part: \<open>realTGL\<close> is the device, \<open>full\<close> whether the plugin takes over
  the routes it would leave to another plugin.
\<close>

definition hwSteps :: "'p lilu \<Rightarrow> boot \<Rightarrow> bool \<Rightarrow> bool \<Rightarrow> (('p, 'a) kxstate_scheme, unit option) state list" where
  "hwSteps L b realTGL full =
     [must (solveAll L hwSolve)]
     @ (if isRcsEngineTraceEnabled b then [optional (traceSolve L)] else [])
     @ [must (routeAll L hwRoutes),
        must (solve L \<lparr>solve_symbol = ''__ZN13IGHardwareGuC16initSchedControlEv'', solve_dest = Local, solve_pattern = None\<rparr>),
        must (routeAll L firmwareRoutes),
        must (routeAll L policyRoutes)]
     @ (if isTglTraceEnabled b then [must (routeAll L bringupTraceRoutes)] else [])
     @ [must (routeAll L schedulerPolicyRoutes)]
     @ (if isRcsEngineTraceEnabled b then map (\<lambda>r. optional (routeAll L [r])) lowerTraceRoutes else [])
     @ (if full then [must (routeAll L coexistOffRoutes)] else [])
     @ (if full then [must (routeAll L gpuInfoRoute)] else [])
     @ [must (applyAll L hwPatchesAlways)]
     @ (if \<not> realTGL then [must (applyAll L hwPatchesRPL), optional (applyPatch L patchRPLDevstartLong)] else [])"

definition processHW :: "'p lilu \<Rightarrow> boot \<Rightarrow> u64 option \<Rightarrow> (('p, 'a) kxstate_scheme, bool option) state" where
  "processHW L b bar0 = do {
     realTGL \<leftarrow> gets isRealTGL;
     whenM (isTglTraceEnabled b) (do {
       modify (\<lambda>s. s\<lparr>gTglGpuBringupState := bringup_init\<lparr>isTgl9A49 := realTGL\<rparr>\<rparr>);
       dumpTglGpuBringupState b (Some ''AppleIntelTGLGraphics processKext entry'')
     });
     modify (\<lambda>s. s\<lparr>tglHWLoaded := True\<rparr>);
     mapped \<leftarrow> setRMMIOIfNecessary bar0;
     if \<not> mapped then ret None
     else steps (hwSteps L b realTGL (\<not> isWEGCoexistMode b \<or> shouldForceFullMetalPath b))
   }"

section \<open>NGreen::processKext\<close>

datatype kext = IOAcceleratorFamily2 | IOGraphics | AGDP | Backlight | MCCSControl | TglFB | TglHW | OtherKext

definition processKextGen11 :: "'p lilu \<Rightarrow> boot \<Rightarrow> u64 option \<Rightarrow> kext \<Rightarrow> (('p, 'a) kxstate_scheme, bool option) state" where
  "processKextGen11 L b bar0 k = (if k = TglFB then processFB L b bar0
     else if k = TglHW then processHW L b bar0 else ret (Some False))"

definition accelPatch2 :: LookupPatchPlus where
  "accelPatch2 = maskedPatch [0x41, 0x54, 0x53, 0x50, 0xF7, 0xC2, 0, 0, 0, 0, 0x74, 0]
     [0xFF, 0xFF, 0xFF, 0xFF, 0xFF, 0xFF, 0, 0, 0, 0, 0xFF, 0]
     [0, 0, 0, 0, 0, 0, 0, 0, 0, 0, 0xEB, 0]
     [0, 0, 0, 0, 0, 0, 0, 0, 0, 0, 0xFF, 0] 2"

definition accelPatch1 :: LookupPatchPlus where
  "accelPatch1 = maskedPatch
     [0x75, 0, 0x49, 0x8B, 0x87, 0, 0, 0, 0, 0x4C, 0x8B, 0x80, 0, 0, 0, 0, 0x45, 0x8B, 0x8F]
     [0xFF, 0, 0xFF, 0xFF, 0xFF, 0, 0, 0, 0, 0xFF, 0xFF, 0xFF, 0, 0, 0, 0, 0xFF, 0xFF, 0xFF]
     [0x90, 0x90, 0, 0, 0, 0, 0, 0, 0, 0, 0, 0, 0, 0, 0, 0, 0, 0, 0]
     [0xFF, 0xFF, 0, 0, 0, 0, 0, 0, 0, 0, 0, 0, 0, 0, 0, 0, 0, 0, 0] 1"

definition processKext :: "'p lilu \<Rightarrow> boot \<Rightarrow> u64 option \<Rightarrow> kext \<Rightarrow> (('p, 'a) kxstate_scheme, bool option) state" where
  "processKext L b bar0 k = (case k of
     IOAcceleratorFamily2 \<Rightarrow> do {
       _ \<leftarrow> applyPatch L accelPatch2;
       patcher (clearError L);
       _ \<leftarrow> applyPatch L accelPatch1;
       patcher (clearError L);
       ret (Some True)
     }
   | IOGraphics \<Rightarrow> ret (Some True)
   | AGDP \<Rightarrow> do {
       _ \<leftarrow> applyPatch L (plainPatch (cstring_bytes ''board-id'') (cstring_bytes ''applehax'') 1);
       ret (Some True)
     }
   | Backlight \<Rightarrow> do {
       let r = [(''__ZN15AppleIntelPanel10setDisplayEP9IODisplay'', ''wrapApplePanelSetDisplay'')];
       ok \<leftarrow> patcher (routeMultiple L r);
       whenM ok (do {
         accepted r;
         _ \<leftarrow> applyPatch L (plainPatch (cstring_bytes ''F%uT%04x'') (cstring_bytes ''F%uTxxxx'') 1);
         ret ()
       });
       ret (Some True)
     }
   | MCCSControl \<Rightarrow> do {
       let rs = [(''__ZN25AppleMCCSControlGibraltar5probeEP9IOServicePi'', ''wrapFunctionReturnZero''),
                 (''__ZN21AppleMCCSControlCello5probeEP9IOServicePi'', ''wrapFunctionReturnZero'')];
       ok \<leftarrow> patcher (routeMultiple L rs);
       whenM ok (accepted rs);
       patcher (clearError L);
       ret (Some True)
     }
   | _ \<Rightarrow> do {
       r \<leftarrow> processKextGen11 L b bar0 k;
       ret (map_option (\<lambda>_. True) r)
     })"

section \<open>Registration\<close>

text \<open>
  The kernel extensions \<open>init\<close> asks Lilu to watch; \<open>IOGraphics\<close> is commented out. Lilu calls \<open>processKext\<close>
  for a watched extension when it is loaded, so a boot is a sequence of loads; a panic ends it.
\<close>

definition Gen11_init :: "kext list" where
  "Gen11_init = [TglFB, TglHW]"

definition NGreen_init :: "kext list" where
  "NGreen_init = [AGDP, Backlight, MCCSControl, IOAcceleratorFamily2] @ Gen11_init"

definition loadKext :: "'p lilu \<Rightarrow> boot \<Rightarrow> u64 option \<Rightarrow> kext \<Rightarrow> (('p, 'a) kxstate_scheme, unit option) state" where
  "loadKext L b bar0 k = (if k \<in> set NGreen_init
     then do { r \<leftarrow> processKext L b bar0 k; ret (map_option (\<lambda>_. ()) r) } else ret (Some ()))"

definition loadKexts :: "'p lilu \<Rightarrow> boot \<Rightarrow> u64 option \<Rightarrow> kext list \<Rightarrow> (('p, 'a) kxstate_scheme, unit option) state" where
  "loadKexts L b bar0 ks = forO ks (loadKext L b bar0)"

section \<open>Lemmas\<close>

text \<open>What a step that does not panic adds to the installed routes.\<close>

definition adds :: "(('p, 'a) kxstate_scheme, 'x option) state \<Rightarrow> (string \<times> string) list set \<Rightarrow> bool" where
  "adds m A \<longleftrightarrow> (\<forall>s. result m s \<noteq> None \<longrightarrow> (\<exists>rs \<in> A. installed (exec m s) = installed s @ rs))"

lemma patcher_run [simp]: "result (patcher f) s = fst (f (pst s))" "exec (patcher f) s = s\<lparr>pst := snd (f (pst s))\<rparr>"
  by (simp_all add: patcher_def)

lemma accepted_run [simp]: "exec (accepted rs) s = s\<lparr>installed := installed s @ rs\<rparr>"
  by (simp add: accepted_def)

lemma call_keeps: "state_io_rel (unchanged installed) (patcher f)"
  by (simp add: state_io_rel_exec unchanged_def)

lemma store_dest_keeps: "state_io_rel (unchanged installed) (store_dest d a)"
  by (cases d) (simp_all add: store_dest_def un.io_ret un_modify)

lemma solve_keeps: "state_io_rel (unchanged installed) (solve L r)"
  unfolding solve_def
  by (auto intro!: un.io_rules call_keeps store_dest_keeps split: nat.split option.split)

lemma route_plain:
  "result (route L \<lparr>route_symbol = sm, route_to = h, route_pattern = None\<rparr>) s = fst (routeMultiple L [(sm, h)] (pst s))"
  "installed (exec (route L \<lparr>route_symbol = sm, route_to = h, route_pattern = None\<rparr>) s) =
     installed s @ (if fst (routeMultiple L [(sm, h)] (pst s)) then [(sm, h)] else [])"
  by (simp_all add: route_def usable_def)

lemma routeAll_installed:
  "\<exists>n. installed (exec (routeAll L rs) s) = installed s @ take n rs \<and> (result (routeAll L rs) s \<longrightarrow> take n rs = rs)"
proof (induction rs arbitrary: s)
  case Nil
  then show ?case by (simp add: routeAll_def)
next
  case (Cons r rs)
  obtain sm h where r: "r = (sm, h)" by (cases r)
  let ?m = "route L \<lparr>route_symbol = sm, route_to = h, route_pattern = None\<rparr>"
  obtain n where n: "installed (exec (routeAll L rs) (exec ?m s)) = installed (exec ?m s) @ take n rs"
      "result (routeAll L rs) (exec ?m s) \<longrightarrow> take n rs = rs"
    using Cons.IH by blast
  show ?case
  proof (cases "fst (routeMultiple L [(sm, h)] (pst s))")
    case True
    then show ?thesis
      using n by (intro exI [of _ "Suc n"]) (simp add: r routeAll_def route_plain)
  next
    case False
    then show ?thesis by (intro exI [of _ 0]) (simp add: r routeAll_def route_plain)
  qed
qed

lemma adds_must_routes: "adds (must (routeAll L rs)) {rs}"
  unfolding adds_def must_def
proof (intro allI impI)
  fix s assume "result (do { ok \<leftarrow> routeAll L rs; ret (if ok then Some () else None) }) s \<noteq> None"
  then have "result (routeAll L rs) s" by (simp split: if_splits)
  then show "\<exists>x \<in> {rs}. installed (exec (do { ok \<leftarrow> routeAll L rs; ret (if ok then Some () else None) }) s) = installed s @ x"
    using routeAll_installed [of L rs s] by auto
qed

lemma adds_optional_route: "adds (optional (routeAll L [r])) {[], [r]}"
  unfolding adds_def optional_def
proof (intro allI impI)
  fix s
  obtain n where "installed (exec (routeAll L [r]) s) = installed s @ take n [r]"
    using routeAll_installed by blast
  then show "\<exists>x \<in> {[], [r]}. installed (exec (do { _ \<leftarrow> routeAll L [r]; ret (Some ()) }) s) = installed s @ x"
    by (cases n) auto
qed

lemma adds_must_quiet: "state_io_rel (unchanged installed) m \<Longrightarrow> adds (must m) {[]}"
  and adds_optional_quiet: "state_io_rel (unchanged installed) m' \<Longrightarrow> adds (optional m') {[]}"
  by (simp_all add: adds_def must_def optional_def state_io_rel_exec unchanged_def)

lemma allM_keeps: "(\<And>x. state_io_rel (unchanged f) (g x)) \<Longrightarrow> state_io_rel (unchanged f) (allM g xs)"
  by (induction xs) (auto intro!: un.io_rules)

lemma applyPatch_keeps: "state_io_rel (unchanged installed) (applyPatch L p)"
  unfolding applyPatch_def by (intro un.io_rules call_keeps)

lemma patcher_keeps:
  "state_io_rel (unchanged installed) (solveAll L rs)" "state_io_rel (unchanged installed) (applyAll L ps)"
  "state_io_rel (unchanged installed) (traceSolve L)"
  unfolding solveAll_def applyAll_def traceSolve_def
  by (auto intro!: allM_keeps solve_keeps applyPatch_keeps un.io_rules split: prod.split)

lemmas adds_quiet = adds_must_quiet [OF patcher_keeps(1)] adds_must_quiet [OF patcher_keeps(2)]
  adds_optional_quiet [OF patcher_keeps(3)] adds_must_quiet [OF solve_keeps] adds_optional_quiet [OF applyPatch_keeps]

text \<open>The routes of one sequence of steps followed by those of another.\<close>

definition cat :: "'x list set \<Rightarrow> 'x list set \<Rightarrow> 'x list set" where
  "cat A B = {a @ b | a b. a \<in> A \<and> b \<in> B}"

lemma cat_single [simp]: "cat {x} {y} = {x @ y}"
  by (auto simp: cat_def)

abbreviation run_steps :: "('s, unit option) state list \<Rightarrow> ('s, unit option) state" where
  "run_steps ms \<equiv> forO ms (\<lambda>m. m)"

lemma adds_bindO:
  assumes "adds m A" and "adds n B"
  shows "adds (bindO m (\<lambda>_. n)) (cat A B)"
  unfolding adds_def
proof (intro allI impI)
  fix s assume r: "result (bindO m (\<lambda>_. n)) s \<noteq> None"
  then obtain x where x: "result m s = Some x"
    by (cases "result m s") (simp_all add: bindO_def)
  then have "result n (exec m s) \<noteq> None" using r by (simp add: bindO_def)
  then obtain b where b: "b \<in> B" "installed (exec n (exec m s)) = installed (exec m s) @ b"
    using assms(2) by (auto simp: adds_def)
  obtain a where a: "a \<in> A" "installed (exec m s) = installed s @ a"
    using assms(1) x by (force simp: adds_def)
  show "\<exists>rs \<in> cat A B. installed (exec (bindO m (\<lambda>_. n)) s) = installed s @ rs"
    using a b x by (intro bexI [of _ "a @ b"]) (auto simp: bindO_def cat_def)
qed

lemma run_steps_append: "run_steps (xs @ ys) = bindO (run_steps xs) (\<lambda>_. run_steps ys)"
proof (induction xs)
  case (Cons x xs)
  have assoc: "bindO (bindO m f) g = bindO m (\<lambda>x. bindO (f x) g)" for m f g
    unfolding bindO_def
    by (rule state.expand) (simp add: fun_eq_iff split: option.split prod.split)
  show ?case by (simp add: Cons.IH assoc)
qed (simp add: bindO_def)

lemma adds_nil: "adds (run_steps []) {[]}"
  by (simp add: adds_def)

lemma adds_one: "adds m A \<Longrightarrow> adds (run_steps [m]) A"
  using adds_bindO [of m A "run_steps []" "{[]}"] adds_nil by (simp add: cat_def)

lemma adds_cons: "adds m A \<Longrightarrow> adds (run_steps ms) B \<Longrightarrow> adds (run_steps (m # ms)) (cat A B)"
  using adds_bindO by simp

lemma adds_append: "adds (run_steps xs) A \<Longrightarrow> adds (run_steps ys) B \<Longrightarrow> adds (run_steps (xs @ ys)) (cat A B)"
  by (simp add: run_steps_append adds_bindO)

lemma adds_if: "(c \<Longrightarrow> adds (run_steps xs) {a}) \<Longrightarrow> adds (run_steps (if c then xs else [])) {if c then a else []}"
  by (cases c) (simp_all add: adds_def)

lemma steps_installed:
  assumes "adds (run_steps ms) A" and "result (steps ms) s = Some r"
  shows "r \<and> (\<exists>rs \<in> A. installed (exec (steps ms) s) = installed s @ rs)"
proof -
  obtain x where "result (run_steps ms) s = Some x" and "r"
    using assms(2) by (cases "result (run_steps ms) s") (simp_all add: steps_def)
  then show ?thesis using assms(1) by (force simp: steps_def adds_def)
qed

lemma dump_installed [simp]:
  fixes s :: "('p, 'a) kxstate_scheme"
  shows "installed (exec (dumpTglGpuBringupState b st) s) = installed s"
proof -
  obtain h g r where "exec (dumpTglGpuBringupState b st) s = s\<lparr>hist := h, gTglGpuBringupState := g, gRcsTransitionState := r\<rparr>"
    by (rule traced_exec [OF tr_dumpTglGpuBringupState])
  then show ?thesis by simp
qed

lemma setRMMIO_installed [simp]:
  "installed (exec (setRMMIOIfNecessary bar0) s) = installed s" "pst (exec (setRMMIOIfNecessary bar0) s) = pst s"
  by (cases bar0; simp add: setRMMIOIfNecessary_def)+

lemma adds_fbSteps: "adds (run_steps (fbSteps L isprod f2)) {fbRoutes @ (if isprod then fbProdRoutes else fbDebugRoutes)}"
proof -
  have "adds (run_steps (fbSteps L isprod f2))
    (cat (cat {[]} (cat {fbRoutes} (cat {if isprod then fbProdRoutes else fbDebugRoutes} {[]})))
      {if \<not> isprod \<and> f2 then [] else []})"
    unfolding fbSteps_def
    by (intro adds_append adds_cons adds_one adds_if adds_quiet adds_must_routes)
  then show ?thesis by simp
qed

lemma processFB_installed:
  assumes "result (processFB L b bar0) s = Some r"
  shows "r \<and> installed (exec (processFB L b bar0) s) = installed s @ fbRoutes @
    (if fst (solveSymbolIn L ''__ZN24AppleIntelBaseController5startEP9IOService'' (pst s)) = 0 then fbProdRoutes else fbDebugRoutes)"
  using assms by (auto simp: processFB_def split: if_splits dest: steps_installed [OF adds_fbSteps])

definition lowerTraces :: "boot \<Rightarrow> (string \<times> string) list set" where
  "lowerTraces b = set (subseqs (if isRcsEngineTraceEnabled b then lowerTraceRoutes else []))"

definition hwHooks :: "boot \<Rightarrow> (string \<times> string) list \<Rightarrow> (string \<times> string) list" where
  "hwHooks b low = hwRoutes @ firmwareRoutes @ policyRoutes @ (if isTglTraceEnabled b then bringupTraceRoutes else [])
     @ schedulerPolicyRoutes @ low
     @ (if \<not> isWEGCoexistMode b \<or> shouldForceFullMetalPath b then coexistOffRoutes @ gpuInfoRoute else [])"

lemma adds_mono: "adds m A \<Longrightarrow> A \<subseteq> B \<Longrightarrow> adds m B"
  by (meson adds_def subset_iff)

lemma adds_optionals: "adds (run_steps (map (\<lambda>r. optional (routeAll L [r])) rs)) (set (subseqs rs))"
proof (induction rs)
  case (Cons r rs)
  show ?case
    unfolding list.map
    by (rule adds_mono [OF adds_cons [OF adds_optional_route Cons.IH]]) (auto simp: cat_def Let_def)
qed (simp add: adds_def)

abbreviation lowerSteps :: "'p lilu \<Rightarrow> boot \<Rightarrow> (('p, 'a) kxstate_scheme, unit option) state list" where
  "lowerSteps L b \<equiv> (if isRcsEngineTraceEnabled b then map (\<lambda>r. optional (routeAll L [r])) lowerTraceRoutes else [])"

lemma adds_lower: "adds (run_steps (lowerSteps L b)) (lowerTraces b)"
  by (cases "isRcsEngineTraceEnabled b") (simp_all add: lowerTraces_def adds_optionals, simp add: adds_def)

lemma adds_hwSteps:
  assumes low: "adds (run_steps (lowerSteps L b :: (('p, 'a) kxstate_scheme, unit option) state list)) LOW"
  shows "adds (run_steps (hwSteps L b realTGL full :: (('p, 'a) kxstate_scheme, unit option) state list)) {hwRoutes @ firmwareRoutes @ policyRoutes
      @ (if isTglTraceEnabled b then bringupTraceRoutes else []) @ schedulerPolicyRoutes @ low
      @ (if full then coexistOffRoutes @ gpuInfoRoute else []) | low. low \<in> LOW}"
  (is "adds _ ?A")
proof -
  let ?B = "cat {[]} (cat {if isRcsEngineTraceEnabled b then [] else []}
     (cat (cat {hwRoutes} (cat {[]} (cat {firmwareRoutes} {policyRoutes})))
     (cat {if isTglTraceEnabled b then bringupTraceRoutes else []} (cat {schedulerPolicyRoutes} (cat LOW
     (cat {if full then coexistOffRoutes else []} (cat {if full then gpuInfoRoute else []}
     (cat {[]} {if \<not> realTGL then [] else []}))))))))"
  have two: "adds (run_steps [must (applyAll L hwPatchesRPL), optional (applyPatch L patchRPLDevstartLong)]
      :: (('p, 'a) kxstate_scheme, unit option) state) {[]}"
    using adds_cons [OF adds_quiet(2) adds_one [OF adds_quiet(5)]] by simp
  have "adds (run_steps (hwSteps L b realTGL full :: (('p, 'a) kxstate_scheme, unit option) state list)) ?B"
    unfolding hwSteps_def
    by (intro adds_append adds_cons adds_one adds_if adds_quiet adds_must_routes low two)
  moreover have "?B = ?A" by (auto simp: cat_def)
  ultimately show ?thesis by simp
qed

lemma processHW_installed:
  fixes s :: "('p, 'a) kxstate_scheme"
  assumes "adds (run_steps (lowerSteps L b :: (('p, 'a) kxstate_scheme, unit option) state list)) LOW"
    and "result (processHW L b bar0) s = Some r"
  shows "r \<and> (\<exists>low \<in> LOW. installed (exec (processHW L b bar0) s) = installed s @ hwHooks b low)"
  using assms(2) by (auto simp: processHW_def hwHooks_def split: if_splits dest!: steps_installed [OF adds_hwSteps [OF assms(1)]])

subsection \<open>A patcher that accepts everything\<close>

definition accepting :: "'p lilu \<Rightarrow> bool" where
  "accepting L \<longleftrightarrow> (\<forall>sm p. fst (solveSymbol L sm p) \<noteq> 0) \<and> (\<forall>rs p. fst (routeMultiple L rs p))
     \<and> (\<forall>p. fst (noError L p)) \<and> (\<forall>q p. fst (findAndReplaceWithMask L q p))"

lemma allM_true: "(\<And>x s. result (f x) s) \<Longrightarrow> result (allM f xs) s"
  by (induction xs arbitrary: s) simp_all

lemma accepting_solve: "accepting L \<Longrightarrow> solve_dest r \<noteq> Null \<Longrightarrow> result (solve L r) s"
  by (simp add: solve_def accepting_def)

lemma accepting_applyPatch: "accepting L \<Longrightarrow> result (applyPatch L p) s"
  by (simp add: applyPatch_def accepting_def)

lemma accepting_route: "accepting L \<Longrightarrow> result (route L r) s"
  by (simp add: route_def accepting_def)

lemma accepting_all:
  assumes "accepting L"
  shows "result (routeAll L rs) s" and "result (solveAll L ss) s" and "result (applyAll L ps) s"
  unfolding routeAll_def solveAll_def applyAll_def
  using assms by (auto intro!: allM_true accepting_solve accepting_applyPatch accepting_route split: prod.split)

lemma adds_accepted: "accepting L \<Longrightarrow> adds (optional (routeAll L [r])) {[r]}"
  using accepting_all(1) [of L "[r]"] routeAll_installed [of L "[r]"] unfolding adds_def optional_def by fastforce

lemma returns_must: "(\<And>s. result m s) \<Longrightarrow> returns (\<lambda>_. True) (must m)"
  and returns_optional: "returns (\<lambda>_. True) (optional n)"
  by (simp_all add: returns_def must_def optional_def)

lemma returns_steps: "(\<And>m. m \<in> set ms \<Longrightarrow> returns (\<lambda>_. True) m) \<Longrightarrow> result (steps ms) s = Some True"
proof -
  assume "\<And>m. m \<in> set ms \<Longrightarrow> returns (\<lambda>_. True) m"
  then have "returns (\<lambda>_. True) (run_steps ms)"
    by (intro returns_forO) (simp_all add: state_io_rel_exec keeps_def)
  then obtain x where "result (run_steps ms) s = Some x" by (auto simp: returns_def)
  then show ?thesis by (simp add: steps_def)
qed

lemma accepting_steps:
  assumes "accepting L"
  shows "result (steps (fbSteps L isprod f2)) s = Some True" and "result (steps (hwSteps L b realTGL full)) s' = Some True"
  using assms unfolding fbSteps_def hwSteps_def
  by (auto intro!: returns_steps returns_must returns_optional accepting_solve accepting_all split: if_splits)

lemma mapped [simp]: "result (setRMMIOIfNecessary (Some len)) s"
  by (simp add: setRMMIOIfNecessary_def)

lemma accepting_result: "accepting L \<Longrightarrow> result (processKext L b (Some len) k) s = Some True"
  by (cases k) (simp_all add: processKext_def processKextGen11_def processFB_def processHW_def accepting_steps Let_def)

lemma adds_lower_accepting:
  assumes "accepting L"
  shows "adds (run_steps (lowerSteps L b)) {if isRcsEngineTraceEnabled b then lowerTraceRoutes else []}"
proof (cases "isRcsEngineTraceEnabled b")
  case True
  show ?thesis
    unfolding lowerTraceRoutes_def if_P [OF True] list.map
    by (rule adds_mono [OF adds_cons [OF adds_accepted adds_one [OF adds_accepted]]]) (simp_all add: assms)
qed (simp add: adds_def)

subsection \<open>Which routes a kernel extension can add\<close>

text \<open>The installed routes only grow, and only by routes of \<open>A\<close>; this holds on the way to a panic too.\<close>

definition adds_only :: "(string \<times> string) set \<Rightarrow> ('p, 'a) kxstate_scheme \<Rightarrow> ('p, 'a) kxstate_scheme \<Rightarrow> bool" where
  "adds_only A s t \<longleftrightarrow> (\<exists>xs. set xs \<subseteq> A \<and> installed t = installed s @ xs)"

lemma adds_only_refl: "adds_only A s s"
  unfolding adds_only_def by (rule exI [of _ "[]"]) simp

lemma adds_only_trans: "adds_only A s t \<Longrightarrow> adds_only A t u \<Longrightarrow> adds_only A s u"
  unfolding adds_only_def
proof (elim exE conjE)
  fix xs ys assume "set xs \<subseteq> A" "set ys \<subseteq> A" "installed t = installed s @ xs" "installed u = installed t @ ys"
  then show "\<exists>zs. set zs \<subseteq> A \<and> installed u = installed s @ zs" by (intro exI [of _ "xs @ ys"]) simp
qed

interpretation gr: step_order "adds_only A" for A
  by unfold_locales (rule adds_only_refl, erule (1) adds_only_trans)

lemma gr_quiet: "state_io_rel (unchanged installed) m \<Longrightarrow> state_io_rel (adds_only A) m"
  unfolding state_io_rel_exec unchanged_def adds_only_def by (metis append_Nil2 empty_set empty_subsetI)

lemma gr_accepted: "set rs \<subseteq> A \<Longrightarrow> state_io_rel (adds_only A) (accepted rs)"
  by (auto simp: state_io_rel_exec adds_only_def)

lemma gr_route: "(route_symbol r, route_to r) \<in> A \<Longrightarrow> state_io_rel (adds_only A) (route L r)"
  unfolding route_def
  by (auto intro!: gr.io_rules gr_accepted gr_quiet [OF call_keeps] split: nat.split option.split)

lemma gr_routeAll: "set rs \<subseteq> A \<Longrightarrow> state_io_rel (adds_only A) (routeAll L rs)"
  unfolding routeAll_def by (induction rs) (auto intro!: gr.io_rules gr_route split: prod.split)

lemma gr_must: "state_io_rel (adds_only A) m \<Longrightarrow> state_io_rel (adds_only A) (must m)"
  and gr_optional: "state_io_rel (adds_only A) n \<Longrightarrow> state_io_rel (adds_only A) (optional n)"
  unfolding must_def optional_def by (auto intro!: gr.io_rules)

lemma gr_steps: "(\<And>m. m \<in> set ms \<Longrightarrow> state_io_rel (adds_only A) m) \<Longrightarrow> state_io_rel (adds_only A) (steps ms)"
  unfolding steps_def by (auto intro!: gr.io_rules gr.io_forO)

lemmas gr_intros = gr_must gr_optional gr_routeAll gr_quiet [OF patcher_keeps(1)] gr_quiet [OF patcher_keeps(2)]
  gr_quiet [OF patcher_keeps(3)] gr_quiet [OF solve_keeps] gr_quiet [OF applyPatch_keeps]

lemma gr_fbSteps: "set (fbRoutes @ fbProdRoutes @ fbDebugRoutes) \<subseteq> A \<Longrightarrow> state_io_rel (adds_only A) (steps (fbSteps L isprod f2))"
  unfolding fbSteps_def by (intro gr_steps) (auto intro!: gr_intros split: if_splits)

lemma gr_hwSteps:
  "set (hwRoutes @ firmwareRoutes @ policyRoutes @ bringupTraceRoutes @ schedulerPolicyRoutes @ lowerTraceRoutes
      @ coexistOffRoutes @ gpuInfoRoute) \<subseteq> A \<Longrightarrow> state_io_rel (adds_only A) (steps (hwSteps L b realTGL full))"
  unfolding hwSteps_def by (intro gr_steps) (auto intro!: gr_intros split: if_splits)

definition otherRoutes :: "(string \<times> string) list" where
  "otherRoutes = [(''__ZN15AppleIntelPanel10setDisplayEP9IODisplay'', ''wrapApplePanelSetDisplay''),
     (''__ZN25AppleMCCSControlGibraltar5probeEP9IOServicePi'', ''wrapFunctionReturnZero''),
     (''__ZN21AppleMCCSControlCello5probeEP9IOServicePi'', ''wrapFunctionReturnZero'')]"

definition allRoutes :: "(string \<times> string) list" where
  "allRoutes = fbRoutes @ fbProdRoutes @ fbDebugRoutes @ hwRoutes @ firmwareRoutes @ policyRoutes @ bringupTraceRoutes
     @ schedulerPolicyRoutes @ lowerTraceRoutes @ coexistOffRoutes @ gpuInfoRoute @ otherRoutes"

lemma gr_processKext: "state_io_rel (adds_only (set allRoutes)) (processKext L b bar0 k)"
proof -
  have fb: "state_io_rel (adds_only (set allRoutes)) (processFB L b bar0)"
    unfolding processFB_def
    by (intro gr.io_rules gr_quiet [OF call_keeps] gr_fbSteps) (auto simp: state_io_rel_exec adds_only_def allRoutes_def)
  have hw: "state_io_rel (adds_only (set allRoutes)) (processHW L b bar0)"
    unfolding processHW_def
    by (intro gr.io_rules gr_quiet [OF call_keeps] gr_hwSteps) (auto simp: state_io_rel_exec adds_only_def allRoutes_def)
  show ?thesis
    using fb hw by (cases k) (auto simp: processKext_def processKextGen11_def Let_def allRoutes_def otherRoutes_def
      intro!: gr.io_rules gr_quiet [OF call_keeps] gr_quiet [OF applyPatch_keeps] gr_accepted)
qed

subsection \<open>The tables\<close>

text \<open>Hooks that have a body in \<open>TGL.cpp\<close> but stand in no table.\<close>

definition unroutedHooks :: "string list" where
  "unroutedHooks =
    [''endReset'', ''readAndClearInterrupts'', ''serviceInterrupts'', ''wrapReadRegister32'', ''wrapWriteRegister32'',
     ''raReadRegister32'', ''raReadRegister64'', ''raWriteRegister32f'', ''raWriteRegister64'',
     ''wrapIgBufferWithOptions'', ''wrapIgBufferGetGpuVirtualAddress'', ''wrapLoadGuCBinary'', ''wrapLoadFirmware'',
     ''wrapPmNotifyWrapper'', ''wrapSystemWillSleep'', ''wrapSystemDidWake'', ''wrapSafeForceWake'',
     ''allocateDisplayResources'', ''setPanelPowerState'', ''disableVDDForAux'', ''prepareToEnterWake'',
     ''hwSetPowerWellStatePG'', ''enablePowerWellPG'', ''disablePowerWellPG'', ''fastLinkTraining'',
     ''probePortMode'', ''wrapFBClientDoAttribute'', ''blit3d_initialize_scratch_space'', ''getBlit3DContext'',
     ''maxSupportedDepths'', ''validateModeDepth'', ''validateDisplayMode'', ''setupDisplayTiming'']"

lemma unrouted_tables: "list_all (\<lambda>r. snd r \<notin> set unroutedHooks) allRoutes"
  by code_simp

lemma tables_distinct:
  "distinct (map fst (hwRoutes @ firmwareRoutes @ policyRoutes @ bringupTraceRoutes @ schedulerPolicyRoutes
      @ coexistOffRoutes @ gpuInfoRoute))"
  by code_simp

lemma distinct_count: "distinct (map f (xs @ ys @ zs)) \<Longrightarrow> x \<in> set ys \<Longrightarrow>
    count_list xs x = 0 \<and> count_list ys x = 1 \<and> count_list zs x = 0"
proof -
  assume d: "distinct (map f (xs @ ys @ zs))" and x: "x \<in> set ys"
  have "count_list ys x = 1" if "distinct ys" using that x by (induction ys) auto
  moreover have "distinct ys" using d by (simp add: distinct_map)
  moreover have "x \<notin> set xs" "x \<notin> set zs" using d x by auto
  ultimately show ?thesis by (simp add: count_notin)
qed

abbreviation resumeRoute :: "string \<times> string" where
  "resumeRoute \<equiv> (''__ZN26IGHardwareCommandStreamer516resumeSchedulingEv'', ''IGHardwareCommandStreamerresumeScheduling'')"

lemma resume_routed: "resumeRoute \<in> set policyRoutes" "count_list lowerTraceRoutes resumeRoute = 1"
  by (simp add: policyRoutes_def) (simp add: lowerTraceRoutes_def)

lemmas resume_counts = distinct_count [where xs = "hwRoutes @ firmwareRoutes" and f = fst and ys = policyRoutes and
    zs = "bringupTraceRoutes @ schedulerPolicyRoutes @ coexistOffRoutes @ gpuInfoRoute",
    unfolded append_assoc, OF tables_distinct resume_routed(1)]

lemma not_distinct_append: "f x \<in> f ` set ys \<Longrightarrow> f x \<in> f ` set ws \<Longrightarrow> \<not> distinct (map f ((xs @ ys @ zs) @ ws @ vs))"
  by auto

lemma distinct_subtables: "distinct (map f (xs @ ys @ zs @ vs)) \<Longrightarrow>
    distinct (map f (xs @ (if c then ys else []) @ zs @ (if d then vs else [])))"
  by auto

lemma hwHooks_distinct:
  "distinct (map fst (hwHooks b (if isRcsEngineTraceEnabled b then lowerTraceRoutes else []))) \<longleftrightarrow> \<not> isRcsEngineTraceEnabled b"
proof (cases "isRcsEngineTraceEnabled b")
  case True
  have "fst resumeRoute \<in> fst ` set policyRoutes" "fst resumeRoute \<in> fst ` set lowerTraceRoutes"
    by (rule imageI, rule resume_routed(1)) (simp add: lowerTraceRoutes_def)
  from not_distinct_append [OF this, of "hwRoutes @ firmwareRoutes"
      "(if isTglTraceEnabled b then bringupTraceRoutes else []) @ schedulerPolicyRoutes"] show ?thesis
    by (simp only: True hwHooks_def append_assoc if_True simp_thms)
next
  case False
  from distinct_subtables [where xs = "hwRoutes @ firmwareRoutes @ policyRoutes" and ys = bringupTraceRoutes
      and zs = schedulerPolicyRoutes, unfolded append_assoc, OF tables_distinct]
  show ?thesis by (simp only: False hwHooks_def append_Nil if_False simp_thms)
qed

text \<open>The trace's solver stores into its own table: the members the diagnostics read stay as they were.\<close>

lemma traceSolve_members: "members (exec (traceSolve L) s) = members s"
proof (rule keepsD)
  have "state_io_rel (unchanged members) (solve L \<lparr>solve_symbol = sm, solve_dest = Local, solve_pattern = None\<rparr>)" for sm
    by (simp add: state_io_rel_exec unchanged_def solve_def store_dest_def usable_def)
  then show "state_io_rel (unchanged members) (traceSolve L)"
    unfolding traceSolve_def by (intro un.io_rules)
qed

subsection \<open>A whole boot\<close>

lemma gr_loadKext: "state_io_rel (adds_only (set allRoutes)) (loadKext L b bar0 k)"
  unfolding loadKext_def by (intro gr.io_rules gr_processKext)

lemma gr_loads: "adds_only (set allRoutes) s (exec (forO ks (loadKext L b bar0)) s)"
  by (rule relD) (intro gr.io_forO gr_loadKext)

lemma loadKext_hw:
  assumes "result (loadKext L b bar0 TglHW) s \<noteq> None"
  shows "set (hwRoutes @ firmwareRoutes @ policyRoutes @ schedulerPolicyRoutes) \<subseteq> set (installed (exec (loadKext L b bar0 TglHW) s))"
proof -
  obtain r where "result (processHW L b bar0) s = Some r"
    using assms by (auto simp: loadKext_def NGreen_init_def Gen11_init_def processKext_def processKextGen11_def)
  then obtain low where "installed (exec (processHW L b bar0) s) = installed s @ hwHooks b low"
    using processHW_installed [OF adds_lower] by blast
  then show ?thesis
    by (auto simp: loadKext_def NGreen_init_def Gen11_init_def processKext_def processKextGen11_def hwHooks_def)
qed

text \<open>After a boot without a panic that loaded the accelerator, whatever was loaded before and after it, its
  required routes are installed.\<close>

theorem boot_installs:
  assumes "result (loadKexts L b bar0 ks) s \<noteq> None" and "TglHW \<in> set ks"
  shows "set (hwRoutes @ firmwareRoutes @ policyRoutes @ schedulerPolicyRoutes) \<subseteq> set (installed (exec (loadKexts L b bar0 ks) s))"
  using assms unfolding loadKexts_def
proof (induction ks arbitrary: s)
  case (Cons k ks)
  obtain x where x: "result (loadKext L b bar0 k) s = Some x"
    using Cons.prems(1) by (cases "result (loadKext L b bar0 k) s") (simp_all add: bindO_def)
  let ?t = "exec (loadKext L b bar0 k) s"
  have rest: "result (forO ks (loadKext L b bar0)) ?t \<noteq> None"
      "exec (forO (k # ks) (loadKext L b bar0)) s = exec (forO ks (loadKext L b bar0)) ?t"
    using Cons.prems(1) x by (simp_all add: bindO_def)
  show ?case
  proof (cases "TglHW \<in> set ks")
    case True
    then show ?thesis using Cons.IH [OF rest(1)] rest(2) by simp
  next
    case False
    then have "k = TglHW" using Cons.prems(2) by auto
    moreover have "adds_only (set allRoutes) ?t (exec (forO ks (loadKext L b bar0)) ?t)"
      by (rule gr_loads)
    ultimately show ?thesis
      using loadKext_hw [of L b bar0 s] x rest(2) by (auto simp: adds_only_def)
  qed
qed simp

section \<open>Properties of the installation\<close>

text \<open>C12: When the patching of a graphics kernel extension does not panic, every route of its tables is
  installed, in order and behind what was there: for the framebuffer the shared table and that of
  the production or the debug build, for the accelerator all the required tables, the bring-up trace and the
  force wake and capability tables exactly under their boot arguments, and of the lower trace
  routes, which may fail, those that Lilu accepted.\<close>

theorem kext_hooks_complete:
  assumes "result (processKext L b bar0 k) s = Some r"
  shows "(k = TglFB \<longrightarrow> installed (exec (processKext L b bar0 k) s) = installed s @ fbRoutes @
      (if fst (solveSymbolIn L ''__ZN24AppleIntelBaseController5startEP9IOService'' (pst s)) = 0 then fbProdRoutes else fbDebugRoutes))
    \<and> (k = TglHW \<longrightarrow> (\<exists>low \<in> set (subseqs (if isRcsEngineTraceEnabled b then lowerTraceRoutes else [])).
      installed (exec (processKext L b bar0 k) s) = installed s
        @ hwRoutes @ firmwareRoutes @ policyRoutes @ (if isTglTraceEnabled b then bringupTraceRoutes else [])
        @ schedulerPolicyRoutes @ low
        @ (if \<not> isWEGCoexistMode b \<or> shouldForceFullMetalPath b then coexistOffRoutes @ gpuInfoRoute else [])))"
proof (intro conjI impI)
  assume "k = TglFB"
  then show "installed (exec (processKext L b bar0 k) s) = installed s @ fbRoutes @
      (if fst (solveSymbolIn L ''__ZN24AppleIntelBaseController5startEP9IOService'' (pst s)) = 0 then fbProdRoutes else fbDebugRoutes)"
    using assms processFB_installed [of L b bar0 s] by (auto simp: processKext_def processKextGen11_def)
next
  assume "k = TglHW"
  then show "\<exists>low \<in> set (subseqs (if isRcsEngineTraceEnabled b then lowerTraceRoutes else [])).
      installed (exec (processKext L b bar0 k) s) = installed s
        @ hwRoutes @ firmwareRoutes @ policyRoutes @ (if isTglTraceEnabled b then bringupTraceRoutes else [])
        @ schedulerPolicyRoutes @ low
        @ (if \<not> isWEGCoexistMode b \<or> shouldForceFullMetalPath b then coexistOffRoutes @ gpuInfoRoute else [])"
    using assms processHW_installed [OF adds_lower, of L b bar0 s]
    by (auto simp: processKext_def processKextGen11_def hwHooks_def lowerTraces_def)
qed

text \<open>C18: The production build of the framebuffer cannot be patched: it has neither the \<open>start\<close> nor the
  \<open>registerWithAICPM\<close> of the debug build's controller class, the shared table routes the second,
  and a failed route panics. Nothing has been routed by then.\<close>

theorem production_kext_panics:
  assumes "fst (solveSymbolIn L ''__ZN24AppleIntelBaseController5startEP9IOService'' (pst s)) = 0"
    and "\<And>h p. \<not> fst (routeMultiple L [(''__ZN24AppleIntelBaseController17registerWithAICPMEPv'', h)] p)"
  shows "result (processKext L b bar0 TglFB) s = None
    \<and> installed (exec (processKext L b bar0 TglFB) s) = installed s"
proof -
  have r: "\<not> result (routeAll L fbRoutes) t" "installed (exec (routeAll L fbRoutes) t) = installed t"
    for t :: "('a, 'b) kxstate_scheme"
    using assms(2) by (simp_all add: routeAll_def fbRoutes_def route_plain)
  have v: "installed (exec (solveAll L ss) t) = installed t" for ss and t :: "('a, 'b) kxstate_scheme"
    by (rule keepsD [OF patcher_keeps(1)])
  show ?thesis
    by (simp add: processKext_def processKextGen11_def processFB_def steps_def fbSteps_def must_def bindO_def r v
        split: option.split)
qed

text \<open>C29: If Lilu finds every symbol, accepts every route and applies every patch, no kernel extension
  makes the plugin panic, and the accelerator's symbols are routed once each, unless the render
  engine trace is on: then \<open>resumeScheduling\<close> is routed a second time, to the same hook.\<close>

theorem trace_routes_twice:
  assumes "accepting L"
  shows "result (processKext L b (Some len) k) s = Some True
    \<and> (\<exists>xs. installed (exec (processKext L b (Some len) TglHW) s) = installed s @ xs
      \<and> (distinct (map fst xs) \<longleftrightarrow> \<not> isRcsEngineTraceEnabled b)
      \<and> count_list xs (''__ZN26IGHardwareCommandStreamer516resumeSchedulingEv'', ''IGHardwareCommandStreamerresumeScheduling'')
         = (if isRcsEngineTraceEnabled b then 2 else 1))"
proof -
  let ?low = "if isRcsEngineTraceEnabled b then lowerTraceRoutes else []"
  obtain r where "result (processHW L b (Some len)) s = Some r"
    using accepting_result [OF assms, of b len TglHW s] by (auto simp: processKext_def processKextGen11_def)
  then have "installed (exec (processKext L b (Some len) TglHW) s) = installed s @ hwHooks b ?low"
    using processHW_installed [OF adds_lower_accepting [OF assms]]
    by (fastforce simp: processKext_def processKextGen11_def)
  moreover have "count_list (hwHooks b ?low) resumeRoute = (if isRcsEngineTraceEnabled b then 2 else 1)"
    using resume_counts resume_routed(2) by (simp add: hwHooks_def)
  ultimately show ?thesis
    using hwHooks_distinct [of b] accepting_result [OF assms] by blast
qed

text \<open>C24: Whatever Lilu answers, and also when the patching ends in a panic, a kernel extension adds routes
  of the tables only; so the hooks that have a body but no table entry, the reset and interrupt
  hooks, the register accessors and the graphics buffer wrappers among them, are never installed.\<close>

theorem unrouted_never_installed:
  "\<exists>xs. installed (exec (processKext L b bar0 k) s) = installed s @ xs \<and> set xs \<subseteq> set allRoutes
     \<and> snd ` set xs \<inter> set unroutedHooks = {}"
proof -
  obtain xs where xs: "set xs \<subseteq> set allRoutes" "installed (exec (processKext L b bar0 k) s) = installed s @ xs"
    using gr_processKext [of L b bar0 k] by (auto simp: state_io_rel_exec adds_only_def)
  then have "snd ` set xs \<inter> set unroutedHooks = {}"
    using unrouted_tables by (fastforce simp: list_all_iff)
  with xs show ?thesis by blast
qed

text \<open>A patcher that accepts everything but the routes of \<open>missing\<close>, with the debug or the production build loaded.\<close>

definition sample_lilu :: "bool \<Rightarrow> string list \<Rightarrow> unit lilu" where
  "sample_lilu debug missing = \<lparr>solveSymbol = (\<lambda>_ p. (0x1000, p)), solveSymbolIn = (\<lambda>_ p. (if debug then 0x2000 else 0, p)),
     routeMultiple = (\<lambda>rs p. (\<forall>r \<in> set rs. fst r \<notin> set missing, p)), routeFunction = (\<lambda>_ _ p. (0x3000, p)),
     clearError = (\<lambda>p. ((), p)), noError = (\<lambda>p. (True, p)), findPattern = (\<lambda>_ p. (None, p)),
     applyLookupPatch = (\<lambda>_ p. ((), p)), findAndReplaceWithMask = (\<lambda>_ p. (True, p)), kext_address = 0\<rparr>"

definition sample_kxstate :: "unit kxstate" where
  "sample_kxstate = dstate.extend sample_dstate (kxstate.fields () (\<lambda>_. 0) [] False)"

lemma sample_accepting: "accepting (sample_lilu d [])"
  by (simp add: accepting_def sample_lilu_def)

lemma sample_installed [simp]: "installed sample_kxstate = []"
  by (simp add: sample_kxstate_def dstate.defs kxstate.defs)

theorem kext_hooks_complete_witness:
  "installed (exec (processKext (sample_lilu True []) boot_none (Some 0x1000000) TglFB) sample_kxstate) = fbRoutes @ fbDebugRoutes"
  using kext_hooks_complete [where k = TglFB and s = sample_kxstate and b = boot_none,
      OF accepting_result [OF sample_accepting [of True], where len = "0x1000000"]]
  by (simp add: sample_lilu_def)

theorem production_kext_panics_witness:
  "result (processKext (sample_lilu False [''__ZN24AppleIntelBaseController17registerWithAICPMEPv'']) boot_none
     (Some 0x1000000) TglFB) sample_kxstate = None"
  using production_kext_panics [of "sample_lilu False [''__ZN24AppleIntelBaseController17registerWithAICPMEPv'']"
      sample_kxstate boot_none "Some 0x1000000"]
  by (simp add: sample_lilu_def)

theorem trace_routes_twice_witness:
  "\<exists>xs. installed (exec (processKext (sample_lilu True [])
       \<lparr>boot_int = (\<lambda>_. None)(''ngreen-rcsdeep'' \<mapsto> 1), boot_flag = (\<lambda>_. False)\<rparr> (Some 0x1000000) TglHW) sample_kxstate) = xs
     \<and> count_list xs (''__ZN26IGHardwareCommandStreamer516resumeSchedulingEv'', ''IGHardwareCommandStreamerresumeScheduling'') = 2"
  using trace_routes_twice [OF sample_accepting [of True], of "\<lparr>boot_int = (\<lambda>_. None)(''ngreen-rcsdeep'' \<mapsto> 1), boot_flag = (\<lambda>_. False)\<rparr>"
      "0x1000000" TglHW sample_kxstate]
  by (simp add: isRcsEngineTraceEnabled_def)

end
