(* ===== verification/NG_Exports.thy ===== *)
theory NG_Exports
  imports NG_Kext
begin

text \<open>
  The static accessors of \<open>Gen11\<close> (\<open>iTGL/TGL.cpp\<close>, \<open>tGetHwCsDesc\<close> to \<open>thwSetupDSBMemory\<close>) and the six
  assembly stubs at the end of that file, which export the register accessors of
  \<open>AppleIntelFramebufferController\<close> to the framebuffer. The stubs are lists of instructions, executed
  on the argument registers of the System V calling convention. \<open>cb\<close> says whether the plugin object
  exists yet; \<open>orig\<close> stands for a call through a stored address of Apple's code.
\<close>

section \<open>Register accessors\<close>

definition tReadRegister32 :: "bool \<Rightarrow> u64 \<Rightarrow> ('a mmio_scheme, u32) state" where
  "tReadRegister32 cb a = (if cb then readReg32 a else ret 0)"

definition tWriteRegister32 :: "bool \<Rightarrow> u64 \<Rightarrow> u32 \<Rightarrow> ('a mmio_scheme, unit) state" where
  "tWriteRegister32 cb a v = (if cb then writeReg32 a v else ret ())"

definition tReadRegister64 :: "bool \<Rightarrow> u64 \<Rightarrow> u64 \<Rightarrow> ('a mmio_scheme, u64) state" where
  "tReadRegister64 cb p a = (if cb then readReg64 a else ret 0)"

definition tWriteRegister64 :: "bool \<Rightarrow> u64 \<Rightarrow> u64 \<Rightarrow> u64 \<Rightarrow> ('a mmio_scheme, unit) state" where
  "tWriteRegister64 cb p a v = (if cb then writeReg64 a v else ret ())"

definition tgetPMTNow :: "('a mmio_scheme, u64) state" where
  "tgetPMTNow = do { now \<leftarrow> clock_get_uptime; ret (of_nat now) }"

definition thwSetupDSBMemory :: "('a mmio_scheme, bool) state" where
  "thwSetupDSBMemory = ret False"

section \<open>Export stubs\<close>

datatype xreg = RDI | RSI | RDX | RCX

datatype xinstr = Movq xreg xreg | Jmp string

type_synonym xregs = "xreg \<Rightarrow> u64"

text \<open>The instructions up to the jump: the routine jumped to and the registers it finds.\<close>

fun runStub :: "xinstr list \<Rightarrow> xregs \<Rightarrow> (string \<times> xregs) option" where
  "runStub [] r = None"
| "runStub (Movq src dst # is) r = runStub is (r(dst := r src))"
| "runStub (Jmp target # is) r = Some (target, r)"

definition exportStubs :: "(string \<times> xinstr list) list" where
  "exportStubs =
    [(''__ZN31AppleIntelFramebufferController14ReadRegister32Em'',
        [Movq RSI RDI, Jmp ''__ZN5Gen1115tReadRegister32Em'']),
     (''__ZN31AppleIntelFramebufferController15WriteRegister32Emj'',
        [Movq RSI RDI, Movq RDX RSI, Jmp ''__ZN5Gen1116tWriteRegister32Emj'']),
     (''__ZN31AppleIntelFramebufferController14ReadRegister64EPVvm'',
        [Movq RSI RDI, Movq RDX RSI, Jmp ''__ZN5Gen1115tReadRegister64EPVvm'']),
     (''__ZN31AppleIntelFramebufferController15WriteRegister64EPVvmy'',
        [Movq RSI RDI, Movq RDX RSI, Movq RCX RDX, Jmp ''__ZN5Gen1116tWriteRegister64EPVvmy'']),
     (''__ZN31AppleIntelFramebufferController9getPMTNowEv'', [Jmp ''__ZN5Gen1110tgetPMTNowEv'']),
     (''__ZN31AppleIntelFramebufferController16hwSetupDSBMemoryEv'', [Jmp ''__ZN5Gen1117thwSetupDSBMemoryEv''])]"

text \<open>A static method entered with its arguments in registers; the value is what it leaves in the
  result register (zero for the writers, whose callers ignore it).\<close>

definition gen11Entry :: "bool \<Rightarrow> (string \<times> (xregs \<Rightarrow> ('a mmio_scheme, u64) state)) list" where
  "gen11Entry cb =
    [(''__ZN5Gen1115tReadRegister32Em'', \<lambda>r. do { v \<leftarrow> tReadRegister32 cb (r RDI); ret (ucast v) }),
     (''__ZN5Gen1116tWriteRegister32Emj'', \<lambda>r. do { tWriteRegister32 cb (r RDI) (ucast (r RSI)); ret 0 }),
     (''__ZN5Gen1115tReadRegister64EPVvm'', \<lambda>r. tReadRegister64 cb (r RDI) (r RSI)),
     (''__ZN5Gen1116tWriteRegister64EPVvmy'', \<lambda>r. do { tWriteRegister64 cb (r RDI) (r RSI) (r RDX); ret 0 }),
     (''__ZN5Gen1110tgetPMTNowEv'', \<lambda>r. tgetPMTNow),
     (''__ZN5Gen1117thwSetupDSBMemoryEv'', \<lambda>r. do { v \<leftarrow> thwSetupDSBMemory; ret (of_bool v) })]"

text \<open>A call of an imported symbol: \<open>None\<close> when the linker or the jump does not resolve.\<close>

definition callExport :: "bool \<Rightarrow> string \<Rightarrow> xregs \<Rightarrow> ('a mmio_scheme, u64 option) state" where
  "callExport cb sm r = (case map_of exportStubs sm of
     None \<Rightarrow> ret None
   | Some code \<Rightarrow> (case runStub code r of
       None \<Rightarrow> ret None
     | Some (target, r') \<Rightarrow> (case map_of (gen11Entry cb) target of
         None \<Rightarrow> ret None
       | Some f \<Rightarrow> do { v \<leftarrow> f r'; ret (Some v) })))"

text \<open>The registers at a call of a method: the object, then the arguments.\<close>

definition methodCall :: "u64 \<Rightarrow> u64 \<Rightarrow> u64 \<Rightarrow> u64 \<Rightarrow> xregs" where
  "methodCall obj a1 a2 a3 = (\<lambda>x. case x of RDI \<Rightarrow> obj | RSI \<Rightarrow> a1 | RDX \<Rightarrow> a2 | RCX \<Rightarrow> a3)"

section \<open>Accessors of the trace\<close>

definition tGetHwCsDesc :: "bool \<Rightarrow> (('p, 'a) kxstate_scheme, u64) state" where
  "tGetHwCsDesc cb = (if \<not> cb then ret 0 else do {
     d \<leftarrow> gets (\<lambda>s. members s ''kIGHwCsDesc'');
     if d \<noteq> 0 then ret d else gets (\<lambda>s. members s ''kIGHwCsDescSymbol'')
   })"

definition tGetSharedMappedBufferVirtualAddress ::
  "bool \<Rightarrow> (u64 \<Rightarrow> u64 \<Rightarrow> u64) \<Rightarrow> u64 \<Rightarrow> (('p, 'a) kxstate_scheme, u64) state" where
  "tGetSharedMappedBufferVirtualAddress cb orig buffer = do {
     f \<leftarrow> gets (\<lambda>s. members s ''oIGSharedMappedBuffergetVirtualAddress'');
     ret (if buffer = 0 \<or> \<not> cb \<or> f = 0 then 0 else orig f buffer)
   }"

definition tGetMappedBufferGPUVirtualAddress ::
  "bool \<Rightarrow> (u64 \<Rightarrow> u64 \<Rightarrow> u64) \<Rightarrow> u64 \<Rightarrow> (('p, 'a) kxstate_scheme, u64) state" where
  "tGetMappedBufferGPUVirtualAddress cb orig buffer = do {
     f \<leftarrow> gets (\<lambda>s. members s ''oIGMappedBuffergetGPUVirtualAddress'');
     ret (if buffer = 0 \<or> \<not> cb \<or> f = 0 then 0 else orig f buffer)
   }"

definition tGetIGMappedBufferVtable :: "bool \<Rightarrow> (('p, 'a) kxstate_scheme, u64) state" where
  "tGetIGMappedBufferVtable cb = (if cb then gets (\<lambda>s. members s ''vtableIGMappedBuffer'') else ret 0)"

definition tGetIGSharedMappedBufferVtable :: "bool \<Rightarrow> (('p, 'a) kxstate_scheme, u64) state" where
  "tGetIGSharedMappedBufferVtable cb = (if cb then gets (\<lambda>s. members s ''vtableIGSharedMappedBuffer'') else ret 0)"

text \<open>The diagnostics of the render engine with the accessors they call, in a state of the plugin.\<close>

definition traceContextImage ::
  "bool \<Rightarrow> (u64 \<Rightarrow> u64 \<Rightarrow> u64) \<Rightarrow> boot \<Rightarrow> memory \<Rightarrow> u64 \<Rightarrow> ('p, 'a) kxstate_scheme \<Rightarrow> logline list" where
  "traceContextImage cb orig b m context s =
     dumpContextImageKnownFields b m (result (tGetIGSharedMappedBufferVtable cb) s) (result (tGetIGMappedBufferVtable cb) s)
       (\<lambda>x. result (tGetSharedMappedBufferVirtualAddress cb orig x) s)
       (\<lambda>x. result (tGetMappedBufferGPUVirtualAddress cb orig x) s) context"

definition traceRingMemory ::
  "bool \<Rightarrow> (u64 \<Rightarrow> u64 \<Rightarrow> u64) \<Rightarrow> boot \<Rightarrow> memory \<Rightarrow> u64 \<Rightarrow> ('p, 'a) kxstate_scheme \<Rightarrow> logline list" where
  "traceRingMemory cb orig b m ring s =
     dumpRingMemoryKnownFields b m (result (tGetIGSharedMappedBufferVtable cb) s) (result (tGetIGMappedBufferVtable cb) s)
       (\<lambda>x. result (tGetSharedMappedBufferVirtualAddress cb orig x) s)
       (\<lambda>x. result (tGetMappedBufferGPUVirtualAddress cb orig x) s) ring"

text \<open>A sequence of calls of the exported symbols.\<close>

definition exportCalls :: "bool \<Rightarrow> (string \<times> xregs) list \<Rightarrow> ('a mmio_scheme, unit) state" where
  "exportCalls cb cs = forM cs (\<lambda>c. do { _ \<leftarrow> callExport cb (fst c) (snd c); ret () })"

text \<open>The calls whose store the check of the plane surfaces covers: all but the 64-bit writes, the 32-bit
  writes to aligned registers.\<close>

definition guardedCall :: "string \<times> xregs \<Rightarrow> bool" where
  "guardedCall c \<longleftrightarrow> fst c \<noteq> ''__ZN31AppleIntelFramebufferController15WriteRegister64EPVvmy'' \<and>
     (fst c = ''__ZN31AppleIntelFramebufferController15WriteRegister32Emj'' \<longrightarrow> unat (snd c RSI) mod 4 = 0)"

section \<open>Lemmas\<close>

lemma callExport_cases:
  "callExport cb ''__ZN31AppleIntelFramebufferController14ReadRegister32Em'' r =
     do { v \<leftarrow> tReadRegister32 cb (r RSI); ret (Some (ucast v)) }"
  "callExport cb ''__ZN31AppleIntelFramebufferController15WriteRegister32Emj'' r =
     do { tWriteRegister32 cb (r RSI) (ucast (r RDX)); ret (Some 0) }"
  "callExport cb ''__ZN31AppleIntelFramebufferController14ReadRegister64EPVvm'' r =
     do { v \<leftarrow> tReadRegister64 cb (r RSI) (r RDX); ret (Some v) }"
  "callExport cb ''__ZN31AppleIntelFramebufferController15WriteRegister64EPVvmy'' r =
     do { tWriteRegister64 cb (r RSI) (r RDX) (r RCX); ret (Some 0) }"
  "callExport cb ''__ZN31AppleIntelFramebufferController9getPMTNowEv'' r =
     do { now \<leftarrow> clock_get_uptime; ret (Some (of_nat now)) }"
  "callExport cb ''__ZN31AppleIntelFramebufferController16hwSetupDSBMemoryEv'' r = ret (Some 0)"
  by (simp_all add: callExport_def exportStubs_def gen11Entry_def tgetPMTNow_def thwSetupDSBMemory_def)

lemma callExport_unknown: "sm \<notin> fst ` set exportStubs \<Longrightarrow> callExport cb sm r = ret None"
  by (simp add: callExport_def map_of_eq_None_iff [THEN iffD2])

lemma exportStubs_names:
  "fst ` set exportStubs =
    {''__ZN31AppleIntelFramebufferController14ReadRegister32Em'',
     ''__ZN31AppleIntelFramebufferController15WriteRegister32Emj'',
     ''__ZN31AppleIntelFramebufferController14ReadRegister64EPVvm'',
     ''__ZN31AppleIntelFramebufferController15WriteRegister64EPVvmy'',
     ''__ZN31AppleIntelFramebufferController9getPMTNowEv'',
     ''__ZN31AppleIntelFramebufferController16hwSetupDSBMemoryEv''}"
  unfolding exportStubs_def by (simp only: list.set image_insert image_empty fst_conv)


lemma methodCall_regs [simp]:
  "methodCall obj a1 a2 a3 RDI = obj" "methodCall obj a1 a2 a3 RSI = a1"
  "methodCall obj a1 a2 a3 RDX = a2" "methodCall obj a1 a2 a3 RCX = a3"
  by (simp_all add: methodCall_def)

lemma surf_readReg64: "state_io_rel (keeps (surf_inv_at len)) (readReg64 reg)"
  unfolding readReg64_def
  by (intro inv.io_rules surf_load surf_store) (simp del: surf_safe.simps)

text \<open>Every call but that of the 64-bit writer keeps the surfaces safe.\<close>

lemma surf_callExport_each:
  "state_io_rel (keeps (surf_inv_at len)) (callExport cb ''__ZN31AppleIntelFramebufferController14ReadRegister32Em'' r)"
  "unat (r RSI) mod 4 = 0 \<Longrightarrow>
   state_io_rel (keeps (surf_inv_at len)) (callExport cb ''__ZN31AppleIntelFramebufferController15WriteRegister32Emj'' r)"
  "state_io_rel (keeps (surf_inv_at len)) (callExport cb ''__ZN31AppleIntelFramebufferController14ReadRegister64EPVvm'' r)"
  "state_io_rel (keeps (surf_inv_at len)) (callExport cb ''__ZN31AppleIntelFramebufferController9getPMTNowEv'' r)"
  "state_io_rel (keeps (surf_inv_at len)) (callExport cb ''__ZN31AppleIntelFramebufferController16hwSetupDSBMemoryEv'' r)"
  unfolding callExport_cases tReadRegister32_def tWriteRegister32_def tReadRegister64_def
  by (intro inv.io_rules surf_readReg32 surf_readReg64 surf_writeReg32 surf_clock, assumption?)+

lemma surf_callExport:
  assumes "guardedCall c"
  shows "state_io_rel (keeps (surf_inv_at len)) (callExport cb (fst c) (snd c))"
proof (cases "fst c \<in> fst ` set exportStubs")
  case True
  then show ?thesis
    unfolding exportStubs_names
  proof (elim insertE emptyE, goal_cases)
    case 2
    with assms have "unat (snd c RSI) mod 4 = 0" unfolding guardedCall_def by (elim conjE mp)
    with 2 show ?case by (simp only: surf_callExport_each(2))
  next
    case 4
    with assms show ?case unfolding guardedCall_def by (elim conjE notE)
  qed (simp_all only: surf_callExport_each)
next
  case False
  show ?thesis unfolding callExport_unknown [OF False] by (rule inv.io_ret)
qed

text \<open>A write of 64 bits is one store of the low half, to the dword with the number of the byte offset.\<close>

lemma writeReg64_plain:
  assumes "mmioValid s" and "a * 8 < rmmio_len s" and "\<not> (looksLikePlaneSurf a \<and> v = 0)"
  shows "exec (writeReg64 a v) s = s\<lparr>hist := St a (ucast v) # hist s\<rparr>"
proof (cases "looksLikePlaneSurf a")
  case True
  with assms(3) have "(v = 0) = False" by simp
  with True assms(1,2) show ?thesis by (simp add: writeReg64_def mmioValid_def)
next
  case False
  with assms(1,2) show ?thesis by (simp add: writeReg64_def mmioValid_def)
qed

lemma dw_times4:
  assumes "unat a < 0x60000" shows "dw (4 * a) = a"
proof -
  have "unat (4 * a) = 4 * unat a"
    using assms by (subst unat_mult_lem [THEN iffD1]) simp_all
  then have "unat (dw (4 * a)) = unat a" by (simp only: unat_drop_bit2)
  then show ?thesis by (simp only: word_unat_eq_iff)
qed

lemma low_not_surf: "unat a < 0x60000 \<Longrightarrow> \<not> looksLikePlaneSurf a"
  by (auto simp: looksLikePlaneSurf_def word_le_nat_alt)

subsection \<open>The members the trace reads\<close>

definition traceMembers :: "string list" where
  "traceMembers = [''kIGHwCsDesc'', ''kIGHwCsDescSymbol'', ''oIGSharedMappedBuffergetVirtualAddress'',
     ''oIGMappedBuffergetGPUVirtualAddress'', ''vtableIGMappedBuffer'', ''vtableIGSharedMappedBuffer'']"

definition traceView :: "('p, 'a) kxstate_scheme \<Rightarrow> u64 list" where
  "traceView s = map (members s) traceMembers"

lemma solved_not_traced: "list_all (\<lambda>(_, x). x \<notin> set traceMembers) ((''y'', ''orgSetCDClockFrequency'') # hwSolve)"
  unfolding traceMembers_def hwSolve_def by code_simp

lemma tv_patcher: "state_io_rel (unchanged traceView) (patcher f)"
  and tv_accepted: "state_io_rel (unchanged traceView) (accepted rs)"
  by (simp_all add: state_io_rel_exec unchanged_def traceView_def accepted_def)

lemma tv_store_dest: "(\<And>x. d = Member x \<Longrightarrow> x \<notin> set traceMembers) \<Longrightarrow> state_io_rel (unchanged traceView) (store_dest d a)"
  by (cases d) (auto simp: store_dest_def traceView_def intro!: un.io_ret un_modify)

lemma tv_solve: "(\<And>x. solve_dest r = Member x \<Longrightarrow> x \<notin> set traceMembers) \<Longrightarrow> state_io_rel (unchanged traceView) (solve L r)"
  unfolding solve_def
  by (auto intro!: un.io_rules tv_patcher tv_store_dest split: nat.split option.split)

lemma tv_solveAll: "list_all (\<lambda>(_, x). x \<notin> set traceMembers) rs \<Longrightarrow> state_io_rel (unchanged traceView) (solveAll L rs)"
  unfolding solveAll_def by (induction rs) (auto intro!: un.io_rules tv_solve)

lemma tv_applyPatch: "state_io_rel (unchanged traceView) (applyPatch L p)"
  unfolding applyPatch_def by (intro un.io_rules tv_patcher)

lemma tv_route: "state_io_rel (unchanged traceView) (route L r)"
  unfolding route_def by (auto intro!: un.io_rules tv_patcher tv_accepted split: nat.split option.split)

lemma tv_all:
  "state_io_rel (unchanged traceView) (applyAll L ps)" "state_io_rel (unchanged traceView) (routeAll L rs)"
  "state_io_rel (unchanged traceView) (traceSolve L)"
  unfolding applyAll_def routeAll_def traceSolve_def
  by (auto intro!: allM_keeps tv_applyPatch tv_route tv_solve un.io_rules split: prod.split)

lemma tv_must: "state_io_rel (unchanged traceView) m \<Longrightarrow> state_io_rel (unchanged traceView) (must m)"
  and tv_optional: "state_io_rel (unchanged traceView) n \<Longrightarrow> state_io_rel (unchanged traceView) (optional n)"
  unfolding must_def optional_def by (auto intro!: un.io_rules)

lemma tv_steps: "(\<And>m. m \<in> set ms \<Longrightarrow> state_io_rel (unchanged traceView) m) \<Longrightarrow> state_io_rel (unchanged traceView) (steps ms)"
  unfolding steps_def by (auto intro!: un.io_rules un.io_forO)

lemmas tv_intros = tv_must tv_optional tv_all tv_applyPatch tv_solve

lemma tv_cdclk: "state_io_rel (unchanged traceView) (solveAll L [(y, ''orgSetCDClockFrequency'')])"
  and tv_hwSolve: "state_io_rel (unchanged traceView) (solveAll L hwSolve)"
  using solved_not_traced by (auto intro!: tv_solveAll)

lemma tv_fbSteps: "state_io_rel (unchanged traceView) (steps (fbSteps L isprod f2))"
  unfolding fbSteps_def by (intro tv_steps) (auto intro!: tv_intros tv_cdclk split: if_splits)

lemma tv_hwSteps: "state_io_rel (unchanged traceView) (steps (hwSteps L b realTGL full))"
  unfolding hwSteps_def by (intro tv_steps) (auto intro!: tv_intros tv_hwSolve split: if_splits)

lemma mapping_members [simp]: "members (exec (setRMMIOIfNecessary bar0) s) = members s"
  by (cases bar0) (simp_all add: setRMMIOIfNecessary_def)

lemma dump_members [simp]:
  fixes s :: "('p, 'a) kxstate_scheme"
  shows "members (exec (dumpTglGpuBringupState b st) s) = members s"
proof -
  obtain h g r where "exec (dumpTglGpuBringupState b st) s = s\<lparr>hist := h, gTglGpuBringupState := g, gRcsTransitionState := r\<rparr>"
    by (rule traced_exec [OF tr_dumpTglGpuBringupState])
  then show ?thesis by simp
qed

lemma tv_processKext: "state_io_rel (unchanged traceView) (processKext L b bar0 k)"
proof -
  have fb: "state_io_rel (unchanged traceView) (processFB L b bar0)"
    unfolding processFB_def
    by (intro un.io_rules tv_patcher tv_fbSteps) (auto simp: state_io_rel_exec unchanged_def traceView_def)
  have hw: "state_io_rel (unchanged traceView) (processHW L b bar0)"
    unfolding processHW_def
    by (intro un.io_rules tv_patcher tv_hwSteps) (auto simp: state_io_rel_exec unchanged_def traceView_def)
  show ?thesis
    using fb hw by (cases k) (auto simp: processKext_def processKextGen11_def Let_def
      intro!: un.io_rules tv_patcher tv_applyPatch tv_accepted)
qed

lemma tv_loadKexts: "traceView (exec (loadKexts L b bar0 ks) s) = traceView s"
proof (rule keepsD)
  show "state_io_rel (unchanged traceView) (loadKexts L b bar0 ks)"
    unfolding loadKexts_def loadKext_def by (intro un.io_forO un.io_rules tv_processKext)
qed

lemma traceView_zero:
  assumes "\<And>x. x \<in> set traceMembers \<Longrightarrow> members s x = 0"
    and "x \<in> set traceMembers"
  shows "members (exec (loadKexts L b bar0 ks) s) x = 0"
proof -
  have "map (members (exec (loadKexts L b bar0 ks) s)) traceMembers = map (members s) traceMembers"
    using tv_loadKexts [of L b bar0 ks s] unfolding traceView_def .
  then show ?thesis using assms by (simp add: map_eq_conv)
qed

text \<open>What the accessors answer while the members are null.\<close>

lemma accessors_null:
  assumes "\<And>x. x \<in> set traceMembers \<Longrightarrow> members t x = 0"
  shows "result (tGetHwCsDesc cb) t = 0"
    "result (tGetSharedMappedBufferVirtualAddress cb orig buf) t = 0"
    "result (tGetMappedBufferGPUVirtualAddress cb orig buf) t = 0"
    "result (tGetIGMappedBufferVtable cb) t = 0" "result (tGetIGSharedMappedBufferVtable cb) t = 0"
  using assms
  by (simp_all add: traceMembers_def tGetHwCsDesc_def tGetSharedMappedBufferVirtualAddress_def
      tGetMappedBufferGPUVirtualAddress_def tGetIGMappedBufferVtable_def tGetIGSharedMappedBufferVtable_def)

lemma candidate_unknown: "candidateTypeName m 0 0 v \<noteq> CShared" "candidateTypeName m 0 0 v \<noteq> CMapped"
  by (simp_all add: candidateTypeName_def vtableMatches_def)

lemma candidates_untyped:
  "set (dumpCandidateMappedBuffers m 0 0 shared gpu obj) \<subseteq> {l. fst l = ''candidate''}"
  by (auto simp: dumpCandidateMappedBuffers_def Let_def candidate_unknown split: if_splits)

lemma context_blind:
  "fst ` set (dumpContextImageKnownFields b m 0 0 (\<lambda>_. 0) (\<lambda>_. 0) ctx)
     \<subseteq> {''qword'', ''object=null'', ''candidate'', ''NG_CONTEXT_DESC''}"
  using candidates_untyped [of m "\<lambda>_. 0" "\<lambda>_. 0" ctx]
  by (auto simp: dumpContextImageKnownFields_def Let_def dumpObjectQwords_def)

lemma ring_blind:
  "fst ` set (dumpRingMemoryKnownFields b m 0 0 (\<lambda>_. 0) (\<lambda>_. 0) ring)
     \<subseteq> {''qword'', ''object=null'', ''candidate'', ''NG_RING_MEM'', ''NG_TAIL_WRITE''}"
  using candidates_untyped [of m "\<lambda>_. 0" "\<lambda>_. 0" ring]
  by (auto simp: dumpRingMemoryKnownFields_def Let_def dumpObjectQwords_def)

section \<open>Properties\<close>



text \<open>C13: The protection of the display planes extends to the framebuffer's own accesses: any sequence of
  calls of the exported symbols, with any contents of the argument registers, keeps the surface
  invariant, as long as the 32-bit writes are to aligned registers and the 64-bit writer is not
  called.\<close>

theorem exported_calls_surf_safe:
  assumes "list_all guardedCall cs"
    and "surf_inv s"
  shows "surf_inv (exec (exportCalls cb cs) s)"
proof (rule surf_inv_exec [OF _ assms(2)])
  show "state_io_rel (keeps (surf_inv_at len)) (exportCalls cb cs)" for len
    using assms(1) unfolding exportCalls_def list_all_iff
    by (intro inv.io_rules surf_callExport) blast
qed

theorem exported_calls_surf_safe_witness:
  "surf_inv (exec (exportCalls True
     [(''__ZN31AppleIntelFramebufferController15WriteRegister32Emj'', methodCall 0 0x7019C 0 0),
      (''__ZN31AppleIntelFramebufferController14ReadRegister64EPVvm'', methodCall 0 0 0x2358 0)])
     (regfile_bus (\<lambda>_. 0x80000000)))"
  by (rule exported_calls_surf_safe) (simp_all add: surf_inv_def regfile_bus_def guardedCall_def)

text \<open>C21: The 64-bit writer defeats that protection: it takes the byte offset for the number of a dword, so
  a call for offset \<open>a\<close> stores the low half at byte offset \<open>4 * a\<close>, while its check looks at \<open>a\<close>. A
  write of zero to such an offset arms the plane whose surface register is at \<open>4 * a\<close> with a zero
  address, even when that plane is not known to be off.\<close>

theorem write64_bypasses_guard:
  fixes s :: "'a mmio_scheme" and obj ptr :: u64
  assumes "mmioValid s" and "a * 8 < rmmio_len s" and "unat a < 0x60000"
    and "looksLikePlaneSurf (4 * a)" and "\<not> plane_off (hist s) (4 * a)"
  defines "t \<equiv> exec (callExport True ''__ZN31AppleIntelFramebufferController15WriteRegister64EPVvmy''
      (methodCall obj ptr a 0)) s"
  shows "hist t = St (dw (4 * a)) 0 # hist s \<and> \<not> surf_inv t"
proof -
  have "hist t = St (dw (4 * a)) 0 # hist s"
    using writeReg64_plain [OF assms(1,2), of 0] low_not_surf [OF assms(3)] dw_times4 [OF assms(3)]
    by (simp only: t_def callExport_cases tWriteRegister64_def) simp
  then show ?thesis using assms(4,5) by (auto simp: surf_inv_def)
qed

theorem write64_bypasses_guard_witness:
  "\<not> surf_inv (exec (callExport True ''__ZN31AppleIntelFramebufferController15WriteRegister64EPVvmy''
      (methodCall 0 0 0x1C067 0)) (regfile_bus (\<lambda>_. 0x80000000)))"
proof -
  let ?s = "regfile_bus (\<lambda>_. 0x80000000)"
  have "mmioValid ?s" and "0x1C067 * 8 < rmmio_len ?s" and "unat (0x1C067 :: u64) < 0x60000"
    and "looksLikePlaneSurf (4 * 0x1C067)" and "\<not> plane_off (hist ?s) (4 * 0x1C067)"
    by (simp_all add: regfile_bus_def mmioValid_def looksLikePlaneSurf_def plane_off_def)
  from write64_bypasses_guard [OF this] show ?thesis by (rule conjunct2)
qed

text \<open>C14: The diagnostics of the render engine are blind: after any sequence of loads of kernel extensions, with
  any behaviour of Lilu, the members the accessors read are still null, so no engine descriptor is
  found, no mapped buffer is recognised, and neither a context image nor the contents of a ring is
  ever shown, whatever the objects hold.\<close>

theorem trace_blind:
  fixes s :: "('p, 'a) kxstate_scheme" and L :: "'p lilu" and b :: boot and bar0 :: "u64 option" and ks :: "kext list"
  assumes "list_all (\<lambda>x. members s x = 0) traceMembers"
  defines "t \<equiv> exec (loadKexts L b bar0 ks) s"
  shows "result (tGetHwCsDesc cb) t = 0
    \<and> fst ` set (traceContextImage cb orig b m ctx t) \<subseteq> {''qword'', ''object=null'', ''candidate'', ''NG_CONTEXT_DESC''}
    \<and> fst ` set (traceRingMemory cb orig b m ring t)
        \<subseteq> {''qword'', ''object=null'', ''candidate'', ''NG_RING_MEM'', ''NG_TAIL_WRITE''}"
proof -
  have z: "members t x = 0" if "x \<in> set traceMembers" for x
    using traceView_zero [OF _ that] assms(1) unfolding t_def list_all_iff by blast
  show ?thesis
    unfolding traceContextImage_def traceRingMemory_def
    by (simp only: accessors_null z context_blind ring_blind simp_thms)
qed

theorem trace_blind_witness:
  "result (tGetHwCsDesc True) (exec (loadKexts (sample_lilu True [])
     \<lparr>boot_int = (\<lambda>_. None)(''ngreen-rcsdeep'' \<mapsto> 1), boot_flag = (\<lambda>_. False)\<rparr> (Some 0x1000000) [TglFB, TglHW]) sample_kxstate) = 0"
proof -
  have "list_all (\<lambda>x. members sample_kxstate x = 0) traceMembers"
    by (simp add: sample_kxstate_def traceMembers_def dstate.defs kxstate.defs)
  from trace_blind [OF this] show ?thesis by (rule conjunct1)
qed

end
