(* ===== verification/NG_Snapshot.thy ===== *)
theory NG_Snapshot
  imports NG_Health
begin

text \<open>
  The log of the published services (\<open>iTGL/TGL.cpp\<close>, \<open>isServicePublishTraceTarget\<close> and
  \<open>logServicePublishSnapshot\<close>), taken by the start of the accelerator, of the framebuffer and by the
  delayed check, and the small hooks of that file that only count. The service registry is a
  parameter: what a service answers, its provider and its clients, where an iterator may be missing
  and may yield objects that are no services. The lines are values.
\<close>

section \<open>Services\<close>

record iosvc =
  sv_name :: "string option"
  sv_class :: "string option"
  sv_state :: u64
  sv_open :: bool
  sv_props :: osdict
  sv_provider :: "u64 option"
  sv_clients :: "u64 option list option"

definition shown :: "string option \<Rightarrow> string" where
  "shown x = (case x of None \<Rightarrow> ''<null>'' | Some n \<Rightarrow> n)"

text \<open>The services an iterator yields.\<close>

definition clients :: "iosvc \<Rightarrow> u64 list" where
  "clients s = (case sv_clients s of None \<Rightarrow> [] | Some cs \<Rightarrow> List.map_filter (\<lambda>x. x) cs)"

section \<open>The log\<close>

definition traceTargetName :: "string \<Rightarrow> bool" where
  "traceTargetName n \<longleftrightarrow> n = ''IntelAccelerator'' \<or> n = ''IGAccelDevice'' \<or> strstr n ''DisplayPipe''"

definition isServicePublishTraceTarget :: "string option \<Rightarrow> string option \<Rightarrow> bool" where
  "isServicePublishTraceTarget name cls \<longleftrightarrow>
     (case name of None \<Rightarrow> False | Some n \<Rightarrow> traceTargetName n) \<or> (case cls of None \<Rightarrow> False | Some n \<Rightarrow> traceTargetName n)"

text \<open>The class handed to the filter is never null: a missing one is its substitute.\<close>

definition interesting :: "iosvc \<Rightarrow> bool" where
  "interesting s = isServicePublishTraceTarget (sv_name s) (Some (shown (sv_class s)))"

datatype snapline =
    Root u32 string string string u64 bool
  | Provider u32 string string string u64
  | Child u32 string nat string string u64 bool bool
  | Caps u32 string nat bool int int string
  | Grandchild u32 string nat nat string string u64
  | ProviderChild u32 string nat string string u64

text \<open>A capability: a boolean, the low half of a number read as a signed integer, or -1.\<close>

definition capability :: "osobj option \<Rightarrow> int" where
  "capability x = (case x of Some (OBool v) \<Rightarrow> of_bool v | Some (ONumber n) \<Rightarrow> sint (ucast n :: u32) | _ \<Rightarrow> -1)"

definition capsLine :: "u32 \<Rightarrow> string \<Rightarrow> nat \<Rightarrow> iosvc \<Rightarrow> snapline" where
  "capsLine seq stage i child = (let
       dpCaps = (case getObject (sv_props child) ''IOAccelDisplayPipeCapabilities'' of Some (ODict d) \<Rightarrow> Some d | _ \<Rightarrow> None);
       cap = (\<lambda>k. case dpCaps of None \<Rightarrow> -1 | Some d \<Rightarrow> capability (getObject d k));
       metal = (case getObject (sv_props child) ''MetalPluginName'' of Some (OString m) \<Rightarrow> m | _ \<Rightarrow> ''<null>'')
     in Caps seq stage i (dpCaps \<noteq> None) (cap ''DisplayPipeSupported'') (cap ''TransactionsSupported'') metal)"

text \<open>The three loops, with their index.\<close>

fun grandLoop :: "(u64 \<Rightarrow> iosvc) \<Rightarrow> u32 \<Rightarrow> string \<Rightarrow> nat \<Rightarrow> nat \<Rightarrow> u64 option list \<Rightarrow> snapline list" where
  "grandLoop reg seq stage i j [] = []"
| "grandLoop reg seq stage i j (None # cs) = grandLoop reg seq stage i j cs"
| "grandLoop reg seq stage i j (Some g # cs) =
     Grandchild seq stage i j (shown (sv_name (reg g))) (shown (sv_class (reg g))) (sv_state (reg g))
     # grandLoop reg seq stage i (Suc j) cs"

definition childLines :: "(u64 \<Rightarrow> iosvc) \<Rightarrow> u32 \<Rightarrow> string \<Rightarrow> bool \<Rightarrow> nat \<Rightarrow> u64 \<Rightarrow> snapline list" where
  "childLines reg seq stage grands i c = (let child = reg c in
     Child seq stage i (shown (sv_name child)) (shown (sv_class child)) (sv_state child) (sv_open child) (interesting child)
     # (if interesting child then
          capsLine seq stage i child
          # (if grands then (case sv_clients child of None \<Rightarrow> [] | Some gs \<Rightarrow> grandLoop reg seq stage i 0 gs) else [])
        else []))"

fun childLoop :: "(u64 \<Rightarrow> iosvc) \<Rightarrow> u32 \<Rightarrow> string \<Rightarrow> bool \<Rightarrow> nat \<Rightarrow> u64 option list \<Rightarrow> snapline list" where
  "childLoop reg seq stage grands i [] = []"
| "childLoop reg seq stage grands i (None # cs) = childLoop reg seq stage grands i cs"
| "childLoop reg seq stage grands i (Some c # cs) =
     childLines reg seq stage grands i c @ childLoop reg seq stage grands (Suc i) cs"

fun providerLoop :: "(u64 \<Rightarrow> iosvc) \<Rightarrow> u64 \<Rightarrow> u32 \<Rightarrow> string \<Rightarrow> nat \<Rightarrow> u64 option list \<Rightarrow> snapline list" where
  "providerLoop reg svc seq stage i [] = []"
| "providerLoop reg svc seq stage i (None # cs) = providerLoop reg svc seq stage i cs"
| "providerLoop reg svc seq stage i (Some c # cs) =
     (if c = svc \<or> interesting (reg c)
      then [ProviderChild seq stage i (shown (sv_name (reg c))) (shown (sv_class (reg c))) (sv_state (reg c))] else [])
     @ providerLoop reg svc seq stage (Suc i) cs"

text \<open>A snapshot: the counter it leaves and the lines it prints.\<close>

definition logServicePublishSnapshot ::
  "(u64 \<Rightarrow> iosvc) \<Rightarrow> u64 option \<Rightarrow> string option \<Rightarrow> bool \<Rightarrow> bool \<Rightarrow> (u32, snapline list) state" where
  "logServicePublishSnapshot reg svc' stage' includeProviderChildren includeChildClients =
    (case (svc', stage') of
      (Some svc, Some stage) \<Rightarrow> do {
        modify (\<lambda>gServicePublishTraceSeq. gServicePublishTraceSeq + 1);
        seq \<leftarrow> State_Monad.get;
        let s = reg svc;
        ret (Root seq stage (shown (sv_name s)) (shown (sv_class s)) (sv_state s) (sv_open s)
          # (case sv_provider s of None \<Rightarrow> []
             | Some p \<Rightarrow> [Provider seq stage (shown (sv_name (reg p))) (shown (sv_class (reg p))) (sv_state (reg p))])
          @ (case sv_clients s of None \<Rightarrow> [] | Some cs \<Rightarrow> childLoop reg seq stage includeChildClients 0 cs)
          @ (case sv_provider s of None \<Rightarrow> []
             | Some p \<Rightarrow> if includeProviderChildren
                 then (case sv_clients (reg p) of None \<Rightarrow> [] | Some cs \<Rightarrow> providerLoop reg svc seq stage 0 cs) else []))
      }
    | _ \<Rightarrow> ret [])"

section \<open>releaseDoorbell\<close>

text \<open>The hook that stands for the power well routines: it counts to twenty, and prints the count while it does.\<close>

definition releaseDoorbell :: "(nat, nat list) state" where
  "releaseDoorbell = do {
     doorbellCount \<leftarrow> State_Monad.get;
     if doorbellCount < 20 then do { modify Suc; ret [Suc doorbellCount] } else ret []
   }"

primrec doorbells :: "nat \<Rightarrow> (nat, nat list) state" where
  "doorbells 0 = ret []"
| "doorbells (Suc n) = do { xs \<leftarrow> releaseDoorbell; ys \<leftarrow> doorbells n; ret (xs @ ys) }"

section \<open>Lemmas\<close>

text \<open>The loops against the list of services they visit.\<close>

lemma clients_simps [simp]:
  "List.map_filter (\<lambda>x. x) (None # cs) = List.map_filter (\<lambda>x. x) cs"
  "List.map_filter (\<lambda>x. x) (Some c # cs) = c # List.map_filter (\<lambda>x. x) cs"
  by (simp_all add: List.map_filter_def)

lemma grandLoop_spec:
  "grandLoop reg seq stage i j cs =
     map (\<lambda>(k, g). Grandchild seq stage i k (shown (sv_name (reg g))) (shown (sv_class (reg g))) (sv_state (reg g)))
       (List.enumerate j (List.map_filter (\<lambda>x. x) cs))"
  by (induction reg seq stage i j cs rule: grandLoop.induct) (simp_all add: List.map_filter_def)

lemma childLoop_spec:
  "childLoop reg seq stage grands i cs =
     concat (map (\<lambda>(k, c). childLines reg seq stage grands k c) (List.enumerate i (List.map_filter (\<lambda>x. x) cs)))"
  by (induction reg seq stage grands i cs rule: childLoop.induct) (simp_all add: List.map_filter_def)

lemma providerLoop_spec:
  "providerLoop reg svc seq stage i cs =
     map (\<lambda>(k, c). ProviderChild seq stage k (shown (sv_name (reg c))) (shown (sv_class (reg c))) (sv_state (reg c)))
       (filter (\<lambda>(k, c). c = svc \<or> interesting (reg c)) (List.enumerate i (List.map_filter (\<lambda>x. x) cs)))"
  by (induction reg svc seq stage i cs rule: providerLoop.induct) (simp_all add: List.map_filter_def)

lemma doorbells_from: "c \<le> 20 \<Longrightarrow> result (doorbells n) c = [Suc c..<Suc (min 20 (c + n))] \<and> exec (doorbells n) c = min 20 (c + n)"
proof (induction n arbitrary: c)
  case (Suc n)
  show ?case
  proof (cases "c < 20")
    case True
    define m where "m = min 20 (c + Suc n)"
    have "Suc c < Suc m" using True by (simp add: m_def)
    then have "[Suc c..<Suc m] = Suc c # [Suc (Suc c)..<Suc m]" by (rule upt_conv_Cons)
    moreover have "result (doorbells n) (Suc c) = [Suc (Suc c)..<Suc m] \<and> exec (doorbells n) (Suc c) = m"
      using Suc.IH [of "Suc c"] True unfolding m_def by (simp only: add_Suc add_Suc_right Suc_le_eq)
    ultimately show ?thesis using True unfolding m_def [symmetric] by (simp add: releaseDoorbell_def del: upt_Suc)
  next
    case False
    then show ?thesis using Suc.IH [of c] Suc.prems by (simp add: releaseDoorbell_def)
  qed
qed simp

text \<open>What a snapshot of a service prints, by the lists of services instead of the loops.\<close>

lemma snapshot_lines:
  "result (logServicePublishSnapshot reg (Some svc) (Some stage) pc cc) n =
     Root (n + 1) stage (shown (sv_name (reg svc))) (shown (sv_class (reg svc))) (sv_state (reg svc)) (sv_open (reg svc))
     # (case sv_provider (reg svc) of None \<Rightarrow> []
        | Some p \<Rightarrow> [Provider (n + 1) stage (shown (sv_name (reg p))) (shown (sv_class (reg p))) (sv_state (reg p))])
     @ concat (map (\<lambda>(k, c). childLines reg (n + 1) stage cc k c) (List.enumerate 0 (clients (reg svc))))
     @ (case sv_provider (reg svc) of None \<Rightarrow> []
        | Some p \<Rightarrow> if pc then map (\<lambda>(k, c). ProviderChild (n + 1) stage k (shown (sv_name (reg c))) (shown (sv_class (reg c))) (sv_state (reg c)))
            (filter (\<lambda>(k, c). c = svc \<or> interesting (reg c)) (List.enumerate 0 (clients (reg p)))) else [])"
  by (simp add: logServicePublishSnapshot_def clients_def childLoop_spec providerLoop_spec Let_def List.map_filter_def
      split: option.split)

definition isChild :: "snapline \<Rightarrow> bool" where
  "isChild l = (case l of Child _ _ _ _ _ _ _ _ \<Rightarrow> True | _ \<Rightarrow> False)"

definition isGrandchild :: "snapline \<Rightarrow> bool" where
  "isGrandchild l = (case l of Grandchild _ _ _ _ _ _ _ \<Rightarrow> True | _ \<Rightarrow> False)"

lemma line_kinds [simp]:
  "isChild (Child q st i nm cl state opn intr)" "\<not> isChild (capsLine q st i child)"
  "\<not> isGrandchild (Child q st i nm cl state opn intr)" "\<not> isGrandchild (capsLine q st i child)"
  by (simp_all add: isChild_def isGrandchild_def capsLine_def Let_def)

lemma childLines_children:
  "filter isChild (childLines reg seq stage cc k c) =
     [Child seq stage k (shown (sv_name (reg c))) (shown (sv_class (reg c))) (sv_state (reg c)) (sv_open (reg c)) (interesting (reg c))]"
proof -
  have "filter isChild (grandLoop reg seq stage i j gs) = []" for i j and gs :: "u64 option list"
    unfolding grandLoop_spec by (auto simp: filter_empty_conv isChild_def)
  note * = this
  show ?thesis
    unfolding childLines_def Let_def
    by (cases "interesting (reg c)"; cases cc; cases "sv_clients (reg c)")
       (simp_all only: * filter.simps line_kinds if_True if_False option.case)
qed

lemma childLines_grandchildren:
  "filter isGrandchild (childLines reg seq stage cc k c) = (if cc \<and> interesting (reg c)
     then map (\<lambda>(j, g). Grandchild seq stage k j (shown (sv_name (reg g))) (shown (sv_class (reg g))) (sv_state (reg g)))
       (List.enumerate 0 (clients (reg c))) else [])"
proof -
  have "filter isGrandchild (grandLoop reg seq stage i j gs) = grandLoop reg seq stage i j gs" for i j and gs :: "u64 option list"
    unfolding grandLoop_spec by (auto simp: filter_id_conv isGrandchild_def)
  note * = this
  show ?thesis
    unfolding childLines_def Let_def clients_def
    by (cases "interesting (reg c)"; cases cc; cases "sv_clients (reg c)")
       (simp_all only: * [unfolded grandLoop_spec] filter.simps line_kinds if_True if_False option.case simp_thms grandLoop_spec enumerate_simps list.map map_filter_simps)
qed

lemma filter_provider:
  "filter isChild (map (\<lambda>(k, c). ProviderChild q st k (f c) (g c) (h c)) xs) = []"
  "filter isGrandchild (map (\<lambda>(k, c). ProviderChild q st k (f c) (g c) (h c)) xs) = []"
  by (auto simp: filter_empty_conv isChild_def isGrandchild_def)

section \<open>Properties\<close>

text \<open>C37: A snapshot reports every client of the service that is a service itself, once and in the order of the
  registry, at its position among the services; under it, if asked for, every client of an
  interesting one and of no other; and it advances the sequence number by one. Objects that are no
  services are not counted.\<close>

theorem snapshot_reports_clients:
  "filter isChild (result (logServicePublishSnapshot reg (Some svc) (Some stage) pc cc) n) =
     map (\<lambda>(k, c). Child (n + 1) stage k (shown (sv_name (reg c))) (shown (sv_class (reg c))) (sv_state (reg c))
         (sv_open (reg c)) (interesting (reg c))) (List.enumerate 0 (clients (reg svc)))
   \<and> filter isGrandchild (result (logServicePublishSnapshot reg (Some svc) (Some stage) pc cc) n) =
     concat (map (\<lambda>(k, c). if cc \<and> interesting (reg c)
         then map (\<lambda>(j, g). Grandchild (n + 1) stage k j (shown (sv_name (reg g))) (shown (sv_class (reg g))) (sv_state (reg g)))
           (List.enumerate 0 (clients (reg c))) else []) (List.enumerate 0 (clients (reg svc))))
   \<and> exec (logServicePublishSnapshot reg (Some svc) (Some stage) pc cc) n = n + 1"
proof -
  have "filter P (concat (map (\<lambda>(k, c). childLines reg q stage cc k c) xs)) =
      concat (map (\<lambda>(k, c). filter P (childLines reg q stage cc k c)) xs)" for P q xs
    by (induction xs) auto
  moreover have "concat (map (\<lambda>(k, c). [f k c]) xs) = map (\<lambda>(k, c). f k c) xs" for f :: "nat \<Rightarrow> u64 \<Rightarrow> snapline" and xs
    by (induction xs) auto
  ultimately have a: "filter isChild (concat (map (\<lambda>(k, c). childLines reg q stage cc k c) xs)) =
      map (\<lambda>(k, c). Child q stage k (shown (sv_name (reg c))) (shown (sv_class (reg c))) (sv_state (reg c))
         (sv_open (reg c)) (interesting (reg c))) xs"
    and b: "filter isGrandchild (concat (map (\<lambda>(k, c). childLines reg q stage cc k c) xs)) =
      concat (map (\<lambda>(k, c). if cc \<and> interesting (reg c)
         then map (\<lambda>(j, g). Grandchild q stage k j (shown (sv_name (reg g))) (shown (sv_class (reg g))) (sv_state (reg g)))
           (List.enumerate 0 (clients (reg c))) else []) xs)" for q xs
    by (simp_all only: childLines_children childLines_grandchildren)
  show ?thesis
    unfolding snapshot_lines filter_append filter.simps a b
    by (simp add: filter_provider isChild_def isGrandchild_def logServicePublishSnapshot_def Let_def split: option.split)
qed

end
