(* ===== verification/NG_Hooks.thy ===== *)
theory NG_Hooks
  imports NG_Display
begin

text \<open>
  Hooks of \<open>iTGL/TGL.cpp\<close> that change memory around a call of the original: the four timing hooks,
  which force the pixel clock, and \<open>getBlit3DContext\<close>. Originals are parameters. \<open>None\<close> is the panic
  of a null dereference.
\<close>

section \<open>Timing\<close>

text \<open>The pixel clock of an \<open>IODetailedTimingInformationV2\<close> is the 64-bit member at 0x28.\<close>

definition forcePixelClock :: "u64 \<Rightarrow> ('a dstate_scheme, unit) state" where
  "forcePixelClock info = whenM (info \<noteq> 0) (modify (\<lambda>s. s\<lparr>kmem := wr64 (info + 0x28) 785400000 (kmem s)\<rparr>))"

definition maxSupportedDepths :: "(u64 \<Rightarrow> ('a dstate_scheme, u8) state) \<Rightarrow> u64 \<Rightarrow> ('a dstate_scheme, u8) state" where
  "maxSupportedDepths orig param_1 = do { forcePixelClock param_1; orig param_1 }"

definition validateModeDepth ::
  "(u64 \<Rightarrow> u64 \<Rightarrow> u32 \<Rightarrow> ('a dstate_scheme, u8) state) \<Rightarrow> u64 \<Rightarrow> u64 \<Rightarrow> u32 \<Rightarrow> ('a dstate_scheme, u8) state" where
  "validateModeDepth orig that param_1 param_2 = do { forcePixelClock param_1; orig that param_1 param_2 }"

definition validateDisplayMode ::
  "(u64 \<Rightarrow> u32 \<Rightarrow> u64 \<Rightarrow> u64 \<Rightarrow> ('a dstate_scheme, u8) state) \<Rightarrow> u64 \<Rightarrow> u32 \<Rightarrow> u64 \<Rightarrow> u64 \<Rightarrow> ('a dstate_scheme, u8) state" where
  "validateDisplayMode orig that param_1 param_2 param_3 = do { forcePixelClock param_3; orig that param_1 param_2 param_3 }"

definition setupDisplayTiming ::
  "(u64 \<Rightarrow> u64 \<Rightarrow> u64 \<Rightarrow> ('a dstate_scheme, unit) state) \<Rightarrow> u64 \<Rightarrow> u64 \<Rightarrow> u64 \<Rightarrow> ('a dstate_scheme, unit) state" where
  "setupDisplayTiming orig that param_1 param_2 = do { forcePixelClock param_2; orig that param_1 param_2 }"

section \<open>The context of the blitter\<close>

text \<open>The member at 0x298 is read as a pointer to the context, which is then read through it.\<close>

definition getBlit3DContext ::
  "('a dstate_scheme, u64) state \<Rightarrow> (u64 \<Rightarrow> ('a dstate_scheme, u8) state) \<Rightarrow> u64 \<Rightarrow> ('a dstate_scheme, u64 option) state" where
  "getBlit3DContext operatornew initWithOptions that = do {
     slot \<leftarrow> gets (\<lambda>s. rd64 (kmem s) (that + 0x298));
     if slot = 0 then ret None else do {
       blti \<leftarrow> gets (\<lambda>s. rd64 (kmem s) slot);
       if blti \<noteq> 0 then ret (Some blti) else do {
         this_00 \<leftarrow> operatornew;
         _ \<leftarrow> IGHardwareExtendedContextinitWithOptions (initWithOptions this_00) this_00;
         slot' \<leftarrow> gets (\<lambda>s. rd64 (kmem s) (that + 0x298));
         if slot' = 0 then ret None else do {
           modify (\<lambda>s. s\<lparr>kmem := wr64 slot' this_00 (kmem s)\<rparr>);
           ret (Some this_00)
         }
       }
     }
   }"

section \<open>Lemmas\<close>

lemma wr64_other: "\<forall>i \<in> {0, 1, 2, 3, 4, 5, 6, 7}. x \<noteq> a + i \<Longrightarrow> wr64 a v m x = m x"
  by (simp add: wr64_def wr32_def add.assoc)

text \<open>What an original finds: the pixel clock forced and the rest of memory as it was, or the same state when
  there is no timing.\<close>

definition clock_forced :: "u64 \<Rightarrow> 'a dstate_scheme \<Rightarrow> 'a dstate_scheme \<Rightarrow> bool" where
  "clock_forced info s t \<longleftrightarrow> (if info = 0 then t = s else
     rd64 (kmem t) (info + 0x28) = 785400000
     \<and> (\<forall>x. (\<forall>i \<in> {0, 1, 2, 3, 4, 5, 6, 7}. x \<noteq> info + 0x28 + i) \<longrightarrow> kmem t x = kmem s x)
     \<and> t\<lparr>kmem := kmem s\<rparr> = s)"

lemma forcePixelClock_forced: "clock_forced info s (exec (forcePixelClock info) s)"
  unfolding clock_forced_def forcePixelClock_def by (auto intro: wr64_other)

text \<open>The hook panics on an object whose member is still null, the state of every object before its first
  context.\<close>

lemma blit3d_first_call_panics:
  "rd64 (kmem s) (that + 0x298) = 0 \<Longrightarrow> result (getBlit3DContext new ini that) s = None \<and> exec (getBlit3DContext new ini that) s = s"
  by (simp add: getBlit3DContext_def)

section \<open>The timing hooks together\<close>

text \<open>Each of the four timing hooks calls its original once, with the caller's arguments, in a state that differs
  from the caller's in the eight bytes of the pixel clock only, which then reads 785.4 MHz; without a
  timing the original runs in the caller's state. The answer is the original's.\<close>

theorem timing_hooks_force_clock:
  fixes s :: "'a dstate_scheme"
  shows "(\<exists>t. clock_forced p1 s t \<and> run_state (maxSupportedDepths f p1) s = run_state (f p1) t)
    \<and> (\<exists>t. clock_forced p1 s t \<and> run_state (validateModeDepth g that p1 d) s = run_state (g that p1 d) t)
    \<and> (\<exists>t. clock_forced p3 s t \<and> run_state (validateDisplayMode h that i p2 p3) s = run_state (h that i p2 p3) t)
    \<and> (\<exists>t. clock_forced p2 s t \<and> run_state (setupDisplayTiming k that p1 p2) s = run_state (k that p1 p2) t)"
proof -
  have "run_state (do { forcePixelClock info; m }) s = run_state m (exec (forcePixelClock info) s)" for info
    and m :: "('a dstate_scheme, 'b) state"
    by (simp add: exec_def split: prod.split)
  moreover have "run_state (do { forcePixelClock info; m }) s = run_state m (exec (forcePixelClock info) s)" for info
    and m :: "('a dstate_scheme, u8) state"
    by (simp add: exec_def split: prod.split)
  ultimately show ?thesis
    unfolding maxSupportedDepths_def validateModeDepth_def validateDisplayMode_def setupDisplayTiming_def
    using forcePixelClock_forced by metis
qed

end
