(* ===== verification/NG_Panel.thy ===== *)
theory NG_Panel
  imports NG_OSObjects
begin

text \<open>
  The backlight curves of \<open>NGreen.cpp\<close>: the hook of \<open>AppleIntelPanel::setDisplay\<close>, which adds a table
  of curves to the panels of the first service it is called for. Registry entries are numbers, as in
  the property store; the copy of a dictionary, the allocation of a data object and the original
  routine are parameters.
\<close>

section \<open>The curves\<close>

definition appleBacklightData :: "(string \<times> u8 list) list" where
  "appleBacklightData =
    [(''F14Txxxx'',
      [0x00, 0x11, 0x00, 0x00, 0x00, 0x34, 0x00, 0x52, 0x00, 0x73, 0x00, 0x94, 0x00, 0xBE, 0x00, 0xFA, 0x01, 0x36,
       0x01, 0x72, 0x01, 0xC5, 0x02, 0x2F, 0x02, 0xB9, 0x03, 0x60, 0x04, 0x1A, 0x05, 0x0A, 0x06, 0x0E, 0x07, 0x10]),
     (''F15Txxxx'',
      [0x00, 0x11, 0x00, 0x00, 0x00, 0x36, 0x00, 0x54, 0x00, 0x7D, 0x00, 0xB2, 0x00, 0xF5, 0x01, 0x49, 0x01, 0xB1,
       0x02, 0x2B, 0x02, 0xB8, 0x03, 0x59, 0x04, 0x13, 0x04, 0xEC, 0x05, 0xF3, 0x07, 0x34, 0x08, 0xAF, 0x0A, 0xD9]),
     (''F16Txxxx'',
      [0x00, 0x11, 0x00, 0x00, 0x00, 0x18, 0x00, 0x27, 0x00, 0x3A, 0x00, 0x52, 0x00, 0x71, 0x00, 0x96, 0x00, 0xC4,
       0x00, 0xFC, 0x01, 0x40, 0x01, 0x93, 0x01, 0xF6, 0x02, 0x6E, 0x02, 0xFE, 0x03, 0xAA, 0x04, 0x78, 0x05, 0x6C]),
     (''F17Txxxx'',
      [0x00, 0x11, 0x00, 0x00, 0x00, 0x1F, 0x00, 0x34, 0x00, 0x4F, 0x00, 0x71, 0x00, 0x9B, 0x00, 0xCF, 0x01, 0x0E,
       0x01, 0x5D, 0x01, 0xBB, 0x02, 0x2F, 0x02, 0xB9, 0x03, 0x60, 0x04, 0x29, 0x05, 0x1E, 0x06, 0x44, 0x07, 0xA1]),
     (''F18Txxxx'',
      [0x00, 0x11, 0x00, 0x00, 0x00, 0x53, 0x00, 0x8C, 0x00, 0xD5, 0x01, 0x31, 0x01, 0xA2, 0x02, 0x2E, 0x02, 0xD8,
       0x03, 0xAE, 0x04, 0xAC, 0x05, 0xE5, 0x07, 0x59, 0x09, 0x1C, 0x0B, 0x3B, 0x0D, 0xD0, 0x10, 0xEA, 0x14, 0x99]),
     (''F19Txxxx'',
      [0x00, 0x11, 0x00, 0x00, 0x02, 0x8F, 0x03, 0x53, 0x04, 0x5A, 0x05, 0xA1, 0x07, 0xAE, 0x0A, 0x3D, 0x0E, 0x14,
       0x13, 0x74, 0x1A, 0x5E, 0x24, 0x18, 0x31, 0xA9, 0x44, 0x59, 0x5E, 0x76, 0x83, 0x11, 0xB6, 0xC7, 0xFF, 0x7B]),
     (''F24Txxxx'',
      [0x00, 0x11, 0x00, 0x01, 0x00, 0x34, 0x00, 0x52, 0x00, 0x73, 0x00, 0x94, 0x00, 0xBE, 0x00, 0xFA, 0x01, 0x36,
       0x01, 0x72, 0x01, 0xC5, 0x02, 0x2F, 0x02, 0xB9, 0x03, 0x60, 0x04, 0x1A, 0x05, 0x0A, 0x06, 0x0E, 0x07, 0x10])]"

section \<open>The hook\<close>

record panelstate =
  once :: bool
  registry :: ioreg

primrec addCurves :: "(u8 list \<Rightarrow> bool) \<Rightarrow> (string \<times> u8 list) list \<Rightarrow> osdict \<Rightarrow> osdict" where
  "addCurves withBytes [] panels = panels"
| "addCurves withBytes (e # es) panels = addCurves withBytes es
     (if withBytes (snd e) then setObject (fst e) (OData (snd e)) panels else panels)"

definition wrapApplePanelSetDisplay ::
  "(osdict \<Rightarrow> osobj option) \<Rightarrow> (u8 list \<Rightarrow> bool) \<Rightarrow> (nat \<Rightarrow> ('a panelstate_scheme, bool) state) \<Rightarrow> nat
    \<Rightarrow> ('a panelstate_scheme, bool) state" where
  "wrapApplePanelSetDisplay copyCollection withBytes org that = do {
     s \<leftarrow> State_Monad.get;
     whenM (\<not> once s) (do {
       modify (\<lambda>s. s\<lparr>once := True\<rparr>);
       case getObject (props (registry s) that) ''ApplePanels'' of
         Some (ODict panels) \<Rightarrow> (case copyCollection panels of
             Some (ODict copy) \<Rightarrow> modify (\<lambda>s. s\<lparr>registry := setProperty that ''ApplePanels''
               (ODict (addCurves withBytes appleBacklightData copy)) (registry s)\<rparr>)
           | _ \<Rightarrow> ret ())
       | _ \<Rightarrow> ret ()
     });
     org that
   }"

section \<open>Lemmas\<close>

text \<open>A curve is the number of its values and then the values, two bytes each, ever brighter.\<close>

fun be16s :: "u8 list \<Rightarrow> nat list" where
  "be16s (h # l # bs) = (256 * unat h + unat l) # be16s bs"
| "be16s _ = []"

lemma curves_increase:
  "list_all (\<lambda>(_, c). length c = 36 \<and> hd (be16s c) = length (tl (be16s c)) \<and> sorted_wrt (<) (tl (be16s c))) appleBacklightData"
  by (simp add: appleBacklightData_def)

lemma curves_distinct: "distinct (map fst appleBacklightData)"
  by code_simp

lemma getObject_addCurves:
  assumes "distinct (map fst es)" and "\<And>b. withBytes b"
  shows "getObject (addCurves withBytes es panels) k =
    (case map_of es k of Some c \<Rightarrow> Some (OData c) | None \<Rightarrow> getObject panels k)"
  using assms(1)
proof (induction es arbitrary: panels)
  case (Cons e es)
  then have "map_of es (fst e) = None" by (simp add: map_of_eq_None_iff)
  with Cons show ?case by (auto simp: assms(2) split: option.split)
qed simp

lemma panel_later:
  assumes "\<And>e. state_io_rel (unchanged (\<lambda>s. (once s, registry s))) (org e)"
  shows "state_io_rel (keeps (\<lambda>s. once s \<and> registry s = r)) (forM es (\<lambda>e. do { _ \<leftarrow> wrapApplePanelSetDisplay cc wb org e; ret () }))"
proof (intro inv.io_rules)
  fix e
  have "once (exec (org e) s) = once s" "registry (exec (org e) s) = registry s" for s
    using assms by (simp_all add: state_io_rel_exec unchanged_def)
  then show "state_io_rel (keeps (\<lambda>s. once s \<and> registry s = r)) (wrapApplePanelSetDisplay cc wb org e)"
    by (simp add: state_io_rel_exec keeps_def wrapApplePanelSetDisplay_def)
qed

section \<open>Property\<close>

text \<open>C36: The first service whose display is set gets all the curves: its panels answer the curve of a
  name in the table and what they answered before for any other, its other properties and every
  other service are unchanged, and so it stays however often the display of this or another
  service is set later. Copying and allocating are taken to succeed, the original routine to leave
  the registry alone.\<close>

theorem panel_curves_added:
  assumes "\<not> once s" and "getObject (props (registry s) e) ''ApplePanels'' = Some (ODict d)"
    and "\<And>d. cc d = Some (ODict d)" and "\<And>b. wb b"
    and "\<And>e. state_io_rel (unchanged (\<lambda>s. (once s, registry s))) (org e)"
  shows "\<exists>d'. props (registry (exec (forM (e # es) (\<lambda>e. do { _ \<leftarrow> wrapApplePanelSetDisplay cc wb org e; ret () })) s))
        = (props (registry s))(e := setObject ''ApplePanels'' (ODict d') (props (registry s) e))
    \<and> (\<forall>k. getObject d' k = (case map_of appleBacklightData k of Some c \<Rightarrow> Some (OData c) | None \<Rightarrow> getObject d k))"
proof -
  let ?d = "addCurves wb appleBacklightData d"
  let ?r = "setProperty e ''ApplePanels'' (ODict ?d) (registry s)"
  define t where "t = exec (wrapApplePanelSetDisplay cc wb org e) s"
  have org: "once (exec (org e) s) = once s" "registry (exec (org e) s) = registry s" for s
    using assms(5) by (simp_all add: state_io_rel_exec unchanged_def)
  have "once t \<and> registry t = ?r"
    using assms(1,2) by (simp add: t_def wrapApplePanelSetDisplay_def assms(3) org)
  then have "registry (exec (forM es (\<lambda>e. do { _ \<leftarrow> wrapApplePanelSetDisplay cc wb org e; ret () })) t) = ?r"
    using panel_later [OF assms(5), of ?r es cc wb] by (simp add: state_io_rel_exec keeps_def)
  moreover have "\<forall>k. getObject ?d k = (case map_of appleBacklightData k of Some c \<Rightarrow> Some (OData c) | None \<Rightarrow> getObject d k)"
    by (intro allI getObject_addCurves curves_distinct assms(4))
  ultimately show ?thesis
    by (intro exI [of _ ?d] conjI) (simp add: t_def fun_eq_iff)
qed

theorem panel_curves_added_witness:
  "\<exists>d'. props (registry (exec (forM [0, 1] (\<lambda>e. do { _ \<leftarrow> wrapApplePanelSetDisplay (\<lambda>d. Some (ODict d)) (\<lambda>_. True) (\<lambda>_. ret True) e; ret () }))
        \<lparr>once = False, registry = \<lparr>resolve = (\<lambda>_. None), props = (\<lambda>_. [(''ApplePanels'', ODict [(''F99Txxxx'', OBool True)])])\<rparr>\<rparr>)) 0
      = [(''ApplePanels'', ODict d')] \<and> getObject d' ''F99Txxxx'' = Some (OBool True)"
proof -
  let ?s = "\<lparr>once = False, registry = \<lparr>resolve = (\<lambda>_. None), props = (\<lambda>_. [(''ApplePanels'', ODict [(''F99Txxxx'', OBool True)])])\<rparr>\<rparr>"
  have "state_io_rel (unchanged (\<lambda>s. (once s, registry s))) (ret True)" by (rule un.io_ret)
  then obtain d' where d: "props (registry (exec (forM [0, 1] (\<lambda>e. do { _ \<leftarrow> wrapApplePanelSetDisplay (\<lambda>d. Some (ODict d)) (\<lambda>_. True) (\<lambda>_. ret True) e; ret () })) ?s))
        = (props (registry ?s))(0 := setObject ''ApplePanels'' (ODict d') (props (registry ?s) 0))"
      and k: "\<And>k. getObject d' k = (case map_of appleBacklightData k of Some c \<Rightarrow> Some (OData c)
        | None \<Rightarrow> getObject [(''F99Txxxx'', OBool True)] k)"
    using panel_curves_added [where s = ?s and e = 0 and es = "[1]" and d = "[(''F99Txxxx'', OBool True)]"
        and cc = "\<lambda>d. Some (ODict d)" and wb = "\<lambda>_. True" and org = "\<lambda>_. ret True"]
    by (auto simp: getObject_def)
  have "getObject d' ''F99Txxxx'' = Some (OBool True)"
    by (subst k) (simp add: appleBacklightData_def getObject_def)
  moreover have "props (registry (exec (forM [0, 1] (\<lambda>e. do { _ \<leftarrow> wrapApplePanelSetDisplay (\<lambda>d. Some (ODict d)) (\<lambda>_. True) (\<lambda>_. ret True) e; ret () })) ?s)) 0
      = [(''ApplePanels'', ODict d')]"
    by (subst d) simp
  ultimately show ?thesis by blast
qed

end
