(* ===== verification/NG_NetDbg.thy ===== *)
theory NG_NetDbg
  imports NG_Prelude
begin

text \<open>
  The network log of \<open>Utilities/NetDbg.cpp\<close>: the parsing of the boot argument, the connection loop
  and the sending of a line. The kernel's socket calls are a parameter, a record of transitions of
  their own state. The members of the class are \<open>ip_addr\<close> and \<open>port\<close>; the ghost fields \<open>connects\<close> and
  \<open>sends\<close> list the connection attempts and the requests to send. \<open>None\<close> is a kernel panic.
\<close>

section \<open>The boot argument\<close>

definition is_space :: "char \<Rightarrow> bool" where
  "is_space c \<longleftrightarrow> of_char c = (32 :: nat) \<or> (9 \<le> (of_char c :: nat) \<and> (of_char c :: nat) \<le> 13)"

definition is_digit :: "char \<Rightarrow> bool" where
  "is_digit c \<longleftrightarrow> 48 \<le> (of_char c :: nat) \<and> (of_char c :: nat) \<le> 57"

definition dec_value :: "string \<Rightarrow> nat" where
  "dec_value ds = foldl (\<lambda>v c. 10 * v + (of_char c - 48)) 0 ds"

text \<open>An unsigned conversion of \<open>sscanf\<close>: blanks, a sign, digits; a number that does not fit is the largest.\<close>

definition scan_uint :: "string \<Rightarrow> (u64 \<times> string) option" where
  "scan_uint s = (let s1 = dropWhile is_space s;
       neg = (s1 \<noteq> [] \<and> hd s1 = CHR ''-'');
       s2 = (if s1 \<noteq> [] \<and> (hd s1 = CHR ''-'' \<or> hd s1 = CHR ''+'') then tl s1 else s1);
       ds = takeWhile is_digit s2; v = dec_value ds
     in if ds = [] then None
        else Some (if 2 ^ 64 \<le> v then - 1 else if neg then - of_nat v else of_nat v, dropWhile is_digit s2))"

definition scan_char :: "char \<Rightarrow> string \<Rightarrow> string option" where
  "scan_char c s = (if s \<noteq> [] \<and> hd s = c then Some (tl s) else None)"

text \<open>The format \<open>%hhu.%hhu.%hhu.%hhu:%u\<close> with all five conversions done.\<close>

definition scan_address :: "string \<Rightarrow> (u8 \<times> u8 \<times> u8 \<times> u8 \<times> u32) option" where
  "scan_address s0 = do {
     (a, s1) \<leftarrow> scan_uint s0; s2 \<leftarrow> scan_char CHR ''.'' s1;
     (b, s3) \<leftarrow> scan_uint s2; s4 \<leftarrow> scan_char CHR ''.'' s3;
     (c, s5) \<leftarrow> scan_uint s4; s6 \<leftarrow> scan_char CHR ''.'' s5;
     (d, s7) \<leftarrow> scan_uint s6; s8 \<leftarrow> scan_char CHR '':'' s7;
     (p, _) \<leftarrow> scan_uint s8;
     Some (ucast a, ucast b, ucast c, ucast d, ucast p)
   }"

definition htons :: "u16 \<Rightarrow> u16" where
  "htons x = push_bit 8 x OR drop_bit 8 x"

section \<open>State and sockets\<close>

record 'n netdbg =
  ip_addr :: u32
  port :: u32
  net :: 'n
  connects :: "(nat \<times> u32 \<times> u16) list"
  sends :: "(u8 list \<times> nat) list"

record 'n sockets =
  sock_socket :: "'n \<Rightarrow> nat option \<times> 'n"
  sock_connect :: "nat \<Rightarrow> u32 \<Rightarrow> u16 \<Rightarrow> 'n \<Rightarrow> int \<times> 'n"
  sock_send :: "nat \<Rightarrow> u8 list \<Rightarrow> nat \<Rightarrow> 'n \<Rightarrow> (int \<times> nat) \<times> 'n"
  sock_close :: "nat \<Rightarrow> 'n \<Rightarrow> unit \<times> 'n"

definition kernel :: "('n \<Rightarrow> 'x \<times> 'n) \<Rightarrow> ('n netdbg, 'x) state" where
  "kernel f = do {
     n \<leftarrow> gets net;
     modify (\<lambda>s. s\<lparr>net := snd (f n)\<rparr>);
     ret (fst (f n))
   }"

section \<open>nprint and vprintf\<close>

text \<open>The parsed port goes to a local variable of the block; the member is only read. \<open>False\<close> is a panic.\<close>

definition parseTarget :: "string \<Rightarrow> ('n netdbg, bool) state" where
  "parseTarget ip = do {
     s \<leftarrow> State_Monad.get;
     if ip_addr s = 0 \<or> port s = 0 then (case scan_address ip of
         None \<Rightarrow> ret False
       | Some (a, b, c, d, p) \<Rightarrow> do {
           modify (\<lambda>s. s\<lparr>ip_addr := ucast a OR push_bit 8 (ucast b) OR push_bit 16 (ucast c) OR push_bit 24 (ucast d)\<rparr>);
           let local_port = (ucast (htons (ucast p)) :: u32);
           addr \<leftarrow> gets ip_addr;
           ret (\<not> (addr = 0 \<or> local_port = 0))
         })
     else ret True
   }"

text \<open>\<open>while (retry--)\<close>: the value of the counter and the socket at the end.\<close>

primrec connectLoop :: "'n sockets \<Rightarrow> nat \<Rightarrow> nat option \<Rightarrow> ('n netdbg, int \<times> nat option) state" where
  "connectLoop K 0 sock = ret (- 1, sock)"
| "connectLoop K (Suc retry) sock = do {
     sock' \<leftarrow> (case sock of None \<Rightarrow> kernel (sock_socket K) | Some h \<Rightarrow> ret (Some h));
     case sock' of
       None \<Rightarrow> connectLoop K retry None
     | Some h \<Rightarrow> do {
         s \<leftarrow> State_Monad.get;
         modify (\<lambda>s. s\<lparr>connects := connects s @ [(h, ip_addr s, ucast (port s))]\<rparr>);
         err \<leftarrow> kernel (sock_connect K h (ip_addr s) (ucast (port s)));
         if err = - 1 then do { kernel (sock_close K h); connectLoop K retry None }
         else connectLoop K retry (Some h)
       }
   }"

definition nprint :: "'n sockets \<Rightarrow> string option \<Rightarrow> u8 list \<Rightarrow> nat \<Rightarrow> ('n netdbg, nat option) state" where
  "nprint K arg data len = (case arg of
     None \<Rightarrow> ret (Some 0)
   | Some ip \<Rightarrow> do {
       valid \<leftarrow> parseTarget ip;
       if \<not> valid then ret None else do {
         (retry, sock) \<leftarrow> connectLoop K 5 None;
         case sock of
           None \<Rightarrow> ret (Some 0)
         | Some h \<Rightarrow> if retry = 0 then do { kernel (sock_close K h); ret (Some 0) } else do {
             modify (\<lambda>s. s\<lparr>sends := sends s @ [(data, len)]\<rparr>);
             (err, sentLen) \<leftarrow> kernel (sock_send K h data len);
             kernel (sock_close K h);
             ret (Some (if err = - 1 then 0 else sentLen))
           }
       }
     })"

text \<open>
  \<open>text\<close> is what the format and its arguments print. The buffer has 2048 bytes, of which \<open>vsnprintf\<close>
  fills at most 2047, the terminating zero included; its result is the length of the whole text.
\<close>

definition vprintf :: "'n sockets \<Rightarrow> string option \<Rightarrow> u8 list \<Rightarrow> ('n netdbg, nat option) state" where
  "vprintf K arg text = nprint K arg (take 2046 text @ [0]) (length text)"

section \<open>Lemmas\<close>

definition port_unset :: "'n netdbg \<Rightarrow> bool" where
  "port_unset s \<longleftrightarrow> port s = 0 \<and> (\<forall>c \<in> set (connects s). snd (snd c) = 0)"

lemma kernel_run [simp]:
  "result (kernel f) s = fst (f (net s))" "exec (kernel f) s = s\<lparr>net := snd (f (net s))\<rparr>"
  by (simp_all add: kernel_def)

lemma pu_kernel: "state_io_rel (keeps port_unset) (kernel f)"
  by (simp add: state_io_rel_exec keeps_def port_unset_def)

lemma pu_connectLoop: "state_io_rel (keeps port_unset) (connectLoop K n sock)"
proof (induction n arbitrary: sock)
  case 0
  then show ?case by (simp add: inv.io_ret)
next
  case (Suc n)
  have c: "state_io_rel (keeps port_unset) (do {
      s \<leftarrow> State_Monad.get;
      modify (\<lambda>s. s\<lparr>connects := connects s @ [(h, ip_addr s, ucast (port s))]\<rparr>);
      err \<leftarrow> kernel (sock_connect K h (ip_addr s) (ucast (port s)));
      if err = - 1 then do { kernel (sock_close K h); connectLoop K n None } else connectLoop K n (Some h) })" for h
    by (intro inv.io_rules pu_kernel Suc.IH) (auto simp: state_io_rel_exec keeps_def port_unset_def)
  show ?case
    unfolding connectLoop.simps by (intro inv.io_rules pu_kernel Suc.IH c)
qed

lemma pu_nprint: "state_io_rel (keeps port_unset) (nprint K arg data len)"
proof -
  have p: "state_io_rel (keeps port_unset) (parseTarget ip)" for ip
    unfolding parseTarget_def
    by (auto intro!: inv.io_rules simp: state_io_rel_exec keeps_def port_unset_def Let_def split: option.split)
  have m: "state_io_rel (keeps port_unset) (modify (\<lambda>s. s\<lparr>sends := sends s @ [(data, len)]\<rparr>))"
    by (simp add: state_io_rel_exec keeps_def port_unset_def)
  show ?thesis
    unfolding nprint_def
    by (auto intro!: inv.io_rules p m pu_kernel pu_connectLoop split: option.split)
qed

lemma ucast_zero_iff: "(ucast (x :: u16) :: u32) = 0 \<longleftrightarrow> x = 0"
  by transfer (simp add: take_bit_eq_mod)

lemma sends_kept: "sends (exec (connectLoop K n sock) s) = sends s"
  by (induction n arbitrary: sock s) (simp_all split: option.split)

text \<open>With a socket and no connection error reported as \<open>-1\<close>, the loop connects that socket in every round.\<close>

lemma connectLoop_repeats:
  assumes "\<And>h a p n. fst (sock_connect K h a p n) \<noteq> - 1"
  shows "result (connectLoop K n (Some h)) s = (- 1, Some h)
    \<and> connects (exec (connectLoop K n (Some h)) s) = connects s @ replicate n (h, ip_addr s, ucast (port s))"
proof (induction n arbitrary: s)
  case (Suc n)
  then show ?case using assms by (simp add: replicate_append_same [symmetric])
qed simp

section \<open>Properties\<close>

text \<open>C39: No connection is ever made to the port of the boot argument: through any sequence of printed
  lines, and whatever the kernel's socket calls answer, the port of the class stays zero and every
  connection attempt is made to port zero.\<close>

theorem netdbg_port_zero:
  assumes "port s = 0" and "connects s = []"
  shows "port (exec (forM texts (\<lambda>x. do { _ \<leftarrow> vprintf K arg x; ret () })) s) = 0
    \<and> (\<forall>c \<in> set (connects (exec (forM texts (\<lambda>x. do { _ \<leftarrow> vprintf K arg x; ret () })) s)). snd (snd c) = 0)"
proof -
  have "state_io_rel (keeps port_unset) (forM texts (\<lambda>x. do { _ \<leftarrow> vprintf K arg x; ret () }))"
    unfolding vprintf_def by (intro inv.io_rules pu_nprint)
  then show ?thesis using assms by (auto simp: state_io_rel_exec keeps_def port_unset_def)
qed

text \<open>A line with a valid address and a working kernel: five connection attempts of the same socket, although
  the first one succeeded, and a request to send the whole length of the text from a buffer that
  holds at most 2047 bytes of it.\<close>

theorem netdbg_line:
  assumes "scan_address ip = Some (a, b, c, d, p)" and "htons (ucast p) \<noteq> 0"
    and "ucast a OR push_bit 8 (ucast b) OR push_bit 16 (ucast c) OR push_bit 24 (ucast d) = (addr :: u32)" and "addr \<noteq> 0"
    and "port s = 0" and "sock_socket K (net s) = (Some h, n)" and conn: "\<And>h a p n. fst (sock_connect K h a p n) \<noteq> - 1"
  shows "connects (exec (vprintf K (Some ip) text) s) = connects s @ replicate 5 (h, addr, 0)
    \<and> (\<exists>data. sends (exec (vprintf K (Some ip) text) s) = sends s @ [(data, length text)] \<and> length data \<le> 2047)"
proof -
  have "ucast (htons (ucast p)) \<noteq> (0 :: u32)"
    using assms(2) by (simp add: ucast_zero_iff)
  then have v: "result (parseTarget ip) s" "exec (parseTarget ip) s = s\<lparr>ip_addr := addr\<rparr>"
    using assms(1,3-5) by (simp_all add: parseTarget_def Let_def)
  have l: "result (connectLoop K 5 None) (s\<lparr>ip_addr := addr\<rparr>) = (- 1, Some h)"
    "connects (exec (connectLoop K 5 None) (s\<lparr>ip_addr := addr\<rparr>)) = connects s @ replicate 5 (h, addr, 0)"
    "sends (exec (connectLoop K 5 None) (s\<lparr>ip_addr := addr\<rparr>)) = sends s"
    using connectLoop_repeats [OF conn, of 4 h] assms(5,6) conn
    by (simp_all add: eval_nat_numeral sends_kept)
  show ?thesis by (auto simp: vprintf_def nprint_def v l split: prod.split)
qed

lemma scan_sample: "scan_address ''192.168.1.4:8080'' = Some (192, 168, 1, 4, 8080)"
  by (simp add: scan_address_def scan_uint_def scan_char_def is_space_def is_digit_def dec_value_def)

definition sample_sockets :: "unit sockets" where
  "sample_sockets = \<lparr>sock_socket = (\<lambda>n. (Some 7, n)), sock_connect = (\<lambda>_ _ _ n. (0, n)),
     sock_send = (\<lambda>_ _ len n. ((0, len), n)), sock_close = (\<lambda>_ n. ((), n))\<rparr>"

theorem netdbg_port_zero_witness:
  "list_all (\<lambda>c. snd (snd c) = 0) (connects (exec (forM [[65, 10], [66, 10]]
       (\<lambda>x. do { _ \<leftarrow> vprintf sample_sockets (Some ''192.168.1.4:8080'') x; ret () }))
     \<lparr>ip_addr = 0, port = 0, net = (), connects = [], sends = []\<rparr>))"
  using netdbg_port_zero [of "\<lparr>ip_addr = 0, port = 0, net = (), connects = [], sends = []\<rparr>" "[[65, 10], [66, 10]]"
      sample_sockets "Some ''192.168.1.4:8080''"]
  by (simp add: list_all_iff del: forM.simps)

end
