(* ===== verification/NG_Branding.thy ===== *)
theory NG_Branding
  imports NG_Prelude
begin

text \<open>
  The table of model names of \<open>Utilities/Model.hpp\<close> and its search. The ten arrays are the rows of
  \<open>devices\<close>, in the order of the source.
\<close>

definition devices :: "(u16 \<times> string) list list" where
  "devices = [
     \<comment> \<open>g7\<close>
     [(0x0402, ''Intel HD Graphics (Haswell)''),
      (0x0406, ''Intel HD Graphics (Haswell)''),
      (0x040A, ''Intel HD Graphics (Haswell)''),
      (0x040B, ''Intel HD Graphics (Haswell)''),
      (0x040E, ''Intel HD Graphics (Haswell)''),
      (0x041E, ''Intel HD 4400 Graphics''),
      (0x0A02, ''Intel HD Graphics (Haswell ULT)''),
      (0x0A06, ''Intel HD Graphics (Haswell ULT)''),
      (0x0A0A, ''Intel HD Graphics (Haswell ULT)''),
      (0x0A0B, ''Intel HD Graphics (Haswell ULT)''),
      (0x0A0E, ''Intel HD Graphics (Haswell ULT)''),
      (0x0A16, ''Intel HD 4400 Graphics'')],
     \<comment> \<open>g8\<close>
     [(0x1606, ''Intel HD Graphics (Broadwell)''),
      (0x22B0, ''Intel HD Graphics 40X''),
      (0x22B1, ''Intel HD Graphics 40X''),
      (0x22B2, ''Intel HD Graphics 40X''),
      (0x22B3, ''Intel HD Graphics 400'')],
     \<comment> \<open>g9_5\<close>
     [(0x3184, ''Intel UHD Graphics 605''),
      (0x3185, ''Intel UHD Graphics 600'')],
     \<comment> \<open>g11_icl\<close>
     [(0x8A51, ''Intel Iris Plus Graphics G7''),
      (0x8A52, ''Intel Iris Plus Graphics G7''),
      (0x8A53, ''Intel Iris Plus Graphics G7''),
      (0x8A56, ''Intel Iris Plus Graphics G1''),
      (0x8A58, ''Intel UHD Graphics G1''),
      (0x8A5A, ''Intel Iris Plus Graphics G4''),
      (0x8A5C, ''Intel Iris Plus Graphics G4'')],
     \<comment> \<open>g11_jsl\<close>
     [(0x4E55, ''Intel UHD Graphics''),
      (0x4E61, ''Intel UHD Graphics''),
      (0x4E71, ''Intel UHD Graphics'')],
     \<comment> \<open>g11_ehl\<close>
     [(0x4555, ''Intel UHD Graphics''),
      (0x4571, ''Intel UHD Graphics'')],
     \<comment> \<open>g12_tgl\<close>
     [(0x9A40, ''Intel Iris Xe Graphics''),
      (0x9A49, ''Intel Iris Xe Graphics''),
      (0x9A60, ''Intel UHD Graphics''),
      (0x9A68, ''Intel UHD Graphics''),
      (0x9A70, ''Intel UHD Graphics''),
      (0x9A78, ''Intel UHD Graphics'')],
     \<comment> \<open>g12_rkl\<close>
     [(0x4C8A, ''Intel UHD Graphics 750''),
      (0x4C8B, ''Intel UHD Graphics 730''),
      (0x4C90, ''Intel UHD Graphics P750''),
      (0x4C9A, ''Intel UHD Graphics'')],
     \<comment> \<open>g12_adl\<close>
     [(0x4680, ''Intel UHD Graphics 770''),
      (0x4682, ''Intel UHD Graphics 730''),
      (0x4688, ''Intel UHD Graphics 770''),
      (0x468A, ''Intel UHD Graphics''),
      (0x4690, ''Intel UHD Graphics 770''),
      (0x4692, ''Intel UHD Graphics 730''),
      (0x4693, ''Intel UHD Graphics 710''),
      (0x4626, ''Intel Iris Xe Graphics''),
      (0x4628, ''Intel UHD Graphics''),
      (0x462A, ''Intel UHD Graphics''),
      (0x46A3, ''Intel UHD Graphics''),
      (0x46A6, ''Intel Iris Xe Graphics''),
      (0x46A8, ''Intel Iris Xe Graphics''),
      (0x46AA, ''Intel Iris Xe Graphics''),
      (0x46B3, ''Intel UHD Graphics''),
      (0x46C3, ''Intel UHD Graphics''),
      (0x46D0, ''Intel UHD Graphics''),
      (0x46D1, ''Intel UHD Graphics''),
      (0x46D2, ''Intel UHD Graphics'')],
     \<comment> \<open>g12_rpl\<close>
     [(0xA780, ''Intel UHD Graphics 770''),
      (0xA781, ''Intel UHD Graphics''),
      (0xA782, ''Intel UHD Graphics''),
      (0xA783, ''Intel UHD Graphics''),
      (0xA788, ''Intel UHD Graphics''),
      (0xA789, ''Intel UHD Graphics''),
      (0xA78A, ''Intel UHD Graphics''),
      (0xA78B, ''Intel UHD Graphics''),
      (0xA7A0, ''Intel Iris Xe Graphics''),
      (0xA7A1, ''Intel Iris Xe Graphics''),
      (0xA7A8, ''Intel UHD Graphics''),
      (0xA7A9, ''Intel UHD Graphics''),
      (0xA720, ''Intel UHD Graphics''),
      (0xA721, ''Intel UHD Graphics'')]]"

text \<open>The two nested loops.\<close>

primrec findModel :: "u16 \<Rightarrow> (u16 \<times> string) list \<Rightarrow> string option" where
  "findModel dev [] = None"
| "findModel dev (model # models) = (if fst model = dev then Some (snd model) else findModel dev models)"

primrec findDevice :: "u16 \<Rightarrow> (u16 \<times> string) list list \<Rightarrow> string option" where
  "findDevice dev [] = None"
| "findDevice dev (device # ds) = (case findModel dev device of Some name \<Rightarrow> Some name | None \<Rightarrow> findDevice dev ds)"

definition getBranding :: "u16 \<Rightarrow> string" where
  "getBranding dev = (case findDevice dev devices of Some name \<Rightarrow> name | None \<Rightarrow> ''Intel HD/UHD Graphics'')"

lemma findModel_map_of: "findModel dev models = map_of models dev"
  by (induction models) auto

lemma findDevice_concat: "findDevice dev ds = map_of (concat ds) dev"
  by (induction ds) (auto simp: findModel_map_of map_add_def split: option.split)

lemma devices_distinct: "distinct (map fst (concat devices))"
  by code_simp

text \<open>No device stands twice in the tables, so every row is found, and only the devices without a row get the
  general name.\<close>

theorem branding_complete:
  "(\<forall>(dev, name) \<in> set (concat devices). getBranding dev = name)
   \<and> (\<forall>dev. dev \<notin> fst ` set (concat devices) \<longrightarrow> getBranding dev = ''Intel HD/UHD Graphics'')"
proof -
  have "getBranding dev = name" if "(dev, name) \<in> set (concat devices)" for dev name
    using map_of_is_SomeI [OF devices_distinct that] by (simp add: getBranding_def findDevice_concat)
  moreover have "getBranding dev = ''Intel HD/UHD Graphics''" if "dev \<notin> fst ` set (concat devices)" for dev
    using that unfolding map_of_eq_None_iff [symmetric] by (simp add: getBranding_def findDevice_concat)
  ultimately show ?thesis by blast
qed

end
