(* ===== verification/NG_RcsCheck.thy ===== *)
theory NG_RcsCheck
  imports NG_KernelMem
begin

text \<open>
  \<open>Gen11::patchRCSCheck\<close> of \<open>iTGL/TGL.cpp\<close>: it walks over the instructions from an address on, looks for
  the first long conditional jump at or after a comparison of the byte at \<open>rcx\<close> with an immediate,
  and overwrites the jump. Lilu's disassembler is a parameter, a function of the memory and the
  address that answers the decoded fields and the length.
\<close>

section \<open>The walk and the patch\<close>

record hde64s =
  hde_error :: bool
  opcode :: u8
  opcode2 :: u8
  modrm_reg :: u8
  modrm_rm :: u8

definition is_cmp :: "hde64s \<Rightarrow> bool" where
  "is_cmp dis \<longleftrightarrow> opcode dis = 0x80 \<and> modrm_reg dis = 7 \<and> modrm_rm dis = 1"

definition is_jnz :: "hde64s \<Rightarrow> bool" where
  "is_jnz dis \<longleftrightarrow> opcode dis = 0x0F \<and> opcode2 dis = 0x85"

primrec scanRCS :: "(u64 \<Rightarrow> hde64s \<times> u64) \<Rightarrow> nat \<Rightarrow> bool \<Rightarrow> u64 \<Rightarrow> bool \<times> u64" where
  "scanRCS disasm 0 found_cmp start = (False, start)"
| "scanRCS disasm (Suc n) found_cmp start = (let (dis, sz) = disasm start in
     if hde_error dis then (False, start)
     else let found_cmp' = (found_cmp \<or> is_cmp dis) in
       if found_cmp' \<and> is_jnz dis then (True, start) else scanRCS disasm n found_cmp' (start + sz))"

text \<open>The result, the address the reference parameter is left with, and the memory.\<close>

definition patchRCSCheck ::
  "((u64 \<Rightarrow> u8) \<Rightarrow> u64 \<Rightarrow> hde64s \<times> u64) \<Rightarrow> bool \<Rightarrow> u64 \<Rightarrow> (u64 \<Rightarrow> u8) \<Rightarrow> bool \<times> u64 \<times> (u64 \<Rightarrow> u8)" where
  "patchRCSCheck disasm writable start mem = (let (found_jmp, a) = scanRCS (disasm mem) 256 False start in
     if found_jmp \<and> writable then (True, a, mem(a := 0x90, a + 1 := 0x90, a + 2 := 0x90, a + 3 := 0x90, a + 4 := 0x90, a + 5 := 0x90))
     else (False, a, mem))"

section \<open>Lemmas\<close>

text \<open>The address of the instruction with a number, counted from the start.\<close>

primrec insn_at :: "(u64 \<Rightarrow> hde64s \<times> u64) \<Rightarrow> u64 \<Rightarrow> nat \<Rightarrow> u64" where
  "insn_at disasm start 0 = start"
| "insn_at disasm start (Suc i) = insn_at disasm (start + snd (disasm start)) i"

abbreviation insn :: "(u64 \<Rightarrow> hde64s \<times> u64) \<Rightarrow> u64 \<Rightarrow> nat \<Rightarrow> hde64s" where
  "insn disasm start i \<equiv> fst (disasm (insn_at disasm start i))"

text \<open>Instruction \<open>j\<close> is the first jump that is not before the first comparison, and the walk gets there.\<close>

definition first_jump :: "(u64 \<Rightarrow> hde64s \<times> u64) \<Rightarrow> bool \<Rightarrow> u64 \<Rightarrow> nat \<Rightarrow> bool" where
  "first_jump disasm c start j \<longleftrightarrow> is_jnz (insn disasm start j) \<and> (c \<or> (\<exists>i \<le> j. is_cmp (insn disasm start i)))
     \<and> (\<forall>i \<le> j. \<not> hde_error (insn disasm start i))
     \<and> (\<forall>k < j. is_jnz (insn disasm start k) \<longrightarrow> \<not> c \<and> (\<forall>i \<le> k. \<not> is_cmp (insn disasm start i)))"

lemma first_jump_0: "first_jump D c a 0 \<longleftrightarrow>
    \<not> hde_error (fst (D a)) \<and> (c \<or> is_cmp (fst (D a))) \<and> is_jnz (fst (D a))"
  by (auto simp: first_jump_def)

lemma all_le_Suc: "(\<forall>i \<le> Suc j. P i) \<longleftrightarrow> P 0 \<and> (\<forall>i \<le> j. P (Suc i))"
  and ex_le_Suc: "(\<exists>i \<le> Suc j. P i) \<longleftrightarrow> P 0 \<or> (\<exists>i \<le> j. P (Suc i))"
  and all_less_Suc: "(\<forall>i < Suc j. P i) \<longleftrightarrow> P 0 \<and> (\<forall>i < j. P (Suc i))"
  by (metis Suc_le_mono le_zero_eq not0_implies_Suc zero_le)
     (metis Suc_le_mono le_zero_eq not0_implies_Suc zero_le, metis Suc_less_eq not0_implies_Suc zero_less_Suc)

lemma first_jump_Suc: "first_jump D c a (Suc j) \<longleftrightarrow>
    \<not> hde_error (fst (D a)) \<and> \<not> ((c \<or> is_cmp (fst (D a))) \<and> is_jnz (fst (D a)))
    \<and> first_jump D (c \<or> is_cmp (fst (D a))) (a + snd (D a)) j"
  by (auto simp: first_jump_def all_le_Suc ex_le_Suc all_less_Suc)

lemma scanRCS_found: "scanRCS D n c a = (True, b) \<longleftrightarrow> (\<exists>j < n. first_jump D c a j \<and> b = insn_at D a j)"
proof (induction n arbitrary: c a)
  case (Suc n)
  have split: "(\<exists>j < Suc n. P j) \<longleftrightarrow> P 0 \<or> (\<exists>j < n. P (Suc j))" for P
    by (metis Suc_less_eq not0_implies_Suc zero_less_Suc)
  obtain dis sz where d: "D a = (dis, sz)" by (cases "D a")
  show ?case
    unfolding split by (auto simp: first_jump_0 first_jump_Suc Suc.IH d Let_def split: if_splits)
qed simp

lemma six: "x - a < 6 \<longleftrightarrow> x \<in> {a, a + 1, a + 2, a + 3, a + 4, a + 5}" for x a :: u64
proof -
  have "y < 6 \<longleftrightarrow> y \<in> {0, 1, 2, 3, 4, 5}" for y :: u64
  proof
    assume "y < 6"
    then have "unat y \<in> {0, 1, 2, 3, 4, 5}" by (simp add: word_less_nat_alt) presburger
    then show "y \<in> {0, 1, 2, 3, 4, 5}" by (auto simp: word_unat_eq_iff)
  qed auto
  from this [of "x - a"] show ?thesis by (auto simp: algebra_simps)
qed

section \<open>Property\<close>

text \<open>The check is patched exactly if kernel memory can be written and one of the first 256 instructions is the
  jump looked for; then its six bytes become no-operations and nothing else changes. Otherwise the
  memory is as it was.\<close>

theorem rcs_check_correct:
  "(fst (patchRCSCheck D w start mem) \<longleftrightarrow> w \<and> (\<exists>j < 256. first_jump (D mem) False start j))
   \<and> (\<forall>j < 256. w \<and> first_jump (D mem) False start j \<longrightarrow> snd (snd (patchRCSCheck D w start mem)) =
        (\<lambda>x. if x - insn_at (D mem) start j < 6 then 0x90 else mem x))
   \<and> (\<not> fst (patchRCSCheck D w start mem) \<longrightarrow> snd (snd (patchRCSCheck D w start mem)) = mem)"
proof -
  obtain f a where s: "scanRCS (D mem) 256 False start = (f, a)" by (cases "scanRCS (D mem) 256 False start")
  have f: "f \<longleftrightarrow> (\<exists>j < 256. first_jump (D mem) False start j)"
    using s scanRCS_found [of "D mem" 256 False start] by (cases f) auto
  have "a = insn_at (D mem) start j" if "j < 256" "first_jump (D mem) False start j" for j
    using that s scanRCS_found [of "D mem" 256 False start "insn_at (D mem) start j"] by auto
  then show ?thesis
    using s f by (auto simp: patchRCSCheck_def six fun_eq_iff split: if_splits)
qed

end
