(* ===== verification/NG_DictMerge.thy ===== *)
theory NG_DictMerge
  imports NG_OSObjects
begin

text \<open>
  The property merger (\<open>Utilities/DisplayMergeNub.cpp\<close>): \<open>probe\<close>, which merges the personality's
  properties into its provider when vendor and product match, and the two recursive merge
  routines.

  Dictionaries have distinct keys, so the loops run over the entries of the source. Every
  request that can fail for want of memory (an iterator, a copy of a dictionary, an insertion)
  asks the oracle \<open>A\<close> with the number of requests made so far. \<open>None\<close> is the use of a null
  pointer.
\<close>

section \<open>Operations\<close>

function (sequential) MergeDictionaryIntoDictionary ::
  "(nat \<Rightarrow> bool) \<Rightarrow> osdict \<Rightarrow> osdict \<Rightarrow> nat \<Rightarrow> (bool \<times> osdict \<times> nat) option"
  and mergeDictLoop ::
  "(nat \<Rightarrow> bool) \<Rightarrow> osdict \<Rightarrow> osdict \<Rightarrow> bool \<Rightarrow> nat \<Rightarrow> (bool \<times> osdict \<times> nat) option" where
  "MergeDictionaryIntoDictionary A src tgt n =
     (if \<not> A n then None else mergeDictLoop A src tgt False (Suc n))"
| "mergeDictLoop A [] tgt res n = Some (res, tgt, n)"
| "mergeDictLoop A ((k, ODict cs) # src) tgt res n =
     (case getObject tgt k of
        Some (ODict ct) \<Rightarrow>
          if \<not> A n then Some (res, tgt, Suc n)
          else (case MergeDictionaryIntoDictionary A cs ct (Suc n) of
                  None \<Rightarrow> None
                | Some (r, ct', m) \<Rightarrow>
                    if \<not> r then Some (False, tgt, m)
                    else if \<not> A m then Some (False, tgt, Suc m)
                    else mergeDictLoop A src (setObject k (ODict ct') tgt) True (Suc m))
      | _ \<Rightarrow>
          if \<not> A n then Some (False, tgt, Suc n)
          else mergeDictLoop A src (setObject k (ODict cs) tgt) True (Suc n))"
| "mergeDictLoop A ((k, v) # src) tgt res n =
     (if \<not> A n then Some (False, tgt, Suc n)
      else mergeDictLoop A src (setObject k v tgt) True (Suc n))"
  by pat_completeness auto

termination
  by (relation "measure (\<lambda>x. case x of
      Inl (A, src, tgt, n) \<Rightarrow> Suc (2 * size_list (size_prod (\<lambda>_. 0) size) src)
    | Inr (A, src, tgt, res, n) \<Rightarrow> 2 * size_list (size_prod (\<lambda>_. 0) size) src)") auto


declare MergeDictionaryIntoDictionary.simps [simp del]

text \<open>The loop over the provider's property table, which copies and merges one level down.\<close>

fun mergeProviderLoop ::
  "(nat \<Rightarrow> bool) \<Rightarrow> osdict \<Rightarrow> osdict \<Rightarrow> bool \<Rightarrow> nat \<Rightarrow> (bool \<times> osdict \<times> nat) option" where
  "mergeProviderLoop A [] prov res n = Some (res, prov, n)"
| "mergeProviderLoop A ((k, v) # dict) prov res n =
     (case (getObject prov k, v) of
        (Some (ODict pd), ODict sd) \<Rightarrow>
          if \<not> A n then Some (res, prov, Suc n)
          else (case MergeDictionaryIntoDictionary A sd pd (Suc n) of
                  None \<Rightarrow> None
                | Some (r, pd', m) \<Rightarrow>
                    if \<not> r then Some (False, prov, m)
                    else if \<not> A m then Some (False, prov, Suc m)
                    else mergeProviderLoop A dict (setObject k (ODict pd') prov) True (Suc m))
      | _ \<Rightarrow>
          if \<not> A n then Some (False, prov, Suc n)
          else mergeProviderLoop A dict (setObject k v prov) True (Suc n))"

text \<open>The nub: its own properties, the static flag, and how often the metaclass was told of an
  instance. A provider is its property table and its name.\<close>

record nub =
  nubProps :: osdict
  haveCreatedRef :: bool
  instances :: nat

definition MergeDictionaryIntoProvider ::
  "(nat \<Rightarrow> bool) \<Rightarrow> nub \<Rightarrow> osdict option \<Rightarrow> osdict option \<Rightarrow> nat
     \<Rightarrow> (nub \<times> bool \<times> osdict option \<times> nat) option" where
  "MergeDictionaryIntoProvider A st provider dictionaryToMerge n =
     (case (provider, dictionaryToMerge) of
        (Some prov, Some dict) \<Rightarrow>
          (let st' = (if haveCreatedRef st then st else st\<lparr>haveCreatedRef := True, instances := Suc (instances st)\<rparr>)
           in if \<not> A n then Some (st', False, Some prov, Suc n)
              else (case mergeProviderLoop A dict prov False (Suc n) of
                      None \<Rightarrow> None
                    | Some (r, prov', m) \<Rightarrow> Some (st', r, Some prov', m)))
      | _ \<Rightarrow> Some (st, False, provider, n))"

text \<open>\<open>OSDictionary::merge\<close>: every entry of the source replaces the entry of its key.\<close>

definition osMerge :: "osdict \<Rightarrow> osdict \<Rightarrow> osdict" where
  "osMerge src tgt = fold (\<lambda>(k, v). setObject k v) src tgt"

fun as_number :: "osobj \<Rightarrow> u64 option" where
  "as_number (ONumber x) = Some x"
| "as_number _ = None"

text \<open>A provider that is null, or a property of another class than the cast assumes, is \<open>None\<close>.
  The result of the probe is always the null pointer.\<close>

definition probe ::
  "(nat \<Rightarrow> bool) \<Rightarrow> nub \<Rightarrow> (osdict \<times> string) option \<Rightarrow> nat \<Rightarrow> (nub \<times> (osdict \<times> string) \<times> nat) option" where
  "probe A st provider n = (case provider of None \<Rightarrow> None | Some (prov, name) \<Rightarrow>
     (case (getObject (nubProps st) ''IOProviderMergeProperties'', getObject prov ''DisplayVendorID'',
            getObject prov ''DisplayProductID'', getObject (nubProps st) ''DisplayVendorID'',
            getObject (nubProps st) ''DisplayProductID'') of
        (Some pd, Some pv, Some pp, Some vv, Some dv) \<Rightarrow>
          (case (pd, as_number pv, as_number pp, as_number vv, as_number dv) of
             (ODict dict, Some pv', Some pp', Some vv', Some dv') \<Rightarrow>
               if pv' = vv' \<and> pp' = dv' then
                 (case getObject dict ''IOClass'' of
                    Some (OString nm) \<Rightarrow>
                      (case MergeDictionaryIntoProvider A st (Some (osMerge dict prov)) (Some dict) n of
                         Some (st', _, Some prov', m) \<Rightarrow> Some (st', (prov', nm), m) | _ \<Rightarrow> None)
                  | None \<Rightarrow>
                      (case MergeDictionaryIntoProvider A st (Some (osMerge dict prov)) (Some dict) n of
                         Some (st', _, Some prov', m) \<Rightarrow> Some (st', (prov', name), m) | _ \<Rightarrow> None)
                  | _ \<Rightarrow> None)
               else Some (st, (prov, name), n)
           | _ \<Rightarrow> None)
      | _ \<Rightarrow> Some (st, (prov, name), n)))"


section \<open>What a merge means\<close>

text \<open>Distinct keys, at every level.\<close>

fun wf_dict :: "osdict \<Rightarrow> bool" where
  "wf_dict [] = True"
| "wf_dict ((k, ODict d) # r) = (k \<notin> fst ` set r \<and> wf_dict d \<and> wf_dict r)"
| "wf_dict ((k, v) # r) = (k \<notin> fst ` set r \<and> wf_dict r)"

text \<open>The value at the end of a path of keys, when it is not itself a dictionary.\<close>

fun leaf :: "osdict \<Rightarrow> string list \<Rightarrow> osobj option" where
  "leaf d [] = None"
| "leaf d (k # p) = (case getObject d k of
     None \<Rightarrow> None | Some (ODict e) \<Rightarrow> leaf e p | Some v \<Rightarrow> if p = [] then Some v else None)"

text \<open>
  The abstract overlay: where the source has the first key of a path, it decides, except that
  two dictionaries under the same key are overlaid in turn; elsewhere the target decides.
\<close>

fun overlay :: "osdict \<Rightarrow> osdict \<Rightarrow> string list \<Rightarrow> osobj option" where
  "overlay s t [] = None"
| "overlay s t (k # p) = (case getObject s k of
     None \<Rightarrow> leaf t (k # p)
   | Some (ODict s') \<Rightarrow> (case getObject t k of Some (ODict t') \<Rightarrow> overlay s' t' p | _ \<Rightarrow> leaf s' p)
   | Some v \<Rightarrow> if p = [] then Some v else None)"

text \<open>No empty dictionary of the source meets a dictionary of the target.\<close>

fun no_empty_overlap :: "osdict \<Rightarrow> osdict \<Rightarrow> bool" where
  "no_empty_overlap [] t = True"
| "no_empty_overlap ((k, ODict cs) # src) t = ((case getObject t k of
     Some (ODict ct) \<Rightarrow> cs \<noteq> [] \<and> no_empty_overlap cs ct | _ \<Rightarrow> True) \<and> no_empty_overlap src t)"
| "no_empty_overlap ((k, v) # src) t = no_empty_overlap src t"

lemma getObject_Nil [simp]: "getObject [] k = None"
  by (simp add: getObject_def)

lemma getObject_Cons [simp]: "getObject ((k, v) # d) k' = (if k' = k then Some v else getObject d k')"
  by (simp add: getObject_def)

lemma getObject_notin: "k \<notin> fst ` set d \<Longrightarrow> getObject d k = None"
  by (induction d) (auto simp: getObject_def)

lemma no_empty_overlap_frame:
  "k \<notin> fst ` set src \<Longrightarrow> no_empty_overlap src (setObject k v t) = no_empty_overlap src t"
  by (induction src t rule: no_empty_overlap.induct) (auto split: option.splits osobj.splits)

lemma overlay_frame:
  assumes "k' \<noteq> k"
  shows "overlay src (setObject k v t) (k' # p) = overlay src t (k' # p)"
  using assms by (simp split: option.splits osobj.splits)

lemma overlay_step:
  assumes "k \<notin> fst ` set src" and "\<And>q. overlay [(k, v)] tgt (k # q) = leaf (setObject k w tgt) (k # q)"
  shows "overlay src (setObject k w tgt) p = overlay ((k, v) # src) tgt p"
proof (cases p)
  case (Cons k' q)
  show ?thesis
  proof (cases "k' = k")
    case True
    have "overlay src (setObject k w tgt) (k # q) = leaf (setObject k w tgt) (k # q)"
      by (simp only: overlay.simps getObject_notin [OF assms(1)] option.case)
    moreover have "overlay ((k, v) # src) tgt (k # q) = overlay [(k, v)] tgt (k # q)"
      by simp
    ultimately show ?thesis
      unfolding Cons True using assms(2) by simp
  next
    case False
    have "overlay src tgt (k' # q) = overlay ((k, v) # src) tgt (k' # q)"
      using False by simp
    then show ?thesis
      unfolding Cons using overlay_frame [OF False] by simp
  qed
qed simp

section \<open>Correctness with enough memory\<close>

lemma merge_loop_correct:
  "A = (\<lambda>_. True) \<Longrightarrow> wf_dict src \<Longrightarrow> no_empty_overlap src tgt \<Longrightarrow>
    \<exists>t' m. MergeDictionaryIntoDictionary A src tgt n = Some (src \<noteq> [], t', m)
      \<and> (\<forall>p. leaf t' p = overlay src tgt p)"
  "A = (\<lambda>_. True) \<Longrightarrow> wf_dict src \<Longrightarrow> no_empty_overlap src tgt \<Longrightarrow>
    \<exists>t' m. mergeDictLoop A src tgt res n = Some (res \<or> src \<noteq> [], t', m)
      \<and> (\<forall>p. leaf t' p = overlay src tgt p)"
proof (induction A src tgt n and A src tgt res n rule: MergeDictionaryIntoDictionary_mergeDictLoop.induct)
  case (1 A src tgt n)
  then show ?case by (simp add: MergeDictionaryIntoDictionary.simps)
next
  case (2 A tgt res n)
  have "leaf tgt p = overlay [] tgt p" for p
    by (cases p) simp_all
  then show ?case by simp
next
  case (3 A k cs src tgt res n)
  have w: "k \<notin> fst ` set src" "wf_dict cs" "wf_dict src"
    using "3.prems"(2) by simp_all
  show ?case
  proof (cases "\<exists>ct. getObject tgt k = Some (ODict ct)")
    case True
    then obtain ct where ct: "getObject tgt k = Some (ODict ct)"
      by blast
    have ne: "cs \<noteq> []" "no_empty_overlap cs ct" "no_empty_overlap src tgt"
      using "3.prems"(3) ct by simp_all
    obtain ct' m where m: "MergeDictionaryIntoDictionary A cs ct (Suc n) = Some (True, ct', m)"
        "\<And>p. leaf ct' p = overlay cs ct p"
      using "3.IH"(6) [OF ct refl] "3.prems"(1) w ne by auto
    have "\<exists>t' m'. mergeDictLoop A src (setObject k (ODict ct') tgt) True (Suc m) = Some (True, t', m')
        \<and> (\<forall>p. leaf t' p = overlay src (setObject k (ODict ct') tgt) p)"
      using "3.IH"(7) [OF ct refl _ m(1)] "3.prems"(1) w ne by (simp add: no_empty_overlap_frame)
    moreover have "overlay src (setObject k (ODict ct') tgt) p = overlay ((k, ODict cs) # src) tgt p" for p
      by (rule overlay_step [OF w(1)]) (simp add: ct m(2))
    ultimately show ?thesis
      using ct m(1) "3.prems"(1) by simp
  next
    case False
    then have "mergeDictLoop A ((k, ODict cs) # src) tgt res n
        = mergeDictLoop A src (setObject k (ODict cs) tgt) True (Suc n)"
      using "3.prems"(1) by (simp split: option.splits osobj.splits)
    moreover have "\<exists>t' m'. mergeDictLoop A src (setObject k (ODict cs) tgt) True (Suc n) = Some (True, t', m')
        \<and> (\<forall>p. leaf t' p = overlay src (setObject k (ODict cs) tgt) p)"
      using 3 False w by (auto simp: no_empty_overlap_frame split: option.splits osobj.splits)
    moreover have "overlay src (setObject k (ODict cs) tgt) p = overlay ((k, ODict cs) # src) tgt p" for p
      by (rule overlay_step [OF w(1)]) (use False in \<open>simp split: option.splits osobj.splits\<close>)
    ultimately show ?thesis by simp
  qed
qed (auto simp: no_empty_overlap_frame overlay_step)


section \<open>What no failure can break\<close>

lemma merge_loop_step:
  assumes "mergeDictLoop A ((k, v) # src) tgt res n = Some (r, t', m)"
  shows "t' = tgt \<or> (\<exists>w m'. mergeDictLoop A src (setObject k w tgt) True m' = Some (r, t', m))"
proof (cases "\<exists>cs ct. v = ODict cs \<and> getObject tgt k = Some (ODict ct)")
  case True
  then obtain cs ct where "v = ODict cs" "getObject tgt k = Some (ODict ct)"
    by blast
  with assms show ?thesis
    by (auto split: if_splits option.splits prod.splits)
next
  case False
  then have "mergeDictLoop A ((k, v) # src) tgt res n =
      (if \<not> A n then Some (False, tgt, Suc n) else mergeDictLoop A src (setObject k v tgt) True (Suc n))"
    by (cases v) (auto split: option.split osobj.split)
  with assms show ?thesis
    by (auto split: if_splits)
qed

lemma merge_loop_frame:
  "mergeDictLoop A src tgt res n = Some (r, t', m) \<Longrightarrow>
    (getObject src k = None \<longrightarrow> getObject t' k = getObject tgt k) \<and> (hasKey tgt k \<longrightarrow> hasKey t' k)"
proof (induction src arbitrary: tgt res n)
  case (Cons e src)
  obtain k' v where e: "e = (k', v)"
    by fastforce
  from merge_loop_step [OF Cons.prems [unfolded e]] show ?case
  proof
    assume "\<exists>w m'. mergeDictLoop A src (setObject k' w tgt) True m' = Some (r, t', m)"
    then obtain w m' where "mergeDictLoop A src (setObject k' w tgt) True m' = Some (r, t', m)"
      by blast
    from Cons.IH [OF this] show ?thesis
      by (auto simp: e)
  qed simp
qed simp

lemma setObject_same: "getObject d k = Some v \<Longrightarrow> setObject k v d = d"
  by (induction d) (auto simp: getObject_def split: if_splits)

lemma wf_dict_getObject: "wf_dict d \<Longrightarrow> \<forall>(k, v) \<in> set d. getObject d k = Some v"
  by (induction d rule: wf_dict.induct) (force simp: getObject_def)+

lemma merge_onto_same:
  "mergeDictLoop A src tgt res n = Some (r, t', m) \<Longrightarrow> wf_dict src \<Longrightarrow>
    \<forall>(k, v) \<in> set src. getObject tgt k = Some v \<Longrightarrow> t' = tgt"
proof (induction src arbitrary: tgt res n r t' m rule: wf_dict.induct)
  case (2 k cs src)
  have ct: "getObject tgt k = Some (ODict cs)"
    using "2.prems"(3) by simp
  have same: "ct' = cs" if "MergeDictionaryIntoDictionary A cs cs i = Some (r', ct', m')" for i r' ct' m'
    using that "2.IH"(1) [of cs] "2.prems"(2) wf_dict_getObject
    by (auto simp: MergeDictionaryIntoDictionary.simps split: if_splits)
  have rest: "t' = tgt" if "mergeDictLoop A src tgt True i = Some (r, t', m)" for i
    using "2.IH"(2) [OF that] "2.prems"(2,3) by simp
  show ?case
    using "2.prems"(1) by (auto simp: ct setObject_same dest!: same rest split: if_splits option.splits)
qed (auto simp: setObject_same split: if_splits)

lemma mergeProviderLoop_eq: "mergeProviderLoop A dict prov res n = mergeDictLoop A dict prov res n"
proof (induction dict arbitrary: prov res n)
  case (Cons e dict)
  obtain k v where e: "e = (k, v)"
    by fastforce
  show ?case
    unfolding e by (cases v) (simp_all add: Cons.IH split: option.split osobj.split prod.split)
qed simp

lemma getObject_osMerge:
  "wf_dict src \<Longrightarrow> getObject (osMerge src tgt) k = (case getObject src k of Some v \<Rightarrow> Some v | None \<Rightarrow> getObject tgt k)"
  unfolding osMerge_def
  by (induction src arbitrary: tgt rule: wf_dict.induct) (auto simp: getObject_notin split: option.split)


section \<open>Properties\<close>

text \<open>C8: With memory available, merging a non-empty source whose dictionaries are not empty where
  they meet a dictionary of the target succeeds, and the merged dictionary shows under every path
  exactly what the overlay of the source over the target shows.\<close>

theorem merge_correct:
  assumes "wf_dict src" and "no_empty_overlap src tgt" and "src \<noteq> []"
  shows "\<exists>t' m. MergeDictionaryIntoDictionary (\<lambda>_. True) src tgt n = Some (True, t', m)
    \<and> (\<forall>p. leaf t' p = overlay src tgt p)"
  using merge_loop_correct(1) [OF refl assms(1,2), of n] assms(3) by simp

theorem merge_correct_witness:
  "\<exists>t' m. MergeDictionaryIntoDictionary (\<lambda>_. True) [(''a'', ODict [(''x'', ONumber 1)])]
       [(''a'', ODict [(''y'', ONumber 2)]), (''b'', OBool True)] 0 = Some (True, t', m)
    \<and> leaf t' [''a'', ''x''] = Some (ONumber 1) \<and> leaf t' [''a'', ''y''] = Some (ONumber 2)
    \<and> leaf t' [''b''] = Some (OBool True)"
proof -
  let ?s = "[(''a'', ODict [(''x'', ONumber 1)])]" and ?t = "[(''a'', ODict [(''y'', ONumber 2)]), (''b'', OBool True)]"
  have "overlay ?s ?t [''a'', ''x''] = Some (ONumber 1)" "overlay ?s ?t [''a'', ''y''] = Some (ONumber 2)"
    "overlay ?s ?t [''b''] = Some (OBool True)"
    by simp_all
  moreover have "\<exists>t' m. MergeDictionaryIntoDictionary (\<lambda>_. True) ?s ?t 0 = Some (True, t', m)
      \<and> (\<forall>p. leaf t' p = overlay ?s ?t p)"
    by (rule merge_correct) simp_all
  ultimately show ?thesis by metis
qed

text \<open>No merge, complete or given up for want of memory, touches an entry whose key the source
  does not have, and none removes a key of the target.\<close>

theorem merge_frame:
  assumes "MergeDictionaryIntoDictionary A src tgt n = Some (r, t', m)"
  shows "(getObject src k = None \<longrightarrow> getObject t' k = getObject tgt k) \<and> (hasKey tgt k \<longrightarrow> hasKey t' k)"
  by (rule merge_loop_frame [of A src tgt False "Suc n" r t' m])
    (use assms in \<open>simp add: MergeDictionaryIntoDictionary.simps split: if_splits\<close>)

text \<open>An empty dictionary in the source that meets a dictionary of the target ends the merge:
  the routine reports failure and the entries after it are not merged, although there is memory
  and nothing to do for the empty one.\<close>

theorem empty_overlap_aborts:
  assumes "getObject tgt k = Some (ODict d)"
  shows "\<exists>m. MergeDictionaryIntoDictionary (\<lambda>_. True) ((k, ODict []) # rest) tgt n = Some (False, tgt, m)"
  using assms by (simp add: MergeDictionaryIntoDictionary.simps)

definition display_matches :: "osdict \<Rightarrow> osdict \<Rightarrow> bool" where
  "display_matches own prov \<longleftrightarrow> list_all (\<lambda>k. hasKey prov k \<and> getObject prov k = getObject own k)
     [''DisplayVendorID'', ''DisplayProductID'']"

lemma as_number_Some: "as_number v = Some x \<longleftrightarrow> v = ONumber x"
  by (cases v) auto

lemma provider_merge_flat:
  assumes "wf_dict dict"
    and "MergeDictionaryIntoProvider A st (Some (osMerge dict prov)) (Some dict) n = Some (st', r, p, m)"
  shows "p = Some (osMerge dict prov)"
proof -
  have "\<forall>(k, v) \<in> set dict. getObject (osMerge dict prov) k = Some v"
    using wf_dict_getObject [OF assms(1)] by (auto simp: getObject_osMerge [OF assms(1)])
  from merge_onto_same [OF _ assms(1) this] show ?thesis
    using assms(2)
    by (auto simp: MergeDictionaryIntoProvider_def mergeProviderLoop_eq Let_def split: if_splits option.splits)
qed

text \<open>The probe replaces whole entries of a matching provider: its property table becomes the
  plain merge, in which a dictionary of the provider is lost where the personality has one under
  the same key. The recursive merge that would keep the provider's entries runs after that plain
  merge and changes nothing, with any supply of memory.\<close>

theorem probe_flat_merge:
  assumes "getObject (nubProps st) ''IOProviderMergeProperties'' = Some (ODict dict)" and "wf_dict dict"
    and "probe A st (Some (prov, name)) n = Some (st', (prov', name'), m)"
  shows "prov' = (if display_matches (nubProps st) prov then osMerge dict prov else prov)"
proof -
  note flat = provider_merge_flat [OF assms(2)]
  show ?thesis
    using assms(3)
    by (auto simp: probe_def assms(1) display_matches_def hasKey_def as_number_Some
        dest!: flat split: option.splits osobj.splits if_splits)
qed


definition sample_nub :: nub where
  "sample_nub = \<lparr>nubProps = [(''DisplayVendorID'', ONumber 1), (''DisplayProductID'', ONumber 2),
       (''IOProviderMergeProperties'', ODict [(''cfg'', ODict [(''x'', ONumber 5)])])],
     haveCreatedRef = False, instances = 0\<rparr>"

end
