(* ===== verification/NG_Dyld.thy ===== *)
theory NG_Dyld
  imports NG_BootArgs NG_OSObjects
begin

text \<open>
  Patching of user-space pages (\<open>Hotfixes/DYLDPatches.cpp\<close> and \<open>.hpp\<close>): the byte tables, the
  patch objects, and the hook on \<open>cs_validate_page\<close> that selects the patches of a page from the
  path of its file, the kernel version and the boot arguments.

  Code outside the sources is a parameter: Lilu's masked find-and-replace and its test for the
  shared cache, the kernel's path lookup, and the model name of the machine. Tables of the header
  that no routine uses are left out.
\<close>

section \<open>Byte tables\<close>

definition kVideoToolboxDRMModelOriginal :: "u8 list" where
  "kVideoToolboxDRMModelOriginal = cstring_bytes ''MacPro5,1'' @ cstring_bytes ''MacPro6,1'' @ cstring_bytes ''IOService''"

definition kAGVABoardIdOriginal :: "u8 list" where
  "kAGVABoardIdOriginal = cstring_bytes ''board-id'' @ cstring_bytes ''hw.model''"

definition kAGVABoardIdPatched :: "u8 list" where
  "kAGVABoardIdPatched = cstring_bytes ''hwgva-id'' @ cstring_bytes ''hw.model''"

definition kHEVCEncBoardIdOriginal :: "u8 list" where
  "kHEVCEncBoardIdOriginal = cstring_bytes ''vendor8bit'' @ cstring_bytes ''IOService'' @ cstring_bytes ''board-id''"

definition kHEVCEncBoardIdPatched :: "u8 list" where
  "kHEVCEncBoardIdPatched = cstring_bytes ''vendor8bit'' @ cstring_bytes ''IOService'' @ cstring_bytes ''hwgva-id''"

definition kCoreLSKDMSEPath :: string where
  "kCoreLSKDMSEPath = ''/System/Library/PrivateFrameworks/CoreLSKDMSE.framework/Versions/A/CoreLSKDMSE''"

definition kCoreLSKDPath :: string where
  "kCoreLSKDPath = ''/System/Library/PrivateFrameworks/CoreLSKD.framework/Versions/A/CoreLSKD''"

definition tglGraphicsMTLDriver :: string where
  "tglGraphicsMTLDriver = ''/System/Library/Extensions/AppleIntelTGLGraphicsMTLDriver.bundle/Contents/MacOS/AppleIntelTGLGraphicsMTLDriver''"

definition libMTLIGCCompilerPluginPath :: string where
  "libMTLIGCCompilerPluginPath = ''/System/Library/Extensions/AppleIntelGraphicsShared.bundle/Contents/MacOS/libMTLIGCCompilerPlugin.dylib''"

definition kCoreLSKDOriginal :: "u8 list" where
  "kCoreLSKDOriginal = [
     0xC7, 0xC0, 0x01, 0x00, 0x00, 0x00, 0x0F, 0xA2]"

definition kCoreLSKDPatched :: "u8 list" where
  "kCoreLSKDPatched = [
     0xC7, 0xC0, 0xC3, 0x06, 0x03, 0x00, 0x66, 0x90]"

definition kTGLGraphicsMTLDrivero :: "u8 list" where
  "kTGLGraphicsMTLDrivero = [
     0x41, 0x83, 0x7D, 0x00, 0x01, 0x48, 0x8B, 0x05, 0x50, 0x7B, 0x47, 0x00]"

definition kTGLGraphicsMTLDriverp :: "u8 list" where
  "kTGLGraphicsMTLDriverp = [
     0x41, 0x83, 0x7D, 0x00, 0x00, 0x48, 0x8B, 0x05, 0x50, 0x7B, 0x47, 0x00]"

definition klibMTLIGCCompilerPluginOriginal :: "u8 list" where
  "klibMTLIGCCompilerPluginOriginal = [
     0x8B, 0x87, 0x18, 0x01, 0x00, 0x00, 0x83, 0xC0, 0xF3, 0x83, 0xF8, 0x11, 0x73, 0x19, 0xB9, 0xEB,
     0xA0, 0x01, 0x00, 0x0F, 0xA3, 0xC1, 0x73, 0x0F, 0x48, 0x98, 0x48, 0x8D, 0x0D, 0xAD, 0x8D, 0x00,
     0x00]"

definition klibMTLIGCCompilerPluginPatched :: "u8 list" where
  "klibMTLIGCCompilerPluginPatched = [
     0x8B, 0x87, 0x18, 0x01, 0x00, 0x00, 0x83, 0xC0, 0xF3, 0xB8, 0x05, 0x00, 0x00, 0x00, 0x90, 0x90,
     0x90, 0x90, 0x90, 0x90, 0x90, 0x90, 0x90, 0x90, 0x48, 0x98, 0x48, 0x8D, 0x0D, 0xAD, 0x8D, 0x00,
     0x00]"

definition klibMTLIGCCompilerPluginOriginal2 :: "u8 list" where
  "klibMTLIGCCompilerPluginOriginal2 = [
     0x2F, 0x53, 0x79, 0x73, 0x74, 0x65, 0x6D, 0x2F, 0x4C, 0x69, 0x62, 0x72, 0x61, 0x72, 0x79, 0x2F,
     0x45, 0x78, 0x74, 0x65, 0x6E, 0x73, 0x69, 0x6F, 0x6E, 0x73, 0x2F, 0x41, 0x70, 0x70, 0x6C, 0x65,
     0x49, 0x6E, 0x74, 0x65, 0x6C, 0x53, 0x4B, 0x4C, 0x47, 0x72, 0x61, 0x70, 0x68, 0x69, 0x63, 0x73,
     0x4D, 0x54, 0x4C, 0x44, 0x72, 0x69, 0x76, 0x65, 0x72, 0x2E, 0x62, 0x75, 0x6E, 0x64, 0x6C, 0x65,
     0x2F, 0x43, 0x6F, 0x6E, 0x74, 0x65, 0x6E, 0x74, 0x73, 0x2F, 0x52, 0x65, 0x73, 0x6F, 0x75, 0x72,
     0x63, 0x65, 0x73, 0x2F, 0x72, 0x75, 0x6E, 0x74, 0x69, 0x6D, 0x65, 0x2E, 0x67, 0x70, 0x75, 0x65,
     0x6E, 0x63, 0x6F, 0x64, 0x65, 0x2E, 0x73, 0x70, 0x6C, 0x69, 0x74, 0x00]"

definition klibMTLIGCCompilerPluginPatched2 :: "u8 list" where
  "klibMTLIGCCompilerPluginPatched2 = [
     0x2F, 0x53, 0x79, 0x73, 0x74, 0x65, 0x6D, 0x2F, 0x4C, 0x69, 0x62, 0x72, 0x61, 0x72, 0x79, 0x2F,
     0x45, 0x78, 0x74, 0x65, 0x6E, 0x73, 0x69, 0x6F, 0x6E, 0x73, 0x2F, 0x41, 0x70, 0x70, 0x6C, 0x65,
     0x49, 0x6E, 0x74, 0x65, 0x6C, 0x54, 0x47, 0x4C, 0x47, 0x72, 0x61, 0x70, 0x68, 0x69, 0x63, 0x73,
     0x4D, 0x54, 0x4C, 0x44, 0x72, 0x69, 0x76, 0x65, 0x72, 0x2E, 0x62, 0x75, 0x6E, 0x64, 0x6C, 0x65,
     0x2F, 0x43, 0x6F, 0x6E, 0x74, 0x65, 0x6E, 0x74, 0x73, 0x2F, 0x52, 0x65, 0x73, 0x6F, 0x75, 0x72,
     0x63, 0x65, 0x73, 0x2F, 0x72, 0x75, 0x6E, 0x74, 0x69, 0x6D, 0x65, 0x2E, 0x67, 0x70, 0x75, 0x65,
     0x6E, 0x63, 0x6F, 0x64, 0x65, 0x2E, 0x73, 0x70, 0x6C, 0x69, 0x74, 0x00]"

definition f3b_sonoma :: "u8 list" where
  "f3b_sonoma = [
     0x75, 0x0A, 0xE8, 0x79, 0x03, 0x0B, 0x00, 0xE9, 0xE6, 0xF6, 0xFF, 0xFF, 0x83, 0xBD, 0xC0, 0xFE,
     0xFF, 0xFF, 0x00, 0x48, 0x8D, 0x05, 0xF2, 0x76, 0x0C, 0x00]"

definition r3b_sonoma :: "u8 list" where
  "r3b_sonoma = [
     0x90, 0x90, 0xE8, 0x79, 0x03, 0x0B, 0x00, 0xE9, 0xE6, 0xF6, 0xFF, 0xFF, 0x83, 0xBD, 0xC0, 0xFE,
     0xFF, 0xFF, 0x00, 0x48, 0x8D, 0x05, 0xF2, 0x76, 0x0C, 0x00]"

definition f_getmtltex_sonoma :: "u8 list" where
  "f_getmtltex_sonoma = [
     0x55, 0x48, 0x89, 0xE5, 0x41, 0x57, 0x41, 0x56, 0x41, 0x55, 0x41, 0x54, 0x53, 0x48, 0x81, 0xEC,
     0x68, 0x01, 0x00, 0x00, 0x49, 0x89, 0xF6, 0x49, 0x89, 0xFF]"

definition r_getmtltex_sonoma :: "u8 list" where
  "r_getmtltex_sonoma = [
     0x31, 0xC0, 0xC3, 0x90, 0x90, 0x90, 0x90, 0x90, 0x90, 0x90, 0x90, 0x90, 0x90, 0x90, 0x90, 0x90,
     0x90, 0x90, 0x90, 0x90, 0x90, 0x90, 0x90, 0x90, 0x90, 0x90]"

definition f_getmtlcq_sonoma :: "u8 list" where
  "f_getmtlcq_sonoma = [
     0x55, 0x48, 0x89, 0xE5, 0x41, 0x57, 0x41, 0x56, 0x53, 0x48, 0x81, 0xEC, 0x88, 0x00, 0x00, 0x00,
     0x48, 0x8B, 0x05, 0xE9, 0x29, 0x88, 0x3F, 0x48, 0x8B, 0x00]"

definition r_getmtlcq_sonoma :: "u8 list" where
  "r_getmtlcq_sonoma = [
     0x31, 0xC0, 0xC3, 0x90, 0x90, 0x90, 0x90, 0x90, 0x90, 0x90, 0x90, 0x90, 0x90, 0x90, 0x90, 0x90,
     0x90, 0x90, 0x90, 0x90, 0x90, 0x90, 0x90, 0x90, 0x90, 0x90]"

definition f_skipfdp_sonoma :: "u8 list" where
  "f_skipfdp_sonoma = [
     0x55, 0x48, 0x89, 0xE5, 0x41, 0x57, 0x41, 0x56, 0x41, 0x55, 0x41, 0x54, 0x53, 0x48, 0x81, 0xEC,
     0x78, 0x05, 0x00, 0x00, 0x48, 0x89, 0xB5, 0x88, 0xFB, 0xFF, 0xFF]"

definition r_skipfdp_sonoma :: "u8 list" where
  "r_skipfdp_sonoma = [
     0xC3, 0x90, 0x90, 0x90, 0x90, 0x90, 0x90, 0x90, 0x90, 0x90, 0x90, 0x90, 0x90, 0x90, 0x90, 0x90,
     0x90, 0x90, 0x90, 0x90, 0x90, 0x90, 0x90, 0x90, 0x90, 0x90, 0x90]"

definition f_skippresent_sonoma :: "u8 list" where
  "f_skippresent_sonoma = [
     0x55, 0x48, 0x89, 0xE5, 0x41, 0x57, 0x41, 0x56, 0x41, 0x55, 0x41, 0x54, 0x53, 0x48, 0x81, 0xEC,
     0xA8, 0x00, 0x00, 0x00, 0x49, 0x89, 0xCE, 0x89, 0xD3, 0x49, 0x89, 0xF4, 0x49, 0x89, 0xFF]"

definition r_skippresent_sonoma :: "u8 list" where
  "r_skippresent_sonoma = [
     0xC3, 0x90, 0x90, 0x90, 0x90, 0x90, 0x90, 0x90, 0x90, 0x90, 0x90, 0x90, 0x90, 0x90, 0x90, 0x90,
     0x90, 0x90, 0x90, 0x90, 0x90, 0x90, 0x90, 0x90, 0x90, 0x90, 0x90, 0x90, 0x90, 0x90, 0x90]"

definition f_skipac_sonoma :: "u8 list" where
  "f_skipac_sonoma = [
     0x55, 0x48, 0x89, 0xE5, 0x41, 0x57, 0x41, 0x56, 0x41, 0x55, 0x41, 0x54, 0x53, 0x48, 0x81, 0xEC,
     0xD8, 0x01, 0x00, 0x00, 0x48, 0x8B, 0x05, 0xC1, 0xAA, 0x8F, 0x3F, 0x48, 0x8B, 0x00, 0x48, 0x89,
     0x45, 0xD0]"

definition r_skipac_sonoma :: "u8 list" where
  "r_skipac_sonoma = [
     0xC3, 0x90, 0x90, 0x90, 0x90, 0x90, 0x90, 0x90, 0x90, 0x90, 0x90, 0x90, 0x90, 0x90, 0x90, 0x90,
     0x90, 0x90, 0x90, 0x90, 0x90, 0x90, 0x90, 0x90, 0x90, 0x90, 0x90, 0x90, 0x90, 0x90, 0x90, 0x90,
     0x90, 0x90]"

definition f4_skyl_sonoma :: "u8 list" where
  "f4_skyl_sonoma = [
     0x0F, 0x84, 0x9E, 0x00, 0x00, 0x00, 0xE8, 0x75, 0x3D, 0xEC, 0xFF, 0x4C, 0x8B, 0x3D, 0x58, 0xCC,
     0x91, 0x3E, 0x4C, 0x89, 0xFF, 0xBE, 0x10, 0x00, 0x00, 0x00, 0xE8, 0x09, 0xEA, 0x1C, 0x00, 0x84,
     0xC0, 0x0F, 0x84, 0x51, 0xFA, 0xFF, 0xFF]"

definition r4_skyl_sonoma :: "u8 list" where
  "r4_skyl_sonoma = [
     0x90, 0x90, 0x90, 0x90, 0x90, 0x90, 0xE8, 0x75, 0x3D, 0xEC, 0xFF, 0x4C, 0x8B, 0x3D, 0x58, 0xCC,
     0x91, 0x3E, 0x4C, 0x89, 0xFF, 0xBE, 0x10, 0x00, 0x00, 0x00, 0xE8, 0x09, 0xEA, 0x1C, 0x00, 0x84,
     0xC0, 0x0F, 0x84, 0x51, 0xFA, 0xFF, 0xFF]"

definition f_runfdp_guard_sonoma :: "u8 list" where
  "f_runfdp_guard_sonoma = [
     0x49, 0x8B, 0xBE, 0x88, 0x08, 0x00, 0x00, 0x48, 0x8B, 0x07, 0xFF, 0x50, 0x28]"

definition r_runfdp_guard_sonoma :: "u8 list" where
  "r_runfdp_guard_sonoma = [
     0x49, 0x8B, 0xBE, 0x88, 0x08, 0x00, 0x00, 0x48, 0x85, 0xFF, 0x74, 0x06, 0x90]"

section \<open>Patches\<close>

record DYLDPatch =
  dp_find :: "u8 list"
  dp_findMask :: "u8 list option"
  dp_replace :: "u8 list"
  dp_replaceMask :: "u8 list option"

definition DYLDPatch_plain :: "u8 list \<Rightarrow> u8 list \<Rightarrow> DYLDPatch" where
  "DYLDPatch_plain fnd rpl = \<lparr>dp_find = fnd, dp_findMask = None, dp_replace = rpl, dp_replaceMask = None\<rparr>"

type_synonym page_patcher = "u8 list \<Rightarrow> u8 list \<Rightarrow> u8 list option \<Rightarrow> u8 list \<Rightarrow> u8 list option \<Rightarrow> u8 list"

definition dyld_apply :: "page_patcher \<Rightarrow> DYLDPatch \<Rightarrow> u8 list \<Rightarrow> u8 list" where
  "dyld_apply far p data = far data (dp_find p) (dp_findMask p) (dp_replace p) (dp_replaceMask p)"

definition dyld_applyAll :: "page_patcher \<Rightarrow> DYLDPatch list \<Rightarrow> u8 list \<Rightarrow> u8 list" where
  "dyld_applyAll far ps data = fold (dyld_apply far) ps data"

section \<open>The page hook\<close>

record dyld_env =
  findAndReplaceWithMask :: page_patcher
  vn_getpath :: "string option"
  matchSharedCachePath :: "string \<Rightarrow> bool"
  venturaOrNewer :: bool
  modelIdentifier :: "u8 list"

definition noMetalPatches :: "DYLDPatch list" where
  "noMetalPatches = [
     DYLDPatch_plain f3b_sonoma r3b_sonoma,
     DYLDPatch_plain f_skipfdp_sonoma r_skipfdp_sonoma,
     DYLDPatch_plain f_skippresent_sonoma r_skippresent_sonoma,
     DYLDPatch_plain f_getmtltex_sonoma r_getmtltex_sonoma,
     DYLDPatch_plain f_skipac_sonoma r_skipac_sonoma]"

definition stage1Patches :: "DYLDPatch list" where
  "stage1Patches = [
     DYLDPatch_plain f3b_sonoma r3b_sonoma,
     DYLDPatch_plain f_skipac_sonoma r_skipac_sonoma]"

definition stage2Patches :: "DYLDPatch list" where
  "stage2Patches = [
     DYLDPatch_plain f3b_sonoma r3b_sonoma,
     DYLDPatch_plain f_skipac_sonoma r_skipac_sonoma,
     DYLDPatch_plain f_getmtltex_sonoma r_getmtltex_sonoma,
     DYLDPatch_plain f_getmtlcq_sonoma r_getmtlcq_sonoma]"

definition stage3Patches :: "DYLDPatch list" where
  "stage3Patches = [
     DYLDPatch_plain f3b_sonoma r3b_sonoma,
     DYLDPatch_plain f_getmtltex_sonoma r_getmtltex_sonoma,
     DYLDPatch_plain f_getmtlcq_sonoma r_getmtlcq_sonoma,
     DYLDPatch_plain f_runfdp_guard_sonoma r_runfdp_guard_sonoma]"

definition stage3SkylPatches :: "DYLDPatch list" where
  "stage3SkylPatches = [
     DYLDPatch_plain f3b_sonoma r3b_sonoma,
     DYLDPatch_plain f_getmtltex_sonoma r_getmtltex_sonoma,
     DYLDPatch_plain f_getmtlcq_sonoma r_getmtlcq_sonoma,
     DYLDPatch_plain f_runfdp_guard_sonoma r_runfdp_guard_sonoma,
     DYLDPatch_plain f4_skyl_sonoma r4_skyl_sonoma]"

definition guardedDefaultPatches :: "DYLDPatch list" where
  "guardedDefaultPatches = [
     DYLDPatch_plain f3b_sonoma r3b_sonoma,
     DYLDPatch_plain f_getmtltex_sonoma r_getmtltex_sonoma,
     DYLDPatch_plain f_getmtlcq_sonoma r_getmtlcq_sonoma,
     DYLDPatch_plain f_runfdp_guard_sonoma r_runfdp_guard_sonoma]"

definition applyMetalPatches :: "page_patcher \<Rightarrow> boot \<Rightarrow> u8 list \<Rightarrow> u8 list" where
  "applyMetalPatches far b data =
    (if shouldDisableMetalPath b then dyld_applyAll far noMetalPatches data
     else if 0 < getLegacyFullMTLStage b then
       (if getLegacyFullMTLStage b = 1 then dyld_applyAll far stage1Patches data
        else if getLegacyFullMTLStage b = 2 then dyld_applyAll far stage2Patches data
        else if shouldEnableSkyLightBypass b then dyld_applyAll far stage3SkylPatches data
        else dyld_applyAll far stage3Patches data)
     else dyld_applyAll far guardedDefaultPatches data)"

text \<open>
  \<open>strncmp\<close> with the size of the array compares the terminating null as well, so it is zero
  exactly for equal strings. The replacement of the model name takes twenty bytes.
\<close>

definition wrapCsValidatePage :: "dyld_env \<Rightarrow> boot \<Rightarrow> u8 list \<Rightarrow> u8 list" where
  "wrapCsValidatePage env b data = (case vn_getpath env of
     None \<Rightarrow> data
   | Some path \<Rightarrow>
      (let far = findAndReplaceWithMask env in
       if \<not> matchSharedCachePath env path then
         (if path \<noteq> kCoreLSKDMSEPath \<or> path \<noteq> kCoreLSKDPath then
            (let data1 = (if path = tglGraphicsMTLDriver
                 then dyld_applyAll far [DYLDPatch_plain kTGLGraphicsMTLDrivero kTGLGraphicsMTLDriverp] data
                 else data)
             in if path = libMTLIGCCompilerPluginPath
                then dyld_applyAll far
                  [DYLDPatch_plain klibMTLIGCCompilerPluginOriginal klibMTLIGCCompilerPluginPatched,
                   DYLDPatch_plain klibMTLIGCCompilerPluginOriginal2 klibMTLIGCCompilerPluginPatched2] data1
                else data1)
          else dyld_apply far (DYLDPatch_plain kCoreLSKDOriginal kCoreLSKDPatched) data)
       else
         (let data1 = far data kVideoToolboxDRMModelOriginal None (take 20 (modelIdentifier env)) None;
              data2 = dyld_applyAll far
                [DYLDPatch_plain kAGVABoardIdOriginal kAGVABoardIdPatched,
                 DYLDPatch_plain kHEVCEncBoardIdOriginal kHEVCEncBoardIdPatched] data1
          in if venturaOrNewer env then applyMetalPatches far b data2 else data2)))"

section \<open>The contract of the page patcher\<close>

text \<open>An occurrence of a pattern, as the masked comparison sees it; no mask compares whole bytes.\<close>

definition mask_byte :: "u8 list option \<Rightarrow> nat \<Rightarrow> u8" where
  "mask_byte m j = (case m of None \<Rightarrow> 0xFF | Some bs \<Rightarrow> bs ! j)"

definition occurs_at :: "u8 list \<Rightarrow> u8 list \<Rightarrow> u8 list option \<Rightarrow> nat \<Rightarrow> bool" where
  "occurs_at data fnd m i \<longleftrightarrow> i + length fnd \<le> length data
     \<and> list_all (\<lambda>j. data ! (i + j) AND mask_byte m j = fnd ! j AND mask_byte m j) [0..<length fnd]"

definition occurs :: "u8 list \<Rightarrow> u8 list \<Rightarrow> u8 list option \<Rightarrow> bool" where
  "occurs data fnd m \<longleftrightarrow> list_ex (occurs_at data fnd m) [0..<Suc (length data)]"

text \<open>
  What the hook relies on: a replacement no longer than the pattern stays inside the page, and a
  page without the pattern is left as it is.
\<close>

definition patches_pages :: "page_patcher \<Rightarrow> bool" where
  "patches_pages far \<longleftrightarrow> (\<forall>data fnd fm rpl rm.
     (length rpl \<le> length fnd \<longrightarrow> length (far data fnd fm rpl rm) = length data)
     \<and> (\<not> occurs data fnd fm \<longrightarrow> far data fnd fm rpl rm = data))"

section \<open>The selection of patches\<close>

text \<open>The abstract contract of the hook: the list of patches a page gets.\<close>

definition metalPatches :: "boot \<Rightarrow> DYLDPatch list" where
  "metalPatches b =
    (if shouldDisableMetalPath b then noMetalPatches
     else if getLegacyFullMTLStage b = 0 then guardedDefaultPatches
     else if getLegacyFullMTLStage b = 1 then stage1Patches
     else if getLegacyFullMTLStage b = 2 then stage2Patches
     else if shouldEnableSkyLightBypass b then stage3SkylPatches else stage3Patches)"

definition driverPatches :: "string \<Rightarrow> DYLDPatch list" where
  "driverPatches path =
    (if path = tglGraphicsMTLDriver then [DYLDPatch_plain kTGLGraphicsMTLDrivero kTGLGraphicsMTLDriverp] else [])
    @ (if path = libMTLIGCCompilerPluginPath then
         [DYLDPatch_plain klibMTLIGCCompilerPluginOriginal klibMTLIGCCompilerPluginPatched,
          DYLDPatch_plain klibMTLIGCCompilerPluginOriginal2 klibMTLIGCCompilerPluginPatched2] else [])"

definition sharedCachePatches :: "dyld_env \<Rightarrow> boot \<Rightarrow> DYLDPatch list" where
  "sharedCachePatches env b =
    [DYLDPatch_plain kVideoToolboxDRMModelOriginal (take 20 (modelIdentifier env)),
     DYLDPatch_plain kAGVABoardIdOriginal kAGVABoardIdPatched,
     DYLDPatch_plain kHEVCEncBoardIdOriginal kHEVCEncBoardIdPatched]
    @ (if venturaOrNewer env then metalPatches b else [])"

definition pagePatches :: "dyld_env \<Rightarrow> boot \<Rightarrow> DYLDPatch list" where
  "pagePatches env b = (case vn_getpath env of
     None \<Rightarrow> []
   | Some path \<Rightarrow> if matchSharedCachePath env path then sharedCachePatches env b else driverPatches path)"

lemma applyAll_simps [simp]:
  "dyld_applyAll far [] data = data"
  "dyld_applyAll far (p # ps) data = dyld_applyAll far ps (dyld_apply far p data)"
  "dyld_applyAll far (ps @ qs) data = dyld_applyAll far qs (dyld_applyAll far ps data)"
  by (simp_all add: dyld_applyAll_def)

lemma metal_selected: "applyMetalPatches far b data = dyld_applyAll far (metalPatches b) data"
  using full_mtl_stage_range [of b] by (auto simp: applyMetalPatches_def metalPatches_def)

lemma lskd_paths_differ: "kCoreLSKDMSEPath \<noteq> kCoreLSKDPath"
  by (simp add: kCoreLSKDMSEPath_def kCoreLSKDPath_def)

lemma plain_apply: "dyld_apply far (DYLDPatch_plain f r) data = far data f None r None"
  by (simp add: dyld_apply_def DYLDPatch_plain_def)

lemma hook_selected: "wrapCsValidatePage env b data = dyld_applyAll (findAndReplaceWithMask env) (pagePatches env b) data"
  using lskd_paths_differ
  by (auto simp: wrapCsValidatePage_def pagePatches_def driverPatches_def sharedCachePatches_def Let_def
      metal_selected plain_apply split: option.split)


section \<open>Patched pages keep their size\<close>

definition fits :: "DYLDPatch \<Rightarrow> bool" where
  "fits p \<longleftrightarrow> length (dp_replace p) \<le> length (dp_find p)"

lemma plain_fits: "length r \<le> length f \<Longrightarrow> fits (DYLDPatch_plain f r)"
  by (simp add: fits_def DYLDPatch_plain_def)

lemma sonoma_lengths:
  "length f3b_sonoma = 26" "length r3b_sonoma = 26" "length f_getmtltex_sonoma = 26" "length r_getmtltex_sonoma = 26"
  "length f_getmtlcq_sonoma = 26" "length r_getmtlcq_sonoma = 26" "length f_skipfdp_sonoma = 27"
  "length r_skipfdp_sonoma = 27" "length f_skippresent_sonoma = 31" "length r_skippresent_sonoma = 31"
  "length f_skipac_sonoma = 34" "length r_skipac_sonoma = 34" "length f4_skyl_sonoma = 39" "length r4_skyl_sonoma = 39"
  "length f_runfdp_guard_sonoma = 13" "length r_runfdp_guard_sonoma = 13"
  by (simp_all add: f3b_sonoma_def r3b_sonoma_def f_getmtltex_sonoma_def r_getmtltex_sonoma_def
      f_getmtlcq_sonoma_def r_getmtlcq_sonoma_def f_skipfdp_sonoma_def r_skipfdp_sonoma_def
      f_skippresent_sonoma_def r_skippresent_sonoma_def f_skipac_sonoma_def r_skipac_sonoma_def
      f4_skyl_sonoma_def r4_skyl_sonoma_def f_runfdp_guard_sonoma_def r_runfdp_guard_sonoma_def)

lemma metal_fits: "list_all fits (metalPatches b)"
  by (simp add: metalPatches_def noMetalPatches_def guardedDefaultPatches_def stage1Patches_def stage2Patches_def
      stage3Patches_def stage3SkylPatches_def plain_fits sonoma_lengths)

lemma driver_fits: "list_all fits (driverPatches path)"
  by (auto simp: driverPatches_def kTGLGraphicsMTLDrivero_def kTGLGraphicsMTLDriverp_def
      klibMTLIGCCompilerPluginOriginal_def klibMTLIGCCompilerPluginPatched_def
      klibMTLIGCCompilerPluginOriginal2_def klibMTLIGCCompilerPluginPatched2_def intro!: plain_fits)

lemma page_fits: "list_all fits (pagePatches env b)"
  by (auto simp: pagePatches_def sharedCachePatches_def driver_fits metal_fits kVideoToolboxDRMModelOriginal_def
      kAGVABoardIdOriginal_def kAGVABoardIdPatched_def kHEVCEncBoardIdOriginal_def kHEVCEncBoardIdPatched_def
      cstring_bytes_def intro!: plain_fits split: option.split)

lemma no_lskd: "DYLDPatch_plain kCoreLSKDOriginal kCoreLSKDPatched \<notin> set (pagePatches env b)"
proof -
  have l: "p \<noteq> DYLDPatch_plain kCoreLSKDOriginal kCoreLSKDPatched" if "length (dp_find p) \<noteq> 8" for p
    using that by (auto simp: DYLDPatch_plain_def kCoreLSKDOriginal_def)
  have f: "length (dp_find (DYLDPatch_plain f r)) = length f" for f r
    by (simp add: DYLDPatch_plain_def)
  have "list_all (\<lambda>p. length (dp_find p) \<noteq> 8) (metalPatches b)"
    by (simp add: metalPatches_def noMetalPatches_def guardedDefaultPatches_def stage1Patches_def stage2Patches_def
        stage3Patches_def stage3SkylPatches_def f sonoma_lengths)
  moreover have "list_all (\<lambda>p. length (dp_find p) \<noteq> 8) (driverPatches path)" for path
    by (simp add: driverPatches_def f kTGLGraphicsMTLDrivero_def klibMTLIGCCompilerPluginOriginal_def
        klibMTLIGCCompilerPluginOriginal2_def)
  ultimately have "list_all (\<lambda>p. length (dp_find p) \<noteq> 8) (pagePatches env b)"
    by (simp add: pagePatches_def sharedCachePatches_def f kVideoToolboxDRMModelOriginal_def kAGVABoardIdOriginal_def
        kHEVCEncBoardIdOriginal_def cstring_bytes_def split: option.split)
  then show ?thesis
    using l by (auto simp: list_all_iff)
qed

lemma applyAll_length:
  "patches_pages far \<Longrightarrow> list_all fits ps \<Longrightarrow> length (dyld_applyAll far ps data) = length data"
  by (induction ps arbitrary: data) (simp_all add: dyld_apply_def patches_pages_def fits_def)

lemma applyAll_unchanged:
  "patches_pages far \<Longrightarrow> list_all (\<lambda>p. \<not> occurs data (dp_find p) (dp_findMask p)) ps \<Longrightarrow> dyld_applyAll far ps data = data"
  by (induction ps) (simp_all add: dyld_apply_def patches_pages_def)

section \<open>Properties\<close>

text \<open>C9: The page hook implements its selection of patches: for every path, kernel version and
  set of boot arguments it applies, in this order, exactly the patches the selection names, and
  the patch for \<open>CoreLSKD\<close> is never among them.\<close>

theorem page_hook_refines_selection:
  "wrapCsValidatePage env b data = dyld_applyAll (findAndReplaceWithMask env) (pagePatches env b) data
   \<and> DYLDPatch_plain kCoreLSKDOriginal kCoreLSKDPatched \<notin> set (pagePatches env b)"
  using hook_selected no_lskd by blast

text \<open>Patching never changes the size of a page, whichever patches are selected: every table
  fits its pattern, the model name included. A page in which no selected pattern occurs is
  returned unchanged.\<close>

theorem page_patch_safe:
  assumes "patches_pages (findAndReplaceWithMask env)"
  shows "length (wrapCsValidatePage env b data) = length data
    \<and> (list_all (\<lambda>p. \<not> occurs data (dp_find p) (dp_findMask p)) (pagePatches env b) \<longrightarrow> wrapCsValidatePage env b data = data)"
  unfolding hook_selected
  using applyAll_length [OF assms page_fits] applyAll_unchanged [OF assms] by blast

text \<open>A patcher for the first occurrence of an unmasked pattern.\<close>

fun replace_first :: page_patcher where
  "replace_first [] fnd fm rpl rm = []"
| "replace_first (x # xs) fnd fm rpl rm =
     (if fm = None \<and> rm = None \<and> fnd \<noteq> [] \<and> take (length fnd) (x # xs) = fnd \<and> length rpl \<le> length fnd
      then rpl @ drop (length rpl) (x # xs) else x # replace_first xs fnd fm rpl rm)"


lemma and_FF: "(x :: u8) AND 0xFF = x"
proof -
  have "(0xFF :: u8) = NOT 0"
    by simp
  then show ?thesis
    by (metis and.right_neutral bit.compl_zero)
qed

lemma occurs_iff: "occurs data fnd m \<longleftrightarrow> (\<exists>i \<le> length data. occurs_at data fnd m i)"
  by (auto simp: occurs_def list_ex_iff less_Suc_eq_le simp del: upt_Suc)

lemma occurs_here:
  assumes "take (length fnd) data = fnd"
  shows "occurs data fnd None"
proof -
  have "length fnd \<le> length data"
    using assms by (metis length_take min.cobounded1)
  moreover have "data ! j = fnd ! j" if "j < length fnd" for j
    using assms that by (metis nth_take)
  ultimately have "occurs_at data fnd None 0"
    by (simp add: occurs_at_def mask_byte_def and_FF list_all_iff)
  then show ?thesis
    by (auto simp: occurs_iff)
qed

lemma occurs_tail: "occurs xs fnd m \<Longrightarrow> occurs (x # xs) fnd m"
proof -
  assume "occurs xs fnd m"
  then obtain i where "i \<le> length xs" "occurs_at xs fnd m i"
    by (auto simp: occurs_iff)
  then have "Suc i \<le> length (x # xs)" "occurs_at (x # xs) fnd m (Suc i)"
    by (simp_all add: occurs_at_def)
  then show ?thesis
    unfolding occurs_iff by blast
qed

lemma replace_first_patches: "patches_pages replace_first"
  unfolding patches_pages_def
proof (intro allI conjI impI)
  fix data fnd rpl :: "u8 list" and fm rm
  assume "length rpl \<le> length fnd"
  then show "length (replace_first data fnd fm rpl rm) = length data"
  proof (induction data)
    case (Cons x xs)
    show ?case
    proof (cases "take (length fnd) (x # xs) = fnd")
      case True
      then have "length fnd \<le> length (x # xs)"
        by (metis length_take min.cobounded1)
      then show ?thesis
        using Cons by simp
    next
      case False
      then show ?thesis
        using Cons by simp
    qed
  qed simp
next
  fix data fnd rpl :: "u8 list" and fm rm
  assume "\<not> occurs data fnd fm"
  then show "replace_first data fnd fm rpl rm = data"
  proof (induction data)
    case (Cons x xs)
    have "\<not> occurs xs fnd fm"
      using Cons.prems occurs_tail by blast
    moreover have "\<not> (fm = None \<and> take (length fnd) (x # xs) = fnd)"
      using Cons.prems occurs_here by metis
    ultimately show ?case
      using Cons.IH by auto
  qed simp
qed

definition sample_dyld :: dyld_env where
  "sample_dyld = \<lparr>findAndReplaceWithMask = replace_first, vn_getpath = Some tglGraphicsMTLDriver,
     matchSharedCachePath = (\<lambda>_. False), venturaOrNewer = True, modelIdentifier = cstring_bytes ''iMac19,1''\<rparr>"

end
