(* ===== verification/Spec2Isabelle.thy ===== *)
theory Spec2Isabelle
  imports NG_Exports NG_Snapshot NG_Hooks NG_Panel NG_NetDbg NG_Branding NG_RcsCheck NG_DictMerge NG_Dyld
begin

text \<open>
  A verification library for NootedGreen, a kernel plugin that patches Apple's Tiger Lake graphics
  drivers at run time. The plugin maps the registers of the graphics device, seeds properties
  into the IOKit registry, replaces routines of Apple's drivers by its own, which call the
  originals, and arms timers that keep the hardware in a state the drivers accept.

  \<^bold>\<open>Shape of the model.\<close> Every routine that touches state is a program of the state monad; its
  name is that of the routine in the source. The state is a record extended theory by theory:
  the bus (\<open>mmio\<close>), the plugin's fields and the registry (\<open>ngreen\<close>), kernel memory (\<open>kstate\<close>),
  the diagnostic records (\<open>tstate\<close>), the tracked engines (\<open>estate\<close>), the plane guard (\<open>rstate\<close>),
  the timers (\<open>istate\<close>), the force wake tables (\<open>fstate\<close>), the service registry and painted pages
  (\<open>hstate\<close>), the accelerator (\<open>gstate\<close>), the firmware buffers (\<open>ustate\<close>), the display sink
  (\<open>dstate\<close>) and the installed hooks (\<open>kxstate\<close>). The hardware is a function from the history of accesses to the value of the next
  load or clock reading, so that a theorem without a hypothesis on it holds for every device.
  Apple's routines, Lilu, the kernel and the PCI configuration space are not part of the
  repository and are arguments of the definitions that call them; a null function pointer is
  \<open>None\<close>. Log output is left out except where it is what the routine is for (the dumps of \<open>NG_Trace\<close>, the
  snapshots), register reads made only for a log line are kept.

  \<^bold>\<open>Theories and sources\<close> (paths under \<open>src/NootedGreen\<close>):
  \<^item> \<open>NG_Prelude\<close>: word types, the monad, the interface \<open>step_order\<close> through which relations
    between the state before and after a routine are composed.
  \<^item> \<open>NG_Mmio\<close>: \<open>NGreen.hpp\<close>, register access, the guard against a zero surface address, and the
    workaround helpers. \<open>NG_Regs\<close>: the offsets and masks of \<open>iTGL/TGL.hpp\<close> in use.
  \<^item> \<open>NG_OSObjects\<close>, \<open>NG_BootArgs\<close>: IOKit dictionaries and registry; every boot argument test.
  \<^item> \<open>NG_Igpu\<close>: \<open>NGreen.cpp\<close>, property seeding, processor model, policy, stolen memory,
    \<open>processPatcher\<close>, configuration space hooks. \<open>NG_KernelMem\<close>: \<open>getMember\<close> on driver objects.
  \<^item> \<open>NG_Trace\<close>: \<open>iTGL/TglGpuBringup.cpp\<close> and \<open>iTGL/RcsEngineTrace.cpp\<close>.
  \<^item> \<open>NG_Engine\<close>, \<open>NG_RegHooks\<close>, \<open>NG_Irq\<close>, \<open>NG_Forcewake\<close>, \<open>NG_Health\<close>, \<open>NG_Start\<close>, \<open>NG_GuC\<close>,
    \<open>NG_Display\<close>: \<open>iTGL/TGL.cpp\<close>, in turn the tracking and quarantine of engines, the hooked
    register accessors, interrupts and resets with their enforcers, force wake, the health
    monitor, the start of the accelerator, topology and firmware, and the display hooks.
  \<^item> \<open>NG_Kext\<close>: \<open>init\<close> and \<open>processKext\<close> of \<open>NGreen.cpp\<close> and \<open>iTGL/TGL.cpp\<close> with all their tables, and
    \<open>Utilities/PatcherPlus.cpp\<close>, \<open>.hpp\<close>. \<open>NG_RcsCheck\<close>: \<open>patchRCSCheck\<close> of \<open>iTGL/TGL.cpp\<close>.
  \<^item> \<open>NG_Exports\<close>: the assembly stubs at the end of \<open>iTGL/TGL.cpp\<close>, executed on the argument registers,
    the accessors they jump to, and the accessors of the render engine diagnostics.
    \<open>NG_Snapshot\<close>: \<open>logServicePublishSnapshot\<close> and the doorbell counter. \<open>NG_Hooks\<close>: the hooks that
    force a pixel clock, and \<open>getBlit3DContext\<close>.
  \<^item> \<open>NG_DictMerge\<close>: \<open>Utilities/DisplayMergeNub.cpp\<close>. \<open>NG_Dyld\<close>: \<open>Hotfixes/DYLDPatches.cpp\<close>, \<open>.hpp\<close>.
  \<^item> \<open>NG_Panel\<close>: the backlight curves of \<open>NGreen.cpp\<close>. \<open>NG_NetDbg\<close>: \<open>Utilities/NetDbg.cpp\<close>, \<open>.hpp\<close>.
    \<open>NG_Branding\<close>: \<open>Utilities/Model.hpp\<close>.

  \<^bold>\<open>What is shown.\<close>
  \<^item> Safety of the registers, for every device: no 32-bit write path arms an enabled plane with a zero
    surface (\<open>NG_Mmio\<close>, \<open>NG_RegHooks\<close>, \<open>NG_Health\<close>, and the exported accessors, \<open>NG_Exports\<close>); a
    hooked write that names an error mask by its offset masks all errors, unless the controller
    accessor has no controller, and they stay masked after a reset and under the enforcer; the diagnostics never write; the scanout fill paints only
    pages of the shown surface.
  \<^item> Engines: the hooks take each engine only through the steps of an abstract machine; a quarantined
    engine stays so and the calls of its contexts and ring buffers are blocked, while the hooks of
    the command streamer are blocked under the safe policy only.
  \<^item> Termination: force wake, the start, the watchdog and the health monitor end, the error mask
    enforcer runs forever. The interface \<open>bounded_timer\<close> gives the two bounded timers,
    \<open>controller_io\<close> what force wake needs of the accessors it is given.
  \<^item> Refinement and equivalence: dictionary merge, selection of page patches, slice encoding,
    firmware upload; round trip of the exchanged firmware buffer.
  \<^item> Hooks: a patching that does not panic has installed every route of its tables, and only routes of
    the tables are ever installed; which hooks are therefore never called; that the production
    framebuffer cannot be patched. The backlight curves reach the first panel and stay.
  \<^item> Composition: the lane count reported over AUX and the one used for training agree; the
    patcher stage makes the policy for spoofed devices unreachable at the start, and the patch for
    them unreachable when the accelerator is loaded; no sequence of loads gives the render engine
    diagnostics the addresses they need, so they never show a context image or a ring.
  \<^item> Defects of the code, stated as theorems about it: workaround helpers that set what they
    should clear, an arbiter box never programmed, merges that abort or stay flat, a hook routed
    twice, network logs sent to port zero, a 64-bit register writer that stores at four times the
    offset it checks and so defeats the guard of the planes, error mask writes through the base of a mapping that are
    not forced.

  \<^bold>\<open>Fuel and bounds.\<close> Two loops are bounded by the clock only: the wait for an acknowledgement in
  \<open>pollRegister\<close> and the one before the start. They take fuel and return \<open>None\<close> when it runs out.
  Under the hypothesis \<open>clock_runs\<close>, that so many accesses take the clock past the deadline, that
  many iterations are proved to suffice. All other loops are structural or have a termination
  proof. The plane table has the source's fixed number of slots.

  \<^bold>\<open>Not modelled.\<close> What Lilu does with a route or a byte pattern is Lilu's: its patcher and its
  disassembler are parameters, and so are the kernel's sockets. \<open>PluginStart\<close> is the plugin's descriptor; \<open>HDMI::processKext\<close> returns at once; \<open>Firmware\<close>
  is data. Hooks that only pass their arguments on to the original or return a constant have no
  definition. Allocations are taken to succeed except in \<open>NG_DictMerge\<close> and \<open>NG_Panel\<close>, where each
  may fail. Concurrency between timers and hooks is not modelled: each routine runs to its end,
  timers in any order between them.
\<close>

section \<open>From the patcher stage to the start of the accelerator\<close>

text \<open>C31: Once the patcher stage has completed, the policy for spoofed devices is out of reach: as long
  as nothing between the two changes the plugin's own policy fields (\<open>mid\<close>), the start of the
  accelerator publishes that the safe policy is off, takes the scheduler from the boot argument or
  a property in range, and otherwise asks for type three (GuC), whatever the processor is.\<close>

theorem spoofed_policy_unreachable:
  fixes s :: "'a gstate_scheme" and E :: "'a senv"
  assumes "result (processPatcher b env) s = Done"
    and "state_io_rel (unchanged (\<lambda>s. (isRealTGL s, tryGuC s, gateExternalDisplays s))) mid"
  defines "u \<equiv> exec mid (exec (processPatcher b env) s)"
  defines "t \<equiv> exec (publishScheduler b E) u" and "n \<equiv> result (publishScheduler b E) u"
  shows "getObject (props (ioregs t) (accel_entry E)) ''NGreenSchedulerPolicySafe'' = Some (OBool False)
    \<and> getObject (props (ioregs t) (accel_entry E)) ''NGreenExternalGateActive'' = Some (OBool (shouldDisableExternalOutputs b))
    \<and> (bootSched b = None \<longrightarrow> plistSched (map_option (props (ioregs u)) (param_entry E)) = None \<longrightarrow> n = 3)"
proof -
  have "(isRealTGL u, tryGuC u, gateExternalDisplays u) = (True, True, shouldDisableExternalOutputs b)"
    using processPatcher_policy_fixed [OF assms(1)] assms(2)
    by (simp add: u_def state_io_rel_exec unchanged_def)
  then show ?thesis
    by (auto simp: t_def n_def publishScheduler_def shouldUseSpoofedSafeSchedulerPolicy_def chooseScheduler_def Let_def
        split: option.split osobj.split)
qed

theorem spoofed_policy_unreachable_witness:
  "result (publishScheduler boot_none sample_senv) (exec (processPatcher boot_none sample_env) sample_gstate) = 3"
proof -
  have "state_io_rel (unchanged (\<lambda>s :: gstate. (isRealTGL s, tryGuC s, gateExternalDisplays s))) (ret ())"
    by (rule un.io_ret)
  from spoofed_policy_unreachable [OF sample_patcher_done this, where s = sample_gstate and E = sample_senv]
  show ?thesis by (simp add: bootSched_def boot_none_def plistSched_def sample_senv_def)
qed

section \<open>From the patcher stage to the patching of the accelerator\<close>

lemma fields_mask:
  "solveSymbol (L\<lparr>lilu.findAndReplaceWithMask := f\<rparr>) = solveSymbol L"
  "routeMultiple (L\<lparr>lilu.findAndReplaceWithMask := f\<rparr>) = routeMultiple L"
  "routeFunction (L\<lparr>lilu.findAndReplaceWithMask := f\<rparr>) = routeFunction L"
  "clearError (L\<lparr>lilu.findAndReplaceWithMask := f\<rparr>) = clearError L"
  "findPattern (L\<lparr>lilu.findAndReplaceWithMask := f\<rparr>) = findPattern L"
  "kext_address (L\<lparr>lilu.findAndReplaceWithMask := f\<rparr>) = kext_address L"
  by simp_all

lemma solve_mask: "solve (L\<lparr>lilu.findAndReplaceWithMask := f\<rparr>) = solve L"
  by (rule ext) (unfold solve_def fields_mask, rule refl)

lemma route_mask: "route (L\<lparr>lilu.findAndReplaceWithMask := f\<rparr>) = route L"
  by (rule ext) (unfold route_def fields_mask, rule refl)

lemma plain_mask: "applyPatch (L\<lparr>lilu.findAndReplaceWithMask := f\<rparr>) (plainPatch p r n) = applyPatch L (plainPatch p r n)"
  by (simp add: applyPatch_def plainPatch_def)

lemma always_mask: "applyAll (L\<lparr>lilu.findAndReplaceWithMask := f\<rparr>) hwPatchesAlways = applyAll L hwPatchesAlways"
  unfolding applyAll_def hwPatchesAlways_def allM.simps plain_mask by (rule refl)

lemma hwSteps_mask: "hwSteps (L\<lparr>lilu.findAndReplaceWithMask := f\<rparr>) b True full = hwSteps L b True full"
  unfolding hwSteps_def solveAll_def routeAll_def traceSolve_def solve_mask route_mask always_mask by simp

text \<open>C32: Once the patcher stage has completed, the accelerator is patched as on a real Tiger Lake: the masked
  patch, which lets the device start without its copy engine on Raptor Lake, is never asked for. The
  run of the patching is the same whatever Lilu's masked replacement would answer, as long as nothing
  between the two changes the plugin's own policy fields (\<open>mid\<close>).\<close>

theorem masked_patch_unreachable:
  fixes s :: "('p, 'a) kxstate_scheme" and env :: pp_env
  assumes "result (processPatcher b env) s = Done"
    and "state_io_rel (unchanged (\<lambda>s. (isRealTGL s, tryGuC s, gateExternalDisplays s))) mid"
  defines "u \<equiv> exec mid (exec (processPatcher b env) s)"
  shows "result (processKext (L\<lparr>lilu.findAndReplaceWithMask := f\<rparr>) b bar0 TglHW) u = result (processKext L b bar0 TglHW) u
    \<and> exec (processKext (L\<lparr>lilu.findAndReplaceWithMask := f\<rparr>) b bar0 TglHW) u = exec (processKext L b bar0 TglHW) u"
proof -
  have "isRealTGL u"
    using processPatcher_policy_fixed [OF assms(1)] assms(2)
    by (simp add: u_def state_io_rel_exec unchanged_def)
  then show ?thesis
    by (simp add: processKext_def processKextGen11_def processHW_def hwSteps_mask cong: if_cong)
qed

theorem masked_patch_unreachable_witness:
  "result (processKext ((sample_lilu True [])\<lparr>lilu.findAndReplaceWithMask := (\<lambda>_ p. (False, p))\<rparr>) boot_none (Some 0x1000000) TglHW)
     (exec (processPatcher boot_none sample_env) sample_kxstate) = Some True"
proof -
  have "state_io_rel (unchanged (\<lambda>s :: unit kxstate. (isRealTGL s, tryGuC s, gateExternalDisplays s))) (ret ())"
    by (rule un.io_ret)
  from masked_patch_unreachable [OF sample_patcher_done this, where s = sample_kxstate and L = "sample_lilu True []"
      and f = "\<lambda>_ p. (False, p)" and ?bar0.0 = "Some 0x1000000"]
  show ?thesis by (simp add: accepting_result [OF sample_accepting])
qed

end
